(* ===== verification/Prelude.thy ===== *)
theory Prelude
  imports Main "HOL-Library.Word"
begin

text \<open>
  Shared vocabulary of the Harbor development: the error kinds that the Go code returns
  (\<open>src/lib/errors\<close> codes and the adapter taxonomy of the design), the Go string library
  functions the code calls (\<open>strings.Replace\<close>, \<open>strings.Split\<close>, \<open>strings.Join\<close>,
  \<open>strings.HasPrefix\<close>, \<open>strings.TrimSuffix\<close>, \<open>strings.TrimSpace\<close>), Go slices with their
  nil/empty distinction, and the lemmas about them that the component theories share.
  The collection \<open>go_simps\<close> holds the characteristic equations of the string functions.
\<close>

named_theorems go_simps "characteristic equations of the Go library model"

section \<open>Errors\<close>

text \<open>
  One error type for the whole development, so that components agree on what they return.
  \<open>ErrNotFound\<close>, \<open>ErrConflict\<close>, \<open>ErrBadRequest\<close> and \<open>ErrGeneric\<close> are the codes of
  \<open>lib/errors\<close>; \<open>ErrTransport\<close> is a failure of the HTTP or database collaborator passed
  through unchanged (its argument names the failure); the others are the adapter-framework
  kinds of the design (pagination limit, bad namespace pattern, unknown registry type,
  invalid configuration, decoding of a cached value, no ORM in the context, cancellation).
  \<open>ErrNilDereference\<close> is the run-time panic of a method call through a nil pointer.
\<close>

datatype herror =
    ErrNotFound
  | ErrConflict
  | ErrBadRequest
  | ErrGeneric
  | ErrTransport string
  | ErrPaginationLimit
  | ErrBadPattern
  | ErrInvalidConfig
  | ErrDecode
  | ErrNoOrm
  | ErrCanceled
  | ErrNilDereference

type_synonym 'a result = "herror + 'a"

section \<open>Go strings\<close>

text \<open>
  \<open>strings.Replace(s, old, new, -1)\<close> with a one-character \<open>old\<close>, which is how every
  call site of the repository uses it: each occurrence of \<open>c\<close> is replaced by \<open>r\<close>.
\<close>

definition replace_char :: "char \<Rightarrow> string \<Rightarrow> string \<Rightarrow> string" where
  "replace_char c r s = concat (map (\<lambda>x. if x = c then r else [x]) s)"

lemma replace_char_Nil [simp, go_simps]: "replace_char c r [] = []"
  by (simp add: replace_char_def)

lemma replace_char_Cons [simp, go_simps]:
  "replace_char c r (x # s) = (if x = c then r else [x]) @ replace_char c r s"
  by (simp add: replace_char_def)

lemma replace_char_append [simp]:
  "replace_char c r (s @ t) = replace_char c r s @ replace_char c r t"
  by (simp add: replace_char_def)

lemma replace_char_id: "c \<notin> set s \<Longrightarrow> replace_char c r s = s"
  by (induction s) auto

lemma set_replace_char:
  "set (replace_char c r s) = (set s - {c}) \<union> (if c \<in> set s then set r else {})"
  by (induction s) auto

lemma replace_char_not_in: "c \<notin> set r \<Longrightarrow> c \<notin> set (replace_char c r s)"
  by (induction s) auto

text \<open>\<open>strings.HasPrefix\<close> and \<open>strings.TrimSuffix\<close>.\<close>

definition has_prefix :: "string \<Rightarrow> string \<Rightarrow> bool" where
  "has_prefix s p \<longleftrightarrow> take (length p) s = p"

definition trim_suffix :: "string \<Rightarrow> string \<Rightarrow> string" where
  "trim_suffix s suf =
     (if length suf \<le> length s \<and> drop (length s - length suf) s = suf
      then take (length s - length suf) s else s)"

lemma has_prefix_append [simp]: "has_prefix (p @ s) p"
  by (simp add: has_prefix_def)

lemma has_prefix_Nil [simp]: "has_prefix s []"
  by (simp add: has_prefix_def)

lemma trim_suffix_append [simp]: "trim_suffix (s @ suf) suf = s"
  by (simp add: trim_suffix_def)

lemma trim_suffix_other:
  "\<not> (\<exists>t. s = t @ suf) \<Longrightarrow> trim_suffix s suf = s"
  by (auto simp add: trim_suffix_def) (metis append_take_drop_id)

text \<open>
  \<open>strings.Split(s, sep)\<close> for a non-empty separator: the pieces between the occurrences
  of \<open>sep\<close>, scanned from the left; the empty string splits into one empty piece.
\<close>

function split_on :: "string \<Rightarrow> string \<Rightarrow> string list" where
  "split_on sep [] = [[]]"
| "split_on sep (c # cs) =
     (if sep \<noteq> [] \<and> take (length sep) (c # cs) = sep
      then [] # split_on sep (drop (length sep) (c # cs))
      else (let r = split_on sep cs in (c # hd r) # tl r))"
  by pat_completeness auto
termination
  by (relation "measure (\<lambda>(sep, s). length s)") auto

lemma split_on_not_Nil [simp]: "split_on sep s \<noteq> []"
  by (induction sep s rule: split_on.induct) (auto simp: Let_def)

text \<open>\<open>strings.Join(xs, sep)\<close>.\<close>

fun join :: "string list \<Rightarrow> string \<Rightarrow> string" where
  "join [] sep = []"
| "join [x] sep = x"
| "join (x # y # zs) sep = x @ sep @ join (y # zs) sep"

lemma join_Cons_hd_tl:
  "r \<noteq> [] \<Longrightarrow> join ((c # hd r) # tl r) sep = c # join r sep"
  by (cases r; cases "tl r") auto

text \<open>Split and Join are inverse: joining the pieces with the separator gives the input back.\<close>

lemma join_split_on: "join (split_on sep s) sep = s"
proof (induction sep s rule: split_on.induct)
  case (1 sep)
  then show ?case by simp
next
  case (2 sep c cs)
  show ?case
  proof (cases "sep \<noteq> [] \<and> take (length sep) (c # cs) = sep")
    case True
    then have "join (split_on sep (c # cs)) sep = sep @ join (split_on sep (drop (length sep) (c # cs))) sep"
      by (cases "split_on sep (drop (length sep) (c # cs))") auto
    with True "2.IH"(1) show ?thesis by (metis append_take_drop_id)
  next
    case False
    then have "split_on sep (c # cs) = (c # hd (split_on sep cs)) # tl (split_on sep cs)"
      by (auto simp: Let_def)
    with False "2.IH"(2) show ?thesis by (simp add: join_Cons_hd_tl)
  qed
qed

lemma split_on_no_sep:
  "sep \<noteq> [] \<Longrightarrow> \<not> (\<exists>u v. s = u @ sep @ v) \<Longrightarrow> split_on sep s = [s]"
proof (induction sep s rule: split_on.induct)
  case (1 sep)
  then show ?case by simp
next
  case (2 sep c cs)
  have "\<not> take (length sep) (c # cs) = sep"
    using "2.prems"(2) by (metis append_Nil append_take_drop_id)
  moreover have "\<not> (\<exists>u v. cs = u @ sep @ v)"
    using "2.prems"(2) by (metis append_Cons)
  ultimately show ?case using "2.IH"(2) "2.prems"(1) by (simp add: Let_def)
qed

text \<open>With a one-character separator the pieces are read off directly.\<close>

lemma split_on_single_free [simp]: "c \<notin> set x \<Longrightarrow> split_on [c] x = [x]"
  by (rule split_on_no_sep) (auto simp: append_eq_append_conv2 Cons_eq_append_conv)

lemma split_on_single_Cons: "split_on [c] (c # y) = [] # split_on [c] y"
  by simp

lemma split_on_single_append [simp]:
  "c \<notin> set x \<Longrightarrow> split_on [c] (x @ c # y) = x # split_on [c] y"
proof (induction x)
  case Nil
  then show ?case by simp
next
  case (Cons a x)
  then have "split_on [c] (a # x @ c # y) = (a # hd (split_on [c] (x @ c # y))) # tl (split_on [c] (x @ c # y))"
    by (auto simp add: Let_def)
  with Cons show ?case by auto
qed

lemma split_on_single_join:
  "xs \<noteq> [] \<Longrightarrow> \<forall>x \<in> set xs. c \<notin> set x \<Longrightarrow> split_on [c] (join xs [c]) = xs"
proof (induction xs)
  case (Cons x xs)
  then show ?case by (cases xs) auto
qed simp

lemma join_map_append: "join (xs @ [y]) sep = (if xs = [] then y else join xs sep @ sep @ y)"
  by (induction xs sep rule: join.induct) auto

text \<open>
  \<open>strings.TrimSpace\<close> on ASCII text: leading and trailing space, tab, newline, vertical tab,
  form feed and carriage return are removed (the code only trims configuration values).
\<close>

definition is_space :: "char \<Rightarrow> bool" where
  "is_space c \<longleftrightarrow> c \<in> set [CHR '' '', CHR 0x09, CHR 0x0A, CHR 0x0B, CHR 0x0C, CHR 0x0D]"

definition trim_space :: "string \<Rightarrow> string" where
  "trim_space s = rev (dropWhile is_space (rev (dropWhile is_space s)))"

lemma ball_set_dropWhile: "(\<forall>x \<in> set (dropWhile P s). P x) \<longleftrightarrow> (\<forall>x \<in> set s. P x)"
  by (induction s) auto

lemma trim_space_Nil_iff: "trim_space s = [] \<longleftrightarrow> (\<forall>c \<in> set s. is_space c)"
  by (simp add: trim_space_def ball_set_dropWhile)

lemma last_dropWhile: "dropWhile P xs \<noteq> [] \<Longrightarrow> last (dropWhile P xs) = last xs"
  by (induction xs) auto

lemma trim_space_ends:
  assumes "trim_space s \<noteq> []"
  shows "\<not> is_space (hd (trim_space s)) \<and> \<not> is_space (last (trim_space s))"
proof -
  let ?y = "dropWhile is_space s"
  have ne: "dropWhile is_space (rev ?y) \<noteq> []" using assms by (simp add: trim_space_def)
  then have y: "?y \<noteq> []" by (metis Nil_is_rev_conv dropWhile.simps(1))
  have "hd (trim_space s) = hd ?y"
    using ne y by (simp add: trim_space_def hd_rev last_dropWhile last_rev)
  moreover have "\<not> is_space (hd ?y)" using y by (rule hd_dropWhile)
  moreover have "\<not> is_space (last (trim_space s))"
    using ne by (simp add: trim_space_def last_rev hd_dropWhile)
  ultimately show ?thesis by simp
qed

lemma split_on_sep_after:
  "sep \<noteq> [] \<Longrightarrow> set a \<inter> set sep = {} \<Longrightarrow> split_on sep (a @ sep @ b) = a # split_on sep b"
proof (induction a)
  case Nil
  then show ?case by (cases sep) simp_all
next
  case (Cons c a)
  then have "take (length sep) (c # a @ sep @ b) \<noteq> sep" by (cases sep) auto
  with Cons show ?case by (simp add: Let_def)
qed

lemma takeWhile_not_eq_append [simp]:
  "c \<notin> set xs \<Longrightarrow> takeWhile (\<lambda>x. x \<noteq> c) (xs @ ys) = xs @ takeWhile (\<lambda>x. x \<noteq> c) ys"
  by (induction xs) auto

section \<open>Go slices\<close>

text \<open>
  A Go slice is either \<open>nil\<close> or a (possibly empty) sequence; the two differ on the wire:
  \<open>encoding/json\<close> writes a nil slice as \<open>null\<close> and an empty one as \<open>[]\<close>. A slice is
  modelled as \<open>'a list option\<close>, \<open>None\<close> for nil; \<open>append\<close> on nil allocates.
\<close>

type_synonym 'a slice = "'a list option"

definition go_append :: "'a slice \<Rightarrow> 'a \<Rightarrow> 'a slice" where
  "go_append s x = Some ((case s of None \<Rightarrow> [] | Some xs \<Rightarrow> xs) @ [x])"

definition slice_elems :: "'a slice \<Rightarrow> 'a list" where
  "slice_elems s = (case s of None \<Rightarrow> [] | Some xs \<Rightarrow> xs)"

lemma slice_elems_simps [simp]: "slice_elems None = []" "slice_elems (Some xs) = xs"
  by (simp_all add: slice_elems_def)

text \<open>A \<open>for range\<close> loop that appends \<open>f x\<close> for every element, starting from \<open>acc\<close>.\<close>

definition append_all :: "'a slice \<Rightarrow> 'a list \<Rightarrow> 'a slice" where
  "append_all acc xs = foldl go_append acc xs"

lemma append_all_Nil [simp]: "append_all acc [] = acc"
  by (simp add: append_all_def)

lemma append_all_Cons [simp]: "append_all acc (x # xs) = append_all (go_append acc x) xs"
  by (simp add: append_all_def)

lemma append_all_Some [simp]: "append_all (Some xs) ys = Some (xs @ ys)"
  by (induction ys arbitrary: xs) (simp_all add: go_append_def)

lemma append_all_None: "append_all None xs = (if xs = [] then None else Some xs)"
  by (cases xs) (simp_all add: go_append_def)

lemma append_all_elems [simp]: "slice_elems (append_all acc xs) = slice_elems acc @ xs"
  by (cases acc) (simp_all add: append_all_None slice_elems_def)


text \<open>Looking a row up by a key that is unique in the table.\<close>

lemma find_distinct_key:
  "distinct (map f xs) \<Longrightarrow> find (\<lambda>x. f x = k) xs = Some x \<longleftrightarrow> x \<in> set xs \<and> f x = k"
  by (induction xs) (auto simp: rev_image_eqI)

lemma find_key_None: "find (\<lambda>x. f x = k) xs = None \<longleftrightarrow> k \<notin> f ` set xs"
  by (auto simp: find_None_iff)

lemma find_append_None: "find P xs = None \<Longrightarrow> find P (xs @ ys) = find P ys"
  by (induction xs) auto

end
