(* ===== verification/Reg_Model.thy ===== *)
theory Reg_Model
  imports Prelude "HOL-Library.Monad_Syntax" "HOL-Library.List_Lexorder" "HOL-Library.Char_ord"
begin

text \<open>
  The canonical model of the replication adapters (\<open>src/pkg/reg/model/resource.go\<close>):
  the records \<open>Resource\<close>, \<open>ResourceMetadata\<close>, \<open>Repository\<close> and \<open>Artifact\<close>, with Go
  pointers as \<open>option\<close> and Go slices as \<open>slice\<close> (nil distinguished from empty). The
  \<open>Registry\<close> descriptor that a resource points to lives outside \<open>src/\<close> and is modelled from
  the design (section 3). The JSON wire shape of section 6 is given by the struct tags of
  \<open>resource.go\<close>; \<open>enc_resource\<close> is what \<open>encoding/json\<close> writes for it and \<open>dec_resource\<close>
  what it reads back (absent keys and \<open>null\<close> give zero values). A JSON value stands for the
  Go value it is read into: a string is the bytes of the Go string, which the encoder writes
  as UTF-8, each byte that starts no valid UTF-8 sequence replaced by U+FFFD; a number read
  into \<open>interface{}\<close> becomes the nearest \<open>float64\<close>, and one read into \<open>int64\<close> must be in
  its range; an object read into \<open>map[string]interface{}\<close> keeps the last value of a repeated
  key, and the encoder writes a map's keys sorted. The round trip
  \<open>dec_resource (enc_resource r) = Some r\<close> holds exactly for the resources whose strings
  are valid UTF-8, whose maps have sorted distinct keys and whose numbers are exact
  \<open>float64\<close> and \<open>int64\<close> values (\<open>resource_wire_ok\<close>).
\<close>

section \<open>JSON values\<close>

datatype json =
    JNull
  | JBool bool
  | JNum int
  | JStr string
  | JArr "json list"
  | JObj "(string \<times> json) list"

text \<open>
  A Go \<open>map[string]interface{}\<close> is kept as the association list of its JSON object, in the
  key order \<open>encoding/json\<close> writes (sorted); \<open>None\<close> is the nil map.
\<close>

type_synonym jmap = "(string \<times> json) list option"

section \<open>UTF-8 and float64\<close>

text \<open>
  \<open>utf8.DecodeRuneInString\<close>: the length of the valid UTF-8 sequence at the start of a
  string, 0 when its first byte starts none (Go then returns \<open>RuneError\<close> of width 1).
\<close>

definition utf8_cont :: "char \<Rightarrow> bool" where
  "utf8_cont c \<longleftrightarrow> 128 \<le> (of_char c :: nat) \<and> (of_char c :: nat) \<le> 191"

fun utf8_seq_len :: "string \<Rightarrow> nat" where
  "utf8_seq_len [] = 0"
| "utf8_seq_len (a # t) =
     (let x = (of_char a :: nat) in
      if x < 128 then 1
      else if 194 \<le> x \<and> x \<le> 223 then (case t of b # _ \<Rightarrow> if utf8_cont b then 2 else 0 | [] \<Rightarrow> 0)
      else if 224 \<le> x \<and> x \<le> 239 then
        (case t of
           b # c # _ \<Rightarrow>
             if (if x = 224 then 160 else 128) \<le> (of_char b :: nat) \<and>
                (of_char b :: nat) \<le> (if x = 237 then 159 else 191) \<and> utf8_cont c then 3 else 0
         | _ \<Rightarrow> 0)
      else if 240 \<le> x \<and> x \<le> 244 then
        (case t of
           b # c # d # _ \<Rightarrow>
             if (if x = 240 then 144 else 128) \<le> (of_char b :: nat) \<and>
                (of_char b :: nat) \<le> (if x = 244 then 143 else 191) \<and> utf8_cont c \<and> utf8_cont d then 4 else 0
         | _ \<Rightarrow> 0)
      else 0)"

lemma utf8_seq_len_le: "utf8_seq_len s \<le> length s"
  by (cases s rule: utf8_seq_len.cases) (auto simp: Let_def split: list.splits)

definition replacement_char :: string where
  "replacement_char = [CHR 0xEF, CHR 0xBF, CHR 0xBD]"

text \<open>What \<open>encodeState.string\<close> writes for the bytes of a Go string.\<close>

function utf8_sanitize :: "string \<Rightarrow> string" where
  "utf8_sanitize [] = []"
| "utf8_sanitize (c # cs) =
     (if utf8_seq_len (c # cs) = 0 then replacement_char @ utf8_sanitize cs
      else take (utf8_seq_len (c # cs)) (c # cs) @ utf8_sanitize (drop (utf8_seq_len (c # cs)) (c # cs)))"
  by pat_completeness auto
termination by (relation "measure length") auto

function utf8_valid :: "string \<Rightarrow> bool" where
  "utf8_valid [] = True"
| "utf8_valid (c # cs) =
     (if utf8_seq_len (c # cs) = 0 then False else utf8_valid (drop (utf8_seq_len (c # cs)) (c # cs)))"
  by pat_completeness auto
termination by (relation "measure length") auto

fun bit_len :: "nat \<Rightarrow> nat" where
  "bit_len 0 = 0"
| "bit_len (Suc n) = Suc (bit_len (Suc n div 2))"

text \<open>
  \<open>strconv.ParseFloat(s, 64)\<close> of an integer: the nearest \<open>float64\<close> (53-bit significand,
  ties to even), and a range error, which \<open>encoding/json\<close> reports, beyond the largest
  finite \<open>float64\<close>.
\<close>

definition round_f64 :: "int \<Rightarrow> int option" where
  "round_f64 n =
     (let a = nat \<bar>n\<bar> in
      if a \<le> 2 ^ 53 then Some n
      else
        (let k = bit_len a - 53; q = a div 2 ^ k; r = a mod 2 ^ k; h = 2 ^ (k - 1);
             m = (if h < r \<or> (r = h \<and> odd q) then q + 1 else q) * 2 ^ k
         in if 2 ^ 1024 \<le> m then None else Some (sgn n * int m)))"

section \<open>The canonical records\<close>

definition ResourceTypeArtifact :: string where "ResourceTypeArtifact = ''artifact''"
definition ResourceTypeImage :: string where "ResourceTypeImage = ''image''"
definition ResourceTypeChart :: string where "ResourceTypeChart = ''chart''"

record artifact =
  art_type :: string
  art_digest :: string
  art_labels :: "string slice"
  art_tags :: "string slice"

record repository =
  repo_name :: string
  repo_metadata :: jmap

record resource_metadata =
  rm_repository :: "repository option"
  rm_artifacts :: "artifact option slice"
  rm_vtags :: "string slice"

record credential =
  cred_type :: string
  access_key :: string
  access_secret :: string

record registry =
  reg_id :: int
  reg_name :: string
  reg_type :: string
  reg_url :: string
  reg_credential :: "credential option"
  reg_insecure :: bool

record resource =
  res_type :: string
  res_metadata :: "resource_metadata option"
  res_registry :: "registry option"
  res_extended_info :: jmap
  res_deleted :: bool
  res_is_delete_tag :: bool
  res_override :: bool

section \<open>Encoding\<close>

definition enc_ptr :: "('a \<Rightarrow> json) \<Rightarrow> 'a option \<Rightarrow> json" where
  "enc_ptr f p = (case p of None \<Rightarrow> JNull | Some x \<Rightarrow> f x)"

definition enc_slice :: "('a \<Rightarrow> json) \<Rightarrow> 'a slice \<Rightarrow> json" where
  "enc_slice f s = (case s of None \<Rightarrow> JNull | Some xs \<Rightarrow> JArr (map f xs))"

text \<open>
  The encoding of an \<open>interface{}\<close> value: strings as UTF-8, map keys sorted (by the Go
  string, before the key is written).
\<close>

fun enc_any :: "json \<Rightarrow> json" where
  "enc_any (JStr s) = JStr (utf8_sanitize s)"
| "enc_any (JArr js) = JArr (map enc_any js)"
| "enc_any (JObj kvs) =
     JObj (map (\<lambda>(k, v). (utf8_sanitize k, v)) (sort_key fst (map (\<lambda>(k, v). (k, enc_any v)) kvs)))"
| "enc_any j = j"

definition enc_map :: "jmap \<Rightarrow> json" where
  "enc_map m = (case m of None \<Rightarrow> JNull | Some kvs \<Rightarrow> enc_any (JObj kvs))"

definition enc_str :: "string \<Rightarrow> json" where
  "enc_str s = JStr (utf8_sanitize s)"

definition enc_artifact :: "artifact \<Rightarrow> json" where
  "enc_artifact a = JObj
     [(''type'', enc_str (art_type a)), (''digest'', enc_str (art_digest a)),
      (''labels'', enc_slice enc_str (art_labels a)), (''tags'', enc_slice enc_str (art_tags a))]"

definition enc_repository :: "repository \<Rightarrow> json" where
  "enc_repository r = JObj [(''name'', enc_str (repo_name r)), (''metadata'', enc_map (repo_metadata r))]"

definition enc_metadata :: "resource_metadata \<Rightarrow> json" where
  "enc_metadata m = JObj
     [(''repository'', enc_ptr enc_repository (rm_repository m)),
      (''artifacts'', enc_slice (enc_ptr enc_artifact) (rm_artifacts m)),
      (''v_tags'', enc_slice enc_str (rm_vtags m))]"

definition enc_credential :: "credential \<Rightarrow> json" where
  "enc_credential c = JObj
     [(''type'', enc_str (cred_type c)), (''access_key'', enc_str (access_key c)),
      (''access_secret'', enc_str (access_secret c))]"

definition enc_registry :: "registry \<Rightarrow> json" where
  "enc_registry r = JObj
     [(''id'', JNum (reg_id r)), (''name'', enc_str (reg_name r)), (''type'', enc_str (reg_type r)),
      (''url'', enc_str (reg_url r)), (''credential'', enc_ptr enc_credential (reg_credential r)),
      (''insecure'', JBool (reg_insecure r))]"

definition enc_resource :: "resource \<Rightarrow> json" where
  "enc_resource r = JObj
     [(''type'', enc_str (res_type r)),
      (''metadata'', enc_ptr enc_metadata (res_metadata r)),
      (''registry'', enc_ptr enc_registry (res_registry r)),
      (''extended_info'', enc_map (res_extended_info r)),
      (''deleted'', JBool (res_deleted r)),
      (''is_delete_tag'', JBool (res_is_delete_tag r)),
      (''override'', JBool (res_override r))]"

section \<open>Decoding\<close>

text \<open>
  \<open>encoding/json\<close> decoding: a key that is absent reads as \<open>null\<close>; \<open>null\<close> leaves a string,
  number or bool at its zero value and a pointer, slice or map nil; a value of the wrong JSON
  kind is an \<open>UnmarshalTypeError\<close>, here \<open>None\<close>.
\<close>

definition jfield :: "string \<Rightarrow> (string \<times> json) list \<Rightarrow> json" where
  "jfield k kvs = (case map_of kvs k of None \<Rightarrow> JNull | Some v \<Rightarrow> v)"

fun dec_str :: "json \<Rightarrow> string option" where
  "dec_str JNull = Some []"
| "dec_str (JStr s) = Some s"
| "dec_str _ = None"

fun dec_bool :: "json \<Rightarrow> bool option" where
  "dec_bool JNull = Some False"
| "dec_bool (JBool b) = Some b"
| "dec_bool _ = None"

text \<open>A number read into an \<open>int64\<close> field.\<close>

fun dec_num :: "json \<Rightarrow> int option" where
  "dec_num JNull = Some 0"
| "dec_num (JNum n) = (if - (2 ^ 63) \<le> n \<and> n < 2 ^ 63 then Some n else None)"
| "dec_num _ = None"

text \<open>
  An object read into a Go map: the last value of each key, kept here in sorted key order.
\<close>

definition norm_obj :: "(string \<times> json) list \<Rightarrow> (string \<times> json) list" where
  "norm_obj kvs = map (\<lambda>k. (k, the (map_of (rev kvs) k))) (sort (remdups (map fst kvs)))"

fun dec_any :: "json \<Rightarrow> json option" where
  "dec_any (JNum n) = map_option JNum (round_f64 n)"
| "dec_any (JArr js) = map_option JArr (those (map dec_any js))"
| "dec_any (JObj kvs) =
     map_option (JObj \<circ> norm_obj) (those (map (\<lambda>(k, v). map_option (Pair k) (dec_any v)) kvs))"
| "dec_any j = Some j"

definition dec_ptr :: "(json \<Rightarrow> 'a option) \<Rightarrow> json \<Rightarrow> 'a option option" where
  "dec_ptr f j = (case j of JNull \<Rightarrow> Some None | _ \<Rightarrow> map_option Some (f j))"

definition dec_slice :: "(json \<Rightarrow> 'a option) \<Rightarrow> json \<Rightarrow> 'a slice option" where
  "dec_slice f j = (case j of JNull \<Rightarrow> Some None
                     | JArr js \<Rightarrow> map_option Some (those (map f js)) | _ \<Rightarrow> None)"

definition dec_map :: "json \<Rightarrow> jmap option" where
  "dec_map j =
     (case j of
        JNull \<Rightarrow> Some None
      | JObj _ \<Rightarrow> (case dec_any j of Some (JObj kvs) \<Rightarrow> Some (Some kvs) | _ \<Rightarrow> None)
      | _ \<Rightarrow> None)"

definition dec_artifact :: "json \<Rightarrow> artifact option" where
  "dec_artifact j = (case j of
     JObj kvs \<Rightarrow> do {
       t \<leftarrow> dec_str (jfield ''type'' kvs);
       d \<leftarrow> dec_str (jfield ''digest'' kvs);
       ls \<leftarrow> dec_slice dec_str (jfield ''labels'' kvs);
       ts \<leftarrow> dec_slice dec_str (jfield ''tags'' kvs);
       Some \<lparr>art_type = t, art_digest = d, art_labels = ls, art_tags = ts\<rparr> }
   | _ \<Rightarrow> None)"

definition dec_repository :: "json \<Rightarrow> repository option" where
  "dec_repository j = (case j of
     JObj kvs \<Rightarrow> do {
       n \<leftarrow> dec_str (jfield ''name'' kvs);
       m \<leftarrow> dec_map (jfield ''metadata'' kvs);
       Some \<lparr>repo_name = n, repo_metadata = m\<rparr> }
   | _ \<Rightarrow> None)"

definition dec_metadata :: "json \<Rightarrow> resource_metadata option" where
  "dec_metadata j = (case j of
     JObj kvs \<Rightarrow> do {
       r \<leftarrow> dec_ptr dec_repository (jfield ''repository'' kvs);
       as \<leftarrow> dec_slice (dec_ptr dec_artifact) (jfield ''artifacts'' kvs);
       vs \<leftarrow> dec_slice dec_str (jfield ''v_tags'' kvs);
       Some \<lparr>rm_repository = r, rm_artifacts = as, rm_vtags = vs\<rparr> }
   | _ \<Rightarrow> None)"

definition dec_credential :: "json \<Rightarrow> credential option" where
  "dec_credential j = (case j of
     JObj kvs \<Rightarrow> do {
       t \<leftarrow> dec_str (jfield ''type'' kvs);
       k \<leftarrow> dec_str (jfield ''access_key'' kvs);
       s \<leftarrow> dec_str (jfield ''access_secret'' kvs);
       Some \<lparr>cred_type = t, access_key = k, access_secret = s\<rparr> }
   | _ \<Rightarrow> None)"

definition dec_registry :: "json \<Rightarrow> registry option" where
  "dec_registry j = (case j of
     JObj kvs \<Rightarrow> do {
       i \<leftarrow> dec_num (jfield ''id'' kvs);
       n \<leftarrow> dec_str (jfield ''name'' kvs);
       t \<leftarrow> dec_str (jfield ''type'' kvs);
       u \<leftarrow> dec_str (jfield ''url'' kvs);
       c \<leftarrow> dec_ptr dec_credential (jfield ''credential'' kvs);
       ins \<leftarrow> dec_bool (jfield ''insecure'' kvs);
       Some \<lparr>reg_id = i, reg_name = n, reg_type = t, reg_url = u, reg_credential = c,
             reg_insecure = ins\<rparr> }
   | _ \<Rightarrow> None)"

definition dec_resource :: "json \<Rightarrow> resource option" where
  "dec_resource j = (case j of
     JObj kvs \<Rightarrow> do {
       t \<leftarrow> dec_str (jfield ''type'' kvs);
       m \<leftarrow> dec_ptr dec_metadata (jfield ''metadata'' kvs);
       r \<leftarrow> dec_ptr dec_registry (jfield ''registry'' kvs);
       e \<leftarrow> dec_map (jfield ''extended_info'' kvs);
       d \<leftarrow> dec_bool (jfield ''deleted'' kvs);
       dt \<leftarrow> dec_bool (jfield ''is_delete_tag'' kvs);
       ov \<leftarrow> dec_bool (jfield ''override'' kvs);
       Some \<lparr>res_type = t, res_metadata = m, res_registry = r, res_extended_info = e,
             res_deleted = d, res_is_delete_tag = dt, res_override = ov\<rparr> }
   | _ \<Rightarrow> None)"

section \<open>Values that survive the wire\<close>

fun jval_ok :: "json \<Rightarrow> bool" where
  "jval_ok (JNum n) = (round_f64 n = Some n)"
| "jval_ok (JStr s) = utf8_valid s"
| "jval_ok (JArr js) = list_all jval_ok js"
| "jval_ok (JObj kvs) =
     (sorted (map fst kvs) \<and> distinct (map fst kvs) \<and> list_all (\<lambda>(k, v). utf8_valid k \<and> jval_ok v) kvs)"
| "jval_ok _ = True"

definition jmap_ok :: "jmap \<Rightarrow> bool" where
  "jmap_ok m = (case m of None \<Rightarrow> True | Some kvs \<Rightarrow> jval_ok (JObj kvs))"

definition slice_all :: "('a \<Rightarrow> bool) \<Rightarrow> 'a slice \<Rightarrow> bool" where
  "slice_all P s = (case s of None \<Rightarrow> True | Some xs \<Rightarrow> list_all P xs)"

definition artifact_wire_ok :: "artifact \<Rightarrow> bool" where
  "artifact_wire_ok a \<longleftrightarrow>
     utf8_valid (art_type a) \<and> utf8_valid (art_digest a) \<and> slice_all utf8_valid (art_labels a) \<and>
     slice_all utf8_valid (art_tags a)"

definition repository_wire_ok :: "repository \<Rightarrow> bool" where
  "repository_wire_ok r \<longleftrightarrow> utf8_valid (repo_name r) \<and> jmap_ok (repo_metadata r)"

definition metadata_wire_ok :: "resource_metadata \<Rightarrow> bool" where
  "metadata_wire_ok m \<longleftrightarrow>
     pred_option repository_wire_ok (rm_repository m) \<and> slice_all (pred_option artifact_wire_ok) (rm_artifacts m) \<and>
     slice_all utf8_valid (rm_vtags m)"

definition credential_wire_ok :: "credential \<Rightarrow> bool" where
  "credential_wire_ok c \<longleftrightarrow> utf8_valid (cred_type c) \<and> utf8_valid (access_key c) \<and> utf8_valid (access_secret c)"

definition registry_wire_ok :: "registry \<Rightarrow> bool" where
  "registry_wire_ok r \<longleftrightarrow>
     - (2 ^ 63) \<le> reg_id r \<and> reg_id r < 2 ^ 63 \<and> utf8_valid (reg_name r) \<and> utf8_valid (reg_type r) \<and>
     utf8_valid (reg_url r) \<and> pred_option credential_wire_ok (reg_credential r)"

definition resource_wire_ok :: "resource \<Rightarrow> bool" where
  "resource_wire_ok r \<longleftrightarrow>
     utf8_valid (res_type r) \<and> pred_option metadata_wire_ok (res_metadata r) \<and>
     pred_option registry_wire_ok (res_registry r) \<and> jmap_ok (res_extended_info r)"

section \<open>Fixtures\<close>

definition demo_resource :: resource where
  "demo_resource =
     \<lparr>res_type = ''image'',
      res_metadata = Some \<lparr>rm_repository = Some \<lparr>repo_name = ''library/hello'', repo_metadata = Some [(''public'', JStr ''true'')]\<rparr>,
                           rm_artifacts = Some [Some \<lparr>art_type = ''image'', art_digest = ''sha256:1'', art_labels = None,
                                                     art_tags = Some [''latest'']\<rparr>],
                           rm_vtags = None\<rparr>,
      res_registry = Some \<lparr>reg_id = 1, reg_name = ''local'', reg_type = ''harbor'', reg_url = ''https://h'',
                            reg_credential = None, reg_insecure = False\<rparr>,
      res_extended_info = Some [(''count'', JNum 3), (''dest'', JObj [(''a'', JArr [JBool True])])],
      res_deleted = False, res_is_delete_tag = False, res_override = True\<rparr>"

section \<open>Round-trip lemmas\<close>

named_theorems json_codec "encoder and decoder definitions"

declare enc_ptr_def [json_codec] enc_slice_def [json_codec] enc_map_def [json_codec]
  dec_ptr_def [json_codec] dec_slice_def [json_codec] dec_map_def [json_codec]
  jfield_def [json_codec] enc_str_def [json_codec]

named_theorems wire_ok "the well-formedness predicates of the wire"

declare artifact_wire_ok_def [wire_ok] repository_wire_ok_def [wire_ok] metadata_wire_ok_def [wire_ok]
  credential_wire_ok_def [wire_ok] registry_wire_ok_def [wire_ok] resource_wire_ok_def [wire_ok]

lemma bit_len_numeral [simp]: "bit_len (numeral k) = Suc (bit_len (numeral k div 2))"
  by (metis bit_len.simps(2) Suc_pred zero_less_numeral)

lemma utf8_sanitize_valid: "utf8_valid s \<Longrightarrow> utf8_sanitize s = s"
  by (induction s rule: utf8_sanitize.induct) auto

lemma dec_str_enc_str [simp]: "utf8_valid s \<Longrightarrow> dec_str (enc_str s) = Some s"
  by (simp add: enc_str_def utf8_sanitize_valid)

lemma those_map_Some [simp]: "(\<And>x. x \<in> set xs \<Longrightarrow> f (g x) = Some x) \<Longrightarrow> those (map (f \<circ> g) xs) = Some xs"
  by (induction xs) auto

lemma dec_slice_enc_slice:
  assumes "slice_all P s" and "\<And>x. P x \<Longrightarrow> f (g x) = Some x"
  shows "dec_slice f (enc_slice g s) = Some s"
proof (cases s)
  case None
  then show ?thesis by (simp add: json_codec)
next
  case (Some xs)
  have "those (map f (map g xs)) = Some xs"
    using assms Some by (simp add: those_map_Some slice_all_def list_all_iff)
  with Some show ?thesis by (simp add: json_codec)
qed

lemma dec_ptr_enc_ptr:
  assumes "pred_option P p" and "\<And>x. P x \<Longrightarrow> f (g x) = Some x" and "\<And>x. g x \<noteq> JNull"
  shows "dec_ptr f (enc_ptr g p) = Some p"
proof (cases p)
  case (Some x)
  have "dec_ptr f (g x) = map_option Some (f (g x))"
    using assms(3) [of x] by (cases "g x") (simp_all add: dec_ptr_def)
  with Some assms(1,2) show ?thesis by (simp add: enc_ptr_def)
qed (simp add: json_codec)

lemma map_of_rev_distinct: "distinct (map fst xs) \<Longrightarrow> map_of (rev xs) = map_of xs"
proof (induction xs)
  case (Cons x xs)
  then have "fst x \<notin> dom (map_of (rev xs))" by (auto simp: dom_map_of_conv_image_fst)
  with Cons show ?case by (auto simp: map_of_append fun_eq_iff map_add_def split: option.splits)
qed simp

lemma map_the_map_of: "distinct (map fst kvs) \<Longrightarrow> map (\<lambda>k. (k, the (map_of kvs k))) (map fst kvs) = kvs"
proof (induction kvs)
  case (Cons kv kvs)
  have "map (\<lambda>k. (k, the (map_of (kv # kvs) k))) (map fst kvs) = map (\<lambda>k. (k, the (map_of kvs k))) (map fst kvs)"
    using Cons.prems by (intro map_cong) (auto intro: rev_image_eqI)
  with Cons show ?case by (cases kv) simp
qed simp

lemma norm_obj_id: "sorted (map fst kvs) \<Longrightarrow> distinct (map fst kvs) \<Longrightarrow> norm_obj kvs = kvs"
  using map_the_map_of [of kvs] by (simp add: norm_obj_def sorted_sort_id distinct_remdups_id map_of_rev_distinct map_the_map_of)

lemma those_map_pairs:
  "(\<And>k v. (k, v) \<in> set kvs \<Longrightarrow> f (g v) = Some v) \<Longrightarrow>
     those (map (\<lambda>(k, v). map_option (Pair k) (f v)) (map (\<lambda>(k, v). (k, g v)) kvs)) = Some kvs"
proof (induction kvs)
  case (Cons kv kvs)
  obtain a b where kv: "kv = (a, b)" by (cases kv)
  have "f (g b) = Some b" using Cons.prems [of a b] kv by simp
  moreover have "those (map (\<lambda>(k, v). map_option (Pair k) (f v)) (map (\<lambda>(k, v). (k, g v)) kvs)) = Some kvs"
    by (rule Cons.IH) (metis Cons.prems list.set_intros(2))
  ultimately show ?case using kv by simp
qed simp

lemma dec_any_enc_any: "jval_ok v \<Longrightarrow> dec_any (enc_any v) = Some v"
proof (induction v rule: enc_any.induct)
  case (1 s)
  then show ?case by (simp add: utf8_sanitize_valid)
next
  case (2 js)
  then have "those (map (dec_any \<circ> enc_any) js) = Some js" by (intro those_map_Some) (auto simp: list_all_iff)
  then show ?case by simp
next
  case (3 kvs)
  have ok: "sorted (map fst kvs)" "distinct (map fst kvs)" "\<forall>(k, v) \<in> set kvs. utf8_valid k \<and> jval_ok v"
    using "3.prems" by (auto simp: list_all_iff)
  let ?e = "map (\<lambda>(k, v). (k, enc_any v)) kvs"
  have fe: "map fst ?e = map fst kvs" by (induction kvs) auto
  have srt: "sort_key fst ?e = ?e" by (rule sort_key_id_if_sorted) (simp only: fe ok(1))
  have keys: "map (\<lambda>(k, v). (utf8_sanitize k, v)) ?e = ?e"
    using ok(3) by (induction kvs) (auto simp: utf8_sanitize_valid)
  have th: "those (map (\<lambda>(k, v). map_option (Pair k) (dec_any v)) ?e) = Some kvs"
    using "3.IH" ok(3) by (intro those_map_pairs) auto
  have "enc_any (JObj kvs) = JObj ?e" by (simp only: enc_any.simps srt keys)
  then show ?case by (simp only: dec_any.simps th option.map comp_apply norm_obj_id [OF ok(1,2)])
qed simp_all

lemma dec_map_enc_map: "jmap_ok m \<Longrightarrow> dec_map (enc_map m) = Some m"
proof (cases m)
  case (Some kvs)
  moreover assume "jmap_ok m"
  ultimately have "dec_any (enc_any (JObj kvs)) = Some (JObj kvs)"
    by (simp add: dec_any_enc_any jmap_ok_def del: jval_ok.simps enc_any.simps dec_any.simps)
  moreover have "\<exists>kvs'. enc_any (JObj kvs) = JObj kvs'" by simp
  ultimately show ?thesis using Some by (auto simp: enc_map_def dec_map_def)
qed (simp add: json_codec)

lemma dec_artifact_enc: "artifact_wire_ok a \<Longrightarrow> dec_artifact (enc_artifact a) = Some a"
  by (simp add: dec_artifact_def enc_artifact_def jfield_def dec_slice_enc_slice [where P = utf8_valid] wire_ok)

lemma dec_repository_enc: "repository_wire_ok r \<Longrightarrow> dec_repository (enc_repository r) = Some r"
  by (simp add: dec_repository_def enc_repository_def jfield_def dec_map_enc_map wire_ok)

lemma enc_artifact_not_null [simp]: "enc_artifact a \<noteq> JNull"
  by (simp add: enc_artifact_def)

lemma enc_repository_not_null [simp]: "enc_repository r \<noteq> JNull"
  by (simp add: enc_repository_def)

lemma dec_metadata_enc: "metadata_wire_ok m \<Longrightarrow> dec_metadata (enc_metadata m) = Some m"
proof -
  assume ok: "metadata_wire_ok m"
  have a: "dec_slice (dec_ptr dec_artifact) (enc_slice (enc_ptr enc_artifact) (rm_artifacts m))
             = Some (rm_artifacts m)"
    using ok by (intro dec_slice_enc_slice [where P = "pred_option artifact_wire_ok"])
                (auto simp: metadata_wire_ok_def intro: dec_ptr_enc_ptr dec_artifact_enc)
  show ?thesis
    using ok by (simp add: dec_metadata_def enc_metadata_def jfield_def a metadata_wire_ok_def
                           dec_ptr_enc_ptr [where P = repository_wire_ok] dec_repository_enc
                           dec_slice_enc_slice [where P = utf8_valid])
qed

lemma dec_registry_enc: "registry_wire_ok r \<Longrightarrow> dec_registry (enc_registry r) = Some r"
proof -
  assume ok: "registry_wire_ok r"
  have "credential_wire_ok c \<Longrightarrow> dec_credential (enc_credential c) = Some c" for c
    by (simp add: dec_credential_def enc_credential_def jfield_def wire_ok)
  moreover have "enc_credential c \<noteq> JNull" for c
    by (simp add: enc_credential_def)
  ultimately show ?thesis
    using ok by (simp add: dec_registry_def enc_registry_def jfield_def registry_wire_ok_def
                           dec_ptr_enc_ptr [where P = credential_wire_ok])
qed

lemma enc_metadata_not_null [simp]: "enc_metadata m \<noteq> JNull"
  by (simp add: enc_metadata_def)

lemma enc_registry_not_null [simp]: "enc_registry r \<noteq> JNull"
  by (simp add: enc_registry_def)

section \<open>Properties of the wire shape\<close>

text \<open>
  Claim C7: encoding a resource to the JSON shape given by the struct tags and decoding it
  gives the resource back when its strings are valid UTF-8, its maps have sorted distinct
  keys and its numbers are exact \<open>float64\<close> (in maps) and \<open>int64\<close> (the registry id)
  values; nil and empty slices and maps stay distinct (\<open>null\<close> against \<open>[]\<close>), and the
  deprecated \<open>v_tags\<close> key is always present.
\<close>

theorem resource_json_roundtrip: "resource_wire_ok r \<Longrightarrow> dec_resource (enc_resource r) = Some r"
  by (simp add: dec_resource_def enc_resource_def jfield_def resource_wire_ok_def dec_map_enc_map
                dec_ptr_enc_ptr [where P = metadata_wire_ok] dec_ptr_enc_ptr [where P = registry_wire_ok]
                dec_metadata_enc dec_registry_enc)

theorem resource_json_roundtrip_witness: "dec_resource (enc_resource demo_resource) = Some demo_resource"
proof -
  have "resource_wire_ok demo_resource"
    by (simp add: demo_resource_def wire_ok jmap_ok_def slice_all_def round_f64_def utf8_cont_def)
  then show ?thesis by (rule resource_json_roundtrip)
qed

text \<open>
  What the round trip does to values outside \<open>resource_wire_ok\<close>: a byte that starts no
  UTF-8 sequence comes back as U+FFFD, \<open>2^53 + 1\<close> in a map comes back as the nearest
  \<open>float64\<close>, \<open>2^53\<close>, and a registry id beyond \<open>int64\<close> makes decoding fail.
\<close>

theorem json_roundtrip_lossy:
  "dec_str (enc_str [CHR 0xFF]) = Some replacement_char \<and>
   dec_any (enc_any (JNum (2 ^ 53 + 1))) = Some (JNum (2 ^ 53)) \<and>
   dec_num (JNum (2 ^ 63)) = None"
  by (simp add: enc_str_def replacement_char_def round_f64_def Let_def)

end
