(* ===== verification/Pagination.thy ===== *)
theory Pagination
  imports Prelude
begin

text \<open>
  The pagination iterator (\<open>GetAndIteratePagination\<close> of the shared HTTP client, which the
  adapters call but which is not under \<open>src/\<close>; modelled from section 4.3 of the design).
  A remote listing endpoint is a function from a URL to one decoded page: its items and the
  next-page reference, \<open>None\<close> when the response advertises none or a malformed one. The
  iterator fetches a page, appends its items to the destination, and follows the reference;
  it stops with \<open>ErrPaginationLimit\<close> rather than request a page past the cap, and with
  \<open>ErrCanceled\<close> when the cancellation token has fired before a request. Besides its result
  it returns the URLs it requested, in order, so that "exactly one page is fetched" and
  "no request after cancellation" are statements about the model.
\<close>

type_synonym 'a page = "'a list \<times> string option"

type_synonym 'a endpoint = "string \<Rightarrow> 'a page result"

text \<open>
  \<open>iterate_pages budget cancel get url done acc\<close>: \<open>budget\<close> pages may still be requested,
  \<open>done\<close> pages have been, \<open>acc\<close> holds their items; \<open>cancel done\<close> is the state of the
  cancellation token before the request for page number \<open>done\<close>.
\<close>

fun iterate_pages ::
  "nat \<Rightarrow> (nat \<Rightarrow> bool) \<Rightarrow> 'a endpoint \<Rightarrow> string \<Rightarrow> nat \<Rightarrow> 'a list \<Rightarrow> 'a list result \<times> string list"
where
  "iterate_pages 0 cancel get url done acc = (Inl ErrPaginationLimit, [])"
| "iterate_pages (Suc n) cancel get url done acc =
     (if cancel done then (Inl ErrCanceled, [])
      else (case get url of
              Inl e \<Rightarrow> (Inl e, [url])
            | Inr (items, None) \<Rightarrow> (Inr (acc @ items), [url])
            | Inr (items, Some nxt) \<Rightarrow>
                (let (r, reqs) = iterate_pages n cancel get nxt (Suc done) (acc @ items)
                 in (r, url # reqs))))"

definition get_and_iterate_pagination ::
  "nat \<Rightarrow> (nat \<Rightarrow> bool) \<Rightarrow> 'a endpoint \<Rightarrow> string \<Rightarrow> 'a list result \<times> string list" where
  "get_and_iterate_pagination cap cancel get url = iterate_pages cap cancel get url 0 []"

text \<open>
  A correctly linked listing: \<open>linked get url pages\<close> holds when the page at \<open>url\<close> carries the
  first element of \<open>pages\<close>, links to a URL whose listing is the rest, and the last page
  advertises no further reference.
\<close>

fun linked :: "'a endpoint \<Rightarrow> string \<Rightarrow> 'a list list \<Rightarrow> bool" where
  "linked get url [] = False"
| "linked get url [p] = (get url = Inr (p, None))"
| "linked get url (p # q # ps) =
     (case get url of Inr (items, Some nxt) \<Rightarrow> items = p \<and> linked get nxt (q # ps) | _ \<Rightarrow> False)"

section \<open>Lemmas\<close>

lemma iterate_pages_requests_bound: "length (snd (iterate_pages n cancel get url d acc)) \<le> n"
proof (induction n cancel get url d acc rule: iterate_pages.induct)
  case (2 n cancel get url i acc)
  show ?case
    using "2.IH" by (auto split: sum.split option.split simp: case_prod_beta)
qed simp

lemma iterate_pages_linked:
  assumes "linked get url pages" and "length pages \<le> n"
    and "\<forall>i < length pages. \<not> cancel (d + i)"
  shows "fst (iterate_pages n cancel get url d acc) = Inr (acc @ concat pages)
       \<and> length (snd (iterate_pages n cancel get url d acc)) = length pages"
  using assms
proof (induction get url pages arbitrary: n d acc rule: linked.induct)
  case (1 get url)
  then show ?case by simp
next
  case (2 get url p)
  then obtain m where "n = Suc m" by (cases n) auto
  with 2 show ?case by simp
next
  case (3 get url p q ps)
  obtain m where n: "n = Suc m" using "3.prems"(2) by (cases n) auto
  obtain nxt where get: "get url = Inr (p, Some nxt)" and lk: "linked get nxt (q # ps)"
    using "3.prems"(1) by (auto split: sum.splits option.splits)
  have nc: "\<not> cancel d" using "3.prems"(3) by (metis add_0_right length_greater_0_conv list.distinct(1))
  have nc': "\<forall>i < length (q # ps). \<not> cancel (Suc d + i)"
    using "3.prems"(3) by (metis add_Suc_shift length_Cons not_less_eq add_Suc_right)
  have IH: "fst (iterate_pages m cancel get nxt (Suc d) (acc @ p)) = Inr ((acc @ p) @ concat (q # ps))
      \<and> length (snd (iterate_pages m cancel get nxt (Suc d) (acc @ p))) = length (q # ps)"
    using "3.IH" [OF get refl refl lk] "3.prems"(2) n nc' by simp
  show ?case
    using IH get nc n by (simp add: case_prod_beta)
qed

lemma iterate_pages_error_last:
  "fst (iterate_pages n cancel get url d acc) = Inl e \<Longrightarrow> e \<noteq> ErrPaginationLimit \<Longrightarrow>
   e \<noteq> ErrCanceled \<Longrightarrow> snd (iterate_pages n cancel get url d acc) \<noteq> []
   \<and> get (last (snd (iterate_pages n cancel get url d acc))) = Inl e"
proof (induction n cancel get url d acc rule: iterate_pages.induct)
  case (2 n cancel get url i acc)
  show ?case
  proof (cases "cancel i")
    case False
    show ?thesis
    proof (cases "get url")
      case (Inl e')
      with False "2.prems"(1) show ?thesis by simp
    next
      case (Inr pg)
      obtain items nx where pg: "pg = (items, nx)" by (cases pg)
      show ?thesis
      proof (cases nx)
        case None
        with False Inr pg "2.prems"(1) show ?thesis by simp
      next
        case (Some nxt)
        with False Inr pg "2.prems" "2.IH" [OF False Inr pg [symmetric] Some] show ?thesis
          by (auto simp: case_prod_beta)
      qed
    qed
  qed (use "2.prems" in simp)
qed simp

lemma iterate_pages_cancel_bound:
  "cancel k \<Longrightarrow> d \<le> k \<Longrightarrow> length (snd (iterate_pages n cancel get url d acc)) \<le> k - d"
proof (induction n cancel get url d acc rule: iterate_pages.induct)
  case (2 n cancel get url i acc)
  show ?case
  proof (cases "i = k")
    case True
    with "2.prems"(1) show ?thesis by simp
  next
    case False
    with "2.prems"(2) have lt: "Suc i \<le> k" by simp
    show ?thesis
      using "2.IH" [OF _ _ refl refl "2.prems"(1) lt] lt
      by (auto split: sum.split option.split simp: case_prod_beta)
  qed
qed simp

lemma iterate_pages_error_cases:
  "fst (iterate_pages n cancel get url d acc) = Inl e \<Longrightarrow>
   e = ErrPaginationLimit \<or> (e = ErrCanceled \<and> (\<exists>k. cancel k)) \<or> (\<exists>u. get u = Inl e)"
proof (induction n cancel get url d acc rule: iterate_pages.induct)
  case (2 n cancel get url i acc)
  show ?case
    using "2.prems" "2.IH"
    by (auto split: if_splits sum.splits option.splits simp: case_prod_beta)
qed simp

lemma iterate_pages_endless:
  "\<forall>u. \<exists>items nxt. get u = Inr (items, Some nxt) \<Longrightarrow> \<forall>i. \<not> cancel i \<Longrightarrow>
   fst (iterate_pages n cancel get url d acc) = Inl ErrPaginationLimit"
proof (induction n arbitrary: url d acc)
  case (Suc n)
  obtain items nxt where "get url = Inr (items, Some nxt)" using Suc.prems(1) by blast
  with Suc show ?case by (simp add: case_prod_beta)
qed simp

section \<open>Properties of the iterator\<close>

text \<open>
  Driven over a correctly linked listing of at most \<open>cap\<close> pages, with no
  cancellation, the iterator returns the concatenation of the pages in server order and
  requests each page exactly once.
\<close>

theorem pagination_linked_in_order:
  assumes "linked get url pages" and "length pages \<le> cap" and "\<forall>i < length pages. \<not> cancel i"
  shows "fst (get_and_iterate_pagination cap cancel get url) = Inr (concat pages)
       \<and> length (snd (get_and_iterate_pagination cap cancel get url)) = length pages"
  using iterate_pages_linked [where n = cap and d = 0 and acc = "[]"] assms
  by (simp add: get_and_iterate_pagination_def)

definition two_page_server :: "nat endpoint" where
  "two_page_server u =
     (if u = ''/p1'' then Inr ([1, 2], Some ''/p2'')
      else if u = ''/p2'' then Inr ([3, 4], None) else Inl ErrNotFound)"

theorem pagination_linked_in_order_witness:
  "linked two_page_server ''/p1'' [[1, 2], [3, 4]] \<and> length [[1::nat, 2], [3, 4]] \<le> 5
   \<and> (\<forall>i < length [[1::nat, 2], [3, 4]]. \<not> (\<lambda>_. False) i)
   \<and> fst (get_and_iterate_pagination 5 (\<lambda>_. False) two_page_server ''/p1'') = Inr [1, 2, 3, 4]
   \<and> length (snd (get_and_iterate_pagination 5 (\<lambda>_. False) two_page_server ''/p1'')) = 2"
proof -
  have l: "linked two_page_server ''/p1'' [[1, 2], [3, 4]]"
    by (simp add: two_page_server_def)
  show ?thesis
    using pagination_linked_in_order [OF l, of 5 "\<lambda>_. False"] l by simp
qed

text \<open>
  The iterator never issues more requests than the page cap, whatever the server
  answers: it cannot hang on a server whose next-page references loop.
\<close>

theorem pagination_request_bound:
  "length (snd (get_and_iterate_pagination cap cancel get url)) \<le> cap"
  by (simp add: get_and_iterate_pagination_def iterate_pages_requests_bound)

text \<open>
  Against a server that always advertises a next page (a reference loop), the
  iterator fails with the pagination-limit error instead of returning a partial result.
\<close>

theorem pagination_endless_limit:
  assumes "\<forall>u. \<exists>items nxt. get u = Inr (items, Some nxt)" and "\<forall>i. \<not> cancel i"
  shows "fst (get_and_iterate_pagination cap cancel get url) = Inl ErrPaginationLimit"
  using iterate_pages_endless [OF assms] by (simp add: get_and_iterate_pagination_def)

definition looping_server :: "nat endpoint" where
  "looping_server u = Inr ([0], Some u)"

theorem pagination_endless_limit_witness:
  "(\<forall>u. \<exists>items nxt. looping_server u = Inr (items, Some nxt)) \<and> (\<forall>i. \<not> (\<lambda>_::nat. False) i)
   \<and> fst (get_and_iterate_pagination 3 (\<lambda>_. False) looping_server ''/loop'') = Inl ErrPaginationLimit"
proof -
  have h: "\<forall>u. \<exists>items nxt. looping_server u = Inr (items, Some nxt)"
    by (simp add: looping_server_def)
  show ?thesis
    using pagination_endless_limit [OF h, of "\<lambda>_. False" 3 "''/loop''"] h by simp
qed

text \<open>
  A transport error is passed through as it is, it comes from the last request the
  iterator issued, and no page is requested after it.
\<close>

theorem pagination_error_from_last_request:
  assumes "fst (get_and_iterate_pagination cap cancel get url) = Inl e"
    and "e \<noteq> ErrPaginationLimit" and "e \<noteq> ErrCanceled"
  shows "snd (get_and_iterate_pagination cap cancel get url) \<noteq> []
       \<and> get (last (snd (get_and_iterate_pagination cap cancel get url))) = Inl e"
  using assms iterate_pages_error_last by (simp add: get_and_iterate_pagination_def)

definition failing_second_page :: "nat endpoint" where
  "failing_second_page u =
     (if u = ''/p1'' then Inr ([7], Some ''/p2'') else Inl (ErrTransport ''503 /p2''))"

theorem pagination_error_from_last_request_witness:
  "fst (get_and_iterate_pagination 4 (\<lambda>_. False) failing_second_page ''/p1'') = Inl (ErrTransport ''503 /p2'')
   \<and> ErrTransport ''503 /p2'' \<noteq> ErrPaginationLimit \<and> ErrTransport ''503 /p2'' \<noteq> ErrCanceled
   \<and> snd (get_and_iterate_pagination 4 (\<lambda>_. False) failing_second_page ''/p1'') \<noteq> []
   \<and> failing_second_page (last (snd (get_and_iterate_pagination 4 (\<lambda>_. False) failing_second_page ''/p1'')))
       = Inl (ErrTransport ''503 /p2'')"
proof -
  have r: "fst (get_and_iterate_pagination 4 (\<lambda>_. False) failing_second_page ''/p1'') = Inl (ErrTransport ''503 /p2'')"
    by (simp add: get_and_iterate_pagination_def failing_second_page_def numeral_eq_Suc)
  show ?thesis
    using pagination_error_from_last_request [OF r] r by simp
qed

text \<open>
  Once the cancellation token has fired before page \<open>k\<close> would be requested, at most
  \<open>k\<close> requests are issued.
\<close>

theorem pagination_cancel_stops:
  assumes "cancel k"
  shows "length (snd (get_and_iterate_pagination cap cancel get url)) \<le> k"
  using iterate_pages_cancel_bound [where cancel = cancel and k = k and d = 0, OF assms]
  by (simp add: get_and_iterate_pagination_def)

theorem pagination_cancel_stops_witness:
  "(\<lambda>i::nat. 1 \<le> i) 1
   \<and> length (snd (get_and_iterate_pagination 5 (\<lambda>i. 1 \<le> i) looping_server ''/loop'')) \<le> 1"
  using pagination_cancel_stops [of "\<lambda>i::nat. 1 \<le> i" 1 5 looping_server "''/loop''"] by simp

text \<open>
  A response that advertises no next page is the last one: exactly one request is
  issued and its items are the result.
\<close>

theorem pagination_single_page:
  assumes "get url = Inr (items, None)" and "0 < cap" and "\<not> cancel 0"
  shows "get_and_iterate_pagination cap cancel get url = (Inr items, [url])"
proof -
  obtain n where "cap = Suc n" using assms(2) by (cases cap) auto
  with assms show ?thesis by (simp add: get_and_iterate_pagination_def)
qed

theorem pagination_single_page_witness:
  "two_page_server ''/p2'' = Inr ([3, 4], None) \<and> (0::nat) < 1 \<and> \<not> (\<lambda>_::nat. False) 0
   \<and> get_and_iterate_pagination 1 (\<lambda>_. False) two_page_server ''/p2'' = (Inr [3, 4], [''/p2''])"
proof -
  have g: "two_page_server ''/p2'' = Inr ([3, 4], None)" by (simp add: two_page_server_def)
  show ?thesis
    using pagination_single_page [where get = two_page_server and url = "''/p2''" and cap = 1
        and cancel = "\<lambda>_. False", OF g] g by simp
qed

end
