(* ===== verification/Harbor_Client.thy ===== *)
theory Harbor_Client
  imports Reg_Model Pagination
begin

text \<open>
  The Harbor-v2 adapter's HTTP client (\<open>src/pkg/reg/adapter/harbor/v2/client.go\<close>):
  \<open>listRepositories\<close>, \<open>listArtifacts\<close>, \<open>deleteTag\<close> and \<open>getRepositoryByBlobDigest\<close>. The
  remote Harbor is the record \<open>harbor_remote\<close>: the base path of its API, the page cap of the
  shared client, and the decoded answers of its endpoints (paged listings go through the
  iterator of \<open>Pagination\<close>). The helpers the client calls from outside \<open>src/\<close> are modelled
  from the design: \<open>utils.ParseRepository\<close> (project and repository part of a name) and the
  path encoding pair \<open>repository.Encode\<close>/\<open>Decode\<close> (a slash becomes \<open>%252F\<close>), together
  with the server's routing of a request path back to a repository name.
\<close>

section \<open>Records\<close>

text \<open>\<open>models.RepoRecord\<close>, as the Harbor API and the repository table hold it.\<close>

record repo_record =
  repository_id :: int
  rr_name :: string
  project_id :: int
  description :: string
  pull_count :: int
  star_count :: int
  creation_time :: int
  update_time :: int

text \<open>\<open>base.Project\<close> and the artifact of the Harbor API (label and tag names).\<close>

record harbor_project =
  proj_name :: string
  proj_metadata :: jmap

record remote_artifact =
  ra_type :: string
  ra_digest :: string
  ra_labels :: "string list"
  ra_tags :: "string list"

record harbor_remote =
  base_path :: string
  page_cap :: nat
  repo_pages :: "repo_record endpoint"
  artifact_pages :: "remote_artifact endpoint"
  get_repo_records :: "string \<Rightarrow> repo_record list result"
  delete_request :: "string \<Rightarrow> unit result"

section \<open>Repository names in paths\<close>

definition slash :: char where "slash = CHR ''/''"

definition trim_slashes :: "string \<Rightarrow> string" where
  "trim_slashes s = rev (dropWhile (\<lambda>c. c = slash) (rev (dropWhile (\<lambda>c. c = slash) s)))"

text \<open>\<open>utils.ParseRepository\<close>: the part before the first slash is the project.\<close>

definition parse_repository :: "string \<Rightarrow> string \<times> string" where
  "parse_repository repo =
     (let s = trim_slashes repo in
      if slash \<notin> set s then ([], s)
      else (takeWhile (\<lambda>c. c \<noteq> slash) s, tl (dropWhile (\<lambda>c. c \<noteq> slash) s)))"

definition encode_repo :: "string \<Rightarrow> string" where
  "encode_repo r = replace_char slash ''%252F'' r"

fun decode_repo :: "string \<Rightarrow> string" where
  "decode_repo [] = []"
| "decode_repo (c # cs) =
     (if take 5 (c # cs) = ''%252F'' then slash # decode_repo (drop 4 cs) else c # decode_repo cs)"

section \<open>The client operations\<close>

definition no_cancel :: "nat \<Rightarrow> bool" where "no_cancel i = False"

definition repositories_url :: "harbor_remote \<Rightarrow> harbor_project \<Rightarrow> string" where
  "repositories_url cl p = base_path cl @ ''/projects/'' @ proj_name p @ ''/repositories''"

definition list_repositories :: "harbor_remote \<Rightarrow> harbor_project \<Rightarrow> repository slice result" where
  "list_repositories cl p =
     (case fst (get_and_iterate_pagination (page_cap cl) no_cancel (repo_pages cl) (repositories_url cl p)) of
        Inl e \<Rightarrow> Inl e
      | Inr records \<Rightarrow>
          Inr (append_all None (map (\<lambda>r. \<lparr>repo_name = rr_name r, repo_metadata = proj_metadata p\<rparr>) records)))"

definition artifacts_url :: "harbor_remote \<Rightarrow> string \<Rightarrow> string" where
  "artifacts_url cl repo =
     (let (project, r) = parse_repository repo
      in base_path cl @ ''/projects/'' @ project @ ''/repositories/'' @ encode_repo r
           @ ''/artifacts?with_label=true'')"

definition to_model_artifact :: "remote_artifact \<Rightarrow> artifact" where
  "to_model_artifact a =
     \<lparr>art_type = ra_type a, art_digest = ra_digest a,
      art_labels = append_all None (ra_labels a), art_tags = append_all None (ra_tags a)\<rparr>"

definition list_artifacts :: "harbor_remote \<Rightarrow> string \<Rightarrow> artifact slice result" where
  "list_artifacts cl repo =
     (case fst (get_and_iterate_pagination (page_cap cl) no_cancel (artifact_pages cl) (artifacts_url cl repo)) of
        Inl e \<Rightarrow> Inl e
      | Inr arts \<Rightarrow> Inr (append_all None (map to_model_artifact arts)))"

definition delete_tag_url :: "harbor_remote \<Rightarrow> string \<Rightarrow> string \<Rightarrow> string" where
  "delete_tag_url cl repo tag =
     (let (project, r) = parse_repository repo
      in base_path cl @ ''/projects/'' @ project @ ''/repositories/'' @ encode_repo r
           @ ''/artifacts/'' @ tag @ ''/tags/'' @ tag)"

definition delete_tag :: "harbor_remote \<Rightarrow> string \<Rightarrow> string \<Rightarrow> unit result" where
  "delete_tag cl repo tag = delete_request cl (delete_tag_url cl repo tag)"

definition blob_digest_url :: "harbor_remote \<Rightarrow> string \<Rightarrow> string" where
  "blob_digest_url cl digest =
     base_path cl @ ''/repositories?q=blob_digest='' @ digest @ ''&page_size=1&page_number=1''"

definition get_repository_by_blob_digest :: "harbor_remote \<Rightarrow> string \<Rightarrow> string result" where
  "get_repository_by_blob_digest cl digest =
     (case get_repo_records cl (blob_digest_url cl digest) of
        Inl e \<Rightarrow> Inl e
      | Inr [] \<Rightarrow> Inr []
      | Inr (r # _) \<Rightarrow> Inr (rr_name r))"

section \<open>The server side: routing a request path\<close>

text \<open>
  The Harbor API that receives the adapter's requests reads the project and the encoded
  repository from the path segments after \<open>/projects/\<close> and decodes the latter; the query
  string is not part of the path.
\<close>

definition route_repository :: "string \<Rightarrow> string \<Rightarrow> string option" where
  "route_repository base url =
     (if take (length base) url \<noteq> base then None
      else (let segs = split_on [slash] (takeWhile (\<lambda>c. c \<noteq> CHR ''?'') (drop (length base) url))
            in if 5 \<le> length segs \<and> segs ! 0 = [] \<and> segs ! 1 = ''projects''
                  \<and> segs ! 3 = ''repositories''
               then Some (segs ! 2 @ slash # decode_repo (segs ! 4)) else None))"

section \<open>Lemmas\<close>

lemma slash_not_in_encode_repo: "slash \<notin> set (encode_repo r)"
  by (simp add: encode_repo_def replace_char_not_in slash_def)

lemma decode_repo_encode_repo:
  "CHR ''%'' \<notin> set r \<Longrightarrow> decode_repo (encode_repo r) = r"
proof (induction r)
  case Nil
  then show ?case by (simp add: encode_repo_def)
next
  case (Cons c r)
  then show ?case
    by (cases "c = slash") (auto simp: encode_repo_def slash_def)
qed

lemma trim_slashes_inner:
  assumes "p \<noteq> []" "hd p \<noteq> slash" "r \<noteq> []" "last r \<noteq> slash"
  shows "trim_slashes (p @ slash # r) = p @ slash # r"
proof -
  have "dropWhile (\<lambda>c. c = slash) (p @ slash # r) = p @ slash # r"
    using assms(1,2) by (cases p) auto
  moreover have "dropWhile (\<lambda>c. c = slash) (rev (p @ slash # r)) = rev (p @ slash # r)"
    using assms(3,4) by (cases "rev r") (auto simp: last_rev [symmetric] rev_swap)
  ultimately show ?thesis by (simp add: trim_slashes_def)
qed

lemma parse_repository_inner:
  assumes "p \<noteq> []" "slash \<notin> set p" "r \<noteq> []" "last r \<noteq> slash"
  shows "parse_repository (p @ slash # r) = (p, r)"
proof -
  have "hd p \<noteq> slash" using assms(1,2) by (cases p) auto
  then have t: "trim_slashes (p @ slash # r) = p @ slash # r"
    using assms by (simp add: trim_slashes_inner)
  have "takeWhile (\<lambda>c. c \<noteq> slash) (p @ slash # r) = p"
    using assms(2) by (induction p) auto
  moreover have "dropWhile (\<lambda>c. c \<noteq> slash) (p @ slash # r) = slash # r"
    using assms(2) by (induction p) auto
  ultimately show ?thesis using t by (simp add: parse_repository_def Let_def)
qed

lemma route_repository_path:
  assumes "slash \<notin> set p" "slash \<notin> set e" "CHR ''?'' \<notin> set p" "CHR ''?'' \<notin> set e"
  shows "route_repository base (base @ ''/projects/'' @ p @ ''/repositories/'' @ e @ ''/'' @ rest)
       = Some (p @ slash # decode_repo e)"
  using assms by (simp add: route_repository_def slash_def)

lemma question_not_in_encode_repo: "CHR ''?'' \<notin> set r \<Longrightarrow> CHR ''?'' \<notin> set (encode_repo r)"
  by (simp add: encode_repo_def set_replace_char)

section \<open>Properties of the client\<close>

text \<open>A small remote Harbor used by the witnesses: one repository with one artifact.\<close>

definition demo_artifact :: remote_artifact where
  "demo_artifact = \<lparr>ra_type = ''IMAGE'', ra_digest = ''sha256:a1'', ra_labels = [], ra_tags = [''latest'']\<rparr>"

definition demo_record :: repo_record where
  "demo_record = \<lparr>repository_id = 1, rr_name = ''library/hello'', project_id = 1, description = [],
     pull_count = 0, star_count = 0, creation_time = 0, update_time = 0\<rparr>"

definition demo_remote :: harbor_remote where
  "demo_remote = \<lparr>base_path = ''https://reg.example/api/v2.0'', page_cap = 10,
     repo_pages = (\<lambda>u. Inr ([demo_record], None)),
     artifact_pages = (\<lambda>u. Inr ([demo_artifact], None)),
     get_repo_records = (\<lambda>u. Inr [demo_record]),
     delete_request = (\<lambda>u. Inr ())\<rparr>"

text \<open>
  Claim C1: over a correctly linked artifact listing within the page cap, \<open>listArtifacts\<close>
  returns one canonical artifact per remote artifact, in server order (type and digest
  copied, label and tag names collected); no artifacts give a nil slice.
\<close>

theorem harbor_list_artifacts_in_order:
  assumes "linked (artifact_pages cl) (artifacts_url cl repo) pages" and "length pages \<le> page_cap cl"
  shows "list_artifacts cl repo =
           Inr (if concat pages = [] then None else Some (map to_model_artifact (concat pages)))"
  using pagination_linked_in_order [OF assms, of no_cancel]
  by (simp add: list_artifacts_def no_cancel_def append_all_None)

theorem harbor_list_artifacts_in_order_witness:
  "linked (artifact_pages demo_remote) (artifacts_url demo_remote ''library/hello'') [[demo_artifact]]
   \<and> length [[demo_artifact]] \<le> page_cap demo_remote
   \<and> list_artifacts demo_remote ''library/hello'' = Inr (Some [to_model_artifact demo_artifact])"
proof -
  have l: "linked (artifact_pages demo_remote) (artifacts_url demo_remote ''library/hello'') [[demo_artifact]]"
    by (simp add: demo_remote_def)
  have c: "length [[demo_artifact]] \<le> page_cap demo_remote" by (simp add: demo_remote_def)
  show ?thesis using harbor_list_artifacts_in_order [OF l c] l c by simp
qed

text \<open>
  The wire shape of an artifact built by \<open>listArtifacts\<close>: a remote artifact
  without labels (or tags) yields a nil slice, which \<open>encoding/json\<close> writes as \<open>null\<close>
  and not as an empty array.
\<close>

theorem harbor_artifact_wire_shape:
  "enc_artifact (to_model_artifact a) = JObj
     [(''type'', enc_str (ra_type a)), (''digest'', enc_str (ra_digest a)),
      (''labels'', if ra_labels a = [] then JNull else JArr (map enc_str (ra_labels a))),
      (''tags'', if ra_tags a = [] then JNull else JArr (map enc_str (ra_tags a)))]"
  by (simp add: enc_artifact_def to_model_artifact_def append_all_None enc_slice_def)

text \<open>
  The repository path encoding used in request URLs produces a single path segment
  (no slash) and the server's decoding gives the repository back, for names without
  \<open>%\<close>.
\<close>

theorem repo_path_encoding_roundtrip:
  assumes "CHR ''%'' \<notin> set r"
  shows "slash \<notin> set (encode_repo r) \<and> decode_repo (encode_repo r) = r"
  using assms by (simp add: slash_not_in_encode_repo decode_repo_encode_repo)

theorem repo_path_encoding_roundtrip_witness:
  "CHR ''%'' \<notin> set ''goharbor/harbor-core''
   \<and> encode_repo ''goharbor/harbor-core'' = ''goharbor%252Fharbor-core''
   \<and> decode_repo (encode_repo ''goharbor/harbor-core'') = ''goharbor/harbor-core''"
proof -
  have h: "CHR ''%'' \<notin> set ''goharbor/harbor-core''" by simp
  show ?thesis using repo_path_encoding_roundtrip [OF h] h
    by (simp add: encode_repo_def slash_def)
qed

text \<open>
  Claim C2: the listing URL and the tag-deletion URL that the client builds for the same
  repository are routed by the server to that same repository name: both calls use one
  encode/decode pair.
\<close>

theorem harbor_list_and_delete_route_same_repository:
  assumes "p \<noteq> []" "slash \<notin> set p" "r \<noteq> []" "last r \<noteq> slash"
    and "CHR ''%'' \<notin> set r" "CHR ''?'' \<notin> set p" "CHR ''?'' \<notin> set r"
  shows "route_repository (base_path cl) (artifacts_url cl (p @ slash # r)) = Some (p @ slash # r)
       \<and> route_repository (base_path cl) (delete_tag_url cl (p @ slash # r) tag) = Some (p @ slash # r)"
proof -
  have pr: "parse_repository (p @ slash # r) = (p, r)"
    using assms(1-4) by (rule parse_repository_inner)
  have e: "slash \<notin> set (encode_repo r)" "CHR ''?'' \<notin> set (encode_repo r)"
    using assms(7) by (simp_all add: slash_not_in_encode_repo question_not_in_encode_repo)
  have d: "decode_repo (encode_repo r) = r" using assms(5) by (rule decode_repo_encode_repo)
  have "artifacts_url cl (p @ slash # r) = base_path cl @ ''/projects/'' @ p @ ''/repositories/''
          @ encode_repo r @ ''/'' @ ''artifacts?with_label=true''"
    by (simp add: artifacts_url_def pr)
  moreover have "delete_tag_url cl (p @ slash # r) tag = base_path cl @ ''/projects/'' @ p @ ''/repositories/''
          @ encode_repo r @ ''/'' @ ''artifacts/'' @ tag @ ''/tags/'' @ tag"
    by (simp add: delete_tag_url_def pr)
  ultimately show ?thesis
    using route_repository_path [OF assms(2) e(1) assms(6) e(2)] d by simp
qed

theorem harbor_list_and_delete_route_same_repository_witness:
  "''goharbor'' \<noteq> [] \<and> slash \<notin> set ''goharbor'' \<and> ''harbor/core'' \<noteq> [] \<and> last ''harbor/core'' \<noteq> slash
   \<and> CHR ''%'' \<notin> set ''harbor/core'' \<and> CHR ''?'' \<notin> set ''goharbor'' \<and> CHR ''?'' \<notin> set ''harbor/core''
   \<and> route_repository (base_path demo_remote) (artifacts_url demo_remote (''goharbor'' @ slash # ''harbor/core''))
       = Some (''goharbor'' @ slash # ''harbor/core'')
   \<and> route_repository (base_path demo_remote) (delete_tag_url demo_remote (''goharbor'' @ slash # ''harbor/core'') ''v1'')
       = Some (''goharbor'' @ slash # ''harbor/core'')"
proof -
  have h: "''goharbor'' \<noteq> []" "slash \<notin> set ''goharbor''" "''harbor/core'' \<noteq> []" "last ''harbor/core'' \<noteq> slash"
    "CHR ''%'' \<notin> set ''harbor/core''" "CHR ''?'' \<notin> set ''goharbor''" "CHR ''?'' \<notin> set ''harbor/core''"
    by (simp_all add: slash_def)
  show ?thesis using harbor_list_and_delete_route_same_repository [OF h, of demo_remote "''v1''"] h by simp
qed

text \<open>
  The reverse lookup by blob digest answers the empty name exactly when no
  repository record matched, and otherwise the name of the first record; transport errors
  are not involved in the empty answer.
\<close>

theorem harbor_blob_digest_lookup:
  assumes "get_repo_records cl (blob_digest_url cl d) = Inr rs" and "\<forall>x \<in> set rs. rr_name x \<noteq> []"
  shows "(get_repository_by_blob_digest cl d = Inr [] \<longleftrightarrow> rs = [])
       \<and> (\<forall>x xs. rs = x # xs \<longrightarrow> get_repository_by_blob_digest cl d = Inr (rr_name x))"
  using assms by (cases rs) (auto simp: get_repository_by_blob_digest_def)

theorem harbor_blob_digest_lookup_witness:
  "get_repo_records demo_remote (blob_digest_url demo_remote ''sha256:b0'') = Inr [demo_record]
   \<and> get_repository_by_blob_digest demo_remote ''sha256:b0'' = Inr ''library/hello''"
proof -
  have g: "get_repo_records demo_remote (blob_digest_url demo_remote ''sha256:b0'') = Inr [demo_record]"
    by (simp add: demo_remote_def)
  have n: "\<forall>x \<in> set [demo_record]. rr_name x \<noteq> []" by (simp add: demo_record_def)
  show ?thesis using harbor_blob_digest_lookup [OF g n] g n by (simp add: demo_record_def)
qed

text \<open>
  Over a correctly linked repository listing, \<open>listRepositories\<close> returns the
  repositories in server order, each carrying its project's metadata.
\<close>

theorem harbor_list_repositories_in_order:
  assumes "linked (repo_pages cl) (repositories_url cl p) pages" and "length pages \<le> page_cap cl"
  shows "\<exists>rs. list_repositories cl p = Inr rs
           \<and> map repo_name (slice_elems rs) = map rr_name (concat pages)
           \<and> (\<forall>x \<in> set (slice_elems rs). repo_metadata x = proj_metadata p)"
  using pagination_linked_in_order [OF assms, of no_cancel]
  by (auto simp: list_repositories_def no_cancel_def)

theorem harbor_list_repositories_in_order_witness:
  "linked (repo_pages demo_remote) (repositories_url demo_remote \<lparr>proj_name = ''library'', proj_metadata = None\<rparr>) [[demo_record]]
   \<and> length [[demo_record]] \<le> page_cap demo_remote
   \<and> list_repositories demo_remote \<lparr>proj_name = ''library'', proj_metadata = None\<rparr>
       = Inr (Some [\<lparr>repo_name = ''library/hello'', repo_metadata = None\<rparr>])"
proof -
  have l: "linked (repo_pages demo_remote) (repositories_url demo_remote \<lparr>proj_name = ''library'', proj_metadata = None\<rparr>) [[demo_record]]"
    by (simp add: demo_remote_def)
  have c: "length [[demo_record]] \<le> page_cap demo_remote" by (simp add: demo_remote_def)
  have "\<exists>rs. list_repositories demo_remote \<lparr>proj_name = ''library'', proj_metadata = None\<rparr> = Inr rs
           \<and> map repo_name (slice_elems rs) = map rr_name (concat [[demo_record]])
           \<and> (\<forall>x \<in> set (slice_elems rs). repo_metadata x = proj_metadata \<lparr>proj_name = ''library'', proj_metadata = None\<rparr>)"
    by (rule harbor_list_repositories_in_order [OF l c])
  moreover have "list_repositories demo_remote \<lparr>proj_name = ''library'', proj_metadata = None\<rparr>
       = Inr (Some [\<lparr>repo_name = ''library/hello'', repo_metadata = None\<rparr>])"
    by (simp add: list_repositories_def demo_remote_def get_and_iterate_pagination_def demo_record_def
        no_cancel_def go_append_def numeral_eq_Suc)
  ultimately show ?thesis using l c by simp
qed

text \<open>
  Claim C3: against a remote whose artifact listing always advertises a next page (a
  reference loop), \<open>listArtifacts\<close> fails with the pagination-limit error after the page cap
  instead of hanging or returning a partial listing.
\<close>

theorem harbor_list_artifacts_endless_limit:
  assumes "\<forall>u. \<exists>items nxt. artifact_pages cl u = Inr (items, Some nxt)"
  shows "list_artifacts cl repo = Inl ErrPaginationLimit"
  using pagination_endless_limit [OF assms, of no_cancel "page_cap cl" "artifacts_url cl repo"]
  by (simp add: list_artifacts_def no_cancel_def)

definition looping_remote :: harbor_remote where
  "looping_remote = demo_remote\<lparr>artifact_pages := (\<lambda>u. Inr ([demo_artifact], Some u))\<rparr>"

theorem harbor_list_artifacts_endless_limit_witness:
  "(\<forall>u. \<exists>items nxt. artifact_pages looping_remote u = Inr (items, Some nxt))
   \<and> list_artifacts looping_remote ''library/hello'' = Inl ErrPaginationLimit"
proof -
  have h: "\<forall>u. \<exists>items nxt. artifact_pages looping_remote u = Inr (items, Some nxt)"
    by (simp add: looping_remote_def)
  show ?thesis using harbor_list_artifacts_endless_limit [OF h] h by simp
qed

text \<open>
  Claim C4: \<open>listArtifacts\<close> fails only with the pagination-limit error or with an error
  that a request to the remote returned, passed through unchanged; in particular the client
  itself never produces a cancellation, since it hands the iterator no cancellation token.
\<close>

theorem harbor_list_artifacts_error_source:
  assumes "list_artifacts cl repo = Inl e"
  shows "e = ErrPaginationLimit \<or> (\<exists>u. artifact_pages cl u = Inl e)"
proof -
  have "fst (get_and_iterate_pagination (page_cap cl) no_cancel (artifact_pages cl) (artifacts_url cl repo)) = Inl e"
    using assms by (auto simp: list_artifacts_def split: sum.splits)
  then show ?thesis
    using iterate_pages_error_cases by (fastforce simp: get_and_iterate_pagination_def no_cancel_def)
qed

definition failing_remote :: harbor_remote where
  "failing_remote = demo_remote\<lparr>artifact_pages := (\<lambda>u. Inl (ErrTransport ''502 Bad Gateway''))\<rparr>"

theorem harbor_list_artifacts_error_source_witness:
  "list_artifacts failing_remote ''library/hello'' = Inl (ErrTransport ''502 Bad Gateway'')
   \<and> (ErrTransport ''502 Bad Gateway'' = ErrPaginationLimit
      \<or> (\<exists>u. artifact_pages failing_remote u = Inl (ErrTransport ''502 Bad Gateway'')))"
proof -
  have h: "list_artifacts failing_remote ''library/hello'' = Inl (ErrTransport ''502 Bad Gateway'')"
    by (simp add: list_artifacts_def failing_remote_def demo_remote_def get_and_iterate_pagination_def
        no_cancel_def numeral_eq_Suc)
  show ?thesis using harbor_list_artifacts_error_source [OF h] h by simp
qed

end
