(* ===== verification/Memory_Cache.thy ===== *)
theory Memory_Cache
  imports Prelude
begin

text \<open>
  The in-memory cache (\<open>src/lib/cache/memory/memory.go\<close>). Its state is the \<open>sync.Map\<close>
  from stored keys to entries (encoded bytes and an expiry instant); its options
  (\<open>cache.Options\<close>, not under \<open>src/\<close>) give the key prefix that \<open>Options.Key\<close> prepends,
  the codec and the default expiration. Instants are \<open>time.Now().UnixNano()\<close>, an \<open>int64\<close>:
  a \<open>64 word\<close> read by \<open>sint\<close>, so that \<open>now + d\<close> wraps as the Go arithmetic does. Every
  operation takes the current instant \<open>now\<close> and returns its Go result with the new state.
\<close>

type_synonym i64 = "64 word"

record entry =
  data :: string
  expirated_at :: i64

record 'v cache_opts =
  prefix :: string
  encode :: "'v \<Rightarrow> string result"
  decode :: "string \<Rightarrow> 'v result"
  expiration :: i64

type_synonym storage = "string \<rightharpoonup> entry"

definition max_int64 :: i64 where "max_int64 = 0x7FFFFFFFFFFFFFFF"

text \<open>\<open>Options.Key\<close>: the stored key of a user key.\<close>

definition opt_key :: "'v cache_opts \<Rightarrow> string \<Rightarrow> string" where
  "opt_key opts k = prefix opts @ k"

definition is_expirated :: "i64 \<Rightarrow> entry \<Rightarrow> bool" where
  "is_expirated now e \<longleftrightarrow> sint (expirated_at e) < sint now"

definition cache_delete :: "'v cache_opts \<Rightarrow> storage \<Rightarrow> string \<Rightarrow> storage \<times> unit result" where
  "cache_delete opts st k = (st(opt_key opts k := None), Inr ())"

text \<open>
  \<open>Contains\<close> and \<open>Fetch\<close> evict an expired entry by calling \<open>c.Delete(c.opts.Key(key))\<close>;
  \<open>Delete\<close> applies \<open>opts.Key\<close> once more.
\<close>

definition cache_contains :: "'v cache_opts \<Rightarrow> i64 \<Rightarrow> storage \<Rightarrow> string \<Rightarrow> bool \<times> storage" where
  "cache_contains opts now st k =
     (case st (opt_key opts k) of
        None \<Rightarrow> (False, st)
      | Some e \<Rightarrow> if is_expirated now e then (False, fst (cache_delete opts st (opt_key opts k)))
                  else (True, st))"

definition cache_fetch :: "'v cache_opts \<Rightarrow> i64 \<Rightarrow> storage \<Rightarrow> string \<Rightarrow> 'v result \<times> storage" where
  "cache_fetch opts now st k =
     (case st (opt_key opts k) of
        None \<Rightarrow> (Inl ErrNotFound, st)
      | Some e \<Rightarrow>
          if is_expirated now e then (Inl ErrNotFound, fst (cache_delete opts st (opt_key opts k)))
          else (case decode opts (data e) of
                  Inl _ \<Rightarrow> (Inl ErrDecode, st)
                | Inr v \<Rightarrow> (Inr v, st)))"

definition cache_ping :: "unit result" where
  "cache_ping = Inr ()"

text \<open>\<open>Save\<close>: the optional variadic expiration is \<open>exp\<close>.\<close>

definition save_expiry :: "'v cache_opts \<Rightarrow> i64 \<Rightarrow> i64 option \<Rightarrow> i64" where
  "save_expiry opts now exp =
     (case exp of
        Some d \<Rightarrow> now + d
      | None \<Rightarrow> if 0 < sint (expiration opts) then now + expiration opts else max_int64)"

definition cache_save ::
  "'v cache_opts \<Rightarrow> i64 \<Rightarrow> storage \<Rightarrow> string \<Rightarrow> 'v \<Rightarrow> i64 option \<Rightarrow> storage \<times> unit result" where
  "cache_save opts now st k v exp =
     (case encode opts v of
        Inl _ \<Rightarrow> (st, Inl ErrGeneric)
      | Inr d \<Rightarrow> (st(opt_key opts k \<mapsto> \<lparr>data = d, expirated_at = save_expiry opts now exp\<rparr>), Inr ()))"

definition cache_new :: storage where
  "cache_new = Map.empty"

section \<open>Lemmas\<close>

lemma sint_max_int64 [simp]: "sint max_int64 = 2 ^ 63 - 1"
  by (simp add: max_int64_def)

lemma not_expirated_max [simp]: "\<not> is_expirated now \<lparr>data = d, expirated_at = max_int64\<rparr>"
proof -
  have "sint now \<le> 2 ^ 63 - 1"
    using sint_less [of now] by simp
  then show ?thesis by (simp add: is_expirated_def)
qed

lemma sint_add_no_wrap:
  fixes a b :: i64
  assumes "0 \<le> sint b" and "sint a + sint b < 2 ^ 63"
  shows "sint (a + b) = sint a + sint b"
proof -
  have "- (2 ^ 63) \<le> sint a" using sint_greater_eq [of a] by simp
  with assms have "- (2 ^ 63) \<le> sint a + sint b" by simp
  with assms(2) show ?thesis by (simp add: sint_word_add signed_take_bit_int_eq_self)
qed

lemma cache_fetch_saved:
  assumes "encode opts v = Inr d" and "decode opts d = Inr v'"
    and "\<not> is_expirated t \<lparr>data = d, expirated_at = save_expiry opts now exp\<rparr>"
  shows "fst (cache_fetch opts t (fst (cache_save opts now st k v exp)) k) = Inr v'"
  using assms by (simp add: cache_save_def cache_fetch_def)

lemma sint_add_wrap:
  fixes a b :: i64
  assumes "2 ^ 63 \<le> sint a + sint b"
  shows "sint (a + b) = sint a + sint b - 2 ^ 64"
proof -
  have "sint a < 2 ^ 63" "sint b < 2 ^ 63" using sint_less [of a] sint_less [of b] by simp_all
  then have hi: "sint a + sint b + 2 ^ 63 < 2 ^ 64 + 2 ^ 63" by simp
  have "(sint a + sint b + 2 ^ 63) mod 2 ^ 64 = sint a + sint b + 2 ^ 63 - 2 ^ 64"
  proof -
    have "sint a + sint b + 2 ^ 63 = (sint a + sint b + 2 ^ 63 - 2 ^ 64) + 1 * 2 ^ 64" by simp
    moreover have "0 \<le> sint a + sint b + 2 ^ 63 - 2 ^ 64" using assms by simp
    moreover have "sint a + sint b + 2 ^ 63 - 2 ^ 64 < 2 ^ 64" using hi by simp
    ultimately show ?thesis by (metis mod_mult_self1 mod_pos_pos_trivial)
  qed
  then show ?thesis
    by (simp add: sint_word_add signed_take_bit_eq_take_bit_shift take_bit_eq_mod)
qed

lemma sint_bounds_i64: "- (2 ^ 63) \<le> sint (x :: i64) \<and> sint x < 2 ^ 63"
  using sint_greater_eq [of x] sint_less [of x] by simp

section \<open>Properties of the cache\<close>

text \<open>Options used by the witnesses: prefix \<open>cache:\<close>, the identity codec on strings.\<close>

definition demo_opts :: "string cache_opts" where
  "demo_opts = \<lparr>prefix = ''cache:'', encode = Inr, decode = Inr, expiration = 0\<rparr>"

text \<open>
  Claim C8: a value saved with an expiration \<open>d \<ge> 0\<close> whose expiry instant does not overflow
  is fetched back (decoded by the codec) at every instant from the save up to the expiry
  instant inclusive.
\<close>

theorem cache_save_fetch_roundtrip:
  assumes "encode opts v = Inr d" and "decode opts d = Inr v"
    and "0 \<le> sint dur" and "sint now + sint dur < 2 ^ 63"
    and "sint now \<le> sint t" and "sint t \<le> sint now + sint dur"
  shows "fst (cache_fetch opts t (fst (cache_save opts now st k v (Some dur))) k) = Inr v"
proof -
  have "sint (now + dur) = sint now + sint dur"
    using assms(3,4) by (rule sint_add_no_wrap)
  then have "\<not> is_expirated t \<lparr>data = d, expirated_at = save_expiry opts now (Some dur)\<rparr>"
    using assms(6) by (simp add: is_expirated_def save_expiry_def)
  then show ?thesis by (rule cache_fetch_saved [OF assms(1,2)])
qed

theorem cache_save_fetch_roundtrip_witness:
  "encode demo_opts ''v'' = Inr ''v'' \<and> decode demo_opts ''v'' = Inr ''v''
   \<and> 0 \<le> sint (100 :: i64) \<and> sint (10 :: i64) + sint (100 :: i64) < 2 ^ 63
   \<and> sint (10 :: i64) \<le> sint (110 :: i64) \<and> sint (110 :: i64) \<le> sint (10 :: i64) + sint (100 :: i64)
   \<and> fst (cache_fetch demo_opts 110 (fst (cache_save demo_opts 10 cache_new ''k'' ''v'' (Some 100))) ''k'') = Inr ''v''"
proof -
  have h: "encode demo_opts ''v'' = Inr ''v''" "decode demo_opts ''v'' = Inr ''v''"
    "0 \<le> sint (100 :: i64)" "sint (10 :: i64) + sint (100 :: i64) < 2 ^ 63"
    "sint (10 :: i64) \<le> sint (110 :: i64)" "sint (110 :: i64) \<le> sint (10 :: i64) + sint (100 :: i64)"
    by (simp_all add: demo_opts_def)
  show ?thesis using cache_save_fetch_roundtrip [OF h, of cache_new "''k''"] h by simp
qed

text \<open>
  A value saved without an explicit expiration, when the options give no positive
  default, is stored with expiry \<open>math.MaxInt64\<close> and is fetched back at every instant.
\<close>

theorem cache_save_default_never_expires:
  assumes "encode opts v = Inr d" and "decode opts d = Inr v" and "sint (expiration opts) \<le> 0"
  shows "\<forall>t. fst (cache_fetch opts t (fst (cache_save opts now st k v None)) k) = Inr v"
proof
  fix t
  have "\<not> is_expirated t \<lparr>data = d, expirated_at = save_expiry opts now None\<rparr>"
    using assms(3) by (simp add: save_expiry_def)
  then show "fst (cache_fetch opts t (fst (cache_save opts now st k v None)) k) = Inr v"
    by (rule cache_fetch_saved [OF assms(1,2)])
qed

theorem cache_save_default_never_expires_witness:
  "encode demo_opts ''v'' = Inr ''v'' \<and> decode demo_opts ''v'' = Inr ''v'' \<and> sint (expiration demo_opts) \<le> 0
   \<and> fst (cache_fetch demo_opts max_int64 (fst (cache_save demo_opts 0 cache_new ''k'' ''v'' None)) ''k'') = Inr ''v''"
proof -
  have h: "encode demo_opts ''v'' = Inr ''v''" "decode demo_opts ''v'' = Inr ''v''" "sint (expiration demo_opts) \<le> 0"
    by (simp_all add: demo_opts_def)
  show ?thesis using cache_save_default_never_expires [OF h, of 0 cache_new "''k''"] h by simp
qed

text \<open>
  A stored entry whose expiry instant is before the current instant is reported
  absent by both readers: \<open>Fetch\<close> returns \<open>cache.ErrNotFound\<close> and \<open>Contains\<close> false.
\<close>

theorem cache_expired_not_found:
  assumes "st (opt_key opts k) = Some e" and "is_expirated t e"
  shows "fst (cache_fetch opts t st k) = Inl ErrNotFound \<and> \<not> fst (cache_contains opts t st k)"
  using assms by (simp add: cache_fetch_def cache_contains_def)

definition one_entry :: storage where
  "one_entry = cache_new(''cache:k'' \<mapsto> \<lparr>data = ''v'', expirated_at = 5\<rparr>)"

theorem cache_expired_not_found_witness:
  "one_entry (opt_key demo_opts ''k'') = Some \<lparr>data = ''v'', expirated_at = 5\<rparr>
   \<and> is_expirated 9 \<lparr>data = ''v'', expirated_at = 5\<rparr>
   \<and> fst (cache_fetch demo_opts 9 one_entry ''k'') = Inl ErrNotFound"
proof -
  have h: "one_entry (opt_key demo_opts ''k'') = Some \<lparr>data = ''v'', expirated_at = 5\<rparr>"
    "is_expirated 9 \<lparr>data = ''v'', expirated_at = 5\<rparr>"
    by (simp_all add: is_expirated_def one_entry_def opt_key_def demo_opts_def)
  show ?thesis
    using cache_expired_not_found [where st = one_entry and opts = demo_opts and k = "''k''", OF h] h
    by simp
qed

text \<open>
  Claim C9: with a non-empty key prefix, evicting an expired entry misses it: \<open>Contains\<close>
  passes the already prefixed key to \<open>Delete\<close>, which prefixes it again, so the expired entry
  stays in the map and the live entry stored under the doubly prefixed key is removed instead.
\<close>

theorem cache_eviction_deletes_wrong_key:
  assumes "prefix opts \<noteq> []" and "st (opt_key opts k) = Some e" and "is_expirated t e"
    and "st (opt_key opts (opt_key opts k)) = Some e2" and "\<not> is_expirated t e2"
  shows "snd (cache_contains opts t st k) (opt_key opts k) = Some e
       \<and> \<not> fst (cache_contains opts t (snd (cache_contains opts t st k)) (opt_key opts k))"
proof -
  have ne: "opt_key opts (opt_key opts k) \<noteq> opt_key opts k"
    using assms(1) by (simp add: opt_key_def)
  have st': "snd (cache_contains opts t st k) = st(opt_key opts (opt_key opts k) := None)"
    using assms(2,3) by (simp add: cache_contains_def cache_delete_def)
  have "snd (cache_contains opts t st k) (opt_key opts k) = Some e"
    using ne assms(2) by (simp add: st')
  moreover have "\<not> fst (cache_contains opts t (snd (cache_contains opts t st k)) (opt_key opts k))"
    by (subst st') (simp add: cache_contains_def)
  ultimately show ?thesis by simp
qed

definition two_entries :: storage where
  "two_entries = cache_new(''cache:k'' \<mapsto> \<lparr>data = ''old'', expirated_at = 5\<rparr>,
                           ''cache:cache:k'' \<mapsto> \<lparr>data = ''live'', expirated_at = 1000\<rparr>)"

theorem cache_eviction_deletes_wrong_key_witness:
  "prefix demo_opts \<noteq> [] \<and> two_entries (opt_key demo_opts ''k'') = Some \<lparr>data = ''old'', expirated_at = 5\<rparr>
   \<and> is_expirated 9 \<lparr>data = ''old'', expirated_at = 5\<rparr>
   \<and> two_entries (opt_key demo_opts (opt_key demo_opts ''k'')) = Some \<lparr>data = ''live'', expirated_at = 1000\<rparr>
   \<and> \<not> is_expirated 9 \<lparr>data = ''live'', expirated_at = 1000\<rparr>
   \<and> snd (cache_contains demo_opts 9 two_entries ''k'') ''cache:k'' = Some \<lparr>data = ''old'', expirated_at = 5\<rparr>
   \<and> \<not> fst (cache_contains demo_opts 9 (snd (cache_contains demo_opts 9 two_entries ''k'')) ''cache:k'')"
proof -
  have h: "prefix demo_opts \<noteq> []" "two_entries (opt_key demo_opts ''k'') = Some \<lparr>data = ''old'', expirated_at = 5\<rparr>"
    "is_expirated 9 \<lparr>data = ''old'', expirated_at = 5\<rparr>"
    "two_entries (opt_key demo_opts (opt_key demo_opts ''k'')) = Some \<lparr>data = ''live'', expirated_at = 1000\<rparr>"
    "\<not> is_expirated 9 \<lparr>data = ''live'', expirated_at = 1000\<rparr>"
    by (simp_all add: demo_opts_def two_entries_def opt_key_def is_expirated_def)
  show ?thesis using cache_eviction_deletes_wrong_key [OF h] h by (simp add: demo_opts_def opt_key_def)
qed

text \<open>
  Claim C10: the expiry instant is computed in \<open>int64\<close>: when \<open>now + d\<close> passes
  \<open>math.MaxInt64\<close> it wraps to a negative instant, and a value saved with a positive
  expiration is already expired when fetched at the instant of the save.
\<close>

theorem cache_expiry_overflow:
  assumes "encode opts v = Inr d" and "0 \<le> sint now" and "2 ^ 63 \<le> sint now + sint dur"
  shows "fst (cache_fetch opts now (fst (cache_save opts now st k v (Some dur))) k) = Inl ErrNotFound"
proof -
  have "sint (now + dur) = sint now + sint dur - 2 ^ 64"
    using assms(3) by (rule sint_add_wrap)
  moreover have "sint now + sint dur < 2 ^ 64"
    using sint_bounds_i64 [of now] sint_bounds_i64 [of dur] by simp
  ultimately have "is_expirated now \<lparr>data = d, expirated_at = save_expiry opts now (Some dur)\<rparr>"
    using assms(2) by (simp add: is_expirated_def save_expiry_def)
  then show ?thesis using assms(1) by (simp add: cache_save_def cache_fetch_def)
qed

theorem cache_expiry_overflow_witness:
  "encode demo_opts ''v'' = Inr ''v'' \<and> 0 \<le> sint (0x10 :: i64) \<and> 2 ^ 63 \<le> sint (0x10 :: i64) + sint (max_int64)
   \<and> fst (cache_fetch demo_opts 0x10 (fst (cache_save demo_opts 0x10 cache_new ''k'' ''v'' (Some max_int64))) ''k'')
       = Inl ErrNotFound"
proof -
  have h: "encode demo_opts ''v'' = Inr ''v''" "0 \<le> sint (0x10 :: i64)" "2 ^ 63 \<le> sint (0x10 :: i64) + sint (max_int64)"
    by (simp_all add: demo_opts_def)
  show ?thesis using cache_expiry_overflow [OF h, of cache_new "''k''"] h by simp
qed

text \<open>
  After \<open>Delete\<close> of a key, \<open>Contains\<close> of that key is false and \<open>Fetch\<close> of it
  returns \<open>cache.ErrNotFound\<close>.
\<close>

theorem cache_delete_removes:
  "\<not> fst (cache_contains opts t (fst (cache_delete opts st k)) k)
   \<and> fst (cache_fetch opts t (fst (cache_delete opts st k)) k) = Inl ErrNotFound"
  by (simp add: cache_delete_def cache_contains_def cache_fetch_def)

end
