(* ===== verification/Orm.thy ===== *)
theory Orm
  imports Prelude "HOL-Library.Multiset"
begin

text \<open>
  The ORM helpers of \<open>src/lib/orm/orm.go\<close>. The context carries the ORM handle
  (\<open>FromContext\<close>, \<open>NewContext\<close>); \<open>Escape\<close> protects a string for use inside a
  PostgreSQL \<open>LIKE\<close> pattern, whose matching (with the default escape character backslash)
  is the abstract specification \<open>like\<close>; \<open>ParamPlaceholderForIn\<close> builds the placeholders
  of an \<open>IN\<close> list; \<open>CreateInClause\<close> runs the id query and prints the ids with
  \<open>strconv.FormatInt\<close>. Transactions and \<open>ReadOrCreate\<close> are in \<open>Orm_Tx\<close>.
\<close>

section \<open>The ORM in the context\<close>

record 'o orm_context =
  ctx_orm :: "'o option"

definition from_context :: "'o orm_context \<Rightarrow> 'o result" where
  "from_context ctx = (case ctx_orm ctx of None \<Rightarrow> Inl ErrNoOrm | Some orm \<Rightarrow> Inr orm)"

definition new_context :: "'o orm_context \<Rightarrow> 'o \<Rightarrow> 'o orm_context" where
  "new_context ctx orm = ctx\<lparr>ctx_orm := Some orm\<rparr>"

text \<open>\<open>context.Background()\<close> carries no ORM.\<close>

definition background :: "'o orm_context" where
  "background = \<lparr>ctx_orm = None\<rparr>"

text \<open>
  \<open>Context()\<close> and \<open>Clone(ctx)\<close>: a context with a new ORM; \<open>fresh\<close> is the value of
  \<open>orm.NewOrm()\<close>.
\<close>

definition context_with_orm :: "'o \<Rightarrow> 'o orm_context" where
  "context_with_orm fresh = new_context background fresh"

definition clone :: "'o orm_context \<Rightarrow> 'o \<Rightarrow> 'o orm_context" where
  "clone ctx fresh = new_context ctx fresh"

text \<open>The package \<open>init\<close>: the ORM debug flag is on when \<open>ORM_DEBUG\<close> is \<open>true\<close>.\<close>

definition orm_debug :: "(string \<Rightarrow> string) \<Rightarrow> bool" where
  "orm_debug getenv_f \<longleftrightarrow> getenv_f ''ORM_DEBUG'' = ''true''"

section \<open>Pages of a query\<close>

text \<open>
  \<open>QuerySetter\<close> (\<open>lib/orm/query.go\<close>) ends with the query's page: when
  \<open>PageSize\<close> is positive it sets \<open>Limit(PageSize)\<close>, and when \<open>PageNumber\<close> is
  positive as well \<open>Offset(PageSize * (PageNumber - 1))\<close>; otherwise every row is returned.
  \<open>QuerySetterForCount\<close> builds the same filters without the page and without the sorts.
\<close>

definition paginate :: "int \<Rightarrow> int \<Rightarrow> 'a list \<Rightarrow> 'a list" where
  "paginate page_number page_size xs =
     (if 0 < page_size
      then take (nat page_size) (drop (if 0 < page_number then nat (page_size * (page_number - 1)) else 0) xs)
      else xs)"

section \<open>Escape and LIKE\<close>

definition backslash :: char where "backslash = CHR 0x5C"

definition escape :: "string \<Rightarrow> string" where
  "escape s =
     replace_char CHR ''_'' [backslash, CHR ''_'']
       (replace_char CHR ''%'' [backslash, CHR ''%''] (replace_char backslash [backslash, backslash] s))"

text \<open>The same escaping done in one pass: every special character gets a backslash before it.\<close>

definition like_special :: "char \<Rightarrow> bool" where
  "like_special c \<longleftrightarrow> c = backslash \<or> c = CHR ''%'' \<or> c = CHR ''_''"

definition escape_one_pass :: "string \<Rightarrow> string" where
  "escape_one_pass s = concat (map (\<lambda>c. if like_special c then [backslash, c] else [c]) s)"

text \<open>
  PostgreSQL \<open>LIKE\<close>: \<open>%\<close> matches any sequence, \<open>_\<close> any one character, a backslash
  makes the next pattern character literal; a pattern ending in a lone backslash is an error
  in PostgreSQL and matches nothing here.
\<close>

fun like :: "string \<Rightarrow> string \<Rightarrow> bool" where
  "like [] t = (t = [])"
| "like (c # p) [] = (c = CHR ''%'' \<and> like p [])"
| "like (c # p) (x # t) =
     (if c = CHR ''%'' then like p (x # t) \<or> like (c # p) t
      else if c = CHR ''_'' then like p t
      else if c = backslash then (case p of [] \<Rightarrow> False | d # p' \<Rightarrow> x = d \<and> like p' t)
      else x = c \<and> like p t)"

definition sub_string :: "string \<Rightarrow> string \<Rightarrow> bool" where
  "sub_string s t \<longleftrightarrow> (\<exists>i \<le> length t. take (length s) (drop i t) = s)"

section \<open>Placeholders and IN clauses\<close>

definition param_placeholder_for_in :: "int \<Rightarrow> string" where
  "param_placeholder_for_in n = join (replicate (nat n) ''?'') '',''"

text \<open>\<open>strconv.FormatInt(i, 10)\<close> and the reading of a decimal integer.\<close>

definition digit_char :: "nat \<Rightarrow> char" where
  "digit_char d = char_of (48 + d)"

fun format_nat :: "nat \<Rightarrow> string" where
  "format_nat n = (if n < 10 then [digit_char n] else format_nat (n div 10) @ [digit_char (n mod 10)])"

declare format_nat.simps [simp del]

definition format_int :: "int \<Rightarrow> string" where
  "format_int i = (if i < 0 then CHR ''-'' # format_nat (nat (- i)) else format_nat (nat i))"

definition parse_nat :: "string \<Rightarrow> nat" where
  "parse_nat s = foldl (\<lambda>acc c. 10 * acc + (of_char c - 48)) 0 s"

definition parse_int :: "string \<Rightarrow> int" where
  "parse_int s = (case s of c # r \<Rightarrow> if c = CHR ''-'' then - int (parse_nat r) else int (parse_nat s)
                           | [] \<Rightarrow> 0)"

text \<open>
  \<open>CreateInClause\<close>: \<open>query\<close> is the ORM's answer to the id query (an error, or the ids);
  no matching id gives the list \<open>[-1]\<close>.
\<close>

definition create_in_clause :: "'o orm_context \<Rightarrow> ('o \<Rightarrow> int list result) \<Rightarrow> string result" where
  "create_in_clause ctx query =
     (case from_context ctx of
        Inl e \<Rightarrow> Inl e
      | Inr orm \<Rightarrow>
          (case query orm of
             Inl e \<Rightarrow> Inl e
           | Inr ids \<Rightarrow>
               (let ids' = (if ids = [] then [-1] else ids)
                in Inr (''IN ('' @ join (map format_int ids') '','' @ '')''))))"

text \<open>Reading an \<open>IN (...)\<close> list back, as the database parses it.\<close>

definition in_clause_ids :: "string \<Rightarrow> int list" where
  "in_clause_ids c = map parse_int (split_on '','' (butlast (drop 4 c)))"

section \<open>Lemmas\<close>

lemma from_context_new_context [simp]: "from_context (new_context ctx orm) = Inr orm"
  by (simp add: from_context_def new_context_def)

lemma from_context_clone [simp]: "from_context (clone ctx fresh) = Inr fresh \<and> from_context (context_with_orm fresh) = Inr fresh"
  by (simp add: clone_def context_with_orm_def)

lemma from_context_background [simp]: "from_context background = Inl ErrNoOrm"
  by (simp add: from_context_def background_def)

lemma escape_one_pass_Nil [simp]: "escape_one_pass [] = []"
  by (simp add: escape_one_pass_def)

lemma escape_one_pass_Cons [simp]:
  "escape_one_pass (c # s) = (if like_special c then [backslash, c] else [c]) @ escape_one_pass s"
  by (simp add: escape_one_pass_def)

lemma escape_eq_one_pass: "escape s = escape_one_pass s"
  by (induction s) (auto simp: escape_def like_special_def backslash_def)

lemma like_literal_prefix:
  "like (escape_one_pass s @ q) t \<longleftrightarrow> (\<exists>t'. t = s @ t' \<and> like q t')"
proof (induction s arbitrary: t)
  case Nil
  then show ?case by simp
next
  case (Cons c s)
  then show ?case
    by (cases t) (auto simp: like_special_def backslash_def)
qed

lemma like_percent_Cons: "like (CHR ''%'' # p) (x # t) \<longleftrightarrow> like p (x # t) \<or> like (CHR ''%'' # p) t"
  by simp

lemma ex_drop_Cons:
  "(\<exists>i \<le> length (x # t). P (drop i (x # t))) \<longleftrightarrow> P (x # t) \<or> (\<exists>i \<le> length t. P (drop i t))"
proof
  assume "\<exists>i \<le> length (x # t). P (drop i (x # t))"
  then obtain i where "i \<le> Suc (length t)" "P (drop i (x # t))" by auto
  then show "P (x # t) \<or> (\<exists>i \<le> length t. P (drop i t))"
    by (cases i) auto
next
  assume "P (x # t) \<or> (\<exists>i \<le> length t. P (drop i t))"
  then show "\<exists>i \<le> length (x # t). P (drop i (x # t))"
  proof
    assume "P (x # t)"
    then show ?thesis by (intro exI [of _ 0]) simp
  next
    assume "\<exists>i \<le> length t. P (drop i t)"
    then obtain i where "i \<le> length t" "P (drop i t)" by blast
    then show ?thesis by (intro exI [of _ "Suc i"]) simp
  qed
qed

lemma like_percent: "like (CHR ''%'' # p) t \<longleftrightarrow> (\<exists>i \<le> length t. like p (drop i t))"
proof (induction t)
  case Nil
  then show ?case by simp
next
  case (Cons x t)
  then show ?case by (simp only: like_percent_Cons ex_drop_Cons)
qed

lemma like_percent_only [simp]: "like ''%'' t"
  using like_percent [of "[]" t] by auto

lemma of_char_digit [simp]: "d < 10 \<Longrightarrow> of_char (digit_char d) = 48 + d"
  by (simp add: digit_char_def)

lemma format_nat_small: "n < 10 \<Longrightarrow> format_nat n = [digit_char n]"
  by (simp add: format_nat.simps)

lemma format_nat_big: "\<not> n < 10 \<Longrightarrow> format_nat n = format_nat (n div 10) @ [digit_char (n mod 10)]"
  by (simp add: format_nat.simps [of n])

lemma format_nat_digits: "c \<in> set (format_nat n) \<Longrightarrow> \<exists>d < 10. c = digit_char d"
proof (induction n rule: format_nat.induct)
  case (1 n)
  then show ?case
    by (cases "n < 10") (auto simp: format_nat_small format_nat_big intro: exI [of _ "n mod 10"])
qed

lemma parse_nat_snoc: "parse_nat (s @ [c]) = 10 * parse_nat s + (of_char c - 48)"
  by (simp add: parse_nat_def)

lemma parse_format_nat: "parse_nat (format_nat n) = n"
proof (induction n rule: format_nat.induct)
  case (1 n)
  show ?case
  proof (cases "n < 10")
    case True
    then show ?thesis by (simp add: format_nat_small parse_nat_def)
  next
    case False
    with "1.IH" show ?thesis by (simp add: format_nat_big parse_nat_snoc)
  qed
qed

lemma digit_char_not_minus: "d < 10 \<Longrightarrow> digit_char d \<noteq> CHR ''-''"
proof
  assume "d < 10" "digit_char d = CHR ''-''"
  then have "48 + d = of_char (CHR ''-'')" by (metis of_char_digit)
  then show False by simp
qed

lemma digit_char_not_comma: "d < 10 \<Longrightarrow> digit_char d \<noteq> CHR '',''"
proof
  assume "d < 10" "digit_char d = CHR '',''"
  then have "48 + d = of_char (CHR '','')" by (metis of_char_digit)
  then show False by simp
qed

lemma format_nat_Cons: "\<exists>c r. format_nat n = c # r \<and> c \<noteq> CHR ''-''"
proof (cases "format_nat n")
  case Nil
  then show ?thesis
    by (cases "n < 10") (simp_all add: format_nat_small format_nat_big)
next
  case (Cons c r)
  then obtain d where "d < 10" "c = digit_char d" using format_nat_digits [of c n] by auto
  with Cons show ?thesis using digit_char_not_minus by blast
qed

lemma parse_format_int [simp]: "parse_int (format_int i) = i"
proof (cases "i < 0")
  case True
  then show ?thesis by (simp add: format_int_def parse_int_def parse_format_nat)
next
  case False
  obtain c r where cr: "format_nat (nat i) = c # r" "c \<noteq> CHR ''-''"
    using format_nat_Cons by blast
  with False show ?thesis
    using parse_format_nat [of "nat i"] by (simp add: format_int_def parse_int_def)
qed

lemma comma_not_in_format_nat: "CHR '','' \<notin> set (format_nat n)"
  using format_nat_digits digit_char_not_comma by metis

lemma comma_not_in_format_int: "CHR '','' \<notin> set (format_int i)"
  using comma_not_in_format_nat by (simp add: format_int_def)

lemma like_escape_prefix:
  "like (escape s @ q) t \<longleftrightarrow> (\<exists>t'. t = s @ t' \<and> like q t')"
  by (simp add: escape_eq_one_pass like_literal_prefix)

text \<open>An unescaped pattern without \<open>%\<close> or backslash matches every string of its length
  that agrees with it outside its underscores.\<close>

lemma like_wild_prefix:
  assumes "backslash \<notin> set p" "CHR ''%'' \<notin> set p" "length t = length p"
    "\<forall>j < length p. p ! j = CHR ''_'' \<or> t ! j = p ! j"
  shows "like (p @ q) (t @ u) \<longleftrightarrow> like q u"
  using assms
proof (induction p arbitrary: t)
  case Nil
  then show ?case by simp
next
  case (Cons c p)
  then obtain x t' where t: "t = x # t'" by (cases t) auto
  have hd: "c = CHR ''_'' \<or> x = c" using Cons.prems(4) t by force
  have tl: "\<forall>j < length p. p ! j = CHR ''_'' \<or> t' ! j = p ! j" using Cons.prems(4) t by force
  have "like (p @ q) (t' @ u) \<longleftrightarrow> like q u" using Cons.IH [OF _ _ _ tl] Cons.prems t by simp
  then show ?case using hd Cons.prems(1,2) t by auto
qed

lemma like_percent_append: "like (CHR ''%'' # p) t \<longleftrightarrow> (\<exists>u v. t = u @ v \<and> like p v)"
  unfolding like_percent
proof
  assume "\<exists>i \<le> length t. like p (drop i t)"
  then show "\<exists>u v. t = u @ v \<and> like p v" by (metis append_take_drop_id)
next
  assume "\<exists>u v. t = u @ v \<and> like p v"
  then obtain u v where "t = u @ v" "like p v" by blast
  then show "\<exists>i \<le> length t. like p (drop i t)" by (intro exI [of _ "length u"]) simp
qed

lemma join_qmarks_split:
  "0 < n \<Longrightarrow> split_on '','' (join (replicate n ''?'') '','') = replicate n ''?''"
  by (rule split_on_single_join) auto

lemma in_clause_ids_join:
  "xs \<noteq> [] \<Longrightarrow> in_clause_ids (''IN ('' @ join (map format_int xs) '','' @ '')'') = xs"
proof -
  assume "xs \<noteq> []"
  then have "split_on '','' (join (map format_int xs) '','') = map format_int xs"
    by (intro split_on_single_join) (auto simp: comma_not_in_format_int)
  then show ?thesis
    by (simp add: in_clause_ids_def butlast_append map_idI comp_def)
qed

lemma paginate_subset: "mset (paginate pn ps xs) \<subseteq># mset xs"
proof -
  have t: "mset (take n ys) \<subseteq># mset ys" for n and ys :: "'a list"
    by (metis append_take_drop_id mset_append mset_subset_eq_add_left)
  have d: "mset (drop n ys) \<subseteq># mset ys" for n and ys :: "'a list"
    by (metis append_take_drop_id mset_append mset_subset_eq_add_right)
  have "mset (take n (drop m xs)) \<subseteq># mset xs" for n m
    using t d by (rule subset_mset.order_trans)
  then show ?thesis by (simp add: paginate_def)
qed

lemma length_paginate:
  "length (paginate pn ps xs) =
     (if 0 < ps then min (nat ps) (length xs - (if 0 < pn then nat (ps * (pn - 1)) else 0)) else length xs)"
  by (simp add: paginate_def min.commute)

lemma paginate_map: "paginate pn ps (map f xs) = map f (paginate pn ps xs)"
  by (simp add: paginate_def take_map drop_map)

lemma paginate_unpaged [simp]: "ps \<le> 0 \<Longrightarrow> paginate pn ps xs = xs"
  by (simp add: paginate_def)

section \<open>Properties\<close>

text \<open>An escaped string used as a \<open>LIKE\<close> pattern matches exactly that string.\<close>

theorem escape_like_exact: "like (escape s) t \<longleftrightarrow> t = s"
  using like_escape_prefix [of s "[]" t] by simp

text \<open>
  The pattern \<open>%\<close>, escaped string, \<open>%\<close> matches exactly the texts that
  contain the string, whatever backslashes, percent signs and underscores it holds.
\<close>

theorem escape_like_contains:
  "like (CHR ''%'' # escape s @ ''%'') t \<longleftrightarrow> (\<exists>u v. t = u @ s @ v)"
  by (auto simp: like_percent_append like_escape_prefix)

text \<open>
  Claim C13: the three successive replacements of \<open>Escape\<close> (backslash first, then
  \<open>%\<close>, then \<open>_\<close>) are equivalent to a single pass that puts one backslash before each
  special character. Nothing is escaped twice, and the result is longer by exactly the number
  of special characters.
\<close>

theorem escape_single_pass:
  "escape s = escape_one_pass s \<and> length (escape s) = length s + length (filter like_special s)"
proof -
  have "length (escape_one_pass s) = length s + length (filter like_special s)"
    by (induction s) auto
  then show ?thesis by (simp add: escape_eq_one_pass)
qed

text \<open>
  For a positive count \<open>n\<close>, \<open>ParamPlaceholderForIn\<close> gives \<open>n\<close> question marks
  separated by commas; for \<open>n \<le> 0\<close> it gives the empty string.
\<close>

theorem param_placeholder_for_in_count:
  "param_placeholder_for_in n =
     (if n \<le> 0 then [] else ''?'' @ concat (replicate (nat n - 1) '',?''))"
proof -
  have "join (replicate (Suc k) ''?'') '','' = ''?'' @ concat (replicate k '',?'')" for k
    by (induction k) auto
  then show ?thesis
    by (cases "nat n") (auto simp: param_placeholder_for_in_def)
qed

text \<open>
  Claim C14: with an ORM in the context and an id query that returns the list \<open>ids\<close>,
  \<open>CreateInClause\<close> returns an \<open>IN (...)\<close> clause that the database reads back as exactly
  \<open>ids\<close>, or as \<open>[-1]\<close> (no row) when \<open>ids\<close> is empty.
\<close>

theorem create_in_clause_ids:
  assumes "ctx_orm ctx = Some orm" and "query orm = Inr ids"
  shows "\<exists>c. create_in_clause ctx query = Inr c \<and>
             in_clause_ids c = (if ids = [] then [-1] else ids)"
  using assms in_clause_ids_join [of "[-1]"] in_clause_ids_join [of ids]
  by (simp add: create_in_clause_def from_context_def)

theorem create_in_clause_ids_witness:
  "\<exists>c. create_in_clause \<lparr>ctx_orm = Some (0::nat)\<rparr> (\<lambda>_. Inr [3, -12]) = Inr c \<and>
       in_clause_ids c = [3, -12]"
  using create_in_clause_ids [of "\<lparr>ctx_orm = Some (0::nat)\<rparr>" 0 "\<lambda>_. Inr [3, -12]" "[3, -12]"]
  by simp

end
