(* ===== verification/Orm_Tx.thy ===== *)
theory Orm_Tx
  imports Orm
begin

text \<open>
  \<open>WithTransaction\<close> and \<open>ReadOrCreate\<close> of \<open>src/lib/orm/orm.go\<close>. The database is a
  value of type \<open>'db\<close> passed through the calls. A transaction is begun, the body runs, and
  then the transaction is committed, or rolled back if the body failed. Each of begin,
  commit and rollback may fail, as the record \<open>tx_faults\<close> says. A failed transaction
  leaves the database as it was. The body's result is what the Go closure writes to
  the captured variables (the id of \<open>Insert\<close>). \<open>ReadOrCreate\<close> works on a table whose
  rows are unique on the key columns \<open>key\<close>. The writes other sessions commit between
  its steps are the explicit interleavings \<open>iv1\<close> (between the read and the insert) and
  \<open>iv2\<close> (between a failed insert and the second read).
\<close>

section \<open>Transactions\<close>

record tx_faults =
  begin_fault :: "herror option"
  commit_fault :: "herror option"
  rollback_fault :: "herror option"

definition no_faults :: tx_faults where
  "no_faults = \<lparr>begin_fault = None, commit_fault = None, rollback_fault = None\<rparr>"

definition with_transaction ::
  "'o orm_context \<Rightarrow> tx_faults \<Rightarrow> ('db \<Rightarrow> ('a \<times> 'db) result) \<Rightarrow> 'db \<Rightarrow> 'a result \<times> 'db" where
  "with_transaction ctx fl f db =
     (case from_context ctx of
        Inl e \<Rightarrow> (Inl e, db)
      | Inr _ \<Rightarrow>
          (case begin_fault fl of
             Some e \<Rightarrow> (Inl e, db)
           | None \<Rightarrow>
               (case f db of
                  Inl e \<Rightarrow> (case rollback_fault fl of Some e' \<Rightarrow> (Inl e', db) | None \<Rightarrow> (Inl e, db))
                | Inr (a, db') \<Rightarrow>
                    (case commit_fault fl of Some e \<Rightarrow> (Inl e, db) | None \<Rightarrow> (Inr a, db')))))"

section \<open>A table with a unique key\<close>

record 'r table =
  rows :: "(int \<times> 'r) list"
  next_id :: int

definition has_key :: "('r \<Rightarrow> 'k) \<Rightarrow> 'r \<Rightarrow> int \<times> 'r \<Rightarrow> bool" where
  "has_key key md row \<longleftrightarrow> key (snd row) = key md"

text \<open>\<open>o.Read(md, cols...)\<close>: the id of the row with the key of \<open>md\<close>, or \<open>ErrNoRows\<close>.\<close>

definition tbl_read :: "('r \<Rightarrow> 'k) \<Rightarrow> 'r \<Rightarrow> 'r table \<Rightarrow> int result" where
  "tbl_read key md tb =
     (case find (has_key key md) (rows tb) of None \<Rightarrow> Inl ErrNotFound | Some row \<Rightarrow> Inr (fst row))"

text \<open>\<open>o.Insert(md)\<close>: a duplicate key violates the unique constraint.\<close>

definition tbl_insert :: "('r \<Rightarrow> 'k) \<Rightarrow> 'r \<Rightarrow> 'r table \<Rightarrow> (int \<times> 'r table) result" where
  "tbl_insert key md tb =
     (if list_ex (has_key key md) (rows tb) then Inl ErrConflict
      else Inr (next_id tb, tb\<lparr>rows := rows tb @ [(next_id tb, md)], next_id := next_id tb + 1\<rparr>))"

definition is_duplicate_key_error :: "herror \<Rightarrow> bool" where
  "is_duplicate_key_error e \<longleftrightarrow> e = ErrConflict"

definition tbl_ok :: "('r \<Rightarrow> 'k) \<Rightarrow> 'r table \<Rightarrow> bool" where
  "tbl_ok key tb \<longleftrightarrow>
     distinct (map (key \<circ> snd) (rows tb)) \<and> distinct (map fst (rows tb)) \<and>
     list_all (\<lambda>row. fst row < next_id tb) (rows tb)"

section \<open>ReadOrCreate\<close>

definition read_or_create ::
  "'o orm_context \<Rightarrow> tx_faults \<Rightarrow> ('r \<Rightarrow> 'k) \<Rightarrow> 'r \<Rightarrow>
   ('r table \<Rightarrow> 'r table) \<Rightarrow> ('r table \<Rightarrow> 'r table) \<Rightarrow> 'r table \<Rightarrow> (bool \<times> int) result \<times> 'r table" where
  "read_or_create ctx fl key md iv1 iv2 tb =
     (case from_context ctx of
        Inl e \<Rightarrow> (Inl e, tb)
      | Inr _ \<Rightarrow>
          (case tbl_read key md tb of
             Inr i \<Rightarrow> (Inr (False, i), tb)
           | Inl e \<Rightarrow>
               (if e \<noteq> ErrNotFound then (Inl e, tb)
                else
                  (case with_transaction ctx fl (tbl_insert key md) (iv1 tb) of
                     (Inr i, tb2) \<Rightarrow> (Inr (True, i), tb2)
                   | (Inl e', tb2) \<Rightarrow>
                       (if is_duplicate_key_error e' then
                          (let tb3 = iv2 tb2 in
                           case tbl_read key md tb3 of
                             Inr i \<Rightarrow> (Inr (False, i), tb3)
                           | Inl e'' \<Rightarrow> (Inl e'', tb3))
                        else (Inl e', tb2))))))"

section \<open>Fixtures\<close>

definition demo_ctx :: "nat orm_context" where
  "demo_ctx = \<lparr>ctx_orm = Some 0\<rparr>"

definition demo_table :: "string table" where
  "demo_table = \<lparr>rows = [(1, ''library/nginx'')], next_id = 2\<rparr>"

text \<open>Another session inserts \<open>library/redis\<close> with the next id.\<close>

definition other_insert :: "string table \<Rightarrow> string table" where
  "other_insert tb = tb\<lparr>rows := rows tb @ [(next_id tb, ''library/redis'')], next_id := next_id tb + 1\<rparr>"

section \<open>Lemmas\<close>

lemma with_transaction_outcome:
  "with_transaction ctx fl f db = (r, db') \<Longrightarrow>
     (\<exists>a. r = Inr a \<and> f db = Inr (a, db')) \<or> (\<exists>e. r = Inl e \<and> db' = db)"
  by (auto simp: with_transaction_def split: sum.splits option.splits prod.splits)

lemma with_transaction_body_error:
  "ctx_orm ctx \<noteq> None \<Longrightarrow> begin_fault fl = None \<Longrightarrow> rollback_fault fl = None \<Longrightarrow> f db = Inl e \<Longrightarrow>
     with_transaction ctx fl f db = (Inl e, db)"
  by (auto simp: with_transaction_def from_context_def)

lemma tbl_read_Inr:
  "tbl_read key md tb = Inr i \<Longrightarrow> \<exists>r. (i, r) \<in> set (rows tb) \<and> key r = key md"
  by (auto simp: tbl_read_def has_key_def split: option.splits dest!: find_Some_iff [THEN iffD1])
     (metis nth_mem prod.collapse)

lemma tbl_read_Inl:
  "tbl_read key md tb = Inl e \<Longrightarrow> e = ErrNotFound \<and> \<not> list_ex (has_key key md) (rows tb)"
  by (auto simp: tbl_read_def list_ex_iff find_None_iff split: option.splits)

lemma tbl_read_found:
  "list_ex (has_key key md) (rows tb) \<Longrightarrow> \<exists>i. tbl_read key md tb = Inr i"
  by (auto simp: tbl_read_def list_ex_iff find_None_iff split: option.splits)

lemma tbl_insert_Inr:
  "tbl_insert key md tb = Inr (i, tb') \<Longrightarrow>
     \<not> list_ex (has_key key md) (rows tb) \<and> i = next_id tb \<and> rows tb' = rows tb @ [(i, md)] \<and>
     next_id tb' = next_id tb + 1"
  by (auto simp: tbl_insert_def split: if_splits)

lemma tbl_insert_Inl: "tbl_insert key md tb = Inl e \<Longrightarrow> e = ErrConflict"
  by (simp add: tbl_insert_def split: if_splits)

lemma tbl_insert_ok:
  assumes "tbl_ok key tb" and "tbl_insert key md tb = Inr (i, tb')"
  shows "tbl_ok key tb'"
proof -
  from tbl_insert_Inr [OF assms(2)] have
    fresh: "\<not> list_ex (has_key key md) (rows tb)" and i: "i = next_id tb"
    and r: "rows tb' = rows tb @ [(i, md)]" and n: "next_id tb' = next_id tb + 1"
    by blast+
  from fresh have "key md \<notin> set (map (key \<circ> snd) (rows tb))"
    by (auto simp: list_ex_iff has_key_def)
  moreover from assms(1) i have "i \<notin> set (map fst (rows tb))"
    by (auto simp: tbl_ok_def list_all_iff)
  ultimately show ?thesis
    using assms(1) r n i by (auto simp: tbl_ok_def list_all_iff)
qed

lemma with_transaction_insert_ok:
  "tbl_ok key tb \<Longrightarrow> tbl_ok key (snd (with_transaction ctx fl (tbl_insert key md) tb))"
  by (cases "with_transaction ctx fl (tbl_insert key md) tb")
     (auto dest!: with_transaction_outcome intro: tbl_insert_ok)

lemma with_transaction_Inr:
  "with_transaction ctx fl f db = (Inr a, db') \<Longrightarrow> f db = Inr (a, db')"
  by (drule with_transaction_outcome) auto

lemma read_or_create_Inr:
  assumes "read_or_create ctx fl key md iv1 iv2 tb = (Inr (c, i), tb')"
  shows "(\<not> c \<and> tbl_read key md tb' = Inr i) \<or>
         (c \<and> tbl_read key md tb = Inl ErrNotFound \<and> tbl_insert key md (iv1 tb) = Inr (i, tb'))"
  using assms
  by (auto simp: read_or_create_def Let_def split: sum.splits prod.splits if_splits
           dest: with_transaction_Inr)

lemma read_or_create_tables:
  "snd (read_or_create ctx fl key md iv1 iv2 tb) \<in>
     {tb, snd (with_transaction ctx fl (tbl_insert key md) (iv1 tb)),
      iv2 (snd (with_transaction ctx fl (tbl_insert key md) (iv1 tb)))}"
  by (auto simp: read_or_create_def Let_def split: sum.splits prod.splits)

section \<open>Properties\<close>

text \<open>
  Claim C12: \<open>WithTransaction\<close> succeeds exactly when the context has an ORM, the
  transaction begins, the body succeeds and the commit succeeds.
\<close>

theorem with_transaction_succeeds_iff:
  "fst (with_transaction ctx fl f db) = Inr a \<longleftrightarrow>
     ctx_orm ctx \<noteq> None \<and> begin_fault fl = None \<and> commit_fault fl = None \<and> (\<exists>db'. f db = Inr (a, db'))"
  by (auto simp: with_transaction_def from_context_def split: option.splits sum.splits prod.splits)

text \<open>
  Whatever other sessions commit between its steps, when \<open>ReadOrCreate\<close>
  succeeds, the table it leaves holds a row with the key of \<open>md\<close> under the returned id.
\<close>

theorem read_or_create_row_exists:
  "read_or_create ctx fl key md iv1 iv2 tb = (Inr (c, i), tb') \<Longrightarrow>
     \<exists>r. (i, r) \<in> set (rows tb') \<and> key r = key md"
  by (auto dest!: read_or_create_Inr tbl_read_Inr tbl_insert_Inr)

theorem read_or_create_row_exists_witness:
  "read_or_create demo_ctx no_faults (\<lambda>s. s) ''library/redis'' (\<lambda>t. t) (\<lambda>t. t) demo_table =
     (Inr (True, 2), \<lparr>rows = [(1, ''library/nginx''), (2, ''library/redis'')], next_id = 3\<rparr>) \<and>
   (2, ''library/redis'') \<in> set (rows \<lparr>rows = [(1, ''library/nginx''), (2, ''library/redis'')], next_id = 3\<rparr>)"
  using read_or_create_row_exists
    [of demo_ctx no_faults "\<lambda>s. s" "''library/redis''" "\<lambda>t. t" "\<lambda>t. t" demo_table True 2
        "\<lparr>rows = [(1, ''library/nginx''), (2, ''library/redis'')], next_id = 3\<rparr>"]
  by (simp add: read_or_create_def with_transaction_def demo_ctx_def no_faults_def from_context_def
                tbl_insert_def tbl_read_def demo_table_def has_key_def)

text \<open>
  \<open>ReadOrCreate\<close> reports \<open>created\<close> only when its first read found no row with
  the key, and then the table is the one it read with the new row \<open>md\<close> appended.
\<close>

theorem read_or_create_created_fresh:
  "read_or_create ctx fl key md iv1 iv2 tb = (Inr (True, i), tb') \<Longrightarrow>
     \<not> list_ex (has_key key md) (rows tb) \<and> rows tb' = rows (iv1 tb) @ [(i, md)]"
  by (auto dest!: read_or_create_Inr tbl_read_Inl tbl_insert_Inr)

theorem read_or_create_created_fresh_witness:
  "read_or_create demo_ctx no_faults (\<lambda>s. s) ''library/redis'' (\<lambda>t. t) (\<lambda>t. t) demo_table =
     (Inr (True, 2), \<lparr>rows = [(1, ''library/nginx''), (2, ''library/redis'')], next_id = 3\<rparr>) \<and>
   \<not> list_ex (has_key (\<lambda>s. s) ''library/redis'') (rows demo_table)"
  using read_or_create_created_fresh
    [of demo_ctx no_faults "\<lambda>s. s" "''library/redis''" "\<lambda>t. t" "\<lambda>t. t" demo_table 2
        "\<lparr>rows = [(1, ''library/nginx''), (2, ''library/redis'')], next_id = 3\<rparr>"]
  by (simp add: read_or_create_def with_transaction_def demo_ctx_def no_faults_def from_context_def
                tbl_insert_def tbl_read_def demo_table_def has_key_def)

text \<open>
  \<open>ReadOrCreate\<close> keeps the table well formed (keys unique, ids unique and below
  the next id) when the other sessions' writes do.
\<close>

theorem read_or_create_keeps_table_ok:
  assumes "tbl_ok key tb" and "\<forall>t. tbl_ok key t \<longrightarrow> tbl_ok key (iv1 t)"
    and "\<forall>t. tbl_ok key t \<longrightarrow> tbl_ok key (iv2 t)"
  shows "tbl_ok key (snd (read_or_create ctx fl key md iv1 iv2 tb))"
proof -
  have t1: "tbl_ok key (iv1 tb)" using assms(1,2) by blast
  have t2: "tbl_ok key (snd (with_transaction ctx fl (tbl_insert key md) (iv1 tb)))"
    using with_transaction_insert_ok [OF t1] .
  have t3: "tbl_ok key (iv2 (snd (with_transaction ctx fl (tbl_insert key md) (iv1 tb))))"
    using assms(3) t2 by blast
  show ?thesis
    using read_or_create_tables [of ctx fl key md iv1 iv2 tb] assms(1) t2 t3 by auto
qed

theorem read_or_create_keeps_table_ok_witness:
  "tbl_ok (\<lambda>s. s) demo_table \<and>
   tbl_ok (\<lambda>s. s) (snd (read_or_create demo_ctx no_faults (\<lambda>s. s) ''library/redis'' (\<lambda>t. t) (\<lambda>t. t) demo_table))"
proof -
  have ok: "tbl_ok (\<lambda>s. s) demo_table" by (simp add: tbl_ok_def demo_table_def)
  show ?thesis
    using ok read_or_create_keeps_table_ok
      [of "\<lambda>s. s" demo_table "\<lambda>t. t" "\<lambda>t. t" demo_ctx no_faults "''library/redis''"]
    by simp
qed

text \<open>
  Claim C11: when another session inserts the row between the read and the insert, the
  insert hits the unique key, and \<open>ReadOrCreate\<close> reads again and returns that session's row
  as found (not created), provided the transaction begins and its rollback succeeds.
\<close>

theorem read_or_create_concurrent_insert:
  assumes "ctx_orm ctx \<noteq> None" and "begin_fault fl = None" and "rollback_fault fl = None"
    and "\<not> list_ex (has_key key md) (rows tb)" and "list_ex (has_key key md) (rows (iv1 tb))"
  shows "\<exists>j. read_or_create ctx fl key md iv1 (\<lambda>t. t) tb = (Inr (False, j), iv1 tb) \<and>
             tbl_read key md (iv1 tb) = Inr j"
proof -
  have "find (has_key key md) (rows tb) = None"
    using assms(4) by (metis find_None_iff list_ex_iff)
  then have rd: "tbl_read key md tb = Inl ErrNotFound" by (simp add: tbl_read_def)
  have ins: "tbl_insert key md (iv1 tb) = Inl ErrConflict"
    using assms(5) by (simp add: tbl_insert_def)
  obtain j where j: "tbl_read key md (iv1 tb) = Inr j" using tbl_read_found [OF assms(5)] by blast
  have "with_transaction ctx fl (tbl_insert key md) (iv1 tb) = (Inl ErrConflict, iv1 tb)"
    by (rule with_transaction_body_error [where f = "tbl_insert key md" and db = "iv1 tb"])
       (rule assms(1), rule assms(2), rule assms(3), rule ins)
  with rd j show ?thesis
    by (simp add: read_or_create_def from_context_def is_duplicate_key_error_def assms(1)
             split: option.splits)
qed

theorem read_or_create_concurrent_insert_witness:
  "read_or_create demo_ctx no_faults (\<lambda>s. s) ''library/redis'' other_insert (\<lambda>t. t) demo_table =
     (Inr (False, 2), other_insert demo_table)"
proof -
  have "\<exists>j. read_or_create demo_ctx no_faults (\<lambda>s. s) ''library/redis'' other_insert (\<lambda>t. t) demo_table =
            (Inr (False, j), other_insert demo_table) \<and>
            tbl_read (\<lambda>s. s) ''library/redis'' (other_insert demo_table) = Inr j"
    by (rule read_or_create_concurrent_insert)
       (simp_all add: demo_ctx_def no_faults_def demo_table_def other_insert_def has_key_def)
  moreover have "tbl_read (\<lambda>s. s) ''library/redis'' (other_insert demo_table) = Inr 2"
    by (simp add: tbl_read_def demo_table_def other_insert_def has_key_def)
  ultimately show ?thesis by auto
qed

end
