(* ===== verification/Repo_Dao.thy ===== *)
theory Repo_Dao
  imports Harbor_Client Orm
begin

text \<open>
  The repository DAO of \<open>src/pkg/repository/dao/dao.go\<close> over the \<open>repository\<close> and
  \<open>tag\<close> tables. The database is the record \<open>repo_db\<close>. It holds the rows of
  \<open>models.RepoRecord\<close>, the serial sequence of \<open>repository_id\<close>, and the
  (repository id, tag name) rows of the tag table that \<open>NonEmptyRepos\<close> joins. The table has
  a unique constraint on the name. A query (\<open>q.Query\<close>) is the predicate it selects and
  its page number and size; its sorts are not modelled (rows come in table order);
  \<open>time.Now()\<close> is the parameter \<open>now\<close>.
\<close>

section \<open>The database\<close>

record tag_row =
  tag_repository_id :: int
  tag_name :: string

record repo_db =
  repo_rows :: "repo_record list"
  repo_seq :: int
  tag_rows :: "tag_row list"

definition empty_repo_db :: repo_db where
  "empty_repo_db = \<lparr>repo_rows = [], repo_seq = 1, tag_rows = []\<rparr>"

text \<open>The fields \<open>Update\<close> may name in \<open>props\<close> (the primary key is never updated).\<close>

datatype repo_field =
  FName | FProjectID | FDescription | FPullCount | FStarCount | FCreationTime | FUpdateTime

definition all_repo_fields :: "repo_field list" where
  "all_repo_fields = [FName, FProjectID, FDescription, FPullCount, FStarCount, FCreationTime, FUpdateTime]"

fun set_field :: "repo_record \<Rightarrow> repo_field \<Rightarrow> repo_record \<Rightarrow> repo_record" where
  "set_field src FName r = r\<lparr>rr_name := rr_name src\<rparr>"
| "set_field src FProjectID r = r\<lparr>project_id := project_id src\<rparr>"
| "set_field src FDescription r = r\<lparr>description := description src\<rparr>"
| "set_field src FPullCount r = r\<lparr>pull_count := pull_count src\<rparr>"
| "set_field src FStarCount r = r\<lparr>star_count := star_count src\<rparr>"
| "set_field src FCreationTime r = r\<lparr>creation_time := creation_time src\<rparr>"
| "set_field src FUpdateTime r = r\<lparr>update_time := update_time src\<rparr>"

text \<open>\<open>ormer.Update(repository, props...)\<close>: no props means every column.\<close>

definition update_row :: "repo_record \<Rightarrow> repo_field list \<Rightarrow> repo_record \<Rightarrow> repo_record" where
  "update_row src props r = foldr (set_field src) (if props = [] then all_repo_fields else props) r"

section \<open>The operations\<close>

definition dao_count :: "'o orm_context \<Rightarrow> (repo_record \<Rightarrow> bool) \<Rightarrow> repo_db \<Rightarrow> int result" where
  "dao_count ctx query db =
     (case from_context ctx of Inl e \<Rightarrow> Inl e | Inr _ \<Rightarrow> Inr (int (length (filter query (repo_rows db)))))"

text \<open>
  \<open>List\<close> reads the page of the query (\<open>QuerySetter\<close>); \<open>Count\<close> counts every matching row
  (\<open>QuerySetterForCount\<close>).
\<close>

definition dao_list :: "'o orm_context \<Rightarrow> (repo_record \<Rightarrow> bool) \<Rightarrow> int \<Rightarrow> int \<Rightarrow> repo_db \<Rightarrow> repo_record list result" where
  "dao_list ctx query page_number page_size db =
     (case from_context ctx of
        Inl e \<Rightarrow> Inl e
      | Inr _ \<Rightarrow> Inr (paginate page_number page_size (filter query (repo_rows db))))"

definition dao_get :: "'o orm_context \<Rightarrow> int \<Rightarrow> repo_db \<Rightarrow> repo_record result" where
  "dao_get ctx i db =
     (case from_context ctx of
        Inl e \<Rightarrow> Inl e
      | Inr _ \<Rightarrow>
          (case find (\<lambda>r. repository_id r = i) (repo_rows db) of
             None \<Rightarrow> Inl ErrNotFound
           | Some r \<Rightarrow> Inr r))"

definition dao_create :: "'o orm_context \<Rightarrow> repo_record \<Rightarrow> repo_db \<Rightarrow> int result \<times> repo_db" where
  "dao_create ctx r db =
     (case from_context ctx of
        Inl e \<Rightarrow> (Inl e, db)
      | Inr _ \<Rightarrow>
          (if list_ex (\<lambda>x. rr_name x = rr_name r) (repo_rows db) then (Inl ErrConflict, db)
           else (Inr (repo_seq db),
                 db\<lparr>repo_rows := repo_rows db @ [r\<lparr>repository_id := repo_seq db\<rparr>],
                    repo_seq := repo_seq db + 1\<rparr>)))"

definition dao_delete :: "'o orm_context \<Rightarrow> int \<Rightarrow> repo_db \<Rightarrow> unit result \<times> repo_db" where
  "dao_delete ctx i db =
     (case from_context ctx of
        Inl e \<Rightarrow> (Inl e, db)
      | Inr _ \<Rightarrow>
          (let n = length (filter (\<lambda>r. repository_id r = i) (repo_rows db)) in
           if n = 0 then (Inl ErrNotFound, db)
           else (Inr (), db\<lparr>repo_rows := filter (\<lambda>r. repository_id r \<noteq> i) (repo_rows db)\<rparr>)))"

text \<open>
  \<open>Update\<close>: a new name that another row holds violates the unique constraint; that driver
  error is returned as it is (\<open>ErrGeneric\<close>), not turned into a conflict error.
\<close>

definition dao_update :: "'o orm_context \<Rightarrow> repo_record \<Rightarrow> repo_field list \<Rightarrow> repo_db \<Rightarrow> unit result \<times> repo_db" where
  "dao_update ctx src props db =
     (case from_context ctx of
        Inl e \<Rightarrow> (Inl e, db)
      | Inr _ \<Rightarrow>
          (let i = repository_id src;
               rows' = map (\<lambda>r. if repository_id r = i then update_row src props r else r) (repo_rows db)
           in if \<not> distinct (map rr_name rows') then (Inl ErrGeneric, db)
              else if \<not> list_ex (\<lambda>r. repository_id r = i) (repo_rows db) then (Inl ErrNotFound, db)
              else (Inr (), db\<lparr>repo_rows := rows'\<rparr>)))"

text \<open>\<open>AddPullCount\<close>: \<open>pull_count = pull_count + 1\<close> and \<open>update_time = now\<close> on the row.\<close>

definition dao_add_pull_count :: "'o orm_context \<Rightarrow> int \<Rightarrow> int \<Rightarrow> repo_db \<Rightarrow> unit result \<times> repo_db" where
  "dao_add_pull_count ctx now i db =
     (case from_context ctx of
        Inl e \<Rightarrow> (Inl e, db)
      | Inr _ \<Rightarrow>
          (if \<not> list_ex (\<lambda>r. repository_id r = i) (repo_rows db) then (Inl ErrGeneric, db)
           else (Inr (), db\<lparr>repo_rows :=
                   map (\<lambda>r. if repository_id r = i
                            then r\<lparr>pull_count := pull_count r + 1, update_time := now\<rparr> else r)
                       (repo_rows db)\<rparr>)))"

text \<open>
  \<open>NonEmptyRepos\<close>: \<open>select distinct r.* from repository as r LEFT JOIN tag as t on
  r.repository_id = t.repository_id where t.repository_id is not null\<close>.
\<close>

definition dao_non_empty_repos :: "'o orm_context \<Rightarrow> repo_db \<Rightarrow> repo_record list result" where
  "dao_non_empty_repos ctx db =
     (case from_context ctx of
        Inl e \<Rightarrow> Inl e
      | Inr _ \<Rightarrow>
          Inr (filter (\<lambda>r. list_ex (\<lambda>t. tag_repository_id t = repository_id r) (tag_rows db))
                      (repo_rows db)))"

section \<open>The interface\<close>

text \<open>
  The \<open>DAO\<close> interface, a record of its methods; \<open>AddPullCount\<close> takes the clock's
  reading as well. \<open>New\<close> returns the default implementation, the operations above.
\<close>

record 'o repo_dao_ops =
  rd_count :: "'o orm_context \<Rightarrow> (repo_record \<Rightarrow> bool) \<Rightarrow> repo_db \<Rightarrow> int result"
  rd_list :: "'o orm_context \<Rightarrow> (repo_record \<Rightarrow> bool) \<Rightarrow> int \<Rightarrow> int \<Rightarrow> repo_db \<Rightarrow> repo_record list result"
  rd_get :: "'o orm_context \<Rightarrow> int \<Rightarrow> repo_db \<Rightarrow> repo_record result"
  rd_create :: "'o orm_context \<Rightarrow> repo_record \<Rightarrow> repo_db \<Rightarrow> int result \<times> repo_db"
  rd_delete :: "'o orm_context \<Rightarrow> int \<Rightarrow> repo_db \<Rightarrow> unit result \<times> repo_db"
  rd_update :: "'o orm_context \<Rightarrow> repo_record \<Rightarrow> repo_field list \<Rightarrow> repo_db \<Rightarrow> unit result \<times> repo_db"
  rd_add_pull_count :: "'o orm_context \<Rightarrow> int \<Rightarrow> int \<Rightarrow> repo_db \<Rightarrow> unit result \<times> repo_db"
  rd_non_empty_repos :: "'o orm_context \<Rightarrow> repo_db \<Rightarrow> repo_record list result"

definition new_repo_dao :: "'o repo_dao_ops" where
  "new_repo_dao =
     \<lparr>rd_count = dao_count, rd_list = dao_list, rd_get = dao_get, rd_create = dao_create,
      rd_delete = dao_delete, rd_update = dao_update, rd_add_pull_count = dao_add_pull_count,
      rd_non_empty_repos = dao_non_empty_repos\<rparr>"

section \<open>Well-formed tables\<close>

definition repo_db_ok :: "repo_db \<Rightarrow> bool" where
  "repo_db_ok db \<longleftrightarrow>
     0 < repo_seq db \<and> distinct (map rr_name (repo_rows db)) \<and> distinct (map repository_id (repo_rows db)) \<and>
     list_all (\<lambda>r. 0 < repository_id r \<and> repository_id r < repo_seq db) (repo_rows db)"

section \<open>Fixtures\<close>

definition dao_ctx :: "nat orm_context" where
  "dao_ctx = \<lparr>ctx_orm = Some 0\<rparr>"

definition hello_world :: repo_record where
  "hello_world = \<lparr>repository_id = 0, rr_name = ''library/hello-world'', project_id = 1,
     description = [], pull_count = 0, star_count = 0, creation_time = 0, update_time = 0\<rparr>"

definition pull_repo :: repo_record where
  "pull_repo = \<lparr>repository_id = 0, rr_name = ''test/pullcount'', project_id = 10,
     description = ''test pull count'', pull_count = 1, star_count = 0, creation_time = 0, update_time = 0\<rparr>"

text \<open>The database after \<open>SetupTest\<close> of \<open>dao_test.go\<close>: one repository with one tag.\<close>

definition demo_repo_db :: repo_db where
  "demo_repo_db = \<lparr>repo_rows = [hello_world\<lparr>repository_id := 1\<rparr>], repo_seq = 2,
     tag_rows = [\<lparr>tag_repository_id = 1, tag_name = ''latest''\<rparr>]\<rparr>"

section \<open>Lemmas\<close>

lemma new_repo_dao_ops [simp]:
  "rd_count new_repo_dao = dao_count" "rd_list new_repo_dao = dao_list" "rd_get new_repo_dao = dao_get"
  "rd_create new_repo_dao = dao_create" "rd_delete new_repo_dao = dao_delete"
  "rd_update new_repo_dao = dao_update" "rd_add_pull_count new_repo_dao = dao_add_pull_count"
  "rd_non_empty_repos new_repo_dao = dao_non_empty_repos"
  by (simp_all add: new_repo_dao_def)

lemma set_field_id [simp]: "repository_id (set_field src f r) = repository_id r"
  by (cases f) simp_all

lemma foldr_set_field_id [simp]: "repository_id (foldr (set_field src) fs r) = repository_id r"
  by (induction fs) simp_all

lemma update_row_id [simp]: "repository_id (update_row src props r) = repository_id r"
  by (simp add: update_row_def)

lemma map_update_ids:
  "map (repository_id \<circ> (\<lambda>r. if repository_id r = i then g r else r)) rs = map repository_id rs"
  if "\<And>r. repository_id (g r) = repository_id r"
  using that by (induction rs) auto

lemma map_pull_names:
  "map (rr_name \<circ> (\<lambda>r. if repository_id r = i then r\<lparr>pull_count := p r, update_time := t\<rparr> else r)) rs
   = map rr_name rs"
  by (induction rs) auto

lemma dao_get_Inr_iff:
  assumes "ctx_orm ctx \<noteq> None" and "repo_db_ok db"
  shows "dao_get ctx i db = Inr r \<longleftrightarrow> r \<in> set (repo_rows db) \<and> repository_id r = i"
  using assms find_distinct_key [of repository_id "repo_rows db" i r]
  by (auto simp: dao_get_def from_context_def repo_db_ok_def split: option.splits)

lemma dao_get_Inl_iff:
  assumes "ctx_orm ctx \<noteq> None"
  shows "dao_get ctx i db = Inl e \<longleftrightarrow> e = ErrNotFound \<and> i \<notin> repository_id ` set (repo_rows db)"
  using assms find_key_None [of repository_id i "repo_rows db"]
  by (auto simp: dao_get_def from_context_def split: option.splits)

lemma dao_create_ok: "repo_db_ok db \<Longrightarrow> repo_db_ok (snd (dao_create ctx r db))"
  by (auto simp: dao_create_def repo_db_ok_def list_all_iff list_ex_iff split: sum.splits)

lemma dao_delete_ok: "repo_db_ok db \<Longrightarrow> repo_db_ok (snd (dao_delete ctx i db))"
  by (auto simp: dao_delete_def repo_db_ok_def list_all_iff Let_def distinct_map_filter
           split: sum.splits)

lemma dao_update_ok: "repo_db_ok db \<Longrightarrow> repo_db_ok (snd (dao_update ctx src props db))"
  by (auto simp: dao_update_def repo_db_ok_def list_all_iff Let_def map_update_ids
           split: sum.splits)

lemma dao_add_pull_count_ok: "repo_db_ok db \<Longrightarrow> repo_db_ok (snd (dao_add_pull_count ctx now i db))"
  by (auto simp: dao_add_pull_count_def repo_db_ok_def list_all_iff map_update_ids map_pull_names [where p = "\<lambda>r. pull_count r + 1"]
           split: sum.splits)

lemma dao_create_Inr:
  "ctx_orm ctx \<noteq> None \<Longrightarrow> dao_create ctx r db = (Inr i, db') \<Longrightarrow>
     i = repo_seq db \<and> rr_name r \<notin> rr_name ` set (repo_rows db) \<and>
     repo_rows db' = repo_rows db @ [r\<lparr>repository_id := i\<rparr>]"
  by (auto simp: dao_create_def from_context_def list_ex_iff split: if_splits)

lemma find_map_if_id:
  assumes "\<And>r. repository_id (g r) = repository_id r"
  shows "find (\<lambda>r. repository_id r = j) (map (\<lambda>r. if repository_id r = i then g r else r) rs) =
         map_option (\<lambda>r. if repository_id r = i then g r else r) (find (\<lambda>r. repository_id r = j) rs)"
  using assms by (induction rs) auto

lemma dao_get_map_if_id:
  assumes "\<And>r. repository_id (g r) = repository_id r"
  shows "dao_get ctx j (db\<lparr>repo_rows := map (\<lambda>r. if repository_id r = i then g r else r) (repo_rows db)\<rparr>) =
         (case dao_get ctx j db of Inl e \<Rightarrow> Inl e | Inr r \<Rightarrow> Inr (if j = i then g r else r))"
proof (cases "ctx_orm ctx")
  case None
  then show ?thesis by (simp add: dao_get_def from_context_def)
next
  case ctx: (Some orm)
  show ?thesis
  proof (cases "find (\<lambda>r. repository_id r = j) (repo_rows db)")
    case None
    with ctx show ?thesis by (simp add: dao_get_def from_context_def find_map_if_id [OF assms])
  next
    case (Some r)
    then have "repository_id r = j" by (metis (mono_tags) find_Some_iff)
    with ctx Some show ?thesis by (simp add: dao_get_def from_context_def find_map_if_id [OF assms])
  qed
qed

lemma dao_update_Inr:
  "dao_update ctx src props db = (Inr (), db') \<Longrightarrow>
     db' = db\<lparr>repo_rows := map (\<lambda>r. if repository_id r = repository_id src then update_row src props r else r)
                                 (repo_rows db)\<rparr>"
  by (auto simp: dao_update_def Let_def split: sum.splits if_splits)

lemma demo_repo_db_ok: "repo_db_ok demo_repo_db"
  by (simp add: repo_db_ok_def demo_repo_db_def hello_world_def)

section \<open>Properties\<close>

text \<open>
  Claim C15: on a well-formed database, a successful \<open>Create\<close> returns the id of a new
  row, and \<open>Get\<close> of that id returns a record with that id and the created record's name,
  project, description, pull count and star count. The time columns are left out: the ORM
  fills them on insert (\<open>auto_now_add\<close>, \<open>auto_now\<close>) and stores them at the database's
  precision, which the model does not represent.
\<close>

theorem dao_create_get:
  assumes "ctx_orm ctx \<noteq> None" and "repo_db_ok db" and "dao_create ctx r db = (Inr i, db')"
  shows "i \<notin> repository_id ` set (repo_rows db) \<and>
         (\<exists>r'. dao_get ctx i db' = Inr r' \<and> repository_id r' = i \<and> rr_name r' = rr_name r \<and>
               project_id r' = project_id r \<and> description r' = description r \<and>
               pull_count r' = pull_count r \<and> star_count r' = star_count r)"
proof -
  have ok': "repo_db_ok db'" using dao_create_ok [OF assms(2), of ctx r] assms(3) by simp
  from dao_create_Inr [OF assms(1,3)]
  have i: "i = repo_seq db" and rows: "repo_rows db' = repo_rows db @ [r\<lparr>repository_id := i\<rparr>]" by blast+
  have "i \<notin> repository_id ` set (repo_rows db)"
    using assms(2) i by (auto simp: repo_db_ok_def list_all_iff)
  moreover have "dao_get ctx i db' = Inr (r\<lparr>repository_id := i\<rparr>)"
    using dao_get_Inr_iff [OF assms(1) ok'] rows by simp
  ultimately show ?thesis by simp
qed

theorem dao_create_get_witness:
  "dao_create dao_ctx pull_repo demo_repo_db = (Inr 2, snd (dao_create dao_ctx pull_repo demo_repo_db)) \<and>
   (\<exists>r'. dao_get dao_ctx 2 (snd (dao_create dao_ctx pull_repo demo_repo_db)) = Inr r' \<and>
         repository_id r' = 2 \<and> rr_name r' = ''test/pullcount'')"
proof -
  have c: "dao_create dao_ctx pull_repo demo_repo_db = (Inr 2, snd (dao_create dao_ctx pull_repo demo_repo_db))"
    by (simp add: dao_create_def dao_ctx_def from_context_def demo_repo_db_def pull_repo_def hello_world_def)
  have "ctx_orm dao_ctx \<noteq> None" by (simp add: dao_ctx_def)
  then show ?thesis using dao_create_get [OF _ demo_repo_db_ok c] c by (auto simp: pull_repo_def)
qed

text \<open>
  \<open>Create\<close> of a record whose name is taken fails with the conflict error and
  leaves the database unchanged (\<open>TestCreate\<close>).
\<close>

theorem dao_create_conflict:
  "ctx_orm ctx \<noteq> None \<Longrightarrow> rr_name r \<in> rr_name ` set (repo_rows db) \<Longrightarrow>
     dao_create ctx r db = (Inl ErrConflict, db)"
  by (auto simp: dao_create_def from_context_def list_ex_iff)

theorem dao_create_conflict_witness:
  "dao_create dao_ctx hello_world demo_repo_db = (Inl ErrConflict, demo_repo_db)"
  by (rule dao_create_conflict) (simp_all add: dao_ctx_def demo_repo_db_def hello_world_def)

text \<open>
  \<open>Delete\<close> fails with not-found exactly when no row has the id; after it,
  \<open>Get\<close> of the id is not found.
\<close>

theorem dao_delete_not_found:
  "ctx_orm ctx \<noteq> None \<Longrightarrow>
     (fst (dao_delete ctx i db) = Inl ErrNotFound \<longleftrightarrow> i \<notin> repository_id ` set (repo_rows db)) \<and>
     dao_get ctx i (snd (dao_delete ctx i db)) = Inl ErrNotFound"
proof -
  assume ctx: "ctx_orm ctx \<noteq> None"
  have gone: "i \<notin> repository_id ` set (repo_rows (snd (dao_delete ctx i db)))"
    using ctx by (auto simp: dao_delete_def from_context_def Let_def filter_empty_conv split: if_splits)
  have "fst (dao_delete ctx i db) = Inl ErrNotFound \<longleftrightarrow> i \<notin> repository_id ` set (repo_rows db)"
    using ctx by (auto simp: dao_delete_def from_context_def Let_def filter_empty_conv split: if_splits)
  then show ?thesis using dao_get_Inl_iff [OF ctx] gone by blast
qed

theorem dao_delete_not_found_witness:
  "fst (dao_delete dao_ctx 100021 demo_repo_db) = Inl ErrNotFound \<and>
   dao_get dao_ctx 1 (snd (dao_delete dao_ctx 1 demo_repo_db)) = Inl ErrNotFound"
proof -
  have "ctx_orm dao_ctx \<noteq> None" by (simp add: dao_ctx_def)
  then show ?thesis
    using dao_delete_not_found [of dao_ctx 100021 demo_repo_db] dao_delete_not_found [of dao_ctx 1 demo_repo_db]
    by (simp add: demo_repo_db_def)
qed

text \<open>
  A successful \<open>Update\<close> of a repository changes the row of its id to the
  row with the \<open>props\<close> columns taken from the argument (every column when no props are
  given), and no other row.
\<close>

theorem dao_update_props:
  assumes "dao_get ctx (repository_id src) db = Inr r" and "dao_update ctx src props db = (Inr (), db')"
  shows "dao_get ctx (repository_id src) db' = Inr (update_row src props r) \<and>
         (\<forall>j. j \<noteq> repository_id src \<longrightarrow> dao_get ctx j db' = dao_get ctx j db)"
  using dao_update_Inr [OF assms(2)] assms(1)
    dao_get_map_if_id [where g = "update_row src props" and ctx = ctx and db = db and i = "repository_id src"]
  by (auto split: sum.splits)

theorem dao_update_props_witness:
  "dao_update dao_ctx (hello_world\<lparr>repository_id := 1, pull_count := 1\<rparr>) [FPullCount] demo_repo_db =
     (Inr (), snd (dao_update dao_ctx (hello_world\<lparr>repository_id := 1, pull_count := 1\<rparr>) [FPullCount] demo_repo_db)) \<and>
   dao_get dao_ctx 1 (snd (dao_update dao_ctx (hello_world\<lparr>repository_id := 1, pull_count := 1\<rparr>) [FPullCount] demo_repo_db)) =
     Inr (hello_world\<lparr>repository_id := 1, pull_count := 1\<rparr>)"
proof -
  have g: "dao_get dao_ctx (repository_id (hello_world\<lparr>repository_id := 1, pull_count := 1\<rparr>)) demo_repo_db =
           Inr (hello_world\<lparr>repository_id := 1\<rparr>)"
    by (simp add: dao_get_def dao_ctx_def from_context_def demo_repo_db_def)
  have u: "dao_update dao_ctx (hello_world\<lparr>repository_id := 1, pull_count := 1\<rparr>) [FPullCount] demo_repo_db =
     (Inr (), snd (dao_update dao_ctx (hello_world\<lparr>repository_id := 1, pull_count := 1\<rparr>) [FPullCount] demo_repo_db))"
    by (simp add: dao_update_def dao_ctx_def from_context_def demo_repo_db_def)
  show ?thesis
    using dao_update_props [OF g u] u by (simp add: update_row_def)
qed

text \<open>
  \<open>AddPullCount\<close> of an existing repository succeeds, adds one to its pull count
  and stamps its update time with the current instant (\<open>TestAddPullCount\<close>).
\<close>

theorem dao_add_pull_count_increments:
  assumes "dao_get ctx i db = Inr r"
  shows "\<exists>db'. dao_add_pull_count ctx now i db = (Inr (), db') \<and>
           dao_get ctx i db' = Inr (r\<lparr>pull_count := pull_count r + 1, update_time := now\<rparr>)"
proof -
  have ctx: "ctx_orm ctx \<noteq> None" and row: "list_ex (\<lambda>x. repository_id x = i) (repo_rows db)"
    using assms by (auto simp: dao_get_def from_context_def list_ex_iff split: sum.splits option.splits
                        dest!: find_Some_iff [THEN iffD1])
  let ?g = "\<lambda>r. r\<lparr>pull_count := pull_count r + 1, update_time := now\<rparr>"
  have eq: "dao_add_pull_count ctx now i db =
              (Inr (), db\<lparr>repo_rows := map (\<lambda>r. if repository_id r = i then ?g r else r) (repo_rows db)\<rparr>)"
    using ctx row by (auto simp: dao_add_pull_count_def from_context_def)
  have "dao_get ctx i (db\<lparr>repo_rows := map (\<lambda>r. if repository_id r = i then ?g r else r) (repo_rows db)\<rparr>) =
          Inr (?g r)"
    using dao_get_map_if_id [where g = ?g and ctx = ctx and j = i and i = i and db = db] assms by simp
  with eq show ?thesis by blast
qed

theorem dao_add_pull_count_increments_witness:
  "\<exists>db'. dao_add_pull_count dao_ctx 7 1 demo_repo_db = (Inr (), db') \<and>
     dao_get dao_ctx 1 db' = Inr (hello_world\<lparr>repository_id := 1, pull_count := 1, update_time := 7\<rparr>)"
proof -
  have "dao_get dao_ctx 1 demo_repo_db = Inr (hello_world\<lparr>repository_id := 1\<rparr>)"
    by (simp add: dao_get_def dao_ctx_def from_context_def demo_repo_db_def)
  from dao_add_pull_count_increments [OF this, of 7] show ?thesis by (simp add: hello_world_def)
qed

text \<open>
  Claim C16: \<open>AddPullCount\<close> of an id no row has fails with an unclassified error and
  changes nothing, where \<open>Delete\<close> of the same id reports not-found.
\<close>

theorem dao_add_pull_count_missing:
  "ctx_orm ctx \<noteq> None \<Longrightarrow> i \<notin> repository_id ` set (repo_rows db) \<Longrightarrow>
     dao_add_pull_count ctx now i db = (Inl ErrGeneric, db) \<and> fst (dao_delete ctx i db) = Inl ErrNotFound"
proof -
  assume ctx: "ctx_orm ctx \<noteq> None" and i: "i \<notin> repository_id ` set (repo_rows db)"
  then have "\<not> list_ex (\<lambda>r. repository_id r = i) (repo_rows db)"
    by (auto simp: list_ex_iff)
  moreover have "filter (\<lambda>r. repository_id r = i) (repo_rows db) = []"
    using i by (auto simp: filter_empty_conv)
  moreover obtain y where "ctx_orm ctx = Some y" using ctx by blast
  ultimately show ?thesis
    by (simp add: dao_add_pull_count_def dao_delete_def from_context_def Let_def)
qed

theorem dao_add_pull_count_missing_witness:
  "dao_add_pull_count dao_ctx 7 10000 demo_repo_db = (Inl ErrGeneric, demo_repo_db) \<and>
   fst (dao_delete dao_ctx 10000 demo_repo_db) = Inl ErrNotFound"
  by (rule dao_add_pull_count_missing) (simp_all add: dao_ctx_def demo_repo_db_def)

text \<open>
  Claim C17: \<open>NonEmptyRepos\<close> returns, in no particular order (the SQL has no
  \<open>ORDER BY\<close>) and each once, exactly the repositories that have at least one tag row;
  every repository it returns is tagged. The interface comment of \<open>NonEmptyRepos\<close> says
  the opposite: that it returns the repositories without any artifact or whose artifacts
  are all untagged.
\<close>

theorem dao_non_empty_repos_tagged:
  assumes "ctx_orm ctx \<noteq> None"
  shows "\<exists>rs. dao_non_empty_repos ctx db = Inr rs \<and>
           mset rs = mset (filter (\<lambda>r. repository_id r \<in> tag_repository_id ` set (tag_rows db)) (repo_rows db)) \<and>
           (\<forall>r \<in> set rs. \<exists>t \<in> set (tag_rows db). tag_repository_id t = repository_id r)"
proof -
  have eq: "filter (\<lambda>r. list_ex (\<lambda>t. tag_repository_id t = repository_id r) (tag_rows db)) (repo_rows db) =
            filter (\<lambda>r. repository_id r \<in> tag_repository_id ` set (tag_rows db)) (repo_rows db)"
    by (rule filter_cong) (force simp: list_ex_iff)+
  obtain y where "ctx_orm ctx = Some y" using assms by blast
  with eq show ?thesis by (auto simp: dao_non_empty_repos_def from_context_def list_ex_iff)
qed

theorem dao_non_empty_repos_tagged_witness:
  "\<exists>rs. dao_non_empty_repos dao_ctx (demo_repo_db\<lparr>repo_rows := repo_rows demo_repo_db @ [pull_repo\<lparr>repository_id := 2\<rparr>],
                                                 repo_seq := 3\<rparr>) = Inr rs \<and>
     mset rs = {#hello_world\<lparr>repository_id := 1\<rparr>#}"
  using dao_non_empty_repos_tagged
    [of dao_ctx "demo_repo_db\<lparr>repo_rows := repo_rows demo_repo_db @ [pull_repo\<lparr>repository_id := 2\<rparr>], repo_seq := 3\<rparr>"]
  by (simp add: dao_ctx_def demo_repo_db_def)

end
