(* ===== verification/Common_Dao.thy ===== *)
theory Common_Dao
  imports Repo_Dao
begin

text \<open>
  The legacy repository functions of \<open>src/common/dao/repository.go\<close>. They use the
  same \<open>repository\<close> table as the repository DAO (\<open>repo_db\<close> of \<open>Repo_Dao\<close>). The query
  builder \<open>repositoryQueryConditions\<close> returns the SQL text and its parameters.
  \<open>GetTotalOfRepositories\<close> hands both to the database (\<open>Raw(sql, params).QueryRow\<close>), which
  here is the parameter \<open>query_row\<close>. beego flattens a slice parameter into one parameter
  per element (\<open>flat_params\<close>). \<open>Escape\<close> and \<open>ParamPlaceholderForIn\<close> of
  \<open>common/dao\<close> have the bodies of the \<open>lib/orm\<close> functions of the same names, modelled in
  \<open>Orm\<close>.
\<close>

section \<open>Sort keys\<close>

definition order_map :: "(string \<times> string) list" where
  "order_map =
     [(''name'', ''name asc''), (''+name'', ''name asc''), (''-name'', ''name desc''),
      (''creation_time'', ''creation_time asc''), (''+creation_time'', ''creation_time asc''),
      (''-creation_time'', ''creation_time desc''),
      (''update_time'', ''update_time asc''), (''+update_time'', ''update_time asc''),
      (''-update_time'', ''update_time desc''),
      (''pull_count'', ''pull_count asc''), (''+pull_count'', ''pull_count asc''),
      (''-pull_count'', ''pull_count desc'')]"

section \<open>The query builder\<close>

record repository_query =
  rq_name :: string
  rq_project_ids :: "int list"
  rq_project_name :: string
  rq_label_id :: int

datatype sql_param = PStr string | PInt int | PInts "int list"

fun flat_param :: "sql_param \<Rightarrow> sql_param list" where
  "flat_param (PInts xs) = map PInt xs"
| "flat_param p = [p]"

definition flat_params :: "sql_param list \<Rightarrow> sql_param list" where
  "flat_params ps = concat (map flat_param ps)"

definition label_join :: string where
  "label_join =
     ''join harbor_resource_label rl on r.repository_id = rl.resource_id'' @ [CHR 0x0A, CHR 0x09, CHR 0x09] @
     ''and rl.resource_type = '' @ [CHR 0x27, CHR ''r'', CHR 0x27, CHR '' '']"

text \<open>The conditions of one query, in the order the code appends them.\<close>

definition query_clauses :: "repository_query \<Rightarrow> (string \<times> sql_param list) list" where
  "query_clauses q =
     (if rq_name q \<noteq> [] then [(''and r.name like ? '', [PStr (''%'' @ escape (rq_name q) @ ''%'')])] else []) @
     (if rq_project_ids q \<noteq> [] then
        [(''and r.project_id in ( '' @ param_placeholder_for_in (int (length (rq_project_ids q))) @ '' ) '',
          [PInts (rq_project_ids q)])] else []) @
     (if rq_project_name q \<noteq> [] then [(''and r.name like ? '', [PStr (rq_project_name q @ ''/%'')])] else []) @
     (if 0 < rq_label_id q then [(''and rl.label_id = ? '', [PInt (rq_label_id q)])] else [])"

definition repository_query_conditions :: "repository_query option list \<Rightarrow> string \<times> sql_param list" where
  "repository_query_conditions query =
     (case query of
        Some q # _ \<Rightarrow>
          (''from repository r '' @ (if 0 < rq_label_id q then label_join else []) @ ''where 1=1 '' @
             concat (map fst (query_clauses q)),
           concat (map snd (query_clauses q)))
      | _ \<Rightarrow> (''from repository r '', []))"

definition get_total_of_repositories ::
  "(string \<Rightarrow> sql_param list \<Rightarrow> int result) \<Rightarrow> repository_query option list \<Rightarrow> int result" where
  "get_total_of_repositories query_row query =
     (case repository_query_conditions query of
        (sql, params) \<Rightarrow>
          (case query_row (''select count(*) '' @ sql) (flat_params params) of
             Inl e \<Rightarrow> Inl e
           | Inr cnt \<Rightarrow> Inr cnt))"

section \<open>The table functions\<close>

text \<open>\<open>AddRepository\<close>: the project id must be set; both timestamps are \<open>now\<close>.\<close>

definition add_repository :: "int \<Rightarrow> repo_record \<Rightarrow> repo_db \<Rightarrow> unit result \<times> repo_db" where
  "add_repository now repo db =
     (if project_id repo = 0 then (Inl ErrGeneric, db)
      else
        (let r = repo\<lparr>creation_time := now, update_time := now\<rparr> in
         if list_ex (\<lambda>x. rr_name x = rr_name r) (repo_rows db) then (Inl ErrGeneric, db)
         else (Inr (), db\<lparr>repo_rows := repo_rows db @ [r\<lparr>repository_id := repo_seq db\<rparr>],
                          repo_seq := repo_seq db + 1\<rparr>)))"

text \<open>\<open>GetRepositoryByName\<close>: no row is \<open>(nil, nil)\<close>, the \<open>None\<close> of a successful result.\<close>

definition get_repository_by_name :: "string \<Rightarrow> repo_db \<Rightarrow> repo_record option result" where
  "get_repository_by_name name db = Inr (find (\<lambda>r. rr_name r = name) (repo_rows db))"

definition delete_repository :: "string \<Rightarrow> repo_db \<Rightarrow> unit result \<times> repo_db" where
  "delete_repository name db = (Inr (), db\<lparr>repo_rows := filter (\<lambda>r. rr_name r \<noteq> name) (repo_rows db)\<rparr>)"

definition repository_exists :: "string \<Rightarrow> repo_db \<Rightarrow> bool" where
  "repository_exists name db \<longleftrightarrow> list_ex (\<lambda>r. rr_name r = name) (repo_rows db)"

definition count_qmarks :: "string \<Rightarrow> nat" where
  "count_qmarks s = length (filter (\<lambda>c. c = CHR ''?'') s)"

section \<open>Fixtures\<close>

definition project_name_query :: repository_query where
  "project_name_query = \<lparr>rq_name = [], rq_project_ids = [], rq_project_name = ''a_b'', rq_label_id = 0\<rparr>"

definition full_query :: repository_query where
  "full_query = \<lparr>rq_name = ''n_1%'', rq_project_ids = [1, 2, 3], rq_project_name = ''library'', rq_label_id = 5\<rparr>"

section \<open>Lemmas\<close>

lemma count_qmarks_Nil [simp]: "count_qmarks [] = 0"
  by (simp add: count_qmarks_def)

lemma count_qmarks_append [simp]: "count_qmarks (xs @ ys) = count_qmarks xs + count_qmarks ys"
  by (simp add: count_qmarks_def)

lemma count_qmarks_join_qmarks: "count_qmarks (join (replicate k ''?'') '','') = k"
proof (induction k)
  case (Suc k)
  then show ?case by (cases k) (simp_all add: count_qmarks_def)
qed (simp add: count_qmarks_def)

lemma flat_params_append [simp]: "flat_params (xs @ ys) = flat_params xs @ flat_params ys"
  by (simp add: flat_params_def)

lemma flat_params_simps [simp]:
  "flat_params [] = []" "flat_params [PStr s] = [PStr s]" "flat_params [PInt i] = [PInt i]"
  "flat_params [PInts xs] = map PInt xs"
  by (simp_all add: flat_params_def)

lemma query_clauses_balanced:
  "list_all (\<lambda>(s, ps). count_qmarks s = length (flat_params ps)) (query_clauses q)"
  by (simp add: query_clauses_def count_qmarks_def param_placeholder_for_in_def
                count_qmarks_join_qmarks [unfolded count_qmarks_def])

lemma clauses_balanced_concat:
  "list_all (\<lambda>(s, ps). count_qmarks s = length (flat_params ps)) cs \<Longrightarrow>
     count_qmarks (concat (map fst cs)) = length (flat_params (concat (map snd cs)))"
  by (induction cs) (auto simp: flat_params_def)

lemma label_join_no_qmark [simp]: "count_qmarks label_join = 0"
  by (simp add: label_join_def count_qmarks_def)

lemma get_repository_by_name_appended:
  "\<not> repository_exists (rr_name r) db \<Longrightarrow>
     get_repository_by_name (rr_name r) (db\<lparr>repo_rows := repo_rows db @ [r], repo_seq := s\<rparr>) = Inr (Some r)"
proof -
  assume "\<not> repository_exists (rr_name r) db"
  then have "find (\<lambda>x. rr_name x = rr_name r) (repo_rows db) = None"
    by (auto simp: repository_exists_def list_ex_iff find_None_iff)
  then show ?thesis by (simp add: get_repository_by_name_def find_append_None)
qed

section \<open>Properties\<close>

text \<open>
  Claim C20: for every query, the SQL text of \<open>repositoryQueryConditions\<close> has exactly as
  many \<open>?\<close> placeholders as the parameters it returns once the id slice is flattened.
\<close>

theorem repository_query_placeholders_match:
  "count_qmarks (fst (repository_query_conditions qs)) =
     length (flat_params (snd (repository_query_conditions qs)))"
proof (cases qs)
  case Nil
  then show ?thesis by (simp add: repository_query_conditions_def count_qmarks_def)
next
  case (Cons a rest)
  then show ?thesis
    using clauses_balanced_concat [OF query_clauses_balanced]
    by (cases a) (simp_all add: repository_query_conditions_def, simp_all add: count_qmarks_def label_join_def)
qed

text \<open>
  When the query names a repository, the first parameter is a \<open>LIKE\<close> pattern
  that matches exactly the repository names containing that name, whatever
  backslashes, percent signs and underscores the name holds.
\<close>

theorem repository_query_name_contains:
  "rq_name q \<noteq> [] \<Longrightarrow>
     \<exists>p ps. snd (repository_query_conditions (Some q # qs)) = PStr p # ps \<and>
            (like p t \<longleftrightarrow> (\<exists>u v. t = u @ rq_name q @ v))"
  by (auto simp: repository_query_conditions_def query_clauses_def like_percent_append like_escape_prefix)

theorem repository_query_name_contains_witness:
  "\<exists>p ps. snd (repository_query_conditions [Some full_query]) = PStr p # ps \<and>
          (like p ''library/an_1%x'' \<longleftrightarrow> (\<exists>u v. ''library/an_1%x'' = u @ ''n_1%'' @ v))"
  using repository_query_name_contains [of full_query "[]" "''library/an_1%x''"]
  by (simp add: full_query_def)

text \<open>
  Claim C21: the project-name condition puts the project name into its \<open>LIKE\<close> pattern
  without \<open>Escape\<close>, unlike the name condition. So for every project name with an
  underscore (and no \<open>%\<close> or backslash), a repository of another project, whose name
  differs from the project name in place of that underscore, is counted as well; the escaped
  pattern would not match it.
\<close>

theorem repository_query_project_name_unescaped:
  assumes "backslash \<notin> set (rq_project_name q)" and "CHR ''%'' \<notin> set (rq_project_name q)"
    and "i < length (rq_project_name q)" and "rq_project_name q ! i = CHR ''_''" and "c \<noteq> CHR ''_''"
  shows "PStr (rq_project_name q @ ''/%'') \<in> set (snd (repository_query_conditions [Some q])) \<and>
         like (rq_project_name q @ ''/%'') ((rq_project_name q)[i := c] @ ''/'' @ s) \<and>
         (\<nexists>s'. (rq_project_name q)[i := c] @ ''/'' @ s = rq_project_name q @ ''/'' @ s') \<and>
         \<not> like (escape (rq_project_name q) @ ''/%'') ((rq_project_name q)[i := c] @ ''/'' @ s)"
proof -
  let ?p = "rq_project_name q"
  let ?n = "?p[i := c] @ ''/'' @ s"
  have par: "PStr (?p @ ''/%'') \<in> set (snd (repository_query_conditions [Some q]))"
    using assms(3) by (auto simp: repository_query_conditions_def query_clauses_def)
  have w: "\<forall>j < length ?p. ?p ! j = CHR ''_'' \<or> ?p[i := c] ! j = ?p ! j"
    using assms(4) by (metis nth_list_update_eq nth_list_update_neq)
  have m: "like (?p @ ''/%'') ?n"
    using like_wild_prefix [OF assms(1,2) _ w, of "''/%''" "''/'' @ s"] by (simp add: backslash_def)
  have out: "\<nexists>s'. ?n = ?p @ ''/'' @ s'"
  proof
    assume "\<exists>s'. ?n = ?p @ ''/'' @ s'"
    then obtain s' where "?n = ?p @ ''/'' @ s'" by blast
    then have "take (length ?p) ?n = ?p" by simp
    then have "?p[i := c] = ?p" by simp
    then show False using assms(3-5) by (metis nth_list_update_eq)
  qed
  have "\<not> like (escape ?p @ ''/%'') ?n"
  proof
    assume "like (escape ?p @ ''/%'') ?n"
    then obtain t' where t': "?n = ?p @ t'" "like ''/%'' t'" by (auto simp: like_escape_prefix)
    then obtain r where "t' = CHR ''/'' # r" by (cases t') (auto simp: backslash_def)
    then show False using out t'(1) by simp
  qed
  then show ?thesis using par m out by blast
qed

theorem repository_query_project_name_unescaped_witness:
  "PStr ''a_b/%'' \<in> set (snd (repository_query_conditions [Some project_name_query])) \<and>
   like ''a_b/%'' ''axb/nginx'' \<and> \<not> like (escape ''a_b'' @ ''/%'') ''axb/nginx''"
  using repository_query_project_name_unescaped [of project_name_query 1 "CHR ''x''" "''nginx''"]
  by (simp add: project_name_query_def backslash_def)

text \<open>
  \<open>AddRepository\<close> of a record with a project id and a new name stores it with
  the next id and both timestamps set to the current instant, and
  \<open>GetRepositoryByName\<close> returns that row.
\<close>

theorem add_repository_get_by_name:
  assumes "project_id r \<noteq> 0" and "\<not> repository_exists (rr_name r) db"
  shows "\<exists>db'. add_repository now r db = (Inr (), db') \<and>
           get_repository_by_name (rr_name r) db' =
             Inr (Some (r\<lparr>creation_time := now, update_time := now, repository_id := repo_seq db\<rparr>))"
  using assms get_repository_by_name_appended
    [of "r\<lparr>creation_time := now, update_time := now, repository_id := repo_seq db\<rparr>" db]
  by (auto simp: add_repository_def repository_exists_def)

theorem add_repository_get_by_name_witness:
  "\<exists>db'. add_repository 5 pull_repo demo_repo_db = (Inr (), db') \<and>
     get_repository_by_name ''test/pullcount'' db' =
       Inr (Some (pull_repo\<lparr>creation_time := 5, update_time := 5, repository_id := 2\<rparr>))"
proof -
  have "project_id pull_repo \<noteq> 0" "\<not> repository_exists (rr_name pull_repo) demo_repo_db"
    by (simp_all add: pull_repo_def repository_exists_def demo_repo_db_def hello_world_def)
  from add_repository_get_by_name [OF this, of 5] show ?thesis
    by (simp add: pull_repo_def demo_repo_db_def)
qed

text \<open>
  \<open>AddRepository\<close> fails, changing nothing, exactly when the project id is 0 or
  the name is taken.
\<close>

theorem add_repository_error:
  "add_repository now r db = (Inl e, db') \<longleftrightarrow>
     e = ErrGeneric \<and> db' = db \<and> (project_id r = 0 \<or> repository_exists (rr_name r) db)"
  by (auto simp: add_repository_def repository_exists_def)

text \<open>
  After \<open>DeleteRepository\<close> of a name, \<open>RepositoryExists\<close> of it is false and
  \<open>GetRepositoryByName\<close> returns no record and no error.
\<close>

theorem delete_repository_gone:
  "fst (delete_repository n db) = Inr () \<and> \<not> repository_exists n (snd (delete_repository n db)) \<and>
   get_repository_by_name n (snd (delete_repository n db)) = Inr None"
  by (auto simp: delete_repository_def repository_exists_def get_repository_by_name_def list_ex_iff
                 find_None_iff)

text \<open>Every sort key maps to its column, descending exactly for a leading minus sign.\<close>

theorem order_map_consistent:
  "list_all (\<lambda>(k, v). v = (if hd k = CHR ''-'' \<or> hd k = CHR ''+'' then tl k else k) @
                          (if hd k = CHR ''-'' then '' desc'' else '' asc'')) order_map"
  by (simp add: order_map_def)

end
