(* ===== verification/User_Dao.thy ===== *)
theory User_Dao
  imports Orm
begin

text \<open>
  The user DAO of \<open>src/pkg/user/dao/dao.go\<close> over the \<open>harbor_user\<close> table. The
  table is unique on user name and on email. A \<open>q.Query\<close> is its keyword map, a row
  matching when every keyword equals the row's column, and its page number and size. Its
  sorts are not modelled: rows come in table order, and the properties below do not depend
  on the order. \<open>q.MustClone\<close> copies the query
  (a nil query becomes the empty one), so the caller's query is never changed.
  \<open>Count\<close> and \<open>List\<close> then set the keyword \<open>deleted\<close> to false. \<open>Count\<close> builds its query
  with \<open>QuerySetterForCount\<close>, which ignores the page, and \<open>List\<close> with \<open>QuerySetter\<close>,
  which returns only the requested page (\<open>paginate\<close> of \<open>Orm\<close>).
\<close>

section \<open>Users and queries\<close>

record user =
  user_id :: int
  username :: string
  email :: string
  realname :: string
  user_deleted :: bool
  sysadmin_flag :: bool

record user_db =
  user_rows :: "user list"
  user_seq :: int

datatype kw_value = KStr string | KInt int | KBool bool

record query =
  q_keywords :: "(string \<times> kw_value) list"
  q_page_number :: int
  q_page_size :: int

definition user_column :: "user \<Rightarrow> string \<Rightarrow> kw_value option" where
  "user_column u k =
     (if k = ''user_id'' then Some (KInt (user_id u))
      else if k = ''username'' then Some (KStr (username u))
      else if k = ''email'' then Some (KStr (email u))
      else if k = ''realname'' then Some (KStr (realname u))
      else if k = ''deleted'' then Some (KBool (user_deleted u))
      else if k = ''sysadmin_flag'' then Some (KBool (sysadmin_flag u))
      else None)"

definition query_matches :: "query \<Rightarrow> user \<Rightarrow> bool" where
  "query_matches q u \<longleftrightarrow> list_all (\<lambda>(k, v). user_column u k = Some v) (q_keywords q)"

definition must_clone :: "query option \<Rightarrow> query" where
  "must_clone q = (case q of None \<Rightarrow> \<lparr>q_keywords = [], q_page_number = 0, q_page_size = 0\<rparr> | Some q' \<Rightarrow> q')"

text \<open>\<open>query.Keywords[k] = v\<close>: the map assignment replaces the keyword.\<close>

definition set_keyword :: "string \<Rightarrow> kw_value \<Rightarrow> query \<Rightarrow> query" where
  "set_keyword k v q = q\<lparr>q_keywords := (k, v) # filter (\<lambda>kv. fst kv \<noteq> k) (q_keywords q)\<rparr>"

section \<open>The operations\<close>

definition user_count :: "'o orm_context \<Rightarrow> query option \<Rightarrow> user_db \<Rightarrow> int result" where
  "user_count ctx query db =
     (let q = set_keyword ''deleted'' (KBool False) (must_clone query) in
      case from_context ctx of
        Inl e \<Rightarrow> Inl e
      | Inr _ \<Rightarrow> Inr (int (length (filter (query_matches q) (user_rows db)))))"

definition user_create :: "'o orm_context \<Rightarrow> user \<Rightarrow> user_db \<Rightarrow> int result \<times> user_db" where
  "user_create ctx u db =
     (if 0 < user_id u then (Inl ErrBadRequest, db)
      else
        (case from_context ctx of
           Inl e \<Rightarrow> (Inl e, db)
         | Inr _ \<Rightarrow>
             (if list_ex (\<lambda>x. username x = username u \<or> email x = email u) (user_rows db)
              then (Inl ErrConflict, db)
              else (Inr (user_seq db),
                    db\<lparr>user_rows := user_rows db @ [u\<lparr>user_id := user_seq db\<rparr>], user_seq := user_seq db + 1\<rparr>))))"

datatype user_field = UFUsername | UFEmail | UFRealname | UFDeleted | UFSysadmin

fun set_user_field :: "user \<Rightarrow> user_field \<Rightarrow> user \<Rightarrow> user" where
  "set_user_field src UFUsername u = u\<lparr>username := username src\<rparr>"
| "set_user_field src UFEmail u = u\<lparr>email := email src\<rparr>"
| "set_user_field src UFRealname u = u\<lparr>realname := realname src\<rparr>"
| "set_user_field src UFDeleted u = u\<lparr>user_deleted := user_deleted src\<rparr>"
| "set_user_field src UFSysadmin u = u\<lparr>sysadmin_flag := sysadmin_flag src\<rparr>"

definition update_user_row :: "user \<Rightarrow> user_field list \<Rightarrow> user \<Rightarrow> user" where
  "update_user_row src props u =
     foldr (set_user_field src) (if props = [] then [UFUsername, UFEmail, UFRealname, UFDeleted, UFSysadmin] else props) u"

definition user_update :: "'o orm_context \<Rightarrow> user \<Rightarrow> user_field list \<Rightarrow> user_db \<Rightarrow> unit result \<times> user_db" where
  "user_update ctx src props db =
     (case from_context ctx of
        Inl e \<Rightarrow> (Inl e, db)
      | Inr _ \<Rightarrow>
          (let rows' = map (\<lambda>u. if user_id u = user_id src then update_user_row src props u else u) (user_rows db)
           in if \<not> distinct (map username rows') \<or> \<not> distinct (map email rows') then (Inl ErrGeneric, db)
              else if \<not> list_ex (\<lambda>u. user_id u = user_id src) (user_rows db) then (Inl ErrNotFound, db)
              else (Inr (), db\<lparr>user_rows := rows'\<rparr>)))"

definition user_list :: "'o orm_context \<Rightarrow> query option \<Rightarrow> user_db \<Rightarrow> user list result" where
  "user_list ctx query db =
     (let q = set_keyword ''deleted'' (KBool False) (must_clone query) in
      case from_context ctx of
        Inl e \<Rightarrow> Inl e
      | Inr _ \<Rightarrow> Inr (paginate (q_page_number q) (q_page_size q) (filter (query_matches q) (user_rows db))))"

text \<open>
  The \<open>DAO\<close> interface, a record of its methods. \<open>New\<close> returns the default
  implementation, the operations above; \<open>init\<close> does nothing (its model registration is
  commented out).
\<close>

record 'o user_dao_ops =
  ud_create :: "'o orm_context \<Rightarrow> user \<Rightarrow> user_db \<Rightarrow> int result \<times> user_db"
  ud_list :: "'o orm_context \<Rightarrow> query option \<Rightarrow> user_db \<Rightarrow> user list result"
  ud_count :: "'o orm_context \<Rightarrow> query option \<Rightarrow> user_db \<Rightarrow> int result"
  ud_update :: "'o orm_context \<Rightarrow> user \<Rightarrow> user_field list \<Rightarrow> user_db \<Rightarrow> unit result \<times> user_db"

definition new_user_dao :: "'o user_dao_ops" where
  "new_user_dao = \<lparr>ud_create = user_create, ud_list = user_list, ud_count = user_count, ud_update = user_update\<rparr>"

definition user_db_ok :: "user_db \<Rightarrow> bool" where
  "user_db_ok db \<longleftrightarrow>
     0 < user_seq db \<and> distinct (map username (user_rows db)) \<and> distinct (map email (user_rows db)) \<and>
     distinct (map user_id (user_rows db)) \<and> list_all (\<lambda>u. 0 < user_id u \<and> user_id u < user_seq db) (user_rows db)"

section \<open>Fixtures\<close>

definition alice :: user where
  "alice = \<lparr>user_id = 1, username = ''alice'', email = ''alice@example.com'', realname = ''Alice'',
            user_deleted = False, sysadmin_flag = False\<rparr>"

definition bob :: user where
  "bob = \<lparr>user_id = 2, username = ''bob'', email = ''bob@example.com'', realname = ''Bob'',
          user_deleted = True, sysadmin_flag = False\<rparr>"

definition demo_user_db :: user_db where
  "demo_user_db = \<lparr>user_rows = [alice, bob], user_seq = 3\<rparr>"

definition user_ctx :: "nat orm_context" where
  "user_ctx = \<lparr>ctx_orm = Some 0\<rparr>"

section \<open>Lemmas\<close>

lemma set_keyword_twice [simp]: "set_keyword k v (set_keyword k v' q) = set_keyword k v q"
  by (simp add: set_keyword_def)

lemma query_matches_set_keyword:
  "query_matches (set_keyword k v q) u \<longleftrightarrow>
     user_column u k = Some v \<and> query_matches (q\<lparr>q_keywords := filter (\<lambda>kv. fst kv \<noteq> k) (q_keywords q)\<rparr>) u"
  by (simp add: set_keyword_def query_matches_def)

lemma query_matches_not_deleted:
  "query_matches (set_keyword ''deleted'' (KBool False) q) u \<Longrightarrow> \<not> user_deleted u"
  by (simp add: query_matches_set_keyword user_column_def)

lemma user_create_ok: "user_db_ok db \<Longrightarrow> user_db_ok (snd (user_create ctx u db))"
  by (auto simp: user_create_def user_db_ok_def list_all_iff list_ex_iff split: sum.splits)

lemma set_user_field_id [simp]: "user_id (set_user_field src f u) = user_id u"
  by (cases f) simp_all

lemma update_user_row_id [simp]: "user_id (update_user_row src props u) = user_id u"
proof -
  have "user_id (foldr (set_user_field src) fs u) = user_id u" for fs
    by (induction fs) simp_all
  then show ?thesis by (simp add: update_user_row_def)
qed

lemma user_update_ok: "user_db_ok db \<Longrightarrow> user_db_ok (snd (user_update ctx src props db))"
proof -
  assume ok: "user_db_ok db"
  let ?rows = "map (\<lambda>u. if user_id u = user_id src then update_user_row src props u else u) (user_rows db)"
  have ids: "map user_id ?rows = map user_id (user_rows db)" by (simp add: comp_def)
  show ?thesis
  proof (cases "\<not> distinct (map username ?rows) \<or> \<not> distinct (map email ?rows)")
    case True
    then show ?thesis using ok by (simp add: user_update_def Let_def split: sum.splits)
  next
    case False
    then have "distinct (map username ?rows)" "distinct (map email ?rows)" by simp_all
    moreover have "distinct (map user_id ?rows)" using ok by (simp only: ids) (simp add: user_db_ok_def)
    moreover have "list_all (\<lambda>u. 0 < user_id u \<and> user_id u < user_seq db) ?rows"
      using ok by (auto simp: user_db_ok_def list_all_iff)
    ultimately show ?thesis
      using ok by (auto simp: user_update_def Let_def user_db_ok_def split: sum.splits)
  qed
qed

section \<open>Properties\<close>

text \<open>
  Claim C22: \<open>List\<close> never returns a deleted user. It returns some of the rows that
  \<open>Count\<close> counts: at most the page size of them, and all of them when the query has no
  page size. A query that asks for deleted users gets the same answer as one that does not
  mention \<open>deleted\<close>.
\<close>

theorem user_list_never_deleted:
  assumes "user_list ctx query db = Inr us"
  shows "list_all (\<lambda>u. \<not> user_deleted u) us \<and> mset us \<subseteq># mset (user_rows db) \<and>
         (\<exists>n. user_count ctx query db = Inr n \<and> int (length us) \<le> n \<and>
              (q_page_size (must_clone query) \<le> 0 \<longrightarrow> n = int (length us)) \<and>
              (0 < q_page_size (must_clone query) \<longrightarrow> length us \<le> nat (q_page_size (must_clone query)))) \<and>
         user_list ctx (Some (set_keyword ''deleted'' (KBool True) (must_clone query))) db = Inr us"
proof -
  let ?q = "set_keyword ''deleted'' (KBool False) (must_clone query)"
  let ?m = "filter (query_matches ?q) (user_rows db)"
  have us: "us = paginate (q_page_number (must_clone query)) (q_page_size (must_clone query)) ?m"
    and orm: "ctx_orm ctx \<noteq> None"
    using assms by (auto simp: user_list_def Let_def from_context_def set_keyword_def split: option.splits)
  have sub: "mset us \<subseteq># mset ?m" unfolding us by (rule paginate_subset)
  then have "set us \<subseteq> set ?m" by (metis set_mset_mono set_mset_mset)
  then have nd: "list_all (\<lambda>u. \<not> user_deleted u) us"
    using query_matches_not_deleted by (fastforce simp: list_all_iff)
  have "mset ?m \<subseteq># mset (user_rows db)" by (simp add: multiset_filter_subset)
  with sub have rows: "mset us \<subseteq># mset (user_rows db)" by (rule subset_mset.order_trans)
  have "length us \<le> length ?m" using size_mset_mono [OF sub] by (simp only: size_mset)
  moreover have "user_count ctx query db = Inr (int (length ?m))"
    using orm by (auto simp: user_count_def Let_def from_context_def)
  moreover have "user_list ctx (Some (set_keyword ''deleted'' (KBool True) (must_clone query))) db = Inr us"
    using orm us by (auto simp: user_list_def Let_def from_context_def must_clone_def set_keyword_def)
  ultimately show ?thesis using nd rows us by (auto simp: length_paginate set_keyword_def)
qed

theorem user_list_never_deleted_witness:
  "user_list user_ctx (Some \<lparr>q_keywords = [], q_page_number = 2, q_page_size = 1\<rparr>) demo_user_db = Inr [] \<and>
   user_list user_ctx None demo_user_db = Inr [alice] \<and> user_count user_ctx None demo_user_db = Inr 1 \<and>
   user_list user_ctx (Some (set_keyword ''deleted'' (KBool True) (must_clone None))) demo_user_db = Inr [alice]"
proof -
  have p: "user_list user_ctx (Some \<lparr>q_keywords = [], q_page_number = 2, q_page_size = 1\<rparr>) demo_user_db = Inr []"
    by (simp add: user_list_def user_ctx_def from_context_def demo_user_db_def must_clone_def set_keyword_def
                  query_matches_def user_column_def alice_def bob_def paginate_def)
  have l: "user_list user_ctx None demo_user_db = Inr [alice]"
    by (simp add: user_list_def user_ctx_def from_context_def demo_user_db_def must_clone_def set_keyword_def
                  query_matches_def user_column_def alice_def bob_def)
  have c: "q_page_size (must_clone None) \<le> 0" by (simp add: must_clone_def)
  show ?thesis using user_list_never_deleted [OF l] user_list_never_deleted [OF p] l p c by simp
qed

text \<open>
  \<open>Create\<close> of a user whose id is already set fails with bad-request and changes
  nothing; otherwise it succeeds exactly when the context has an ORM and the name and email
  are both new, and then returns the next id and keeps the table well formed.
\<close>

theorem user_create_guard:
  "(0 < user_id u \<longrightarrow> user_create ctx u db = (Inl ErrBadRequest, db)) \<and>
   (fst (user_create ctx u db) = Inr i \<longleftrightarrow>
      user_id u \<le> 0 \<and> ctx_orm ctx \<noteq> None \<and>
      \<not> list_ex (\<lambda>x. username x = username u \<or> email x = email u) (user_rows db) \<and> i = user_seq db) \<and>
   (user_db_ok db \<longrightarrow> user_db_ok (snd (user_create ctx u db)))"
  using user_create_ok [of db ctx u]
  by (auto simp: user_create_def from_context_def split: option.splits)

theorem user_create_guard_witness:
  "user_create user_ctx alice demo_user_db = (Inl ErrBadRequest, demo_user_db) \<and>
   fst (user_create user_ctx (alice\<lparr>user_id := 0, username := ''carol'', email := ''carol@example.com''\<rparr>)
        demo_user_db) = Inr 3 \<and>
   user_db_ok (snd (user_create user_ctx (alice\<lparr>user_id := 0, username := ''carol'', email := ''carol@example.com''\<rparr>)
        demo_user_db))"
proof -
  have ok: "user_db_ok demo_user_db" by (simp add: user_db_ok_def demo_user_db_def alice_def bob_def)
  show ?thesis
    using user_create_guard [of alice user_ctx demo_user_db 0]
      user_create_guard [of "alice\<lparr>user_id := 0, username := ''carol'', email := ''carol@example.com''\<rparr>" user_ctx demo_user_db 3] ok
    by (simp add: alice_def bob_def user_ctx_def demo_user_db_def)
qed

end
