(* ===== verification/Robot.thy ===== *)
theory Robot
  imports Prelude
begin

text \<open>
  The robot-account security-context generator of
  \<open>src/server/middleware/security/robot.go\<close> (\<open>robot.Generate\<close>). The request is reduced
  to its basic-auth header. The token library and the robot controller are the fields of
  the environment record \<open>robot_env\<close>: the default token options (\<open>None\<close> when they cannot
  be loaded), the token parser, and the robot lookup by token id. Each guard of
  \<open>Generate\<close> that returns \<open>nil\<close> is a \<open>None\<close> of the model.
\<close>

section \<open>Robots, claims and the environment\<close>

record access =
  acc_resource :: string
  acc_action :: string
  acc_effect :: string

record robot_claim =
  token_id :: int
  claim_access :: "access list"

record robot_account =
  robot_id :: int
  robot_name :: string
  robot_disabled :: bool

record 'opts robot_env =
  default_token_opts :: "'opts option"
  parse_token :: "'opts \<Rightarrow> string \<Rightarrow> robot_claim result"
  get_robot :: "int \<Rightarrow> robot_account option result"

text \<open>\<open>robotCtx.NewSecurityContext(&robot.Robot, false, access)\<close>.\<close>

record robot_security_context =
  sc_robot :: robot_account
  sc_is_sys_admin :: bool
  sc_access :: "access list"

text \<open>\<open>common.RobotPrefix\<close>.\<close>

definition robot_prefix :: string where
  "robot_prefix = ''robot$''"

section \<open>Generate\<close>

definition generate ::
  "'opts robot_env \<Rightarrow> (string \<times> string) option \<Rightarrow> robot_security_context option" where
  "generate env basic_auth =
     (case basic_auth of
        None \<Rightarrow> None
      | Some (name, tk) \<Rightarrow>
          (if \<not> has_prefix name robot_prefix then None
           else
             (case default_token_opts env of
                None \<Rightarrow> None
              | Some opts \<Rightarrow>
                  (case parse_token env opts tk of
                     Inl _ \<Rightarrow> None
                   | Inr claim \<Rightarrow>
                       (case get_robot env (token_id claim) of
                          Inl _ \<Rightarrow> None
                        | Inr None \<Rightarrow> None
                        | Inr (Some rb) \<Rightarrow>
                            (if name \<noteq> robot_name rb then None
                             else if robot_disabled rb then None
                             else Some \<lparr>sc_robot = rb, sc_is_sys_admin = False,
                                        sc_access = claim_access claim\<rparr>))))))"

section \<open>Fixtures\<close>

definition pull_access :: access where
  "pull_access = \<lparr>acc_resource = ''/project/1/repository'', acc_action = ''pull'', acc_effect = []\<rparr>"

definition demo_robot :: robot_account where
  "demo_robot = \<lparr>robot_id = 7, robot_name = ''robot$ci'', robot_disabled = False\<rparr>"

text \<open>A token store with one valid token \<open>tk-ci\<close> for the robot with token id 7.\<close>

definition demo_robot_env :: "unit robot_env" where
  "demo_robot_env =
     \<lparr>default_token_opts = Some (),
      parse_token = (\<lambda>_ tk. if tk = ''tk-ci'' then Inr \<lparr>token_id = 7, claim_access = [pull_access]\<rparr>
                             else Inl ErrBadRequest),
      get_robot = (\<lambda>i. if i = 7 then Inr (Some demo_robot) else Inr None)\<rparr>"

section \<open>Properties\<close>

text \<open>
  Claim C23: \<open>Generate\<close> returns a security context only for a request with basic
  auth whose user name has the robot prefix and whose password parses as a token, when the
  token's robot exists, has exactly that name, and is enabled; the context is that robot's,
  is never a system administrator, and carries the token's access list.
\<close>

theorem generate_sound:
  assumes "generate env basic_auth = Some sc"
  shows "\<exists>name tk opts claim rb.
           basic_auth = Some (name, tk) \<and> has_prefix name robot_prefix \<and>
           default_token_opts env = Some opts \<and> parse_token env opts tk = Inr claim \<and>
           get_robot env (token_id claim) = Inr (Some rb) \<and> robot_name rb = name \<and>
           \<not> robot_disabled rb \<and>
           sc = \<lparr>sc_robot = rb, sc_is_sys_admin = False, sc_access = claim_access claim\<rparr>"
  using assms
  by (auto simp: generate_def split: option.splits sum.splits if_splits)

theorem generate_sound_witness:
  "generate demo_robot_env (Some (''robot$ci'', ''tk-ci'')) =
     Some \<lparr>sc_robot = demo_robot, sc_is_sys_admin = False, sc_access = [pull_access]\<rparr> \<and>
   (\<exists>name tk opts claim rb.
      Some (''robot$ci'', ''tk-ci'') = Some (name, tk) \<and> has_prefix name robot_prefix \<and>
      default_token_opts demo_robot_env = Some opts \<and> parse_token demo_robot_env opts tk = Inr claim \<and>
      get_robot demo_robot_env (token_id claim) = Inr (Some rb) \<and> robot_name rb = name \<and>
      \<not> robot_disabled rb \<and>
      \<lparr>sc_robot = demo_robot, sc_is_sys_admin = False, sc_access = [pull_access]\<rparr> =
        \<lparr>sc_robot = rb, sc_is_sys_admin = False, sc_access = claim_access claim\<rparr>)"
proof -
  have g: "generate demo_robot_env (Some (''robot$ci'', ''tk-ci'')) =
             Some \<lparr>sc_robot = demo_robot, sc_is_sys_admin = False, sc_access = [pull_access]\<rparr>"
    by (simp add: generate_def demo_robot_env_def robot_prefix_def demo_robot_def has_prefix_def)
  show ?thesis using g generate_sound [OF g] by blast
qed

end
