(* ===== verification/Pgsql.thy ===== *)
theory Pgsql
  imports Orm
begin

text \<open>
  The PostgreSQL descriptor of \<open>src/common/dao/pgsql.go\<close>: \<open>NewPGSQL\<close>, \<open>Name\<close>,
  \<open>String\<close>, the data source of \<open>Register\<close>, \<open>UpgradeSchema\<close>, and the
  migration source path of \<open>NewMigrator\<close>. The connection test, driver and database
  registration, and the migrator are the effects in the record \<open>pg_env\<close>. The driver
  (lib/pq) reads the data source as space-separated \<open>key=value\<close> pairs, a later key
  overriding an earlier one. That reading is \<open>dsn_get\<close>; quoted values are not
  modelled, and the theorems about it assume values without quotes or backslashes.
\<close>

section \<open>The descriptor\<close>

record pgsql =
  pg_host :: string
  pg_port :: string
  pg_usr :: string
  pg_pwd :: string
  pg_database :: string
  pg_sslmode :: string
  pg_max_idle_conns :: int
  pg_max_open_conns :: int

definition pgsql_name :: string where
  "pgsql_name = ''PostgreSQL''"

text \<open>\<open>%q\<close> of a string of printable ASCII characters (\<open>strconv.Quote\<close>).\<close>

definition go_quote :: "string \<Rightarrow> string" where
  "go_quote s =
     CHR 0x22 # concat (map (\<lambda>c. if c = CHR 0x22 \<or> c = CHR 0x5C then [CHR 0x5C, c] else [c]) s) @ [CHR 0x22]"

definition pgsql_string :: "pgsql \<Rightarrow> string" where
  "pgsql_string p =
     ''type-'' @ pgsql_name @ '' host-'' @ pg_host p @ '' port-'' @ pg_port p @ '' database-'' @ pg_database p @
     '' sslmode-'' @ go_quote (pg_sslmode p)"

definition new_pgsql ::
  "string \<Rightarrow> string \<Rightarrow> string \<Rightarrow> string \<Rightarrow> string \<Rightarrow> string \<Rightarrow> int \<Rightarrow> int \<Rightarrow> pgsql" where
  "new_pgsql host port usr pwd database sslmode max_idle max_open =
     \<lparr>pg_host = host, pg_port = port, pg_usr = usr, pg_pwd = pwd, pg_database = database,
      pg_sslmode = (if sslmode = [] then ''disable'' else sslmode),
      pg_max_idle_conns = max_idle, pg_max_open_conns = max_open\<rparr>"

section \<open>Register\<close>

definition dsn_info :: "pgsql \<Rightarrow> string" where
  "dsn_info p =
     ''host='' @ pg_host p @ '' port='' @ pg_port p @ '' user='' @ pg_usr p @ '' password='' @ pg_pwd p @
     '' dbname='' @ pg_database p @ '' sslmode='' @ pg_sslmode p @ '' timezone=UTC''"

text \<open>The \<open>url.URL\<close> of the database that \<open>NewMigrator\<close> gives to \<open>migrate.New\<close>.\<close>

record migrate_db_url =
  mu_scheme :: string
  mu_user :: string
  mu_password :: string
  mu_host :: string
  mu_path :: string
  mu_raw_query :: string

record pg_env =
  test_tcp_conn :: "string \<Rightarrow> herror option"
  register_driver :: "herror option"
  register_database :: "string \<Rightarrow> string \<Rightarrow> string \<Rightarrow> int \<Rightarrow> int \<Rightarrow> herror option"
  migrate_new :: "string \<Rightarrow> migrate_db_url \<Rightarrow> herror option"
  migrate_up :: "herror option"

text \<open>
  What \<open>Register\<close> leaves behind: the alias, the data source and the pool sizes given
  to \<open>orm.RegisterDataBase\<close>, and the \<open>SetMaxOpenConns\<close> call.
\<close>

record registration =
  reg_alias :: string
  reg_info :: string
  reg_max_idle :: int
  reg_max_open :: int

definition pgsql_register :: "pg_env \<Rightarrow> pgsql \<Rightarrow> string list \<Rightarrow> registration result" where
  "pgsql_register env p alias =
     (case test_tcp_conn env (pg_host p @ '':'' @ pg_port p) of
        Some e \<Rightarrow> Inl e
      | None \<Rightarrow>
          (case register_driver env of
             Some e \<Rightarrow> Inl e
           | None \<Rightarrow>
               (let an = (if alias \<noteq> [] then hd alias else ''default'');
                    info = dsn_info p
                in case register_database env an ''postgres'' info (pg_max_idle_conns p) (pg_max_open_conns p) of
                     Some e \<Rightarrow> Inl e
                   | None \<Rightarrow> Inr \<lparr>reg_alias = an, reg_info = info, reg_max_idle = pg_max_idle_conns p,
                                  reg_max_open = pg_max_open_conns p\<rparr>)))"

section \<open>UpgradeSchema\<close>

text \<open>\<open>strconv.ParseInt(p.port, 10, 64)\<close> on a plain decimal string.\<close>

definition parse_port :: "string \<Rightarrow> int result" where
  "parse_port s =
     (if s \<noteq> [] \<and> list_all (\<lambda>c. (48::nat) \<le> of_char c \<and> of_char c \<le> (57::nat)) s
      then Inr (int (foldl (\<lambda>acc c. 10 * acc + (of_char c - 48)) (0::nat) s))
      else Inl ErrBadRequest)"

definition err_no_change :: herror where
  "err_no_change = ErrTransport ''no change''"

definition default_migration_path :: string where
  "default_migration_path = ''migrations/postgresql/''"

definition migration_source_url :: "string \<Rightarrow> string" where
  "migration_source_url env_path = ''file://'' @ (if env_path = [] then default_migration_path else env_path)"

text \<open>
  \<open>NewMigrator\<close> for the \<open>models.PostGreSQL\<close> with the given host, port, user,
  password, database and SSL mode; \<open>env_path\<close> is \<open>POSTGRES_MIGRATION_SCRIPTS_PATH\<close>.
\<close>

definition postgres_url :: "string \<Rightarrow> int \<Rightarrow> string \<Rightarrow> string \<Rightarrow> string \<Rightarrow> string \<Rightarrow> migrate_db_url" where
  "postgres_url host port usr pwd db sslmode =
     \<lparr>mu_scheme = ''postgres'', mu_user = usr, mu_password = pwd, mu_host = host @ '':'' @ format_int port,
      mu_path = db, mu_raw_query = ''sslmode='' @ sslmode\<rparr>"

definition new_migrator ::
  "pg_env \<Rightarrow> string \<Rightarrow> string \<Rightarrow> int \<Rightarrow> string \<Rightarrow> string \<Rightarrow> string \<Rightarrow> string \<Rightarrow> unit result" where
  "new_migrator env env_path host port usr pwd db sslmode =
     (case migrate_new env (migration_source_url env_path) (postgres_url host port usr pwd db sslmode) of
        Some e \<Rightarrow> Inl e
      | None \<Rightarrow> Inr ())"

definition upgrade_schema :: "pg_env \<Rightarrow> string \<Rightarrow> pgsql \<Rightarrow> unit result" where
  "upgrade_schema env env_path p =
     (case parse_port (pg_port p) of
        Inl e \<Rightarrow> Inl e
      | Inr port \<Rightarrow>
          (case new_migrator env env_path (pg_host p) port (pg_usr p) (pg_pwd p) (pg_database p) (pg_sslmode p) of
             Inl e \<Rightarrow> Inl e
           | Inr _ \<Rightarrow>
               (case migrate_up env of
                  None \<Rightarrow> Inr ()
                | Some e \<Rightarrow> if e = err_no_change then Inr () else Inl e)))"

section \<open>How lib/pq reads the data source\<close>

definition dsn_pairs :: "string \<Rightarrow> (string \<times> string) list" where
  "dsn_pairs s =
     map (\<lambda>tok. (takeWhile (\<lambda>c. c \<noteq> CHR ''='') tok, drop 1 (dropWhile (\<lambda>c. c \<noteq> CHR ''='') tok)))
         (filter (\<lambda>tok. tok \<noteq> []) (split_on '' '' s))"

definition dsn_get :: "string \<Rightarrow> string \<Rightarrow> string option" where
  "dsn_get k s = map_of (rev (dsn_pairs s)) k"

section \<open>Fixtures\<close>

definition demo_pgsql :: pgsql where
  "demo_pgsql = new_pgsql ''postgresql'' ''5432'' ''postgres'' ''root123'' ''registry'' [] 2 10"


text \<open>An environment where every step succeeds and the schema is already current.\<close>

definition current_schema_env :: pg_env where
  "current_schema_env =
     \<lparr>test_tcp_conn = (\<lambda>_. None), register_driver = None, register_database = (\<lambda>_ _ _ _ _. None),
      migrate_new = (\<lambda>_ _. None), migrate_up = Some err_no_change\<rparr>"

section \<open>Lemmas\<close>

lemma dsn_info_join:
  "dsn_info p =
     join [''host='' @ pg_host p, ''port='' @ pg_port p, ''user='' @ pg_usr p, ''password='' @ pg_pwd p,
           ''dbname='' @ pg_database p, ''sslmode='' @ pg_sslmode p, ''timezone=UTC''] '' ''"
  by (simp add: dsn_info_def)

lemma dsn_token:
  "CHR ''='' \<notin> set k \<Longrightarrow>
     (takeWhile (\<lambda>c. c \<noteq> CHR ''='') (k @ CHR ''='' # v), drop 1 (dropWhile (\<lambda>c. c \<noteq> CHR ''='') (k @ CHR ''='' # v)))
     = (k, v)"
  by (induction k) auto

lemma dsn_pairs_info:
  assumes "list_all (\<lambda>v. CHR '' '' \<notin> set v) [pg_host p, pg_port p, pg_usr p, pg_pwd p, pg_database p, pg_sslmode p]"
  shows "dsn_pairs (dsn_info p) =
           [(''host'', pg_host p), (''port'', pg_port p), (''user'', pg_usr p), (''password'', pg_pwd p),
            (''dbname'', pg_database p), (''sslmode'', pg_sslmode p), (''timezone'', ''UTC'')]"
proof -
  have "split_on '' '' (dsn_info p) =
          [''host='' @ pg_host p, ''port='' @ pg_port p, ''user='' @ pg_usr p, ''password='' @ pg_pwd p,
           ''dbname='' @ pg_database p, ''sslmode='' @ pg_sslmode p, ''timezone=UTC'']"
    unfolding dsn_info_join using assms by (intro split_on_single_join) auto
  then show ?thesis
    by (simp add: dsn_pairs_def dsn_token [where k = "''host''", simplified]
                  dsn_token [where k = "''port''", simplified] dsn_token [where k = "''user''", simplified]
                  dsn_token [where k = "''password''", simplified] dsn_token [where k = "''dbname''", simplified]
                  dsn_token [where k = "''sslmode''", simplified])
qed

section \<open>Properties\<close>

text \<open>
  When no field holds a space, the driver reads back from the data source of
  \<open>Register\<close> exactly the host, port, user, password, database and SSL mode of the
  descriptor, and the UTC time zone.
\<close>

theorem dsn_info_roundtrip:
  assumes "list_all (\<lambda>v. CHR '' '' \<notin> set v) [pg_host p, pg_port p, pg_usr p, pg_pwd p, pg_database p, pg_sslmode p]"
  shows "dsn_get ''host'' (dsn_info p) = Some (pg_host p) \<and> dsn_get ''port'' (dsn_info p) = Some (pg_port p) \<and>
         dsn_get ''user'' (dsn_info p) = Some (pg_usr p) \<and> dsn_get ''password'' (dsn_info p) = Some (pg_pwd p) \<and>
         dsn_get ''dbname'' (dsn_info p) = Some (pg_database p) \<and>
         dsn_get ''sslmode'' (dsn_info p) = Some (pg_sslmode p) \<and> dsn_get ''timezone'' (dsn_info p) = Some ''UTC''"
  by (simp add: dsn_get_def dsn_pairs_info [OF assms])

theorem dsn_info_roundtrip_witness:
  "dsn_get ''password'' (dsn_info demo_pgsql) = Some ''root123'' \<and> dsn_get ''sslmode'' (dsn_info demo_pgsql) = Some ''disable'' \<and>
   dsn_get ''host'' (dsn_info demo_pgsql) = Some ''postgresql''"
proof -
  have "list_all (\<lambda>v. CHR '' '' \<notin> set v)
          [pg_host demo_pgsql, pg_port demo_pgsql, pg_usr demo_pgsql, pg_pwd demo_pgsql, pg_database demo_pgsql,
           pg_sslmode demo_pgsql]"
    by (simp add: demo_pgsql_def new_pgsql_def)
  from dsn_info_roundtrip [OF this] show ?thesis by (simp add: demo_pgsql_def new_pgsql_def)
qed



text \<open>\<open>String\<close> never shows the password.\<close>

theorem pgsql_string_hides_password: "pgsql_string (p\<lparr>pg_pwd := w\<rparr>) = pgsql_string p"
  by (simp add: pgsql_string_def)

text \<open>\<open>UpgradeSchema\<close> treats the migrator's no-change answer as success.\<close>

theorem upgrade_schema_no_change:
  "parse_port (pg_port p) = Inr n \<Longrightarrow>
     migrate_new env (migration_source_url path)
       (postgres_url (pg_host p) n (pg_usr p) (pg_pwd p) (pg_database p) (pg_sslmode p)) = None \<Longrightarrow>
     migrate_up env = Some err_no_change \<Longrightarrow> upgrade_schema env path p = Inr ()"
  by (simp add: upgrade_schema_def new_migrator_def)

theorem upgrade_schema_no_change_witness:
  "upgrade_schema current_schema_env [] demo_pgsql = Inr ()"
  by (rule upgrade_schema_no_change [where n = 5432])
     (simp_all add: current_schema_env_def parse_port_def demo_pgsql_def new_pgsql_def)

end
