(* ===== verification/Config.thy ===== *)
theory Config
  imports Prelude
begin

text \<open>
  The configuration accessors of \<open>src/core/config/config.go\<close>. The package state is
  the record \<open>core_cfg\<close>. It holds the configuration manager's store (key to typed value),
  the error its \<open>Load()\<close> returns, the key provider's secret key, and the process
  environment. \<open>os.Getenv\<close> of an unset variable is the empty string; \<open>os.LookupEnv\<close>
  tells the two apart. The manager's getters (\<open>GetString\<close>, \<open>GetInt\<close>, \<open>GetBool\<close>) give
  the zero value for a missing key or a value of another type. The key names are those of
  \<open>common/const.go\<close>, which is not under src/.
\<close>

section \<open>The configuration state\<close>

datatype cfg_value = CStr string | CInt int | CBool bool | CMap "(string \<times> string) list"

record core_cfg =
  cfg_store :: "string \<Rightarrow> cfg_value option"
  cfg_load_error :: "herror option"
  cfg_secret_key :: "string result"
  cfg_env :: "string \<Rightarrow> string option"

definition get_string :: "core_cfg \<Rightarrow> string \<Rightarrow> string" where
  "get_string c k = (case cfg_store c k of Some (CStr s) \<Rightarrow> s | _ \<Rightarrow> [])"

definition get_int :: "core_cfg \<Rightarrow> string \<Rightarrow> int" where
  "get_int c k = (case cfg_store c k of Some (CInt i) \<Rightarrow> i | _ \<Rightarrow> 0)"

definition get_bool :: "core_cfg \<Rightarrow> string \<Rightarrow> bool" where
  "get_bool c k = (case cfg_store c k of Some (CBool b) \<Rightarrow> b | _ \<Rightarrow> False)"

definition get_map :: "core_cfg \<Rightarrow> string \<Rightarrow> (string \<times> string) list" where
  "get_map c k = (case cfg_store c k of Some (CMap m) \<Rightarrow> m | _ \<Rightarrow> [])"

definition getenv :: "core_cfg \<Rightarrow> string \<Rightarrow> string" where
  "getenv c k = (case cfg_env c k of None \<Rightarrow> [] | Some v \<Rightarrow> v)"

text \<open>\<open>GetSystemCfg\<close>: an empty store means the database is down.\<close>

definition get_system_cfg :: "core_cfg \<Rightarrow> string list \<Rightarrow> (string \<times> cfg_value) list result" where
  "get_system_cfg c keys =
     (let all = List.map_filter (\<lambda>k. map_option (Pair k) (cfg_store c k)) keys in
      if all = [] then Inl ErrGeneric else Inr all)"

section \<open>Plain accessors\<close>

text \<open>\<open>AuthMode\<close>: when loading fails it answers \<open>db_auth\<close> together with the error.\<close>

definition auth_mode :: "core_cfg \<Rightarrow> string \<times> herror option" where
  "auth_mode c =
     (case cfg_load_error c of
        Some e \<Rightarrow> (''db_auth'', Some e)
      | None \<Rightarrow> (get_string c ''auth_mode'', None))"

definition default_registry_token_private_key_path :: string where
  "default_registry_token_private_key_path = ''/etc/core/private_key.pem''"

definition token_private_key_path :: "core_cfg \<Rightarrow> string" where
  "token_private_key_path c =
     (let path = getenv c ''TOKEN_PRIVATE_KEY_PATH'' in
      if path = [] then default_registry_token_private_key_path else path)"

definition token_expiration :: "core_cfg \<Rightarrow> int result" where
  "token_expiration c = Inr (get_int c ''token_expiration'')"

definition robot_token_duration :: "core_cfg \<Rightarrow> int" where
  "robot_token_duration c = get_int c ''robot_token_duration''"

definition ext_endpoint :: "core_cfg \<Rightarrow> string result" where
  "ext_endpoint c = Inr (get_string c ''ext_endpoint'')"

text \<open>\<open>ExtURL\<close>: the part after the first \<open>://\<close> and before a second one.\<close>

definition ext_url :: "core_cfg \<Rightarrow> string result" where
  "ext_url c =
     (case ext_endpoint c of
        Inl _ \<Rightarrow> Inr []
      | Inr endpoint \<Rightarrow>
          (let l = split_on ''://'' endpoint in
           if 1 < length l then Inr (l ! 1) else Inr endpoint))"

definition secret_key :: "core_cfg \<Rightarrow> string result" where
  "secret_key c = cfg_secret_key c"

definition self_registration :: "core_cfg \<Rightarrow> bool result" where
  "self_registration c = Inr (get_bool c ''self_registration'')"

definition registry_url :: "core_cfg \<Rightarrow> string result" where
  "registry_url c = (let url = getenv c ''REGISTRY_URL'' in Inr (if url = [] then ''http://registry:5000'' else url))"

definition internal_job_service_url :: "core_cfg \<Rightarrow> string" where
  "internal_job_service_url c = getenv c ''JOBSERVICE_URL''"

definition get_core_url :: "core_cfg \<Rightarrow> string" where
  "get_core_url c = getenv c ''CORE_URL''"

definition internal_core_url :: "core_cfg \<Rightarrow> string" where
  "internal_core_url c = trim_suffix (get_string c ''core_url'') ''/''"

definition local_core_url :: "core_cfg \<Rightarrow> string" where
  "local_core_url c = get_string c ''core_local_url''"

definition internal_token_service_endpoint :: "core_cfg \<Rightarrow> string" where
  "internal_token_service_endpoint c = internal_core_url c @ ''/service/token''"

definition internal_notary_endpoint :: "core_cfg \<Rightarrow> string" where
  "internal_notary_endpoint c = get_string c ''notary_url''"

definition initial_admin_password :: "core_cfg \<Rightarrow> string result" where
  "initial_admin_password c = Inr (get_string c ''admin_initial_password'')"

definition only_admin_create_project :: "core_cfg \<Rightarrow> bool result" where
  "only_admin_create_project c = Inr (get_string c ''project_creation_restriction'' = ''adminonly'')"

definition core_secret :: "core_cfg \<Rightarrow> string" where
  "core_secret c = getenv c ''CORE_SECRET''"

definition registry_credential :: "core_cfg \<Rightarrow> string \<times> string" where
  "registry_credential c = (getenv c ''REGISTRY_CREDENTIAL_USERNAME'', getenv c ''REGISTRY_CREDENTIAL_PASSWORD'')"

definition jobservice_secret :: "core_cfg \<Rightarrow> string" where
  "jobservice_secret c = getenv c ''JOBSERVICE_SECRET''"

definition with_notary :: "core_cfg \<Rightarrow> bool" where
  "with_notary c = get_bool c ''with_notary''"

definition with_trivy :: "core_cfg \<Rightarrow> bool" where
  "with_trivy c = get_bool c ''with_trivy''"

definition trivy_adapter_url :: "core_cfg \<Rightarrow> string" where
  "trivy_adapter_url c = get_string c ''trivy_adapter_url''"

definition read_only :: "core_cfg \<Rightarrow> bool" where
  "read_only c = get_bool c ''read_only''"

definition with_chart_museum :: "core_cfg \<Rightarrow> bool" where
  "with_chart_museum c = get_bool c ''with_chartmuseum''"

definition get_chart_museum_endpoint :: "core_cfg \<Rightarrow> string result" where
  "get_chart_museum_endpoint c =
     (let chart_endpoint = trim_space (get_string c ''chart_repository_url'') in
      if chart_endpoint = [] then Inl ErrGeneric else Inr chart_endpoint)"

definition get_redis_of_reg_url :: "core_cfg \<Rightarrow> string" where
  "get_redis_of_reg_url c = getenv c ''_REDIS_URL_REG''"

definition get_portal_url :: "core_cfg \<Rightarrow> string" where
  "get_portal_url c = (let url = getenv c ''PORTAL_URL'' in if url = [] then ''http://portal:8080'' else url)"

definition get_registry_ctl_url :: "core_cfg \<Rightarrow> string" where
  "get_registry_ctl_url c =
     (let url = getenv c ''REGISTRY_CONTROLLER_URL'' in if url = [] then ''http://registryctl:8080'' else url)"

definition notification_enable :: "core_cfg \<Rightarrow> bool" where
  "notification_enable c = get_bool c ''notification_enable''"

definition quota_per_project_enable :: "core_cfg \<Rightarrow> bool" where
  "quota_per_project_enable c = get_bool c ''quota_per_project_enable''"

definition robot_name_prefix :: "core_cfg \<Rightarrow> string" where
  "robot_name_prefix c = get_string c ''robot_name_prefix''"

section \<open>Settings records\<close>

record ldap_conf =
  ldap_url :: string
  ldap_search_dn :: string
  ldap_search_password :: string
  ldap_base_dn :: string
  ldap_uid :: string
  ldap_filter :: string
  ldap_scope :: int
  ldap_connection_timeout :: int
  ldap_verify_cert :: bool

definition ldap_conf_of :: "core_cfg \<Rightarrow> ldap_conf result" where
  "ldap_conf_of c =
     (case cfg_load_error c of
        Some e \<Rightarrow> Inl e
      | None \<Rightarrow> Inr \<lparr>ldap_url = get_string c ''ldap_url'', ldap_search_dn = get_string c ''ldap_search_dn'',
                     ldap_search_password = get_string c ''ldap_search_password'',
                     ldap_base_dn = get_string c ''ldap_base_dn'', ldap_uid = get_string c ''ldap_uid'',
                     ldap_filter = get_string c ''ldap_filter'', ldap_scope = get_int c ''ldap_scope'',
                     ldap_connection_timeout = get_int c ''ldap_timeout'',
                     ldap_verify_cert = get_bool c ''ldap_verify_cert''\<rparr>)"

record group_conf =
  grp_base_dn :: string
  grp_filter :: string
  grp_name_attribute :: string
  grp_search_scope :: int
  grp_admin_dn :: string
  grp_membership_attribute :: string

definition ldap_group_conf :: "core_cfg \<Rightarrow> group_conf result" where
  "ldap_group_conf c =
     (case cfg_load_error c of
        Some e \<Rightarrow> Inl e
      | None \<Rightarrow> Inr \<lparr>grp_base_dn = get_string c ''ldap_group_base_dn'',
                     grp_filter = get_string c ''ldap_group_search_filter'',
                     grp_name_attribute = get_string c ''ldap_group_attribute_name'',
                     grp_search_scope = get_int c ''ldap_group_search_scope'',
                     grp_admin_dn = get_string c ''ldap_group_admin_dn'',
                     grp_membership_attribute = get_string c ''ldap_group_membership_attribute''\<rparr>)"

record email_settings =
  em_host :: string
  em_port :: int
  em_username :: string
  em_password :: string
  em_ssl :: bool
  em_from :: string
  em_identity :: string
  em_insecure :: bool

definition email :: "core_cfg \<Rightarrow> email_settings result" where
  "email c =
     (case cfg_load_error c of
        Some e \<Rightarrow> Inl e
      | None \<Rightarrow> Inr \<lparr>em_host = get_string c ''email_host'', em_port = get_int c ''email_port'',
                     em_username = get_string c ''email_username'', em_password = get_string c ''email_password'',
                     em_ssl = get_bool c ''email_ssl'', em_from = get_string c ''email_from'',
                     em_identity = get_string c ''email_identity'', em_insecure = get_bool c ''email_insecure''\<rparr>)"

record postgresql_settings =
  ps_host :: string
  ps_port :: int
  ps_username :: string
  ps_password :: string
  ps_database :: string
  ps_sslmode :: string
  ps_max_idle_conns :: int
  ps_max_open_conns :: int

record database_settings =
  db_type :: string
  db_postgresql :: postgresql_settings

definition database :: "core_cfg \<Rightarrow> database_settings result" where
  "database c =
     Inr \<lparr>db_type = get_string c ''database_type'',
          db_postgresql = \<lparr>ps_host = get_string c ''postgresql_host'', ps_port = get_int c ''postgresql_port'',
            ps_username = get_string c ''postgresql_username'', ps_password = get_string c ''postgresql_password'',
            ps_database = get_string c ''postgresql_database'', ps_sslmode = get_string c ''postgresql_sslmode'',
            ps_max_idle_conns = get_int c ''postgresql_max_idle_conns'',
            ps_max_open_conns = get_int c ''postgresql_max_open_conns''\<rparr>\<rparr>"

record uaa_settings =
  uaa_endpoint :: string
  uaa_client_id :: string
  uaa_client_secret :: string
  uaa_verify_cert :: bool

definition uaa_settings_of :: "core_cfg \<Rightarrow> uaa_settings result" where
  "uaa_settings_of c =
     (case cfg_load_error c of
        Some e \<Rightarrow> Inl e
      | None \<Rightarrow> Inr \<lparr>uaa_endpoint = get_string c ''uaa_endpoint'', uaa_client_id = get_string c ''uaa_client_id'',
                     uaa_client_secret = get_string c ''uaa_client_secret'',
                     uaa_verify_cert = get_bool c ''uaa_verify_cert''\<rparr>)"

text \<open>\<open>splitAndTrim\<close>: the trimmed, non-empty parts.\<close>

definition split_and_trim :: "string \<Rightarrow> string \<Rightarrow> string list" where
  "split_and_trim s sep = filter (\<lambda>e. e \<noteq> []) (map trim_space (split_on sep s))"

record http_auth_proxy =
  hap_endpoint :: string
  hap_token_review_endpoint :: string
  hap_admin_groups :: "string list"
  hap_verify_cert :: bool
  hap_skip_search :: bool
  hap_server_certificate :: string

definition http_auth_proxy_setting :: "core_cfg \<Rightarrow> http_auth_proxy result" where
  "http_auth_proxy_setting c =
     (case cfg_load_error c of
        Some e \<Rightarrow> Inl e
      | None \<Rightarrow> Inr \<lparr>hap_endpoint = get_string c ''http_authproxy_endpoint'',
                     hap_token_review_endpoint = get_string c ''http_authproxy_tokenreview_endpoint'',
                     hap_admin_groups = split_and_trim (get_string c ''http_authproxy_admin_groups'') '','',
                     hap_verify_cert = get_bool c ''http_authproxy_verify_cert'',
                     hap_skip_search = get_bool c ''http_authproxy_skip_search'',
                     hap_server_certificate = get_string c ''http_authproxy_server_certificate''\<rparr>)"

record oidc_setting =
  oidc_name :: string
  oidc_endpoint :: string
  oidc_verify_cert :: bool
  oidc_auto_onboard :: bool
  oidc_client_id :: string
  oidc_client_secret :: string
  oidc_groups_claim :: string
  oidc_admin_group :: string
  oidc_redirect_url :: string
  oidc_scope :: "string list"
  oidc_user_claim :: string
  oidc_extra_redirect_parms :: "(string \<times> string) list"

definition oidc_callback_path :: string where
  "oidc_callback_path = ''/c/oidc/callback''"

definition oidc_setting_of :: "core_cfg \<Rightarrow> oidc_setting result" where
  "oidc_setting_of c =
     (case cfg_load_error c of
        Some e \<Rightarrow> Inl e
      | None \<Rightarrow>
          (let scope_str = get_string c ''oidc_scope'';
               ext = trim_suffix (get_string c ''ext_endpoint'') ''/'';
               scope = split_and_trim scope_str '',''
           in Inr \<lparr>oidc_name = get_string c ''oidc_name'', oidc_endpoint = get_string c ''oidc_endpoint'',
                   oidc_verify_cert = get_bool c ''oidc_verify_cert'', oidc_auto_onboard = get_bool c ''oidc_auto_onboard'',
                   oidc_client_id = get_string c ''oidc_client_id'', oidc_client_secret = get_string c ''oidc_client_secret'',
                   oidc_groups_claim = get_string c ''oidc_groups_claim'', oidc_admin_group = get_string c ''oidc_admin_group'',
                   oidc_redirect_url = ext @ oidc_callback_path, oidc_scope = scope,
                   oidc_user_claim = get_string c ''oidc_user_claim'',
                   oidc_extra_redirect_parms = get_map c ''oidc_extra_redirect_parms''\<rparr>))"

definition quota_setting :: "core_cfg \<Rightarrow> int result" where
  "quota_setting c = (case cfg_load_error c of Some e \<Rightarrow> Inl e | None \<Rightarrow> Inr (get_int c ''storage_per_project''))"

definition get_permitted_registry_types_for_proxy_cache :: "core_cfg \<Rightarrow> string list" where
  "get_permitted_registry_types_for_proxy_cache c =
     (let types = getenv c ''PERMITTED_REGISTRY_TYPES_FOR_PROXY_CACHE'' in
      if types = [] then [] else split_on '','' types)"

text \<open>\<open>strconv.ParseInt(s, 10, 64)\<close>: an optional sign, decimal digits, within int64.\<close>

definition parse_int64 :: "string \<Rightarrow> int option" where
  "parse_int64 s =
     (let (neg, ds) = (case s of c # r \<Rightarrow> if c = CHR ''-'' then (True, r) else if c = CHR ''+'' then (False, r)
                                                 else (False, s) | [] \<Rightarrow> (False, []))
      in if ds = [] \<or> \<not> list_all (\<lambda>c. (48::nat) \<le> of_char c \<and> of_char c \<le> (57::nat)) ds then None
         else (let n = int (foldl (\<lambda>acc c. 10 * acc + (of_char c - 48)) (0::nat) ds);
                   v = (if neg then - n else n)
               in if - (2 ^ 63) \<le> v \<and> v < 2 ^ 63 then Some v else None))"

definition default_gc_time_window_hours :: int where
  "default_gc_time_window_hours = 2"

definition get_gc_time_window :: "core_cfg \<Rightarrow> int" where
  "get_gc_time_window c =
     (case cfg_env c ''GC_TIME_WINDOW_HOURS'' of
        Some v \<Rightarrow> (case parse_int64 v of Some w \<Rightarrow> w | None \<Rightarrow> default_gc_time_window_hours)
      | None \<Rightarrow> default_gc_time_window_hours)"

record metric_settings =
  metric_enabled :: bool
  metric_port :: int
  metric_path :: string

definition metric :: "core_cfg \<Rightarrow> metric_settings" where
  "metric c = \<lparr>metric_enabled = get_bool c ''metric_enable'', metric_port = get_int c ''metric_port'',
               metric_path = get_string c ''metric_path''\<rparr>"

section \<open>Fixtures\<close>

definition demo_cfg :: core_cfg where
  "demo_cfg =
     \<lparr>cfg_store = map_of [(''ext_endpoint'', CStr ''https://harbor.example.com''),
                          (''core_url'', CStr ''http://core:8080/''),
                          (''chart_repository_url'', CStr ''  http://chartmuseum:9999 ''),
                          (''http_authproxy_admin_groups'', CStr '' admins , ops ,,'')],
      cfg_load_error = None, cfg_secret_key = Inr ''key'',
      cfg_env = map_of [(''GC_TIME_WINDOW_HOURS'', ''24'')]\<rparr>"

section \<open>Lemmas\<close>

text \<open>Every entry \<open>splitAndTrim\<close> returns is non-empty and neither starts nor ends with white space.\<close>

theorem split_and_trim_trimmed:
  "e \<in> set (split_and_trim s sep) \<Longrightarrow> e \<noteq> [] \<and> \<not> is_space (hd e) \<and> \<not> is_space (last e)"
  by (auto simp: split_and_trim_def dest: trim_space_ends)

theorem split_and_trim_trimmed_witness:
  "split_and_trim '' admins , ops ,,'' '','' = [''admins'', ''ops''] \<and>
   ''ops'' \<noteq> [] \<and> \<not> is_space (hd ''ops'') \<and> \<not> is_space (last ''ops'')"
proof -
  have s: "split_and_trim '' admins , ops ,,'' '','' = [''admins'', ''ops'']"
    by (simp add: split_and_trim_def trim_space_def is_space_def)
  have "''ops'' \<in> set (split_and_trim '' admins , ops ,,'' '','')" by (simp add: s)
  with s show ?thesis using split_and_trim_trimmed by blast
qed

text \<open>\<open>ExtURL\<close> drops the scheme of the external endpoint.\<close>

theorem ext_url_strips_scheme:
  assumes "get_string c ''ext_endpoint'' = scheme @ ''://'' @ h"
    and "set scheme \<inter> set ''://'' = {}" and "\<not> (\<exists>u v. h = u @ ''://'' @ v)"
  shows "ext_url c = Inr h"
proof -
  have "split_on ''://'' (scheme @ ''://'' @ h) = [scheme, h]"
    using split_on_sep_after [of "''://''" scheme h] split_on_no_sep [of "''://''" h] assms(2,3) by simp
  then show ?thesis using assms(1) by (simp add: ext_url_def ext_endpoint_def)
qed

theorem ext_url_strips_scheme_witness: "ext_url demo_cfg = Inr ''harbor.example.com''"
proof (rule ext_url_strips_scheme [where scheme = "''https''"])
  show "get_string demo_cfg ''ext_endpoint'' = ''https'' @ ''://'' @ ''harbor.example.com''"
    by (simp add: get_string_def demo_cfg_def)
  show "set ''https'' \<inter> set ''://'' = {}" by simp
  show "\<not> (\<exists>u v. ''harbor.example.com'' = u @ ''://'' @ v)"
  proof
    assume "\<exists>u v. ''harbor.example.com'' = u @ ''://'' @ v"
    then obtain u v where "''harbor.example.com'' = u @ ''://'' @ v" by blast
    then have "CHR '':'' \<in> set ''harbor.example.com''" by (metis Un_iff insert_iff list.set(2) set_append)
    then show False by simp
  qed
qed

text \<open>The token service endpoint drops one trailing slash of the core URL.\<close>

theorem internal_token_service_endpoint_slash:
  "get_string c ''core_url'' = u @ ''/'' \<Longrightarrow> internal_token_service_endpoint c = u @ ''/service/token''"
  by (simp add: internal_token_service_endpoint_def internal_core_url_def)

theorem internal_token_service_endpoint_slash_witness:
  "internal_token_service_endpoint demo_cfg = ''http://core:8080/service/token''"
  by (rule internal_token_service_endpoint_slash [where u = "''http://core:8080''", simplified])
     (simp add: get_string_def demo_cfg_def)

text \<open>
  \<open>GetChartMuseumEndpoint\<close> fails exactly when the configured URL is blank, and otherwise
  returns it without surrounding white space.
\<close>

theorem chart_museum_endpoint_blank:
  "(get_chart_museum_endpoint c = Inl ErrGeneric \<longleftrightarrow> (\<forall>ch \<in> set (get_string c ''chart_repository_url''). is_space ch)) \<and>
   (get_chart_museum_endpoint c = Inr e \<longrightarrow> e \<noteq> [] \<and> \<not> is_space (hd e) \<and> \<not> is_space (last e))"
  using trim_space_ends [of "get_string c ''chart_repository_url''"]
  by (auto simp: get_chart_museum_endpoint_def trim_space_Nil_iff [symmetric] Let_def)

theorem chart_museum_endpoint_blank_witness:
  "get_chart_museum_endpoint demo_cfg = Inr ''http://chartmuseum:9999'' \<and>
   \<not> is_space (hd ''http://chartmuseum:9999'') \<and> \<not> is_space (last ''http://chartmuseum:9999'')"
proof -
  have g: "get_chart_museum_endpoint demo_cfg = Inr ''http://chartmuseum:9999''"
    by (simp add: get_chart_museum_endpoint_def get_string_def demo_cfg_def trim_space_def is_space_def)
  show ?thesis using chart_museum_endpoint_blank [of demo_cfg "''http://chartmuseum:9999''"] g by blast
qed

end
