(* ===== verification/Repo_Handler.thy ===== *)
theory Repo_Handler
  imports Repo_Dao User_Dao
begin

text \<open>
  The repository REST handler of \<open>src/server/v2.0/handler/repository.go\<close>. The project,
  repository and artifact controllers and the \<open>BaseAPI\<close> helpers (access check, query
  building, links) are not under src/. They are the fields of the environment record
  \<open>'s repo_api_env\<close> over a state \<open>'s\<close>, so each handler is modelled exactly as it composes
  them. A handler returns its responder, the new state and the notification events it
  fired. \<open>q.Query\<close> is the keyword query of \<open>User_Dao\<close>. The last group of definitions composes the
  handlers with the repository DAO of \<open>Repo_Dao\<close>.
\<close>

section \<open>Responders, events and the environment\<close>

record swagger_repository =
  sw_id :: int
  sw_name :: string
  sw_project_id :: int
  sw_description :: string
  sw_pull_count :: int
  sw_artifact_count :: int
  sw_creation_time :: int
  sw_update_time :: int

datatype responder =
    ListRepositoriesOK int string "swagger_repository list"
  | GetRepositoryOK swagger_repository
  | UpdateRepositoryOK
  | DeleteRepositoryOK
  | ErrorResponse herror

datatype event = DeleteRepositoryEvent string int

datatype rbac_action = ActionList | ActionUpdate | ActionDelete

record 's repo_api_env =
  require_project_access :: "string \<Rightarrow> rbac_action \<Rightarrow> 's \<Rightarrow> herror option"
  project_id_by_name :: "string \<Rightarrow> 's \<Rightarrow> int result"
  build_query :: "string \<Rightarrow> string \<Rightarrow> int \<Rightarrow> int \<Rightarrow> query result"
  repo_count :: "query \<Rightarrow> 's \<Rightarrow> int result"
  repo_list :: "query \<Rightarrow> 's \<Rightarrow> repo_record list result"
  repo_get_by_name :: "string \<Rightarrow> 's \<Rightarrow> repo_record result"
  repo_update :: "repo_record \<Rightarrow> repo_field list \<Rightarrow> 's \<Rightarrow> unit result \<times> 's"
  repo_delete :: "int \<Rightarrow> 's \<Rightarrow> unit result \<times> 's"
  art_count :: "int \<Rightarrow> 's \<Rightarrow> int result"
  links :: "int \<Rightarrow> int \<Rightarrow> int \<Rightarrow> string"

text \<open>The keyword columns of \<open>models.RepoRecord\<close> a repository query may name.\<close>

definition repo_column :: "repo_record \<Rightarrow> string \<Rightarrow> kw_value option" where
  "repo_column r k =
     (if k = ''RepositoryID'' then Some (KInt (repository_id r))
      else if k = ''ProjectID'' then Some (KInt (project_id r))
      else if k = ''Name'' then Some (KStr (rr_name r))
      else None)"

definition repo_query_matches :: "query \<Rightarrow> repo_record \<Rightarrow> bool" where
  "repo_query_matches q r \<longleftrightarrow> list_all (\<lambda>(k, v). repo_column r k = Some v) (q_keywords q)"

section \<open>The handlers\<close>

text \<open>
  \<open>Prepare\<close>: a failed unescaping of the repository name is sent as an error, but the
  responder returned is \<open>nil\<close>, so the request goes on (\<open>None\<close> means "continue").
\<close>

definition prepare :: "herror option \<Rightarrow> responder option \<times> responder list" where
  "prepare unescape_err =
     (case unescape_err of
        Some e \<Rightarrow> (None, [ErrorResponse e])
      | None \<Rightarrow> (None, []))"

definition to_swagger :: "repo_record \<Rightarrow> swagger_repository" where
  "to_swagger r = \<lparr>sw_id = repository_id r, sw_name = rr_name r, sw_project_id = project_id r,
     sw_description = description r, sw_pull_count = pull_count r, sw_artifact_count = 0,
     sw_creation_time = creation_time r, sw_update_time = update_time r\<rparr>"

text \<open>\<open>assembleRepository\<close>: a failed count is logged and the count is then 0.\<close>

definition assemble_repository :: "'s repo_api_env \<Rightarrow> 's \<Rightarrow> repo_record \<Rightarrow> swagger_repository" where
  "assemble_repository env s r =
     (let repo = to_swagger r;
          n_art = (case art_count env (sw_id repo) s of Inr n \<Rightarrow> n | Inl _ \<Rightarrow> 0)
      in repo\<lparr>sw_artifact_count := n_art\<rparr>)"

definition repo_full_name :: "string \<Rightarrow> string \<Rightarrow> string" where
  "repo_full_name project repo = project @ ''/'' @ repo"

definition list_repositories_h ::
  "'s repo_api_env \<Rightarrow> string \<Rightarrow> string \<Rightarrow> string \<Rightarrow> int \<Rightarrow> int \<Rightarrow> 's \<Rightarrow> responder" where
  "list_repositories_h env project_name qstr sort_str page page_size s =
     (case require_project_access env project_name ActionList s of
        Some e \<Rightarrow> ErrorResponse e
      | None \<Rightarrow>
          (case project_id_by_name env project_name s of
             Inl e \<Rightarrow> ErrorResponse e
           | Inr pid \<Rightarrow>
               (case build_query env qstr sort_str page page_size of
                  Inl e \<Rightarrow> ErrorResponse e
                | Inr q0 \<Rightarrow>
                    (let q = set_keyword ''ProjectID'' (KInt pid) q0 in
                     case repo_count env q s of
                       Inl e \<Rightarrow> ErrorResponse e
                     | Inr cnt \<Rightarrow>
                         (case repo_list env q s of
                            Inl e \<Rightarrow> ErrorResponse e
                          | Inr repos \<Rightarrow>
                              ListRepositoriesOK cnt (links env cnt (q_page_number q) (q_page_size q))
                                (map (assemble_repository env s) repos))))))"

definition get_repository_h :: "'s repo_api_env \<Rightarrow> string \<Rightarrow> string \<Rightarrow> 's \<Rightarrow> responder" where
  "get_repository_h env project_name rname s =
     (case require_project_access env project_name ActionList s of
        Some e \<Rightarrow> ErrorResponse e
      | None \<Rightarrow>
          (case repo_get_by_name env (repo_full_name project_name rname) s of
             Inl e \<Rightarrow> ErrorResponse e
           | Inr r \<Rightarrow> GetRepositoryOK (assemble_repository env s r)))"

definition update_repository_h ::
  "'s repo_api_env \<Rightarrow> string \<Rightarrow> string \<Rightarrow> string \<Rightarrow> 's \<Rightarrow> responder \<times> 's" where
  "update_repository_h env project_name rname desc s =
     (case require_project_access env project_name ActionUpdate s of
        Some e \<Rightarrow> (ErrorResponse e, s)
      | None \<Rightarrow>
          (case repo_get_by_name env (repo_full_name project_name rname) s of
             Inl e \<Rightarrow> (ErrorResponse e, s)
           | Inr r \<Rightarrow>
               (case repo_update env
                       \<lparr>repository_id = repository_id r, rr_name = [], project_id = 0, description = desc,
                        pull_count = 0, star_count = 0, creation_time = 0, update_time = 0\<rparr> [FDescription] s of
                  (Inl e, s') \<Rightarrow> (ErrorResponse e, s')
                | (Inr _, s') \<Rightarrow> (DeleteRepositoryOK, s'))))"

definition delete_repository_h ::
  "'s repo_api_env \<Rightarrow> string \<Rightarrow> string \<Rightarrow> 's \<Rightarrow> responder \<times> 's \<times> event list" where
  "delete_repository_h env project_name rname s =
     (case require_project_access env project_name ActionDelete s of
        Some e \<Rightarrow> (ErrorResponse e, s, [])
      | None \<Rightarrow>
          (case repo_get_by_name env (repo_full_name project_name rname) s of
             Inl e \<Rightarrow> (ErrorResponse e, s, [])
           | Inr r \<Rightarrow>
               (case repo_delete env (repository_id r) s of
                  (Inl e, s') \<Rightarrow> (ErrorResponse e, s', [])
                | (Inr _, s') \<Rightarrow> (DeleteRepositoryOK, s', [DeleteRepositoryEvent (rr_name r) (project_id r)]))))"

section \<open>The handlers over the repository DAO\<close>

text \<open>
  The repository controller forwards \<open>Count\<close>, \<open>List\<close>, \<open>Update\<close> and \<open>Delete\<close> to the
  repository DAO that \<open>New()\<close> returns, with the handler's keyword query as the DAO's row
  predicate, its page number and size as the DAO's page, and the repository table as the
  state. The other collaborators stay those of
  \<open>env\<close>.
\<close>

definition dao_api_env :: "'o orm_context \<Rightarrow> repo_db repo_api_env \<Rightarrow> repo_db repo_api_env" where
  "dao_api_env ctx env =
     env\<lparr>repo_count := (\<lambda>q. rd_count new_repo_dao ctx (repo_query_matches q)),
         repo_list := (\<lambda>q. rd_list new_repo_dao ctx (repo_query_matches q) (q_page_number q) (q_page_size q)),
         repo_update := rd_update new_repo_dao ctx,
         repo_delete := rd_delete new_repo_dao ctx\<rparr>"

section \<open>Fixtures\<close>

definition hello_record :: repo_record where
  "hello_record = \<lparr>repository_id = 1, rr_name = ''library/hello-world'', project_id = 1, description = [],
                   pull_count = 0, star_count = 0, creation_time = 0, update_time = 0\<rparr>"

definition other_record :: repo_record where
  "other_record = \<lparr>repository_id = 2, rr_name = ''team/app'', project_id = 2, description = [],
                   pull_count = 0, star_count = 0, creation_time = 0, update_time = 0\<rparr>"

text \<open>
  Controllers over a list of repository records that honour the query keywords, with a
  client query asking for project 2.
\<close>

definition demo_api_env :: "repo_record list repo_api_env" where
  "demo_api_env =
     \<lparr>require_project_access = (\<lambda>_ _ _. None),
      project_id_by_name = (\<lambda>p _. if p = ''library'' then Inr 1 else Inl ErrNotFound),
      build_query = (\<lambda>_ _ pn ps. Inr \<lparr>q_keywords = [(''ProjectID'', KInt 2)], q_page_number = pn, q_page_size = ps\<rparr>),
      repo_count = (\<lambda>q s. Inr (int (length (filter (repo_query_matches q) s)))),
      repo_list = (\<lambda>q s. Inr (filter (repo_query_matches q) s)),
      repo_get_by_name = (\<lambda>n s. case find (\<lambda>r. rr_name r = n) s of None \<Rightarrow> Inl ErrNotFound | Some r \<Rightarrow> Inr r),
      repo_update = (\<lambda>_ _ s. (Inr (), s)),
      repo_delete = (\<lambda>i s. (Inr (), filter (\<lambda>r. repository_id r \<noteq> i) s)),
      art_count = (\<lambda>_ _. Inr 0),
      links = (\<lambda>_ _ _. [])\<rparr>"

text \<open>A table with one repository in project 1 and one in project 2, and an environment
  over it that lets every request through.\<close>

definition listing_db :: repo_db where
  "listing_db = empty_repo_db\<lparr>repo_rows := [hello_record, other_record], repo_seq := 3\<rparr>"

definition demo_api_env_db :: "repo_db repo_api_env" where
  "demo_api_env_db =
     \<lparr>require_project_access = (\<lambda>_ _ _. None),
      project_id_by_name = (\<lambda>p _. if p = ''library'' then Inr 1 else Inl ErrNotFound),
      build_query = (\<lambda>_ _ pn ps. Inr \<lparr>q_keywords = [(''ProjectID'', KInt 2)], q_page_number = pn, q_page_size = ps\<rparr>),
      repo_count = (\<lambda>_ _. Inr 0), repo_list = (\<lambda>_ _. Inr []),
      repo_get_by_name = (\<lambda>n db. case find (\<lambda>r. rr_name r = n) (repo_rows db) of None \<Rightarrow> Inl ErrNotFound | Some r \<Rightarrow> Inr r),
      repo_update = (\<lambda>_ _ db. (Inr (), db)), repo_delete = (\<lambda>_ db. (Inr (), db)),
      art_count = (\<lambda>_ _. Inr 0), links = (\<lambda>_ _ _. [])\<rparr>"

section \<open>Lemmas\<close>

lemma repo_query_matches_project:
  "repo_query_matches (set_keyword ''ProjectID'' (KInt pid) q) r \<Longrightarrow> project_id r = pid"
  by (simp add: repo_query_matches_def set_keyword_def repo_column_def)

lemma assemble_repository_project [simp]: "sw_project_id (assemble_repository env s r) = project_id r"
  by (simp add: assemble_repository_def to_swagger_def Let_def)

lemma repo_query_matches_set_keyword:
  "repo_query_matches (set_keyword k v q) r \<longleftrightarrow>
     repo_column r k = Some v \<and> repo_query_matches (q\<lparr>q_keywords := filter (\<lambda>kv. fst kv \<noteq> k) (q_keywords q)\<rparr>) r"
  by (simp add: repo_query_matches_def set_keyword_def)

lemma list_repositories_h_ok:
  assumes "list_repositories_h env p qstr sort_str page page_size s = ListRepositoriesOK n l sws"
  shows "\<exists>pid q0 rs. project_id_by_name env p s = Inr pid \<and> build_query env qstr sort_str page page_size = Inr q0 \<and>
           repo_count env (set_keyword ''ProjectID'' (KInt pid) q0) s = Inr n \<and>
           repo_list env (set_keyword ''ProjectID'' (KInt pid) q0) s = Inr rs \<and> sws = map (assemble_repository env s) rs"
  using assms by (auto simp: list_repositories_h_def Let_def split: option.splits sum.splits prod.splits)

section \<open>Properties\<close>

text \<open>
  Claim C25: when the repository controller returns only rows that match the query's
  keywords, \<open>ListRepositories\<close> of a project returns only repositories of that project,
  whatever keywords the client's query holds: the handler overwrites \<open>ProjectID\<close>.
\<close>

theorem list_repositories_project_isolation:
  assumes "\<forall>q rs. repo_list env q s = Inr rs \<longrightarrow> list_all (repo_query_matches q) rs"
    and "list_repositories_h env p qstr sort_str page page_size s = ListRepositoriesOK n l sws"
    and "project_id_by_name env p s = Inr pid"
  shows "list_all (\<lambda>sw. sw_project_id sw = pid) sws"
proof -
  let ?q = "\<lambda>q0. set_keyword ''ProjectID'' (KInt pid) q0"
  obtain q0 rs where rl: "repo_list env (?q q0) s = Inr rs" and sws: "sws = map (assemble_repository env s) rs"
    using assms(2,3)
    by (auto simp: list_repositories_h_def Let_def split: option.splits sum.splits prod.splits)
  from assms(1) rl have "list_all (repo_query_matches (?q q0)) rs" by blast
  then show ?thesis by (auto simp: sws list_all_iff dest: repo_query_matches_project)
qed

theorem list_repositories_project_isolation_witness:
  "list_repositories_h demo_api_env ''library'' [] [] 1 10 [hello_record, other_record] =
     ListRepositoriesOK 1 [] [assemble_repository demo_api_env [hello_record, other_record] hello_record] \<and>
   list_all (\<lambda>sw. sw_project_id sw = 1) [assemble_repository demo_api_env [hello_record, other_record] hello_record]"
proof -
  have l: "list_repositories_h demo_api_env ''library'' [] [] 1 10 [hello_record, other_record] =
             ListRepositoriesOK 1 [] [assemble_repository demo_api_env [hello_record, other_record] hello_record]"
    by (simp add: list_repositories_h_def demo_api_env_def set_keyword_def repo_query_matches_def repo_column_def
                  hello_record_def other_record_def)
  have c: "\<forall>q rs. repo_list demo_api_env q [hello_record, other_record] = Inr rs \<longrightarrow>
                  list_all (repo_query_matches q) rs"
    by (simp add: demo_api_env_def list_all_iff)
  have p: "project_id_by_name demo_api_env ''library'' [hello_record, other_record] = Inr 1"
    by (simp add: demo_api_env_def)
  show ?thesis using list_repositories_project_isolation [OF c l p] l by blast
qed

text \<open>
  \<open>Prepare\<close> never stops a request: when unescaping the repository name fails it sends
  an error response and still returns \<open>nil\<close>, so the operation runs as well.
\<close>

theorem prepare_never_stops:
  "fst (prepare unescape_err) = None \<and> (snd (prepare unescape_err) = [] \<longleftrightarrow> unescape_err = None)"
  by (simp add: prepare_def split: option.splits)

text \<open>
  Claim C27: a successful \<open>UpdateRepository\<close> answers with the responder of \<open>DeleteRepository\<close>;
  it never produces \<open>UpdateRepositoryOK\<close>.
\<close>

theorem update_repository_responder:
  "fst (update_repository_h env p rn d s) \<noteq> UpdateRepositoryOK \<and>
   (fst (update_repository_h env p rn d s) = DeleteRepositoryOK \<longleftrightarrow>
      require_project_access env p ActionUpdate s = None \<and>
      (\<exists>r. repo_get_by_name env (repo_full_name p rn) s = Inr r \<and>
           fst (repo_update env \<lparr>repository_id = repository_id r, rr_name = [], project_id = 0, description = d,
                 pull_count = 0, star_count = 0, creation_time = 0, update_time = 0\<rparr> [FDescription] s) = Inr ()))"
  by (auto simp: update_repository_h_def split: option.splits sum.splits prod.splits)

text \<open>
  \<open>DeleteRepository\<close> fires exactly one deletion event, with the deleted repository's
  name and project, when it succeeds, and none when it fails.
\<close>

theorem delete_repository_events:
  "delete_repository_h env p rn s = (resp, s', evs) \<Longrightarrow>
     (resp = DeleteRepositoryOK \<and>
        (\<exists>r. repo_get_by_name env (repo_full_name p rn) s = Inr r \<and> fst (repo_delete env (repository_id r) s) = Inr () \<and>
             evs = [DeleteRepositoryEvent (rr_name r) (project_id r)])) \<or>
     (\<exists>e. resp = ErrorResponse e \<and> evs = [])"
  by (auto simp: delete_repository_h_def split: option.splits sum.splits prod.splits)

theorem delete_repository_events_witness:
  "delete_repository_h demo_api_env ''library'' ''hello-world'' [hello_record, other_record] =
     (DeleteRepositoryOK, [other_record], [DeleteRepositoryEvent ''library/hello-world'' 1])"
proof -
  have "delete_repository_h demo_api_env ''library'' ''hello-world'' [hello_record, other_record] =
          (DeleteRepositoryOK, [other_record], [DeleteRepositoryEvent ''library/hello-world'' 1])"
    by (simp add: delete_repository_h_def demo_api_env_def repo_full_name_def hello_record_def other_record_def)
  moreover note delete_repository_events [OF this]
  ultimately show ?thesis by blast
qed

text \<open>
  Claim C26: over the repository DAO, a successful \<open>ListRepositories\<close> of a project reports
  as total count every repository of that project whose columns match the other keywords
  of the client's query, and answers one page of those repositories, as many as the
  query's page holds: the project stays isolated whatever the query says, the page
  changes the payload but not the count, and an unpaged query leaves nothing out. The
  statement does not depend on the order of the rows.
\<close>

theorem list_repositories_over_dao:
  assumes "list_repositories_h (dao_api_env ctx env) p qstr sort_str page page_size db = ListRepositoriesOK n l sws"
  shows "\<exists>pid q0 rs. project_id_by_name env p db = Inr pid \<and> build_query env qstr sort_str page page_size = Inr q0 \<and>
           (let m = filter (\<lambda>r. project_id r = pid \<and>
                                 repo_query_matches (q0\<lparr>q_keywords := filter (\<lambda>kv. fst kv \<noteq> ''ProjectID'') (q_keywords q0)\<rparr>) r)
                           (repo_rows db)
            in n = int (length m) \<and> mset rs \<subseteq># mset m \<and>
               length rs = length (paginate (q_page_number q0) (q_page_size q0) m) \<and>
               sws = map (assemble_repository env db) rs)"
proof -
  obtain pid q0 rs where
    ok: "project_id_by_name env p db = Inr pid" "build_query env qstr sort_str page page_size = Inr q0"
      "dao_count ctx (repo_query_matches (set_keyword ''ProjectID'' (KInt pid) q0)) db = Inr n"
      "dao_list ctx (repo_query_matches (set_keyword ''ProjectID'' (KInt pid) q0))
         (q_page_number q0) (q_page_size q0) db = Inr rs"
      "sws = map (assemble_repository (dao_api_env ctx env) db) rs"
    using list_repositories_h_ok [OF assms] by (auto simp: dao_api_env_def set_keyword_def)
  define m where "m = filter (\<lambda>r. project_id r = pid \<and>
      repo_query_matches (q0\<lparr>q_keywords := filter (\<lambda>kv. fst kv \<noteq> ''ProjectID'') (q_keywords q0)\<rparr>) r) (repo_rows db)"
  have "assemble_repository (dao_api_env ctx env) db = assemble_repository env db"
    by (simp add: assemble_repository_def dao_api_env_def fun_eq_iff)
  moreover have "repo_query_matches (set_keyword ''ProjectID'' (KInt pid) q0) =
      (\<lambda>r. project_id r = pid \<and>
           repo_query_matches (q0\<lparr>q_keywords := filter (\<lambda>kv. fst kv \<noteq> ''ProjectID'') (q_keywords q0)\<rparr>) r)"
    by (rule ext) (simp add: repo_query_matches_set_keyword repo_column_def)
  ultimately have rs: "rs = paginate (q_page_number q0) (q_page_size q0) m" and n: "n = int (length m)"
    and sws: "sws = map (assemble_repository env db) rs"
    using ok(3-5) by (simp_all add: dao_list_def dao_count_def m_def split: sum.splits)
  have "mset rs \<subseteq># mset m" unfolding rs by (rule paginate_subset)
  then show ?thesis using ok(1,2) rs n sws by (auto simp: Let_def m_def)
qed

theorem list_repositories_over_dao_witness:
  "list_repositories_h (dao_api_env dao_ctx demo_api_env_db) ''library'' [] [] 1 10 listing_db =
     ListRepositoriesOK 1 [] [assemble_repository demo_api_env_db listing_db hello_record] \<and>
   list_repositories_h (dao_api_env dao_ctx demo_api_env_db) ''library'' [] [] 2 10 listing_db =
     ListRepositoriesOK 1 [] []"
proof -
  have l: "list_repositories_h (dao_api_env dao_ctx demo_api_env_db) ''library'' [] [] 1 10 listing_db =
             ListRepositoriesOK 1 [] [assemble_repository demo_api_env_db listing_db hello_record]"
    by (simp add: list_repositories_h_def dao_api_env_def demo_api_env_db_def listing_db_def dao_count_def dao_list_def
                  new_repo_dao_def dao_ctx_def from_context_def set_keyword_def repo_query_matches_def repo_column_def
                  hello_record_def other_record_def assemble_repository_def paginate_def)
  have l2: "list_repositories_h (dao_api_env dao_ctx demo_api_env_db) ''library'' [] [] 2 10 listing_db =
             ListRepositoriesOK 1 [] []"
    by (simp add: list_repositories_h_def dao_api_env_def demo_api_env_db_def listing_db_def dao_count_def dao_list_def
                  new_repo_dao_def dao_ctx_def from_context_def set_keyword_def repo_query_matches_def repo_column_def
                  hello_record_def other_record_def assemble_repository_def paginate_def)
  show ?thesis using list_repositories_over_dao [OF l] list_repositories_over_dao [OF l2] l l2 by blast
qed

end
