(* ===== verification/Core_Main.thy ===== *)
theory Core_Main
  imports Config
begin

text \<open>
  The start-up of the core, \<open>src/core/main.go\<close>. The libraries it calls (url parsing,
  the cache, the database, the migrator, the user and scanner DAOs) are the fields of the
  environment record \<open>'s core_env\<close> over a state \<open>'s\<close>. The configuration is the
  \<open>core_cfg\<close> of \<open>Config\<close>. A \<open>panic\<close> or \<open>log.Fatalf\<close> ends the start-up; both are
  the \<open>Inl\<close> of the model.
\<close>

section \<open>The Redis session provider\<close>

text \<open>
  The parts of \<open>url.URL\<close> the code reads. \<open>url_password\<close> is \<open>None\<close> when the
  user info has no password (\<open>isSet\<close> false); the query is its list of pairs.
\<close>

record parsed_url =
  url_scheme :: string
  url_host :: string
  url_user :: "string option"
  url_password :: "string option"
  url_path :: string
  url_query :: "(string \<times> string) list"

text \<open>\<open>u.Query().Get(k)\<close>: the first value of the key, or the empty string.\<close>

definition query_get :: "parsed_url \<Rightarrow> string \<Rightarrow> string" where
  "query_get u k = (case map_of (url_query u) k of None \<Rightarrow> [] | Some v \<Rightarrow> v)"

text \<open>\<open>strconv.Atoi\<close> on a 64-bit platform.\<close>

definition atoi :: "string \<Rightarrow> int option" where
  "atoi s = parse_int64 s"

definition user_password :: "parsed_url \<Rightarrow> string" where
  "user_password u = (case url_user u of None \<Rightarrow> [] | Some _ \<Rightarrow> (case url_password u of None \<Rightarrow> [] | Some p \<Rightarrow> p))"

definition sentinel_session_config :: "parsed_url \<Rightarrow> (string \<times> string) result" where
  "sentinel_session_config u =
     (let ps = split_on ''/'' (url_path u) in
      if length ps < 2 then Inl ErrInvalidConfig
      else
        (let db = (if 2 < length ps then
                     (case atoi (ps ! 2) of
                        None \<Rightarrow> None
                      | Some d \<Rightarrow> Some (if d \<noteq> 0 then ps ! 2 else []))
                   else Some [])
         in case db of
              None \<Rightarrow> Inl ErrInvalidConfig
            | Some ss3 \<Rightarrow>
                Inr (''redis_sentinel'',
                     join [join (split_on '','' (url_host u)) '';'', ''100'', user_password u, ss3, ps ! 1] '','')))"

definition redis_session_config :: "parsed_url \<Rightarrow> (string \<times> string) result" where
  "redis_session_config u =
     (let ss3 = (if 1 < length (url_path u) then
                   (case atoi (tl (url_path u)) of None \<Rightarrow> None | Some _ \<Rightarrow> Some (tl (url_path u)))
                 else Some [])
      in case ss3 of
           None \<Rightarrow> Inl ErrInvalidConfig
         | Some db \<Rightarrow>
             Inr (''redis'', join [url_host u, ''100'', user_password u, db, query_get u ''idle_timeout_seconds''] '',''))"

text \<open>
  The session settings of \<open>main\<close> for the value of \<open>_REDIS_URL_CORE\<close>: none when it is
  empty, else the provider and its configuration string, or the panic of a bad URL.
\<close>

definition session_provider ::
  "(string \<Rightarrow> parsed_url option) \<Rightarrow> string \<Rightarrow> (string \<times> string) option result" where
  "session_provider parse_url redis_url =
     (if redis_url = [] then Inr None
      else
        (case parse_url redis_url of
           None \<Rightarrow> Inl ErrInvalidConfig
         | Some u \<Rightarrow>
             (case (if url_scheme u = ''redis+sentinel'' then sentinel_session_config u else redis_session_config u) of
                Inl e \<Rightarrow> Inl e
              | Inr cfg \<Rightarrow> Inr (Some cfg))))"

section \<open>The initial admin password\<close>

record admin_user =
  au_user_id :: int
  au_salt :: string
  au_password :: string

record 's user_store =
  get_user :: "int \<Rightarrow> 's \<Rightarrow> admin_user option result"
  change_user_password :: "admin_user \<Rightarrow> 's \<Rightarrow> herror option \<times> 's"

definition admin_user_id :: int where
  "admin_user_id = 1"

text \<open>\<open>updateInitPassword\<close>; \<open>salt\<close> is the value of \<open>utils.GenerateRandomString()\<close>.\<close>

definition update_init_password ::
  "'s user_store \<Rightarrow> string \<Rightarrow> int \<Rightarrow> string \<Rightarrow> 's \<Rightarrow> unit result \<times> 's" where
  "update_init_password st salt uid password s =
     (case get_user st uid s of
        Inl e \<Rightarrow> (Inl e, s)
      | Inr None \<Rightarrow> (Inl ErrNotFound, s)
      | Inr (Some u) \<Rightarrow>
          (if au_salt u = [] then
             (case change_user_password st (u\<lparr>au_salt := salt, au_password := password\<rparr>) s of
                (Some e, s') \<Rightarrow> (Inl e, s')
              | (None, s') \<Rightarrow> (Inr (), s'))
           else (Inr (), s)))"

section \<open>Scanners\<close>

record scanner_registration =
  scn_name :: string
  scn_description :: string
  scn_url :: string
  scn_use_internal_addr :: bool
  scn_immutable :: bool

record 's scanner_env =
  remove_immutable_scanners :: "string list \<Rightarrow> 's \<Rightarrow> herror option \<times> 's"
  ensure_scanners :: "scanner_registration list \<Rightarrow> 's \<Rightarrow> herror option \<times> 's"
  ensure_default_scanner :: "string \<Rightarrow> 's \<Rightarrow> herror option \<times> 's"

definition trivy_scanner :: string where
  "trivy_scanner = ''Trivy''"

definition get_default_scanner_name :: "core_cfg \<Rightarrow> string" where
  "get_default_scanner_name c = (if with_trivy c then trivy_scanner else [])"

definition wanted_scanners :: "core_cfg \<Rightarrow> scanner_registration list \<times> string list" where
  "wanted_scanners c =
     (if with_trivy c then
        ([\<lparr>scn_name = trivy_scanner, scn_description = ''The Trivy scanner adapter'',
           scn_url = trivy_adapter_url c, scn_use_internal_addr = True, scn_immutable = True\<rparr>], [])
      else ([], [trivy_scanner]))"

text \<open>
  \<open>registerScanners\<close>: a failed removal is only logged; a failed registration or
  default-scanner update is fatal.
\<close>

definition register_scanners :: "'s scanner_env \<Rightarrow> core_cfg \<Rightarrow> 's \<Rightarrow> unit result \<times> 's" where
  "register_scanners env c s0 =
     (case wanted_scanners c of
        (wanted, uninstall) \<Rightarrow>
          (let s1 = snd (remove_immutable_scanners env uninstall s0) in
           case ensure_scanners env wanted s1 of
             (Some e, s2) \<Rightarrow> (Inl e, s2)
           | (None, s2) \<Rightarrow>
               (let name = get_default_scanner_name c in
                if name \<noteq> [] then
                  (case ensure_default_scanner env name s2 of
                     (Some e, s3) \<Rightarrow> (Inl e, s3)
                   | (None, s3) \<Rightarrow> (Inr (), s3))
                else (Inr (), s2))))"

section \<open>Graceful shutdown\<close>

text \<open>
  \<open>gracefulShutdown\<close> as a state machine. It blocks on \<open><-signals\<close> until one of the
  signals it registered with \<open>signal.Notify\<close> arrives and logs it, closes \<open>closing\<close>,
  then selects between \<open>done\<close> and a three-second timer, logs the case taken, and calls
  \<open>os.Exit(0)\<close>. The clock counts milliseconds from \<open>close(closing)\<close>; \<open>done_at\<close> is
  the instant at which the other goroutines close \<open>done\<close> (\<open>None\<close>: never). While no case
  is ready time passes; a Go \<open>select\<close> with both cases ready picks either, so
  \<open>graceful_shutdown\<close> returns the list of possible next states.
\<close>

datatype shutdown_pc = WaitSignal | CloseClosing | Selecting | Exiting | Exited

datatype shutdown_log = CapturedSignal string | GoroutinesExited | TimeoutWaiting

record shutdown_state =
  sd_pc :: shutdown_pc
  sd_closing :: bool
  sd_clock :: nat
  sd_log :: "shutdown_log list"
  sd_exit :: "int option"

text \<open>\<open>SIGINT\<close>, \<open>SIGTERM\<close> and \<open>SIGQUIT\<close>, by the names \<open>%s\<close> prints.\<close>

definition notified_signals :: "string list" where
  "notified_signals = [''interrupt'', ''terminated'', ''quit'']"

definition shutdown_timeout_ms :: nat where
  "shutdown_timeout_ms = 3000"

definition shutdown_init :: shutdown_state where
  "shutdown_init = \<lparr>sd_pc = WaitSignal, sd_closing = False, sd_clock = 0, sd_log = [], sd_exit = None\<rparr>"

definition done_ready :: "nat option \<Rightarrow> nat \<Rightarrow> bool" where
  "done_ready done_at t = (case done_at of None \<Rightarrow> False | Some t0 \<Rightarrow> t0 \<le> t)"

definition graceful_shutdown :: "nat option \<Rightarrow> shutdown_state \<Rightarrow> shutdown_state list" where
  "graceful_shutdown done_at s =
     (case sd_pc s of
        WaitSignal \<Rightarrow>
          map (\<lambda>sig. s\<lparr>sd_pc := CloseClosing, sd_log := sd_log s @ [CapturedSignal sig]\<rparr>) notified_signals
      | CloseClosing \<Rightarrow> [s\<lparr>sd_pc := Selecting, sd_closing := True\<rparr>]
      | Selecting \<Rightarrow>
          (if done_ready done_at (sd_clock s)
           then [s\<lparr>sd_pc := Exiting, sd_log := sd_log s @ [GoroutinesExited]\<rparr>] else []) @
          (if sd_clock s = shutdown_timeout_ms
           then [s\<lparr>sd_pc := Exiting, sd_log := sd_log s @ [TimeoutWaiting]\<rparr>] else []) @
          (if sd_clock s < shutdown_timeout_ms \<and> \<not> done_ready done_at (sd_clock s)
           then [s\<lparr>sd_clock := sd_clock s + 1\<rparr>] else [])
      | Exiting \<Rightarrow> [s\<lparr>sd_pc := Exited, sd_exit := Some 0\<rparr>]
      | Exited \<Rightarrow> [])"

inductive shutdown_reach :: "nat option \<Rightarrow> shutdown_state \<Rightarrow> bool" for done_at where
  start: "shutdown_reach done_at shutdown_init"
| step: "shutdown_reach done_at s \<Longrightarrow> s' \<in> set (graceful_shutdown done_at s) \<Longrightarrow> shutdown_reach done_at s'"

text \<open>The ranking of the states after the signal: every step lowers it.\<close>

definition shutdown_rank :: "shutdown_state \<Rightarrow> nat" where
  "shutdown_rank s =
     (case sd_pc s of
        WaitSignal \<Rightarrow> 0
      | CloseClosing \<Rightarrow> shutdown_timeout_ms + 3
      | Selecting \<Rightarrow> 2 + (shutdown_timeout_ms - sd_clock s)
      | Exiting \<Rightarrow> 1
      | Exited \<Rightarrow> 0)"

text \<open>What holds of every reachable state.\<close>

definition shutdown_inv :: "nat option \<Rightarrow> shutdown_state \<Rightarrow> bool" where
  "shutdown_inv done_at s \<longleftrightarrow>
     (case sd_pc s of
        WaitSignal \<Rightarrow> sd_log s = [] \<and> \<not> sd_closing s \<and> sd_clock s = 0 \<and> sd_exit s = None
      | CloseClosing \<Rightarrow>
          (\<exists>sig \<in> set notified_signals. sd_log s = [CapturedSignal sig]) \<and> \<not> sd_closing s \<and> sd_clock s = 0 \<and>
          sd_exit s = None
      | Selecting \<Rightarrow>
          (\<exists>sig \<in> set notified_signals. sd_log s = [CapturedSignal sig]) \<and> sd_closing s \<and>
          sd_clock s \<le> shutdown_timeout_ms \<and> (\<forall>t. done_at = Some t \<longrightarrow> sd_clock s \<le> t) \<and> sd_exit s = None
      | _ \<Rightarrow>
          (\<exists>sig \<in> set notified_signals. \<exists>lg. sd_log s = [CapturedSignal sig, lg] \<and>
             (lg = GoroutinesExited \<and> (\<exists>t. done_at = Some t \<and> t \<le> shutdown_timeout_ms) \<or> lg = TimeoutWaiting)) \<and>
          sd_closing s \<and> sd_exit s = (if sd_pc s = Exited then Some 0 else None))"

section \<open>main\<close>

datatype stage =
    SessionConfigured | CacheInitialized | MetricsServed | DatabaseInitialized | Migrated | ConfigLoaded
  | AdminPasswordChecked | ApiInitialized | ScannersRegistered | RoutesRegistered | TlsConfigured | Serving

text \<open>The stages are ordered as \<open>main\<close> runs them.\<close>

primrec stage_rank :: "stage \<Rightarrow> nat" where
  "stage_rank SessionConfigured = 0"
| "stage_rank CacheInitialized = 1"
| "stage_rank MetricsServed = 2"
| "stage_rank DatabaseInitialized = 3"
| "stage_rank Migrated = 4"
| "stage_rank ConfigLoaded = 5"
| "stage_rank AdminPasswordChecked = 6"
| "stage_rank ApiInitialized = 7"
| "stage_rank ScannersRegistered = 8"
| "stage_rank RoutesRegistered = 9"
| "stage_rank TlsConfigured = 10"
| "stage_rank Serving = 11"

instantiation stage :: linorder
begin

definition less_eq_stage :: "stage \<Rightarrow> stage \<Rightarrow> bool" where
  "less_eq_stage x y \<longleftrightarrow> stage_rank x \<le> stage_rank y"

definition less_stage :: "stage \<Rightarrow> stage \<Rightarrow> bool" where
  "less_stage x y \<longleftrightarrow> stage_rank x < stage_rank y"

instance
proof
  fix x y z :: stage
  show "x < y \<longleftrightarrow> x \<le> y \<and> \<not> y \<le> x" by (auto simp: less_eq_stage_def less_stage_def)
  show "x \<le> x" by (simp add: less_eq_stage_def)
  show "x \<le> y \<Longrightarrow> y \<le> z \<Longrightarrow> x \<le> z" by (simp add: less_eq_stage_def)
  show "x \<le> y \<Longrightarrow> y \<le> x \<Longrightarrow> x = y" by (cases x; cases y; simp add: less_eq_stage_def)
  show "x \<le> y \<or> y \<le> x" by (auto simp: less_eq_stage_def)
qed

end

record 's core_env =
  parse_url :: "string \<Rightarrow> parsed_url option"
  cache_initialize :: "string \<Rightarrow> string \<Rightarrow> herror option"
  init_database :: "database_settings \<Rightarrow> herror option"
  migrate_database :: "database_settings \<Rightarrow> herror option"
  users :: "'s user_store"
  random_salt :: string
  api_init :: "herror option"
  scanners :: "'s scanner_env"
  internal_tls_enabled :: bool

text \<open>What a completed start-up has set up before \<open>beego.RunWithMiddleWares\<close>.\<close>

record startup =
  st_session :: "(string \<times> string) option"
  st_https :: "(int \<times> string \<times> string) option"
  st_password_error :: "herror option"
  st_trace :: "stage list"

definition https_settings :: "'s core_env \<Rightarrow> core_cfg \<Rightarrow> (int \<times> string \<times> string) option" where
  "https_settings env c =
     (if internal_tls_enabled env then Some (8443, getenv c ''INTERNAL_TLS_KEY_PATH'', getenv c ''INTERNAL_TLS_CERT_PATH'')
      else None)"

text \<open>The steps from the metrics to the scanners, after the session and the cache.\<close>

definition core_main_rest ::
  "'s core_env \<Rightarrow> core_cfg \<Rightarrow> (string \<times> string) option \<Rightarrow> stage list \<Rightarrow> 's \<Rightarrow> startup result \<times> 's" where
  "core_main_rest env c sess tr0 s =
     (let tr1 = tr0 @ (if metric_enabled (metric c) then [MetricsServed] else []) in
      case database c of
        Inl e \<Rightarrow> (Inl e, s)
      | Inr db \<Rightarrow>
          (case init_database env db of
             Some e \<Rightarrow> (Inl e, s)
           | None \<Rightarrow>
               (case migrate_database env db of
                  Some e \<Rightarrow> (Inl e, s)
                | None \<Rightarrow>
                    (case cfg_load_error c of
                       Some e \<Rightarrow> (Inl e, s)
                     | None \<Rightarrow>
                         (case initial_admin_password c of
                            Inl e \<Rightarrow> (Inl e, s)
                          | Inr pw \<Rightarrow>
                              (case update_init_password (users env) (random_salt env) admin_user_id pw s of
                                 (r, s1) \<Rightarrow>
                                   (case api_init env of
                                      Some e \<Rightarrow> (Inl e, s1)
                                    | None \<Rightarrow>
                                        (case register_scanners (scanners env) c s1 of
                                           (Inl e, s2) \<Rightarrow> (Inl e, s2)
                                         | (Inr _, s2) \<Rightarrow>
                                             (let https = https_settings env c in
                                              (Inr \<lparr>st_session = sess, st_https = https,
                                                    st_password_error = (case r of Inl e \<Rightarrow> Some e | Inr _ \<Rightarrow> None),
                                                    st_trace = tr1 @ [DatabaseInitialized, Migrated, ConfigLoaded,
                                                      AdminPasswordChecked, ApiInitialized, ScannersRegistered,
                                                      RoutesRegistered] @ (if https = None then [] else [TlsConfigured]) @
                                                      [Serving]\<rparr>, s2))))))))))"

definition core_main :: "'s core_env \<Rightarrow> core_cfg \<Rightarrow> 's \<Rightarrow> startup result \<times> 's" where
  "core_main env c s =
     (let redis_url = getenv c ''_REDIS_URL_CORE'' in
      case session_provider (parse_url env) redis_url of
        Inl e \<Rightarrow> (Inl e, s)
      | Inr None \<Rightarrow> core_main_rest env c None [] s
      | Inr (Some sess) \<Rightarrow>
          (case cache_initialize env (case parse_url env redis_url of Some u \<Rightarrow> url_scheme u | None \<Rightarrow> []) redis_url of
             Some e \<Rightarrow> (Inl e, s)
           | None \<Rightarrow> core_main_rest env c (Some sess) [SessionConfigured, CacheInitialized] s))"

section \<open>Fixtures\<close>

text \<open>A Redis URL whose password carries a comma and a database number.\<close>

definition injected_redis_url :: parsed_url where
  "injected_redis_url = \<lparr>url_scheme = ''redis'', url_host = ''redis:6379'', url_user = Some [],
     url_password = Some ''pw,9'', url_path = ''/0'', url_query = []\<rparr>"

definition plain_redis_url :: parsed_url where
  "plain_redis_url = \<lparr>url_scheme = ''redis'', url_host = ''redis:6379'', url_user = Some [],
     url_password = Some ''secret'', url_path = ''/2'', url_query = [(''idle_timeout_seconds'', ''30'')]\<rparr>"

text \<open>A user table with lookup by id and password change by id.\<close>

definition table_user_store :: "admin_user list user_store" where
  "table_user_store =
     \<lparr>get_user = (\<lambda>uid us. Inr (find (\<lambda>u. au_user_id u = uid) us)),
      change_user_password = (\<lambda>u us. (None, map (\<lambda>x. if au_user_id x = au_user_id u then u else x) us))\<rparr>"

definition fresh_admins :: "admin_user list" where
  "fresh_admins = [\<lparr>au_user_id = 1, au_salt = [], au_password = []\<rparr>]"

datatype scanner_call = Removed "string list" | Ensured "string list" | DefaultSet string

text \<open>Scanner operations that succeed and record the calls made.\<close>

definition recording_scanners :: "scanner_call list scanner_env" where
  "recording_scanners =
     \<lparr>remove_immutable_scanners = (\<lambda>ns cs. (None, cs @ [Removed ns])),
      ensure_scanners = (\<lambda>rs cs. (None, cs @ [Ensured (map scn_name rs)])),
      ensure_default_scanner = (\<lambda>n cs. (None, cs @ [DefaultSet n]))\<rparr>"

definition trivy_cfg :: "bool \<Rightarrow> core_cfg" where
  "trivy_cfg b = \<lparr>cfg_store = [''with_trivy'' \<mapsto> CBool b], cfg_load_error = None, cfg_secret_key = Inr [],
                  cfg_env = Map.empty\<rparr>"

definition demo_core_env :: "admin_user list core_env" where
  "demo_core_env =
     \<lparr>parse_url = (\<lambda>_. None), cache_initialize = (\<lambda>_ _. None), init_database = (\<lambda>_. None),
      migrate_database = (\<lambda>_. None), users = table_user_store, random_salt = ''salt'', api_init = None,
      scanners = \<lparr>remove_immutable_scanners = (\<lambda>_ s. (None, s)), ensure_scanners = (\<lambda>_ s. (None, s)),
                  ensure_default_scanner = (\<lambda>_ s. (None, s))\<rparr>,
      internal_tls_enabled = True\<rparr>"

definition demo_core_cfg :: core_cfg where
  "demo_core_cfg = \<lparr>cfg_store = Map.empty, cfg_load_error = None, cfg_secret_key = Inr [],
                     cfg_env = [''INTERNAL_TLS_KEY_PATH'' \<mapsto> ''/etc/core/key'']\<rparr>"

section \<open>Lemmas\<close>

lemma parse_int64_no_comma: "parse_int64 s = Some v \<Longrightarrow> CHR '','' \<notin> set s"
  by (cases s) (auto simp: parse_int64_def list_all_iff split: if_splits)

lemma core_main_rest_Inr:
  "core_main_rest env c sess tr0 s = (Inr st, s') \<Longrightarrow>
     st_session st = sess \<and> st_https st = https_settings env c \<and>
     st_trace st = tr0 @ (if metric_enabled (metric c) then [MetricsServed] else []) @
       [DatabaseInitialized, Migrated, ConfigLoaded, AdminPasswordChecked, ApiInitialized, ScannersRegistered,
        RoutesRegistered] @ (if https_settings env c = None then [] else [TlsConfigured]) @ [Serving]"
  by (auto simp: core_main_rest_def database_def initial_admin_password_def Let_def
           split: option.splits sum.splits prod.splits)

lemma core_main_Inr:
  "core_main env c s = (Inr st, s') \<Longrightarrow>
     \<exists>tr0. (if getenv c ''_REDIS_URL_CORE'' = [] then tr0 = [] else tr0 = [SessionConfigured, CacheInitialized]) \<and>
           core_main_rest env c (st_session st) tr0 s = (Inr st, s')"
  using core_main_rest_Inr [of env c _ _ s st s']
  by (auto simp: core_main_def session_provider_def Let_def split: option.splits sum.splits if_splits)

lemma graceful_shutdown_rank:
  "s' \<in> set (graceful_shutdown done_at s) \<Longrightarrow> sd_pc s \<noteq> WaitSignal \<Longrightarrow> shutdown_rank s' < shutdown_rank s"
  by (auto simp: graceful_shutdown_def shutdown_rank_def shutdown_timeout_ms_def split: shutdown_pc.splits if_splits)

lemma graceful_shutdown_inv:
  "shutdown_inv done_at s \<Longrightarrow> s' \<in> set (graceful_shutdown done_at s) \<Longrightarrow> shutdown_inv done_at s'"
  by (auto simp: graceful_shutdown_def shutdown_inv_def done_ready_def shutdown_timeout_ms_def
           split: shutdown_pc.splits if_splits option.splits)

lemma shutdown_reach_inv: "shutdown_reach done_at s \<Longrightarrow> shutdown_inv done_at s"
proof (induction rule: shutdown_reach.induct)
  case start
  then show ?case by (simp add: shutdown_inv_def shutdown_init_def)
next
  case (step s s')
  then show ?case using graceful_shutdown_inv by blast
qed

lemma graceful_shutdown_progress:
  "shutdown_inv done_at s \<Longrightarrow> sd_pc s \<noteq> Exited \<Longrightarrow> graceful_shutdown done_at s \<noteq> []"
  by (auto simp: graceful_shutdown_def shutdown_inv_def notified_signals_def split: shutdown_pc.splits)

section \<open>Properties\<close>

text \<open>
  Claim C28: after the signal the process always exits with code 0, whatever the other
  goroutines do. Every step after the signal lowers the rank, so no run goes on forever;
  every reachable state before the exit has a next state; and every reachable exited state
  has closed \<open>closing\<close>, exited with 0, and logged the signal and then either the normal exit
  (only when \<open>done\<close> was closed by the timeout) or the timeout.
\<close>

theorem graceful_shutdown_exits:
  "wf {(s', s). s' \<in> set (graceful_shutdown done_at s) \<and> sd_pc s \<noteq> WaitSignal} \<and>
   (shutdown_reach done_at s \<longrightarrow> sd_pc s \<noteq> Exited \<longrightarrow> graceful_shutdown done_at s \<noteq> []) \<and>
   (shutdown_reach done_at s \<longrightarrow> sd_pc s = Exited \<longrightarrow>
      sd_exit s = Some 0 \<and> sd_closing s \<and>
      (\<exists>sig \<in> set notified_signals. \<exists>lg. sd_log s = [CapturedSignal sig, lg] \<and>
         (lg = GoroutinesExited \<and> (\<exists>t. done_at = Some t \<and> t \<le> shutdown_timeout_ms) \<or> lg = TimeoutWaiting)))"
proof -
  have "{(s', s). s' \<in> set (graceful_shutdown done_at s) \<and> sd_pc s \<noteq> WaitSignal} \<subseteq> measure shutdown_rank"
    using graceful_shutdown_rank by auto
  then have wf: "wf {(s', s). s' \<in> set (graceful_shutdown done_at s) \<and> sd_pc s \<noteq> WaitSignal}"
    by (rule wf_subset [OF wf_measure])
  have "shutdown_reach done_at s \<longrightarrow> shutdown_inv done_at s" using shutdown_reach_inv by blast
  then show ?thesis using wf graceful_shutdown_progress by (auto simp: shutdown_inv_def)
qed

theorem graceful_shutdown_exits_witness:
  "shutdown_reach (Some 2) \<lparr>sd_pc = Exited, sd_closing = True, sd_clock = 2,
      sd_log = [CapturedSignal ''terminated'', GoroutinesExited], sd_exit = Some 0\<rparr> \<and>
   graceful_shutdown (Some 2) shutdown_init \<noteq> []"
proof -
  let ?s1 = "shutdown_init\<lparr>sd_pc := CloseClosing, sd_log := [CapturedSignal ''terminated'']\<rparr>"
  let ?s2 = "?s1\<lparr>sd_pc := Selecting, sd_closing := True\<rparr>"
  have r1: "shutdown_reach (Some 2) ?s1"
    by (rule shutdown_reach.step [OF shutdown_reach.start])
       (simp add: graceful_shutdown_def shutdown_init_def notified_signals_def)
  have r2: "shutdown_reach (Some 2) ?s2"
    by (rule shutdown_reach.step [OF r1]) (simp add: graceful_shutdown_def)
  have r3: "shutdown_reach (Some 2) (?s2\<lparr>sd_clock := 1\<rparr>)"
    by (rule shutdown_reach.step [OF r2])
       (simp add: graceful_shutdown_def shutdown_init_def done_ready_def shutdown_timeout_ms_def)
  have r4: "shutdown_reach (Some 2) (?s2\<lparr>sd_clock := 2\<rparr>)"
    by (rule shutdown_reach.step [OF r3])
       (simp add: graceful_shutdown_def shutdown_init_def done_ready_def shutdown_timeout_ms_def)
  have r5: "shutdown_reach (Some 2) (?s2\<lparr>sd_clock := 2, sd_pc := Exiting, sd_log := [CapturedSignal ''terminated'', GoroutinesExited]\<rparr>)"
    by (rule shutdown_reach.step [OF r4])
       (simp add: graceful_shutdown_def shutdown_init_def done_ready_def shutdown_timeout_ms_def)
  have r6: "shutdown_reach (Some 2) \<lparr>sd_pc = Exited, sd_closing = True, sd_clock = 2,
      sd_log = [CapturedSignal ''terminated'', GoroutinesExited], sd_exit = Some 0\<rparr>"
    using shutdown_reach.step [OF r5] by (simp add: graceful_shutdown_def shutdown_init_def)
  have "shutdown_reach (Some 2) shutdown_init" by (rule shutdown_reach.start)
  then have "graceful_shutdown (Some 2) shutdown_init \<noteq> []"
    using graceful_shutdown_exits [of "Some 2" shutdown_init] by (simp add: shutdown_init_def)
  with r6 show ?thesis
    using graceful_shutdown_exits [of "Some 2"] by blast
qed

text \<open>
  When the host, the password and the idle timeout of \<open>_REDIS_URL_CORE\<close> have no
  comma, the provider configuration of the plain Redis session splits back into the five
  fields in order: host, pool size 100, password, database (the path without its slash)
  and idle timeout.
\<close>

theorem redis_session_config_fields:
  assumes "redis_session_config u = Inr (p, cfg)"
    and "CHR '','' \<notin> set (url_host u)" "CHR '','' \<notin> set (user_password u)"
    and "CHR '','' \<notin> set (query_get u ''idle_timeout_seconds'')"
  shows "p = ''redis'' \<and>
         split_on '','' cfg = [url_host u, ''100'', user_password u,
                               if 1 < length (url_path u) then tl (url_path u) else [],
                               query_get u ''idle_timeout_seconds'']"
  using assms split_on_single_join [of _ "CHR '',''"]
  by (auto simp: redis_session_config_def atoi_def dest: parse_int64_no_comma split: if_splits option.splits)

theorem redis_session_config_fields_witness:
  "redis_session_config plain_redis_url = Inr (''redis'', ''redis:6379,100,secret,2,30'') \<and>
   split_on '','' ''redis:6379,100,secret,2,30'' = [''redis:6379'', ''100'', ''secret'', ''2'', ''30'']"
proof -
  have r: "redis_session_config plain_redis_url = Inr (''redis'', ''redis:6379,100,secret,2,30'')"
    by (simp add: redis_session_config_def plain_redis_url_def atoi_def parse_int64_def user_password_def
                  query_get_def)
  show ?thesis
    using redis_session_config_fields [OF r] r by (simp add: plain_redis_url_def user_password_def query_get_def)
qed

text \<open>
  Claim C29: the password is joined into the configuration without escaping, so a password
  with a comma shifts the fields. For every plain Redis URL whose host, idle timeout and
  password parts have no other comma, a password \<open>w,d\<close> makes the configuration six
  fields, of which the fourth, the one the session store reads as the database, is \<open>d\<close>
  and not the database of the URL's path.
\<close>

theorem redis_session_password_injection:
  assumes "redis_session_config u = Inr (p, cfg)" and "user_password u = w @ '','' @ d"
    and "CHR '','' \<notin> set (url_host u)" "CHR '','' \<notin> set w" "CHR '','' \<notin> set d"
    and "CHR '','' \<notin> set (query_get u ''idle_timeout_seconds'')"
  shows "split_on '','' cfg = [url_host u, ''100'', w, d, if 1 < length (url_path u) then tl (url_path u) else [],
                              query_get u ''idle_timeout_seconds'']"
proof -
  obtain db where db: "CHR '','' \<notin> set db" "db = (if 1 < length (url_path u) then tl (url_path u) else [])"
    and cfg: "cfg = join [url_host u, ''100'', w @ '','' @ d, db, query_get u ''idle_timeout_seconds''] '',''"
    using assms(1,2)
    by (auto simp: redis_session_config_def atoi_def dest: parse_int64_no_comma split: if_splits option.splits)
  have "cfg = join [url_host u, ''100'', w, d, db, query_get u ''idle_timeout_seconds''] '',''"
    by (simp add: cfg)
  then show ?thesis using split_on_single_join [of _ "CHR '',''"] assms(3-6) db by simp
qed

theorem redis_session_password_injection_witness:
  "redis_session_config injected_redis_url = Inr (''redis'', ''redis:6379,100,pw,9,0,'') \<and>
   split_on '','' ''redis:6379,100,pw,9,0,'' = [''redis:6379'', ''100'', ''pw'', ''9'', ''0'', []]"
proof -
  have r: "redis_session_config injected_redis_url = Inr (''redis'', ''redis:6379,100,pw,9,0,'')"
    by (simp add: redis_session_config_def injected_redis_url_def atoi_def parse_int64_def user_password_def
                  query_get_def)
  have "user_password injected_redis_url = ''pw'' @ '','' @ ''9''"
    by (simp add: injected_redis_url_def user_password_def)
  from redis_session_password_injection [OF r this] r show ?thesis
    by (simp add: injected_redis_url_def query_get_def)
qed

text \<open>
  \<open>updateInitPassword\<close> applies the initial admin password once. On a user
  without salt it stores the salt and the password; once the salt is set (and the store
  reads back what it wrote), a later start-up with another initial password changes
  nothing.
\<close>

theorem update_init_password_once:
  assumes "get_user st uid s = Inr (Some u)" "au_salt u = []" "salt \<noteq> []"
    and "change_user_password st (u\<lparr>au_salt := salt, au_password := pw\<rparr>) s = (None, s1)"
    and "get_user st uid s1 = Inr (Some (u\<lparr>au_salt := salt, au_password := pw\<rparr>))"
  shows "update_init_password st salt uid pw s = (Inr (), s1) \<and>
         update_init_password st salt' uid pw' s1 = (Inr (), s1)"
  using assms by (simp add: update_init_password_def)

theorem update_init_password_once_witness:
  "update_init_password table_user_store ''salt'' 1 ''Harbor12345'' fresh_admins =
     (Inr (), [\<lparr>au_user_id = 1, au_salt = ''salt'', au_password = ''Harbor12345''\<rparr>]) \<and>
   update_init_password table_user_store ''other'' 1 ''changed''
     [\<lparr>au_user_id = 1, au_salt = ''salt'', au_password = ''Harbor12345''\<rparr>] =
     (Inr (), [\<lparr>au_user_id = 1, au_salt = ''salt'', au_password = ''Harbor12345''\<rparr>])"
  using update_init_password_once [of table_user_store 1 fresh_admins "hd fresh_admins" "''salt''" "''Harbor12345''"
          "[\<lparr>au_user_id = 1, au_salt = ''salt'', au_password = ''Harbor12345''\<rparr>]" "''other''" "''changed''"]
  by (simp add: table_user_store_def fresh_admins_def)

text \<open>
  Claim C30: \<open>registerScanners\<close> first removes the immutable scanners it does not want, then
  ensures the wanted ones, and sets Trivy as the default scanner exactly when Trivy is
  enabled. A failure of the removal is ignored: the outcome is the one of a removal that
  succeeded with the same effect.
\<close>

theorem register_scanners_calls:
  "register_scanners recording_scanners c [] =
     (Inr (), if with_trivy c then [Removed [], Ensured [trivy_scanner], DefaultSet trivy_scanner]
              else [Removed [trivy_scanner], Ensured []]) \<and>
   register_scanners env c s0 =
     register_scanners (env\<lparr>remove_immutable_scanners := (\<lambda>ns s. (None, snd (remove_immutable_scanners env ns s)))\<rparr>) c s0"
  by (simp add: register_scanners_def recording_scanners_def wanted_scanners_def get_default_scanner_name_def
                trivy_scanner_def split: prod.split option.split)

end
