(* ===== verification/Config_Init.thy ===== *)
theory Config_Init
  imports Config
begin

text \<open>
  The package variables of \<open>src/core/config/config.go\<close> and the functions that set them:
  \<open>Init\<close>, \<open>InitWithSettings\<close>, \<open>initKeyProvider\<close>, \<open>initSecretStore\<close>,
  \<open>GetCfgManager\<close>, \<open>Load\<close> and \<open>Upload\<close>. The variables are the record
  \<open>'m config_pkg\<close>, where a nil pointer is \<open>None\<close>. The configuration manager of
  \<open>common/config\<close> is not under src/: its constructors and methods are the fields of the
  interface record \<open>'m cfg_mgr_ops\<close> over a manager type \<open>'m\<close>, so the defaults and the
  environment settings that \<open>NewInMemoryManager\<close> loads, the validation that
  \<open>UpdateConfig\<close> does and the database I/O of \<open>Load\<close> are whatever the manager does.
  \<open>cfg_view\<close> is the \<open>core_cfg\<close> state that the accessors of \<open>Config\<close> read from the
  package variables.
\<close>

section \<open>Package state\<close>

record 'm cfg_mgr_ops =
  new_db_cfg_manager :: 'm
  new_in_memory_manager :: "(string \<Rightarrow> string option) \<Rightarrow> 'm"
  mgr_update_config :: "(string \<Rightarrow> cfg_value option) \<Rightarrow> 'm \<Rightarrow> herror option \<times> 'm"
  mgr_load :: "'m \<Rightarrow> herror option \<times> 'm"
  mgr_get_all :: "'m \<Rightarrow> string \<Rightarrow> cfg_value option"

text \<open>A key provider: a file key provider with its path, or one given to \<open>InitWithSettings\<close>.\<close>

datatype key_provider = FileKeyProvider string | GivenKeyProvider "string result"

record 'm config_pkg =
  pkg_secret_store :: "(string \<times> string) list option"
  pkg_key_provider :: "key_provider option"
  pkg_cfg_mgr :: "'m option"
  pkg_env :: "string \<Rightarrow> string option"

definition default_key_path :: string where
  "default_key_path = ''/etc/core/key''"

definition session_cookie_name :: string where
  "session_cookie_name = ''sid''"

text \<open>\<open>secret.JobserviceUser\<close>.\<close>

definition jobservice_user :: string where
  "jobservice_user = ''harbor-jobservice''"

definition pkg_getenv :: "'m config_pkg \<Rightarrow> string \<Rightarrow> string" where
  "pkg_getenv p k = (case pkg_env p k of None \<Rightarrow> [] | Some v \<Rightarrow> v)"

section \<open>Initialization\<close>

definition init_key_provider :: "'m config_pkg \<Rightarrow> 'm config_pkg" where
  "init_key_provider p =
     (let path = pkg_getenv p ''KEY_PATH'';
          path' = (if path = [] then default_key_path else path)
      in p\<lparr>pkg_key_provider := Some (FileKeyProvider path')\<rparr>)"

definition init_secret_store :: "'m config_pkg \<Rightarrow> 'm config_pkg" where
  "init_secret_store p = p\<lparr>pkg_secret_store := Some [(pkg_getenv p ''JOBSERVICE_SECRET'', jobservice_user)]\<rparr>"

definition init :: "'m cfg_mgr_ops \<Rightarrow> 'm config_pkg \<Rightarrow> 'm config_pkg" where
  "init ops p = init_secret_store ((init_key_provider p)\<lparr>pkg_cfg_mgr := Some (new_db_cfg_manager ops)\<rparr>)"

text \<open>\<open>InitWithSettings\<close> drops the error that \<open>UpdateConfig\<close> returns.\<close>

definition init_with_settings ::
  "'m cfg_mgr_ops \<Rightarrow> (string \<Rightarrow> cfg_value option) \<Rightarrow> key_provider list \<Rightarrow> 'm config_pkg \<Rightarrow> 'm config_pkg" where
  "init_with_settings ops cfgs kp p =
     (let p1 = init ops p;
          m = new_in_memory_manager ops (pkg_env p1);
          p2 = p1\<lparr>pkg_cfg_mgr := Some (snd (mgr_update_config ops cfgs m))\<rparr>
      in case kp of [] \<Rightarrow> p2 | k # _ \<Rightarrow> p2\<lparr>pkg_key_provider := Some k\<rparr>)"

definition get_cfg_manager :: "'m cfg_mgr_ops \<Rightarrow> 'm config_pkg \<Rightarrow> 'm" where
  "get_cfg_manager ops p = (case pkg_cfg_mgr p of None \<Rightarrow> new_db_cfg_manager ops | Some m \<Rightarrow> m)"

text \<open>\<open>Load\<close> and \<open>Upload\<close> call the manager through \<open>cfgMgr\<close> without a nil check.\<close>

definition load :: "'m cfg_mgr_ops \<Rightarrow> 'm config_pkg \<Rightarrow> unit result \<times> 'm config_pkg" where
  "load ops p =
     (case pkg_cfg_mgr p of
        None \<Rightarrow> (Inl ErrNilDereference, p)
      | Some m \<Rightarrow>
          (case mgr_load ops m of
             (Some e, m') \<Rightarrow> (Inl e, p\<lparr>pkg_cfg_mgr := Some m'\<rparr>)
           | (None, m') \<Rightarrow> (Inr (), p\<lparr>pkg_cfg_mgr := Some m'\<rparr>)))"

definition upload :: "'m cfg_mgr_ops \<Rightarrow> (string \<Rightarrow> cfg_value option) \<Rightarrow> 'm config_pkg \<Rightarrow> unit result \<times> 'm config_pkg" where
  "upload ops cfgs p =
     (case pkg_cfg_mgr p of
        None \<Rightarrow> (Inl ErrNilDereference, p)
      | Some m \<Rightarrow>
          (case mgr_update_config ops cfgs m of
             (Some e, m') \<Rightarrow> (Inl e, p\<lparr>pkg_cfg_mgr := Some m'\<rparr>)
           | (None, m') \<Rightarrow> (Inr (), p\<lparr>pkg_cfg_mgr := Some m'\<rparr>)))"

text \<open>
  The state the accessors read: the current manager's settings, the key of the key provider
  (\<open>key_file\<close> gives the contents of a key file) and the environment.
\<close>

definition key_of :: "(string \<Rightarrow> string result) \<Rightarrow> key_provider \<Rightarrow> string result" where
  "key_of key_file k = (case k of FileKeyProvider path \<Rightarrow> key_file path | GivenKeyProvider r \<Rightarrow> r)"

definition cfg_view :: "'m cfg_mgr_ops \<Rightarrow> (string \<Rightarrow> string result) \<Rightarrow> 'm config_pkg \<Rightarrow> core_cfg" where
  "cfg_view ops key_file p =
     \<lparr>cfg_store = mgr_get_all ops (get_cfg_manager ops p), cfg_load_error = None,
      cfg_secret_key = (case pkg_key_provider p of None \<Rightarrow> Inl ErrNilDereference | Some k \<Rightarrow> key_of key_file k),
      cfg_env = pkg_env p\<rparr>"

section \<open>Fixtures\<close>

definition fresh_pkg :: "(string \<Rightarrow> cfg_value option) config_pkg" where
  "fresh_pkg = \<lparr>pkg_secret_store = None, pkg_key_provider = None, pkg_cfg_mgr = None,
                pkg_env = [''JOBSERVICE_SECRET'' \<mapsto> ''js-secret'']\<rparr>"

definition demo_key_file :: "string \<Rightarrow> string result" where
  "demo_key_file path = (if path = default_key_path then Inr ''0123456789abcdef'' else Inl ErrNotFound)"

text \<open>
  A manager over a settings map: the in-memory one starts with the default \<open>auth_mode\<close>,
  and \<open>UpdateConfig\<close> rejects an unknown key (keeping the known ones).
\<close>

definition demo_known_keys :: "string list" where
  "demo_known_keys = [''auth_mode'', ''with_trivy'']"

definition demo_mgr_ops :: "(string \<Rightarrow> cfg_value option) cfg_mgr_ops" where
  "demo_mgr_ops =
     \<lparr>new_db_cfg_manager = Map.empty,
      new_in_memory_manager = (\<lambda>_. [''auth_mode'' \<mapsto> CStr ''db_auth'']),
      mgr_update_config = (\<lambda>cfgs m. (if dom cfgs \<subseteq> set demo_known_keys then None else Some ErrBadRequest,
                                      m ++ (cfgs |` set demo_known_keys))),
      mgr_load = (\<lambda>m. (None, m)),
      mgr_get_all = id\<rparr>"

section \<open>Properties\<close>

text \<open>
  Claim C31: \<open>InitWithSettings\<close> does not depend on what the package held before, only on
  its environment. The accessors then read what a fresh in-memory manager holds after
  \<open>UpdateConfig\<close> of the given settings, whether or not \<open>UpdateConfig\<close> failed. The secret
  key is the given key provider's, or else the key file at \<open>KEY_PATH\<close> (default
  \<open>/etc/core/key\<close>). The secret store maps the jobservice secret to the jobservice user,
  and the environment is unchanged.
\<close>

theorem init_with_settings_view:
  "(pkg_env p' = pkg_env p \<longrightarrow> init_with_settings ops cfgs kp p' = init_with_settings ops cfgs kp p) \<and>
   cfg_store (cfg_view ops kf (init_with_settings ops cfgs kp p)) =
     mgr_get_all ops (snd (mgr_update_config ops cfgs (new_in_memory_manager ops (pkg_env p)))) \<and>
   secret_key (cfg_view ops kf (init_with_settings ops cfgs kp p)) =
     key_of kf (case kp of
                  [] \<Rightarrow> FileKeyProvider (if pkg_getenv p ''KEY_PATH'' = [] then default_key_path
                                        else pkg_getenv p ''KEY_PATH'')
                | k # _ \<Rightarrow> k) \<and>
   pkg_secret_store (init_with_settings ops cfgs kp p) = Some [(pkg_getenv p ''JOBSERVICE_SECRET'', jobservice_user)] \<and>
   cfg_env (cfg_view ops kf (init_with_settings ops cfgs kp p)) = pkg_env p"
  by (cases kp) (simp_all add: init_with_settings_def init_def init_key_provider_def init_secret_store_def
                   cfg_view_def get_cfg_manager_def secret_key_def pkg_getenv_def Let_def)

theorem init_with_settings_view_witness:
  "init_with_settings demo_mgr_ops [''with_trivy'' \<mapsto> CBool True] []
     (fresh_pkg\<lparr>pkg_cfg_mgr := Some Map.empty, pkg_key_provider := Some (GivenKeyProvider (Inr ''old''))\<rparr>) =
   init_with_settings demo_mgr_ops [''with_trivy'' \<mapsto> CBool True] [] fresh_pkg \<and>
   cfg_store (cfg_view demo_mgr_ops demo_key_file (init_with_settings demo_mgr_ops [''with_trivy'' \<mapsto> CBool True] [] fresh_pkg))
     = [''auth_mode'' \<mapsto> CStr ''db_auth'', ''with_trivy'' \<mapsto> CBool True] \<and>
   secret_key (cfg_view demo_mgr_ops demo_key_file (init_with_settings demo_mgr_ops [''with_trivy'' \<mapsto> CBool True] [] fresh_pkg))
     = Inr ''0123456789abcdef''"
  using init_with_settings_view [of "fresh_pkg\<lparr>pkg_cfg_mgr := Some Map.empty, pkg_key_provider := Some (GivenKeyProvider (Inr ''old''))\<rparr>"
                                    fresh_pkg demo_mgr_ops "[''with_trivy'' \<mapsto> CBool True]" "[]" demo_key_file]
  by (simp add: demo_mgr_ops_def demo_known_keys_def fresh_pkg_def pkg_getenv_def key_of_def demo_key_file_def
                map_add_def restrict_map_def fun_eq_iff)

text \<open>
  Claim C32: \<open>Load\<close> and \<open>Upload\<close> before \<open>Init\<close> dereference the nil manager and panic,
  leaving the package unchanged, while \<open>GetCfgManager\<close> on the same state returns a fresh
  database manager. After \<open>Init\<close> there is a manager: \<open>Upload\<close> installs the manager that
  its \<open>UpdateConfig\<close> leaves and returns that call's error.
\<close>

theorem load_before_init_panics:
  assumes "pkg_cfg_mgr p = None"
  shows "load ops p = (Inl ErrNilDereference, p) \<and> upload ops cfgs p = (Inl ErrNilDereference, p) \<and>
         get_cfg_manager ops p = new_db_cfg_manager ops \<and>
         upload ops cfgs (init ops p) =
           (case fst (mgr_update_config ops cfgs (new_db_cfg_manager ops)) of None \<Rightarrow> Inr () | Some e \<Rightarrow> Inl e,
            (init ops p)\<lparr>pkg_cfg_mgr := Some (snd (mgr_update_config ops cfgs (new_db_cfg_manager ops)))\<rparr>)"
  using assms
  by (simp add: load_def upload_def get_cfg_manager_def init_def init_secret_store_def init_key_provider_def
                Let_def split: prod.splits option.splits)

theorem load_before_init_panics_witness:
  "load demo_mgr_ops fresh_pkg = (Inl ErrNilDereference, fresh_pkg) \<and>
   upload demo_mgr_ops [''with_trivy'' \<mapsto> CBool True] fresh_pkg = (Inl ErrNilDereference, fresh_pkg) \<and>
   get_cfg_manager demo_mgr_ops fresh_pkg = Map.empty \<and>
   fst (upload demo_mgr_ops [''with_trivy'' \<mapsto> CBool True] (init demo_mgr_ops fresh_pkg)) = Inr () \<and>
   fst (upload demo_mgr_ops [''no_such_key'' \<mapsto> CBool True] (init demo_mgr_ops fresh_pkg)) = Inl ErrBadRequest"
proof -
  have n: "pkg_cfg_mgr fresh_pkg = None" by (simp add: fresh_pkg_def)
  show ?thesis
    using load_before_init_panics [OF n, of demo_mgr_ops "[''with_trivy'' \<mapsto> CBool True]"]
          load_before_init_panics [OF n, of demo_mgr_ops "[''no_such_key'' \<mapsto> CBool True]"]
    by (simp add: demo_mgr_ops_def demo_known_keys_def)
qed

end
