(* ===== verification/Repo_Dao_Test.thy ===== *)
theory Repo_Dao_Test
  imports Repo_Dao
begin

text \<open>
  The test suite of the repository DAO, \<open>src/pkg/repository/dao/dao_test.go\<close>, run
  against the model of \<open>Repo_Dao\<close>: \<open>SetupSuite\<close> sets \<open>d.dao = New()\<close>, and the methods
  call it through the interface record \<open>new_repo_dao\<close>. A test method is a function from the suite's remembered
  id and the database to its verdict and the database it leaves. A failed
  \<open>Require()\<close> ends the method there, while a failed \<open>Equal\<close> or \<open>True\<close> only marks it
  failed. testify runs \<open>SetupTest\<close>, the method and then \<open>TearDownTest\<close> (always), and it
  runs the methods in the order of their names. The artifact DAO of \<open>TestEmptyRepos\<close> writes
  a table that the model does not hold; its \<open>Create\<close> succeeds. The tag DAO's \<open>Create\<close>
  appends to the tag table. \<open>name\<close> is the suite's repository name
  \<open>library/<unix time>\<close>, and \<open>now\<close> is the instant of \<open>AddPullCount\<close>.
\<close>

section \<open>Queries and records of the tests\<close>

text \<open>
  \<open>&q.Query{Keywords: {"name": n}}\<close>, and the nil query; neither has a page, so the
  calls of \<open>List\<close> below pass page number and size 0.
\<close>

definition name_is :: "string \<Rightarrow> repo_record \<Rightarrow> bool" where
  "name_is n r \<longleftrightarrow> rr_name r = n"

definition any_repo :: "repo_record \<Rightarrow> bool" where
  "any_repo r \<longleftrightarrow> True"

definition blank_record :: repo_record where
  "blank_record = \<lparr>repository_id = 0, rr_name = [], project_id = 0, description = [], pull_count = 0,
     star_count = 0, creation_time = 0, update_time = 0\<rparr>"

definition suite_record :: "string \<Rightarrow> repo_record" where
  "suite_record name = blank_record\<lparr>rr_name := name, project_id := 1\<rparr>"

definition empty_repos_record :: repo_record where
  "empty_repos_record = blank_record\<lparr>rr_name := ''TestEmptyRepos'', project_id := 10,
     description := ''test pull count'', pull_count := 1\<rparr>"

section \<open>The test methods\<close>

type_synonym test_body = "int \<Rightarrow> repo_db \<Rightarrow> bool \<times> repo_db"

definition test_count :: "'o orm_context \<Rightarrow> string \<Rightarrow> test_body" where
  "test_count ctx name i db =
     (case rd_count new_repo_dao ctx any_repo db of
        Inl _ \<Rightarrow> (False, db)
      | Inr t \<Rightarrow>
          (case rd_count new_repo_dao ctx (name_is name) db of
             Inl _ \<Rightarrow> (False, db)
           | Inr t' \<Rightarrow> (0 < t \<and> t' = 1, db)))"

definition test_list :: "'o orm_context \<Rightarrow> string \<Rightarrow> test_body" where
  "test_list ctx name i db =
     (case rd_list new_repo_dao ctx any_repo 0 0 db of
        Inl _ \<Rightarrow> (False, db)
      | Inr rs \<Rightarrow>
          (case rd_list new_repo_dao ctx (name_is name) 0 0 db of
             Inl _ \<Rightarrow> (False, db)
           | Inr rs' \<Rightarrow> (list_ex (\<lambda>r. repository_id r = i) rs \<and> length rs' = 1 \<and>
                          repository_id (hd rs') = i, db)))"

definition test_get :: "'o orm_context \<Rightarrow> test_body" where
  "test_get ctx i db =
     (case rd_get new_repo_dao ctx 10000 db of
        Inr _ \<Rightarrow> (False, db)
      | Inl e \<Rightarrow>
          (case rd_get new_repo_dao ctx i db of
             Inl _ \<Rightarrow> (False, db)
           | Inr r \<Rightarrow> (e = ErrNotFound \<and> repository_id r = i, db)))"

definition test_create :: "'o orm_context \<Rightarrow> string \<Rightarrow> test_body" where
  "test_create ctx name i db =
     (case rd_create new_repo_dao ctx (suite_record name) db of
        (Inr _, db') \<Rightarrow> (False, db')
      | (Inl e, db') \<Rightarrow> (e = ErrConflict, db'))"

definition test_delete :: "'o orm_context \<Rightarrow> test_body" where
  "test_delete ctx i db =
     (case rd_delete new_repo_dao ctx 100021 db of
        (Inr _, db') \<Rightarrow> (False, db')
      | (Inl e, db') \<Rightarrow> (e = ErrNotFound, db'))"

definition test_update :: "'o orm_context \<Rightarrow> test_body" where
  "test_update ctx i db =
     (case rd_update new_repo_dao ctx (blank_record\<lparr>repository_id := i, pull_count := 1\<rparr>) [FPullCount] db of
        (Inl _, db1) \<Rightarrow> (False, db1)
      | (Inr _, db1) \<Rightarrow>
          (case rd_get new_repo_dao ctx i db1 of
             Inl _ \<Rightarrow> (False, db1)
           | Inr r \<Rightarrow>
               (case rd_update new_repo_dao ctx (blank_record\<lparr>repository_id := 10000\<rparr>) [] db1 of
                  (Inr _, db2) \<Rightarrow> (False, db2)
                | (Inl e, db2) \<Rightarrow> (pull_count r = 1 \<and> e = ErrNotFound, db2))))"

definition test_add_pull_count :: "'o orm_context \<Rightarrow> int \<Rightarrow> test_body" where
  "test_add_pull_count ctx now i db =
     (case rd_create new_repo_dao ctx pull_repo db of
        (Inl _, db1) \<Rightarrow> (False, db1)
      | (Inr j, db1) \<Rightarrow>
          (case rd_add_pull_count new_repo_dao ctx now j db1 of
             (Inl _, db2) \<Rightarrow> (False, db2)
           | (Inr _, db2) \<Rightarrow>
               (case rd_get new_repo_dao ctx j db2 of
                  Inl _ \<Rightarrow> (False, db2)
                | Inr r \<Rightarrow> (pull_count r = 2, snd (rd_delete new_repo_dao ctx j db2)))))"

definition test_empty_repos :: "'o orm_context \<Rightarrow> test_body" where
  "test_empty_repos ctx i db =
     (case rd_create new_repo_dao ctx empty_repos_record db of
        (Inl _, db1) \<Rightarrow> (False, db1)
      | (Inr j, db1) \<Rightarrow>
          (let db2 = db1\<lparr>tag_rows := tag_rows db1 @ [\<lparr>tag_repository_id = j, tag_name = ''latest''\<rparr>]\<rparr> in
           case rd_non_empty_repos new_repo_dao ctx db2 of
             Inl _ \<Rightarrow> (False, db2)
           | Inr rs \<Rightarrow> (list_ex (\<lambda>r. rr_name r = ''TestEmptyRepos'') rs, db2)))"

section \<open>The suite\<close>

datatype repo_test =
  TestAddPullCount | TestCount | TestCreate | TestDelete | TestEmptyRepos | TestGet | TestList | TestUpdate

primrec test_method :: "'o orm_context \<Rightarrow> string \<Rightarrow> int \<Rightarrow> repo_test \<Rightarrow> test_body" where
  "test_method ctx name now TestAddPullCount = test_add_pull_count ctx now"
| "test_method ctx name now TestCount = test_count ctx name"
| "test_method ctx name now TestCreate = test_create ctx name"
| "test_method ctx name now TestDelete = test_delete ctx"
| "test_method ctx name now TestEmptyRepos = test_empty_repos ctx"
| "test_method ctx name now TestGet = test_get ctx"
| "test_method ctx name now TestList = test_list ctx name"
| "test_method ctx name now TestUpdate = test_update ctx"

text \<open>
  One method with \<open>SetupTest\<close> and \<open>TearDownTest\<close>: a failed setup keeps the id of the
  previous test, which the teardown then deletes.
\<close>

definition run_test :: "'o orm_context \<Rightarrow> string \<Rightarrow> test_body \<Rightarrow> int \<times> repo_db \<Rightarrow> bool \<times> int \<times> repo_db" where
  "run_test ctx name body st =
     (case st of (sid, db) \<Rightarrow>
       (case rd_create new_repo_dao ctx (suite_record name) db of
          (Inl _, db1) \<Rightarrow>
            (case rd_delete new_repo_dao ctx sid db1 of (_, db3) \<Rightarrow> (False, sid, db3))
        | (Inr i, db1) \<Rightarrow>
            (case body i db1 of
               (ok, db2) \<Rightarrow>
                 (case rd_delete new_repo_dao ctx i db2 of (r, db3) \<Rightarrow> (ok \<and> r = Inr (), i, db3)))))"

text \<open>The methods in the order testify runs them (sorted by name).\<close>

definition suite_order :: "repo_test list" where
  "suite_order = [TestAddPullCount, TestCount, TestCreate, TestDelete, TestEmptyRepos, TestGet, TestList, TestUpdate]"

fun run_tests ::
  "'o orm_context \<Rightarrow> string \<Rightarrow> int \<Rightarrow> repo_test list \<Rightarrow> int \<times> repo_db \<Rightarrow> bool \<times> int \<times> repo_db" where
  "run_tests ctx name now [] st = (True, st)"
| "run_tests ctx name now (t # ts) st =
     (case run_test ctx name (test_method ctx name now t) st of
        (ok, st') \<Rightarrow> (case run_tests ctx name now ts st' of (oks, st'') \<Rightarrow> (ok \<and> oks, st'')))"

definition run_suite :: "'o orm_context \<Rightarrow> string \<Rightarrow> int \<Rightarrow> repo_db \<Rightarrow> bool \<times> int \<times> repo_db" where
  "run_suite ctx name now db = run_tests ctx name now suite_order (0, db)"


text \<open>What the suite assumes of the database it starts on: a well-formed table without the
  names it creates, with room for its ids below 10000, the id that \<open>TestGet\<close> expects
  to be missing.\<close>

definition suite_ready :: "string \<Rightarrow> repo_db \<Rightarrow> bool" where
  "suite_ready name db \<longleftrightarrow>
     repo_db_ok db \<and> repo_seq db + 16 \<le> 10000 \<and>
     name \<notin> set (map rr_name (repo_rows db)) \<and> ''test/pullcount'' \<notin> set (map rr_name (repo_rows db)) \<and>
     ''TestEmptyRepos'' \<notin> set (map rr_name (repo_rows db)) \<and> name \<noteq> ''test/pullcount'' \<and> name \<noteq> ''TestEmptyRepos''"

section \<open>Fixtures\<close>

definition suite_repo_name :: string where
  "suite_repo_name = ''library/1700000000''"

section \<open>Lemmas\<close>

lemma filter_ids_below:
  assumes "\<forall>r \<in> set rs. repository_id r < i"
  shows "filter (\<lambda>r. repository_id r \<noteq> i) rs = rs" "filter (\<lambda>r. repository_id r = i) rs = []"
    "find (\<lambda>r. repository_id r = i) rs = None"
  using assms by (auto simp: filter_empty_conv find_None_iff filter_id_conv)

lemma map_if_other_ids: "\<forall>r \<in> set rs. repository_id r \<noteq> i \<Longrightarrow> map (\<lambda>r. if repository_id r = i then f r else r) rs = rs"
  by (induction rs) auto

lemma dao_update_found:
  assumes "ctx_orm ctx \<noteq> None"
    and "map (\<lambda>r. if repository_id r = repository_id src then update_row src props r else r) (repo_rows db) = rows'"
    and "distinct (map rr_name rows')"
  shows "dao_update ctx src props db =
           (if list_ex (\<lambda>r. repository_id r = repository_id src) (repo_rows db)
            then (Inr (), db\<lparr>repo_rows := rows'\<rparr>) else (Inl ErrNotFound, db))"
  using assms by (auto simp: dao_update_def from_context_def Let_def split: option.splits)

lemma dao_create_fresh:
  assumes "ctx_orm ctx \<noteq> None" "rr_name r \<notin> set (map rr_name (repo_rows db))"
  shows "dao_create ctx r db =
           (Inr (repo_seq db), db\<lparr>repo_rows := repo_rows db @ [r\<lparr>repository_id := repo_seq db\<rparr>],
                                  repo_seq := repo_seq db + 1\<rparr>)"
proof -
  have "\<not> list_ex (\<lambda>x. rr_name x = rr_name r) (repo_rows db)" using assms(2) by (auto simp: list_ex_iff image_iff)
  then show ?thesis using assms(1) by (auto simp: dao_create_def from_context_def)
qed

lemma dao_delete_created:
  assumes "ctx_orm ctx \<noteq> None" "repo_rows db = rs @ [x] @ ys" "repository_id x = i"
    "\<forall>r \<in> set rs. repository_id r < i" "\<forall>r \<in> set ys. repository_id r \<noteq> i"
  shows "dao_delete ctx i db = (Inr (), db\<lparr>repo_rows := rs @ ys\<rparr>)"
proof -
  have "filter (\<lambda>r. repository_id r \<noteq> i) ys = ys" using assms(5) by simp
  then show ?thesis
    using assms filter_ids_below [OF assms(4)]
    by (auto simp: dao_delete_def from_context_def Let_def split: option.splits)
qed

lemma repo_db_ok_below: "repo_db_ok db \<Longrightarrow> \<forall>r \<in> set (repo_rows db). repository_id r < repo_seq db"
  by (simp add: repo_db_ok_def list_all_iff)


lemma run_test_frame:
  assumes "ctx_orm ctx \<noteq> None" "\<forall>r \<in> set (repo_rows db). repository_id r < repo_seq db" "name \<notin> set (map rr_name (repo_rows db))"
    and "body (repo_seq db) (db\<lparr>repo_rows := repo_rows db @ [suite_record name\<lparr>repository_id := repo_seq db\<rparr>],
                                repo_seq := repo_seq db + 1\<rparr>) = (ok, db2)"
    and "repo_rows db2 = repo_rows db @ [x] @ ys" "repository_id x = repo_seq db"
    and "\<forall>r \<in> set ys. repository_id r \<noteq> repo_seq db"
  shows "run_test ctx name body (sid, db) = (ok, repo_seq db, db2\<lparr>repo_rows := repo_rows db @ ys\<rparr>)"
proof -
  have c: "dao_create ctx (suite_record name) db =
             (Inr (repo_seq db), db\<lparr>repo_rows := repo_rows db @ [suite_record name\<lparr>repository_id := repo_seq db\<rparr>],
                                    repo_seq := repo_seq db + 1\<rparr>)"
    using dao_create_fresh [OF assms(1)] assms(3) by (simp add: suite_record_def blank_record_def)
  have d: "dao_delete ctx (repo_seq db) db2 = (Inr (), db2\<lparr>repo_rows := repo_rows db @ ys\<rparr>)"
    using dao_delete_created [OF assms(1) assms(5) assms(6)] assms(2,7) by simp
  show ?thesis using c d assms(4) by (simp add: run_test_def)
qed

lemma count_fresh_name:
  "name \<notin> set (map rr_name rs) \<Longrightarrow> filter (name_is name) (rs @ [x]) = (if rr_name x = name then [x] else [])"
  by (auto simp: name_is_def filter_empty_conv)

lemma test_count_passes:
  assumes "ctx_orm ctx \<noteq> None" "name \<notin> set (map rr_name (repo_rows db))"
  shows "test_count ctx name i (db\<lparr>repo_rows := repo_rows db @ [suite_record name\<lparr>repository_id := i\<rparr>], repo_seq := s\<rparr>) =
           (True, db\<lparr>repo_rows := repo_rows db @ [suite_record name\<lparr>repository_id := i\<rparr>], repo_seq := s\<rparr>)"
  using assms count_fresh_name [OF assms(2)]
  by (auto simp: test_count_def dao_count_def from_context_def any_repo_def suite_record_def blank_record_def)


text \<open>The methods on the database after \<open>SetupTest\<close>: its rows end with the suite's row
  \<open>x\<close> of id \<open>i\<close>, the other rows have smaller ids and other names.\<close>

lemma test_list_passes:
  assumes "ctx_orm ctx \<noteq> None" "repo_rows db = rs @ [x]" "rr_name x = name" "repository_id x = i"
    "name \<notin> set (map rr_name rs)"
  shows "test_list ctx name i db = (True, db)"
  using assms count_fresh_name [OF assms(5), of x]
  by (auto simp: test_list_def dao_list_def from_context_def any_repo_def list_ex_iff)

lemma test_get_passes:
  assumes "ctx_orm ctx \<noteq> None" "repo_rows db = rs @ [x]" "repository_id x = i" "i < 10000"
    "\<forall>r \<in> set rs. repository_id r < i"
  shows "test_get ctx i db = (True, db)"
proof -
  have "\<forall>r \<in> set rs. repository_id r < 10000" using assms(4,5) by auto
  then show ?thesis
    using assms filter_ids_below [OF assms(5)] filter_ids_below [of rs 10000]
    by (auto simp: test_get_def dao_get_def from_context_def find_append_None)
qed

lemma test_create_passes:
  assumes "ctx_orm ctx \<noteq> None" "repo_rows db = rs @ [x]" "rr_name x = name"
  shows "test_create ctx name i db = (True, db)"
  using assms by (auto simp: test_create_def dao_create_def from_context_def suite_record_def blank_record_def)

lemma test_delete_passes:
  assumes "ctx_orm ctx \<noteq> None" "repo_rows db = rs @ [x]" "repository_id x = i" "i < 10000"
    "\<forall>r \<in> set rs. repository_id r < i"
  shows "test_delete ctx i db = (True, db)"
proof -
  have "\<forall>r \<in> set (rs @ [x]). repository_id r < 100021" using assms(3-5) by auto
  then show ?thesis
    using assms filter_ids_below [of "rs @ [x]" 100021]
    by (auto simp: test_delete_def dao_delete_def from_context_def Let_def)
qed


lemma test_update_passes:
  assumes "ctx_orm ctx \<noteq> None" "repo_rows db = rs @ [x]" "repository_id x = i" "i < 10000"
    "\<forall>r \<in> set rs. repository_id r < i" "distinct (map rr_name (rs @ [x]))"
  shows "test_update ctx i db = (True, db\<lparr>repo_rows := rs @ [x\<lparr>pull_count := 1\<rparr>]\<rparr>)"
proof -
  have ne: "\<forall>r \<in> set rs. repository_id r \<noteq> i" "\<forall>r \<in> set (rs @ [x\<lparr>pull_count := 1\<rparr>]). repository_id r \<noteq> 10000"
    using assms(3-5) by auto
  have m1: "map (\<lambda>r. if repository_id r = repository_id (blank_record\<lparr>repository_id := i, pull_count := 1\<rparr>)
                     then update_row (blank_record\<lparr>repository_id := i, pull_count := 1\<rparr>) [FPullCount] r else r)
              (repo_rows db) = rs @ [x\<lparr>pull_count := 1\<rparr>]"
    using map_if_other_ids [OF ne(1)] assms(2,3) by (simp add: update_row_def blank_record_def)
  have m2: "map (\<lambda>r. if repository_id r = repository_id (blank_record\<lparr>repository_id := 10000\<rparr>)
                     then update_row (blank_record\<lparr>repository_id := 10000\<rparr>) [] r else r)
              (repo_rows (db\<lparr>repo_rows := rs @ [x\<lparr>pull_count := 1\<rparr>]\<rparr>)) = rs @ [x\<lparr>pull_count := 1\<rparr>]"
    using map_if_other_ids [OF ne(2)] by (simp add: blank_record_def)
  have dn: "distinct (map rr_name (rs @ [x\<lparr>pull_count := 1\<rparr>]))" using assms(6) by simp
  have u1: "dao_update ctx (blank_record\<lparr>repository_id := i, pull_count := 1\<rparr>) [FPullCount] db =
              (Inr (), db\<lparr>repo_rows := rs @ [x\<lparr>pull_count := 1\<rparr>]\<rparr>)"
    using dao_update_found [OF assms(1) m1 dn] assms(2,3) by (simp add: blank_record_def list_ex_iff)
  have u2: "dao_update ctx (blank_record\<lparr>repository_id := 10000\<rparr>) [] (db\<lparr>repo_rows := rs @ [x\<lparr>pull_count := 1\<rparr>]\<rparr>) =
              (Inl ErrNotFound, db\<lparr>repo_rows := rs @ [x\<lparr>pull_count := 1\<rparr>]\<rparr>)"
    using dao_update_found [OF assms(1) m2 dn] ne(2) by (auto simp: blank_record_def list_ex_iff)
  have g: "dao_get ctx i (db\<lparr>repo_rows := rs @ [x\<lparr>pull_count := 1\<rparr>]\<rparr>) = Inr (x\<lparr>pull_count := 1\<rparr>)"
    using assms(1,3) filter_ids_below [OF assms(5)]
    by (auto simp: dao_get_def from_context_def find_append_None)
  show ?thesis using u1 u2 g by (simp add: test_update_def)
qed


lemma test_add_pull_count_passes:
  assumes "ctx_orm ctx \<noteq> None" "repo_rows db = rs" "repo_seq db = s"
    "''test/pullcount'' \<notin> set (map rr_name rs)" "\<forall>r \<in> set rs. repository_id r < s"
  shows "test_add_pull_count ctx now i db = (True, db\<lparr>repo_rows := rs, repo_seq := s + 1\<rparr>)"
proof -
  let ?p = "pull_repo\<lparr>repository_id := s\<rparr>"
  let ?p' = "?p\<lparr>pull_count := 2, update_time := now\<rparr>"
  have ne: "\<forall>r \<in> set rs. repository_id r \<noteq> s" using assms(5) by auto
  have c: "dao_create ctx pull_repo db = (Inr s, db\<lparr>repo_rows := rs @ [?p], repo_seq := s + 1\<rparr>)"
    using dao_create_fresh [OF assms(1)] assms(2-4) by (simp add: pull_repo_def)
  have a: "dao_add_pull_count ctx now s (db\<lparr>repo_rows := rs @ [?p], repo_seq := s + 1\<rparr>) =
             (Inr (), db\<lparr>repo_rows := rs @ [?p'], repo_seq := s + 1\<rparr>)"
    using assms(1) map_if_other_ids [OF ne]
    by (auto simp: dao_add_pull_count_def from_context_def pull_repo_def split: option.splits)
  have g: "dao_get ctx s (db\<lparr>repo_rows := rs @ [?p'], repo_seq := s + 1\<rparr>) = Inr ?p'"
    using assms(1) filter_ids_below [OF assms(5)]
    by (auto simp: dao_get_def from_context_def find_append_None)
  have d: "dao_delete ctx s (db\<lparr>repo_rows := rs @ [?p'], repo_seq := s + 1\<rparr>) =
             (Inr (), db\<lparr>repo_rows := rs, repo_seq := s + 1\<rparr>)"
    using dao_delete_created [OF assms(1), of _ rs ?p' "[]" s] assms(5) by simp
  show ?thesis using c a g d by (simp add: test_add_pull_count_def pull_repo_def)
qed

lemma test_empty_repos_passes:
  assumes "ctx_orm ctx \<noteq> None" "repo_rows db = rs" "repo_seq db = s"
    "''TestEmptyRepos'' \<notin> set (map rr_name rs)"
  shows "test_empty_repos ctx i db =
           (True, db\<lparr>repo_rows := rs @ [empty_repos_record\<lparr>repository_id := s\<rparr>], repo_seq := s + 1,
                     tag_rows := tag_rows db @ [\<lparr>tag_repository_id = s, tag_name = ''latest''\<rparr>]\<rparr>)"
proof -
  have c: "dao_create ctx empty_repos_record db =
             (Inr s, db\<lparr>repo_rows := rs @ [empty_repos_record\<lparr>repository_id := s\<rparr>], repo_seq := s + 1\<rparr>)"
    using dao_create_fresh [OF assms(1)] assms(2-4) by (simp add: empty_repos_record_def blank_record_def)
  show ?thesis
  proof -
    have "list_ex (\<lambda>r. rr_name r = ''TestEmptyRepos'')
            (filter (\<lambda>r. list_ex (\<lambda>t. tag_repository_id t = repository_id r)
                         (tag_rows db @ [\<lparr>tag_repository_id = s, tag_name = ''latest''\<rparr>]))
                    (rs @ [empty_repos_record\<lparr>repository_id := s\<rparr>]))"
      by (simp add: list_ex_iff empty_repos_record_def blank_record_def)
    then show ?thesis
      using c assms(1) by (auto simp: test_empty_repos_def dao_non_empty_repos_def from_context_def)
  qed
qed


text \<open>Each method with its setup and teardown, on a database whose ids are below the sequence.\<close>

lemma run_test_readonly:
  assumes "ctx_orm ctx \<noteq> None" "\<forall>r \<in> set (repo_rows db). repository_id r < repo_seq db"
    "name \<notin> set (map rr_name (repo_rows db))"
    and "body (repo_seq db) (db\<lparr>repo_rows := repo_rows db @ [suite_record name\<lparr>repository_id := repo_seq db\<rparr>],
                                repo_seq := repo_seq db + 1\<rparr>) =
         (True, db\<lparr>repo_rows := repo_rows db @ [suite_record name\<lparr>repository_id := repo_seq db\<rparr>],
                   repo_seq := repo_seq db + 1\<rparr>)"
  shows "run_test ctx name body (sid, db) = (True, repo_seq db, db\<lparr>repo_seq := repo_seq db + 1\<rparr>)"
  using run_test_frame [where ctx = ctx and db = db and name = name and body = body,
                        OF assms, of "suite_record name\<lparr>repository_id := repo_seq db\<rparr>" "[]"] by simp

lemma run_count:
  assumes "ctx_orm ctx \<noteq> None" "\<forall>r \<in> set (repo_rows db). repository_id r < repo_seq db"
    "name \<notin> set (map rr_name (repo_rows db))"
  shows "run_test ctx name (test_count ctx name) (sid, db) = (True, repo_seq db, db\<lparr>repo_seq := repo_seq db + 1\<rparr>)"
  by (rule run_test_readonly [OF assms]) (rule test_count_passes [OF assms(1,3)])

lemma run_list:
  assumes "ctx_orm ctx \<noteq> None" "\<forall>r \<in> set (repo_rows db). repository_id r < repo_seq db"
    "name \<notin> set (map rr_name (repo_rows db))"
  shows "run_test ctx name (test_list ctx name) (sid, db) = (True, repo_seq db, db\<lparr>repo_seq := repo_seq db + 1\<rparr>)"
  using assms by (intro run_test_readonly test_list_passes) (auto simp: suite_record_def blank_record_def)

lemma run_get:
  assumes "ctx_orm ctx \<noteq> None" "\<forall>r \<in> set (repo_rows db). repository_id r < repo_seq db"
    "name \<notin> set (map rr_name (repo_rows db))" "repo_seq db < 10000"
  shows "run_test ctx name (test_get ctx) (sid, db) = (True, repo_seq db, db\<lparr>repo_seq := repo_seq db + 1\<rparr>)"
  using assms by (intro run_test_readonly test_get_passes) (auto simp: suite_record_def blank_record_def)

lemma run_create:
  assumes "ctx_orm ctx \<noteq> None" "\<forall>r \<in> set (repo_rows db). repository_id r < repo_seq db"
    "name \<notin> set (map rr_name (repo_rows db))"
  shows "run_test ctx name (test_create ctx name) (sid, db) = (True, repo_seq db, db\<lparr>repo_seq := repo_seq db + 1\<rparr>)"
  using assms by (intro run_test_readonly test_create_passes) (auto simp: suite_record_def blank_record_def)

lemma run_delete:
  assumes "ctx_orm ctx \<noteq> None" "\<forall>r \<in> set (repo_rows db). repository_id r < repo_seq db"
    "name \<notin> set (map rr_name (repo_rows db))" "repo_seq db < 10000"
  shows "run_test ctx name (test_delete ctx) (sid, db) = (True, repo_seq db, db\<lparr>repo_seq := repo_seq db + 1\<rparr>)"
  using assms by (intro run_test_readonly test_delete_passes) (auto simp: suite_record_def blank_record_def)


lemma run_update:
  assumes "ctx_orm ctx \<noteq> None" "\<forall>r \<in> set (repo_rows db). repository_id r < repo_seq db"
    "name \<notin> set (map rr_name (repo_rows db))" "repo_seq db < 10000" "distinct (map rr_name (repo_rows db))"
  shows "run_test ctx name (test_update ctx) (sid, db) = (True, repo_seq db, db\<lparr>repo_seq := repo_seq db + 1\<rparr>)"
proof -
  let ?x = "suite_record name\<lparr>repository_id := repo_seq db\<rparr>"
  let ?db1 = "db\<lparr>repo_rows := repo_rows db @ [?x], repo_seq := repo_seq db + 1\<rparr>"
  have b: "test_update ctx (repo_seq db) ?db1 = (True, ?db1\<lparr>repo_rows := repo_rows db @ [?x\<lparr>pull_count := 1\<rparr>]\<rparr>)"
    using assms by (intro test_update_passes) (auto simp: suite_record_def blank_record_def)
  show ?thesis
    using run_test_frame [where ctx = ctx and db = db and name = name and body = "test_update ctx",
                          OF assms(1-3) b, of "?x\<lparr>pull_count := 1\<rparr>" "[]"] by simp
qed

lemma run_add_pull_count:
  assumes "ctx_orm ctx \<noteq> None" "\<forall>r \<in> set (repo_rows db). repository_id r < repo_seq db"
    "name \<notin> set (map rr_name (repo_rows db))" "''test/pullcount'' \<notin> set (map rr_name (repo_rows db))"
    "name \<noteq> ''test/pullcount''"
  shows "run_test ctx name (test_add_pull_count ctx now) (sid, db) = (True, repo_seq db, db\<lparr>repo_seq := repo_seq db + 2\<rparr>)"
proof -
  let ?x = "suite_record name\<lparr>repository_id := repo_seq db\<rparr>"
  let ?db1 = "db\<lparr>repo_rows := repo_rows db @ [?x], repo_seq := repo_seq db + 1\<rparr>"
  have b: "test_add_pull_count ctx now (repo_seq db) ?db1 =
             (True, ?db1\<lparr>repo_rows := repo_rows db @ [?x], repo_seq := repo_seq db + 1 + 1\<rparr>)"
    using assms by (intro test_add_pull_count_passes) (auto simp: suite_record_def blank_record_def)
  show ?thesis
    using run_test_frame [where ctx = ctx and db = db and name = name and body = "test_add_pull_count ctx now",
                          OF assms(1-3) b, of ?x "[]"] by simp
qed

lemma run_empty_repos:
  assumes "ctx_orm ctx \<noteq> None" "\<forall>r \<in> set (repo_rows db). repository_id r < repo_seq db"
    "name \<notin> set (map rr_name (repo_rows db))" "''TestEmptyRepos'' \<notin> set (map rr_name (repo_rows db))"
    "name \<noteq> ''TestEmptyRepos''"
  shows "run_test ctx name (test_empty_repos ctx) (sid, db) =
           (True, repo_seq db,
            db\<lparr>repo_rows := repo_rows db @ [empty_repos_record\<lparr>repository_id := repo_seq db + 1\<rparr>],
               repo_seq := repo_seq db + 2,
               tag_rows := tag_rows db @ [\<lparr>tag_repository_id = repo_seq db + 1, tag_name = ''latest''\<rparr>]\<rparr>)"
proof -
  let ?x = "suite_record name\<lparr>repository_id := repo_seq db\<rparr>"
  let ?e = "empty_repos_record\<lparr>repository_id := repo_seq db + 1\<rparr>"
  let ?db1 = "db\<lparr>repo_rows := repo_rows db @ [?x], repo_seq := repo_seq db + 1\<rparr>"
  have b: "test_empty_repos ctx (repo_seq db) ?db1 =
             (True, ?db1\<lparr>repo_rows := repo_rows db @ [?x] @ [?e], repo_seq := repo_seq db + 1 + 1,
                        tag_rows := tag_rows db @ [\<lparr>tag_repository_id = repo_seq db + 1, tag_name = ''latest''\<rparr>]\<rparr>)"
    using assms
    by (subst test_empty_repos_passes [where rs = "repo_rows db @ [?x]" and s = "repo_seq db + 1"])
       (auto simp: suite_record_def blank_record_def)
  show ?thesis
    using run_test_frame [where ctx = ctx and db = db and name = name and body = "test_empty_repos ctx",
                          OF assms(1-3) b, of ?x "[?e]"] by simp
qed


lemma run_tests_append:
  "run_tests ctx name now (xs @ ys) st =
     (case run_tests ctx name now xs st of
        (ok, st') \<Rightarrow> (case run_tests ctx name now ys st' of (ok', st'') \<Rightarrow> (ok \<and> ok', st'')))"
  by (induction xs arbitrary: st) (auto split: prod.splits)

lemma run_first_four:
  assumes ctx: "ctx_orm ctx \<noteq> None" and below: "\<forall>r \<in> set (repo_rows db). repository_id r < repo_seq db"
    and nm: "name \<notin> set (map rr_name (repo_rows db))" and pc: "''test/pullcount'' \<notin> set (map rr_name (repo_rows db))"
    and n1: "name \<noteq> ''test/pullcount''" and bnd: "repo_seq db + 6 \<le> 10000"
  shows "run_tests ctx name now [TestAddPullCount, TestCount, TestCreate, TestDelete] (sid, db) =
           (True, repo_seq db + 4, db\<lparr>repo_seq := repo_seq db + 5\<rparr>)"
proof -
  define s where "s = repo_seq db"
  have b: "\<forall>r \<in> set (repo_rows db). repository_id r < s + k" if "0 \<le> k" for k
    using below that by (force simp: s_def)
  have r1: "run_test ctx name (test_add_pull_count ctx now) (sid, db) = (True, s, db\<lparr>repo_seq := s + 2\<rparr>)"
    using run_add_pull_count [OF ctx below nm pc n1] by (simp add: s_def)
  have r2: "run_test ctx name (test_count ctx name) (s, db\<lparr>repo_seq := s + 2\<rparr>) = (True, s + 2, db\<lparr>repo_seq := s + 3\<rparr>)"
    using run_count [OF ctx, of "db\<lparr>repo_seq := s + 2\<rparr>"] b [of 2] nm by simp
  have r3: "run_test ctx name (test_create ctx name) (s + 2, db\<lparr>repo_seq := s + 3\<rparr>) = (True, s + 3, db\<lparr>repo_seq := s + 4\<rparr>)"
    using run_create [OF ctx, of "db\<lparr>repo_seq := s + 3\<rparr>"] b [of 3] nm by simp
  have r4: "run_test ctx name (test_delete ctx) (s + 3, db\<lparr>repo_seq := s + 4\<rparr>) = (True, s + 4, db\<lparr>repo_seq := s + 5\<rparr>)"
    using run_delete [OF ctx, of "db\<lparr>repo_seq := s + 4\<rparr>"] b [of 4] nm bnd by (simp add: s_def)
  show ?thesis using r1 r2 r3 r4 by (simp add: s_def)
qed


lemma run_last_four:
  assumes ctx: "ctx_orm ctx \<noteq> None" and below: "\<forall>r \<in> set (repo_rows db). repository_id r < repo_seq db"
    and nm: "name \<notin> set (map rr_name (repo_rows db))" and er: "''TestEmptyRepos'' \<notin> set (map rr_name (repo_rows db))"
    and n2: "name \<noteq> ''TestEmptyRepos''" and dist: "distinct (map rr_name (repo_rows db))"
    and bnd: "repo_seq db + 5 \<le> 10000"
  shows "run_tests ctx name now [TestEmptyRepos, TestGet, TestList, TestUpdate] (sid, db) =
           (True, repo_seq db + 4,
            db\<lparr>repo_rows := repo_rows db @ [empty_repos_record\<lparr>repository_id := repo_seq db + 1\<rparr>],
               repo_seq := repo_seq db + 5,
               tag_rows := tag_rows db @ [\<lparr>tag_repository_id = repo_seq db + 1, tag_name = ''latest''\<rparr>]\<rparr>)"
proof -
  define s where "s = repo_seq db"
  define e where "e = empty_repos_record\<lparr>repository_id := s + 1\<rparr>"
  define d5 where "d5 = db\<lparr>repo_rows := repo_rows db @ [e], repo_seq := s + 2,
                           tag_rows := tag_rows db @ [\<lparr>tag_repository_id = s + 1, tag_name = ''latest''\<rparr>]\<rparr>"
  have below5: "\<forall>r \<in> set (repo_rows d5). repository_id r < s + 2 + k" if "0 \<le> k" for k
    using below that by (force simp: d5_def e_def s_def)
  have nm5: "name \<notin> set (map rr_name (repo_rows d5))"
    using nm n2 by (simp add: d5_def e_def empty_repos_record_def blank_record_def)
  have dist5: "distinct (map rr_name (repo_rows d5))"
    using dist er by (simp add: d5_def e_def empty_repos_record_def blank_record_def)
  have r5: "run_test ctx name (test_empty_repos ctx) (sid, db) = (True, s, d5)"
    using run_empty_repos [OF ctx below nm er n2] by (simp add: d5_def e_def s_def)
  have r6: "run_test ctx name (test_get ctx) (s, d5) = (True, s + 2, d5\<lparr>repo_seq := s + 3\<rparr>)"
    using run_get [OF ctx, of d5] below5 [of 0] nm5 bnd by (simp add: d5_def s_def)
  have r7: "run_test ctx name (test_list ctx name) (s + 2, d5\<lparr>repo_seq := s + 3\<rparr>) = (True, s + 3, d5\<lparr>repo_seq := s + 4\<rparr>)"
    using run_list [OF ctx, of "d5\<lparr>repo_seq := s + 3\<rparr>"] below5 [of 1] nm5 by (simp add: d5_def ac_simps)
  have r8: "run_test ctx name (test_update ctx) (s + 3, d5\<lparr>repo_seq := s + 4\<rparr>) = (True, s + 4, d5\<lparr>repo_seq := s + 5\<rparr>)"
    using run_update [OF ctx, of "d5\<lparr>repo_seq := s + 4\<rparr>"] below5 [of 2] nm5 dist5 bnd by (simp add: d5_def s_def ac_simps)
  show ?thesis using r5 r6 r7 r8 by (simp add: d5_def e_def s_def)
qed

lemma run_suite_steps:
  assumes ctx: "ctx_orm ctx \<noteq> None" and rd: "suite_ready name db"
  shows "run_suite ctx name now db =
           (True, repo_seq db + 9,
            db\<lparr>repo_rows := repo_rows db @ [empty_repos_record\<lparr>repository_id := repo_seq db + 6\<rparr>],
               repo_seq := repo_seq db + 10,
               tag_rows := tag_rows db @ [\<lparr>tag_repository_id = repo_seq db + 6, tag_name = ''latest''\<rparr>]\<rparr>)"
proof -
  have ok: "repo_db_ok db" and bnd: "repo_seq db + 16 \<le> 10000" and nm: "name \<notin> set (map rr_name (repo_rows db))"
    and pc: "''test/pullcount'' \<notin> set (map rr_name (repo_rows db))"
    and er: "''TestEmptyRepos'' \<notin> set (map rr_name (repo_rows db))"
    and n1: "name \<noteq> ''test/pullcount''" and n2: "name \<noteq> ''TestEmptyRepos''"
    using rd by (simp_all add: suite_ready_def)
  have below: "\<forall>r \<in> set (repo_rows db). repository_id r < repo_seq db" using repo_db_ok_below [OF ok] .
  have dist: "distinct (map rr_name (repo_rows db))" using ok by (simp add: repo_db_ok_def)
  have first: "run_tests ctx name now [TestAddPullCount, TestCount, TestCreate, TestDelete] (0, db) =
                 (True, repo_seq db + 4, db\<lparr>repo_seq := repo_seq db + 5\<rparr>)"
    using run_first_four [OF ctx below nm pc n1] bnd by simp
  define D where "D = db\<lparr>repo_seq := repo_seq db + 5\<rparr>"
  have bD: "\<forall>r \<in> set (repo_rows D). repository_id r < repo_seq D" using below by (force simp: D_def)
  have nD: "name \<notin> set (map rr_name (repo_rows D))" "''TestEmptyRepos'' \<notin> set (map rr_name (repo_rows D))"
    "distinct (map rr_name (repo_rows D))" "repo_seq D + 5 \<le> 10000"
    using nm er dist bnd by (simp_all add: D_def)
  have last: "run_tests ctx name now [TestEmptyRepos, TestGet, TestList, TestUpdate] (repo_seq db + 4, D) =
                (True, repo_seq db + 9,
                 db\<lparr>repo_rows := repo_rows db @ [empty_repos_record\<lparr>repository_id := repo_seq db + 6\<rparr>],
                    repo_seq := repo_seq db + 10,
                    tag_rows := tag_rows db @ [\<lparr>tag_repository_id = repo_seq db + 6, tag_name = ''latest''\<rparr>]\<rparr>)"
    using run_last_four [where sid = "repo_seq db + 4" and now = now, OF ctx bD nD(1,2) n2 nD(3,4)]
    by (simp add: D_def ac_simps del: run_tests.simps)
  have split: "suite_order = [TestAddPullCount, TestCount, TestCreate, TestDelete] @ [TestEmptyRepos, TestGet, TestList, TestUpdate]"
    by (simp add: suite_order_def)
  show ?thesis by (simp only: run_suite_def split run_tests_append first prod.case last [unfolded D_def]) simp
qed


lemma run_empty_repos_conflict:
  assumes "ctx_orm ctx \<noteq> None" "name \<notin> set (map rr_name (repo_rows db))"
    "''TestEmptyRepos'' \<in> set (map rr_name (repo_rows db))"
  shows "\<not> fst (run_test ctx name (test_empty_repos ctx) (sid, db))"
proof -
  have c: "dao_create ctx (suite_record name) db =
             (Inr (repo_seq db), db\<lparr>repo_rows := repo_rows db @ [suite_record name\<lparr>repository_id := repo_seq db\<rparr>],
                                    repo_seq := repo_seq db + 1\<rparr>)"
    using dao_create_fresh [OF assms(1)] assms(2) by (simp add: suite_record_def blank_record_def)
  have "fst (test_empty_repos ctx (repo_seq db)
              (db\<lparr>repo_rows := repo_rows db @ [suite_record name\<lparr>repository_id := repo_seq db\<rparr>],
                  repo_seq := repo_seq db + 1\<rparr>)) = False"
    using assms(1,3)
    by (auto simp: test_empty_repos_def dao_create_def from_context_def list_ex_iff empty_repos_record_def
                   blank_record_def split: option.splits)
  then show ?thesis using c by (auto simp: run_test_def split: prod.splits sum.splits)
qed


section \<open>Properties\<close>

text \<open>
  Claim C18: on every database that meets the suite's assumptions, the model passes the whole
  test suite of \<open>dao_test.go\<close>. The assumptions are a well-formed table without the names
  the tests create, and ids below 10000, the id that \<open>TestGet\<close> and \<open>TestUpdate\<close> expect
  to be missing. The suite leaves one row behind: the repository \<open>TestEmptyRepos\<close> creates.
\<close>

theorem repo_dao_suite_passes:
  assumes "ctx_orm ctx \<noteq> None" "suite_ready name db"
  shows "fst (run_suite ctx name now db) \<and>
         repo_rows (snd (snd (run_suite ctx name now db))) =
           repo_rows db @ [empty_repos_record\<lparr>repository_id := repo_seq db + 6\<rparr>]"
  using run_suite_steps [OF assms] by simp

theorem repo_dao_suite_passes_witness:
  "fst (run_suite dao_ctx suite_repo_name 0 empty_repo_db) \<and>
   repo_rows (snd (snd (run_suite dao_ctx suite_repo_name 0 empty_repo_db))) =
     repo_rows empty_repo_db @ [empty_repos_record\<lparr>repository_id := repo_seq empty_repo_db + 6\<rparr>]"
proof -
  have "ctx_orm dao_ctx \<noteq> None" "suite_ready suite_repo_name empty_repo_db"
    by (simp_all add: dao_ctx_def suite_ready_def empty_repo_db_def repo_db_ok_def suite_repo_name_def)
  then show ?thesis by (rule repo_dao_suite_passes)
qed

text \<open>
  Claim C19: the suite cannot run twice on the same database. The repository that
  \<open>TestEmptyRepos\<close> leaves behind makes its \<open>Create\<close> fail with a conflict on the next
  run, so the second run fails.
\<close>

theorem repo_dao_suite_not_rerunnable:
  assumes ctx: "ctx_orm ctx \<noteq> None" and rd: "suite_ready name db"
  shows "\<not> fst (run_suite ctx name now (snd (snd (run_suite ctx name now db))))"
proof -
  define s where "s = repo_seq db"
  define d' where "d' = db\<lparr>repo_rows := repo_rows db @ [empty_repos_record\<lparr>repository_id := s + 6\<rparr>],
                            repo_seq := s + 10,
                            tag_rows := tag_rows db @ [\<lparr>tag_repository_id = s + 6, tag_name = ''latest''\<rparr>]\<rparr>"
  have first: "snd (snd (run_suite ctx name now db)) = d'" using run_suite_steps [OF ctx rd] by (simp add: d'_def s_def)
  have ok: "repo_db_ok db" and bnd: "s + 16 \<le> 10000" and nm: "name \<notin> set (map rr_name (repo_rows db))"
    and pc: "''test/pullcount'' \<notin> set (map rr_name (repo_rows db))"
    and n1: "name \<noteq> ''test/pullcount''" and n2: "name \<noteq> ''TestEmptyRepos''"
    using rd by (simp_all add: suite_ready_def s_def)
  have below: "\<forall>r \<in> set (repo_rows d'). repository_id r < repo_seq d'"
    using repo_db_ok_below [OF ok] by (auto simp: d'_def s_def)
  have nm': "name \<notin> set (map rr_name (repo_rows d'))" and pc': "''test/pullcount'' \<notin> set (map rr_name (repo_rows d'))"
    and te: "''TestEmptyRepos'' \<in> set (map rr_name (repo_rows d'))"
    using nm pc n2 by (simp_all add: d'_def empty_repos_record_def blank_record_def)
  have f4: "run_tests ctx name now [TestAddPullCount, TestCount, TestCreate, TestDelete] (0, d') =
              (True, repo_seq d' + 4, d'\<lparr>repo_seq := repo_seq d' + 5\<rparr>)"
    using run_first_four [OF ctx below nm' pc' n1] bnd by (simp add: d'_def)
  obtain ok5 st5 where r5: "run_test ctx name (test_empty_repos ctx) (repo_seq d' + 4, d'\<lparr>repo_seq := repo_seq d' + 5\<rparr>) = (ok5, st5)"
    by (cases "run_test ctx name (test_empty_repos ctx) (repo_seq d' + 4, d'\<lparr>repo_seq := repo_seq d' + 5\<rparr>)") blast
  have "\<not> ok5"
    using run_empty_repos_conflict [OF ctx, of name "d'\<lparr>repo_seq := repo_seq d' + 5\<rparr>" "repo_seq d' + 4"] nm' te r5
    by simp
  then show ?thesis
    using first f4 r5 run_tests_append [of ctx name now "[TestAddPullCount, TestCount, TestCreate, TestDelete]"
                                           "[TestEmptyRepos, TestGet, TestList, TestUpdate]" "(0, d')"]
    by (simp add: run_suite_def suite_order_def split: prod.splits)
qed

theorem repo_dao_suite_not_rerunnable_witness:
  "\<not> fst (run_suite dao_ctx suite_repo_name 0 (snd (snd (run_suite dao_ctx suite_repo_name 0 empty_repo_db))))"
proof -
  have "ctx_orm dao_ctx \<noteq> None" "suite_ready suite_repo_name empty_repo_db"
    by (simp_all add: dao_ctx_def suite_ready_def empty_repo_db_def repo_db_ok_def suite_repo_name_def)
  then show ?thesis by (rule repo_dao_suite_not_rerunnable)
qed

end
