(* ===== verification/Adapter.thy ===== *)
theory Adapter
  imports Reg_Model
begin

text \<open>
  The registry adapter framework of the design (spec sections 4.1, 4.2, 4.4 and 8), which is
  not under \<open>src/\<close>: the factory registry, the capability descriptor, the namespace
  patterns, the filter matcher and \<open>FetchArtifacts\<close> over a remote listing. The Docker Hub
  adapter is an instance, and its tests (\<open>src/pkg/reg/adapter/dockerhub/adapter_test.go\<close>)
  are run against it. A remote listing is the result of the pagination iterator: the
  repositories with their artifacts, or the error of a request.
\<close>

section \<open>Capabilities\<close>

datatype path_component_type = OnlyTwo | Flexible

record adapter_info =
  supported_resource_types :: "string list"
  supported_path_component_type :: path_component_type

definition reg_type_docker_hub :: string where
  "reg_type_docker_hub = ''docker-hub''"

definition dockerhub_base_url :: string where
  "dockerhub_base_url = ''https://hub.docker.com''"

definition dockerhub_info :: "adapter_info result" where
  "dockerhub_info = Inr \<lparr>supported_resource_types = [ResourceTypeImage], supported_path_component_type = OnlyTwo\<rparr>"

section \<open>Namespace patterns\<close>

text \<open>
  \<open>expandWildcardNamespace\<close>: an exact namespace is its own candidate, a pattern ending in
  \<open>/*\<close> gives its prefix, and any other position of \<open>*\<close> is a bad pattern.
\<close>

definition expand_wildcard_namespace :: "string \<Rightarrow> string list result" where
  "expand_wildcard_namespace p =
     (if CHR ''*'' \<notin> set p then Inr [p]
      else (let q = take (length p - 2) p in
            if drop (length p - 2) p = ''/*'' \<and> CHR ''*'' \<notin> set q then Inr [q] else Inl ErrBadPattern))"

text \<open>The Docker Hub adapter's \<open>listCandidateNamespaces\<close> is the expansion of the design.\<close>

definition list_candidate_namespaces :: "string \<Rightarrow> string list result" where
  "list_candidate_namespaces p = expand_wildcard_namespace p"

section \<open>Filters\<close>

datatype filter_type = FilterName | FilterTag | FilterLabel | FilterResourceType

record filter =
  filter_kind :: filter_type
  filter_value :: string

text \<open>Glob matching of a name: \<open>*\<close> matches any sequence of characters.\<close>

fun glob :: "string \<Rightarrow> string \<Rightarrow> bool" where
  "glob [] t = (t = [])"
| "glob (c # p) [] = (c = CHR ''*'' \<and> glob p [])"
| "glob (c # p) (x # t) = (if c = CHR ''*'' then glob p (x # t) \<or> glob (c # p) t else x = c \<and> glob p t)"

definition matches_filter :: "string \<Rightarrow> artifact \<Rightarrow> filter \<Rightarrow> bool" where
  "matches_filter repo a f =
     (case filter_kind f of
        FilterName \<Rightarrow> glob (filter_value f) repo
      | FilterTag \<Rightarrow> filter_value f \<in> set (slice_elems (art_tags a))
      | FilterLabel \<Rightarrow> filter_value f \<in> set (slice_elems (art_labels a))
      | FilterResourceType \<Rightarrow> art_type a = filter_value f)"

text \<open>\<open>matchesAllFilters\<close>: every filter holds (AND, also within one filter type).\<close>

definition matches_all_filters :: "string \<Rightarrow> artifact \<Rightarrow> filter list \<Rightarrow> bool" where
  "matches_all_filters repo a fs \<longleftrightarrow> list_all (matches_filter repo a) fs"

section \<open>FetchArtifacts\<close>

text \<open>The resource types that the resource-type filters leave of the supported ones.\<close>

definition allowed_types :: "adapter_info \<Rightarrow> filter list \<Rightarrow> string list" where
  "allowed_types info fs =
     filter (\<lambda>t. list_all (\<lambda>f. filter_kind f = FilterResourceType \<longrightarrow> filter_value f = t) fs)
            (supported_resource_types info)"

definition to_resource :: "registry \<Rightarrow> string \<Rightarrow> repository \<Rightarrow> artifact list \<Rightarrow> resource" where
  "to_resource reg ty repo arts =
     \<lparr>res_type = ty,
      res_metadata = Some \<lparr>rm_repository = Some repo, rm_artifacts = Some (map Some arts), rm_vtags = Some []\<rparr>,
      res_registry = Some reg, res_extended_info = None, res_deleted = False, res_is_delete_tag = False,
      res_override = False\<rparr>"

text \<open>
  \<open>FetchArtifacts\<close>: when the resource-type filters exclude every supported type the answer is
  empty without a request; otherwise the listing's error passes through, and each repository
  with a matching artifact gives one resource with exactly its matching artifacts.
\<close>

definition fetch_artifacts ::
  "adapter_info \<Rightarrow> registry \<Rightarrow> (repository \<times> artifact list) list result \<Rightarrow> filter list \<Rightarrow> resource list result" where
  "fetch_artifacts info reg listing fs =
     (if allowed_types info fs = [] then Inr []
      else case listing of
             Inl e \<Rightarrow> Inl e
           | Inr l \<Rightarrow>
               Inr (map (\<lambda>(repo, arts). to_resource reg (hd (allowed_types info fs)) repo
                                          (filter (\<lambda>a. matches_all_filters (repo_name repo) a fs) arts))
                        (filter (\<lambda>(repo, arts). list_ex (\<lambda>a. matches_all_filters (repo_name repo) a fs) arts) l)))"


section \<open>The factory registry\<close>

text \<open>
  A factory builds an adapter from a registry descriptor. The table maps a registry type key
  to its factory; it is filled once at start-up from the adapters' registrations, where a
  type registered twice is an error (registration is one-time), and only read afterwards.
\<close>

type_synonym 'a factory = "registry \<Rightarrow> 'a result"

definition register_factory ::
  "string \<Rightarrow> 'a factory \<Rightarrow> (string \<rightharpoonup> 'a factory) \<Rightarrow> (string \<rightharpoonup> 'a factory) result" where
  "register_factory t f tbl = (if tbl t \<noteq> None then Inl ErrConflict else Inr (tbl(t \<mapsto> f)))"

fun startup_factories ::
  "(string \<times> 'a factory) list \<Rightarrow> (string \<rightharpoonup> 'a factory) \<Rightarrow> (string \<rightharpoonup> 'a factory) result" where
  "startup_factories [] tbl = Inr tbl"
| "startup_factories ((t, f) # rs) tbl =
     (case register_factory t f tbl of Inl e \<Rightarrow> Inl e | Inr tbl' \<Rightarrow> startup_factories rs tbl')"

definition get_factory :: "(string \<rightharpoonup> 'a factory) \<Rightarrow> string \<Rightarrow> 'a factory result" where
  "get_factory tbl t = (case tbl t of None \<Rightarrow> Inl ErrNotFound | Some f \<Rightarrow> Inr f)"

section \<open>The Docker Hub adapter\<close>

record dockerhub_adapter =
  da_registry :: registry

text \<open>
  Constructing an adapter validates the descriptor without I/O: the URL is not empty, and
  a credential has both or neither of its key and secret (anonymous access).
\<close>

definition validate_registry :: "registry \<Rightarrow> unit result" where
  "validate_registry reg =
     (if reg_url reg = [] then Inl ErrInvalidConfig
      else case reg_credential reg of
             None \<Rightarrow> Inr ()
           | Some c \<Rightarrow> if (access_key c = []) = (access_secret c = []) then Inr () else Inl ErrInvalidConfig)"

definition new_dockerhub_adapter :: "dockerhub_adapter factory" where
  "new_dockerhub_adapter reg = (case validate_registry reg of Inl e \<Rightarrow> Inl e | Inr _ \<Rightarrow> Inr \<lparr>da_registry = reg\<rparr>)"

definition dockerhub_registration :: "string \<times> dockerhub_adapter factory" where
  "dockerhub_registration = (reg_type_docker_hub, new_dockerhub_adapter)"

section \<open>The tests of adapter_test.go\<close>

definition test_user :: string where "test_user = []"
definition test_password :: string where "test_password = []"

definition test_registry :: registry where
  "test_registry = \<lparr>reg_id = 0, reg_name = [], reg_type = reg_type_docker_hub, reg_url = dockerhub_base_url,
     reg_credential = Some \<lparr>cred_type = [], access_key = test_user, access_secret = test_password\<rparr>,
     reg_insecure = False\<rparr>"

text \<open>\<open>getAdapter\<close>: its asserts do not stop the test; a nil adapter makes the caller's type
  assertion panic.\<close>

definition get_adapter :: "(string \<rightharpoonup> dockerhub_adapter factory) \<Rightarrow> bool \<times> dockerhub_adapter option" where
  "get_adapter tbl =
     (let ok1 = (case get_factory tbl reg_type_docker_hub of Inl _ \<Rightarrow> False | Inr _ \<Rightarrow> True) in
      case new_dockerhub_adapter test_registry of
        Inl _ \<Rightarrow> (False, None)
      | Inr a \<Rightarrow> (ok1, Some a))"

definition test_info :: bool where
  "test_info =
     (case dockerhub_info of
        Inl _ \<Rightarrow> False
      | Inr info \<Rightarrow> length (supported_resource_types info) = 1 \<and>
                   hd (supported_resource_types info) = ResourceTypeImage \<and>
                   supported_path_component_type info = OnlyTwo)"

definition test_list_candidate_namespaces :: bool where
  "test_list_candidate_namespaces =
     (case list_candidate_namespaces ''library/*'' of
        Inl _ \<Rightarrow> False
      | Inr ns \<Rightarrow> length ns = 1 \<and> hd ns = ''library'')"

text \<open>\<open>TestListNamespaces\<close> returns at once while \<open>testUser\<close> is empty.\<close>

definition test_list_namespaces :: "(string \<rightharpoonup> dockerhub_adapter factory) \<Rightarrow> string list result \<Rightarrow> bool" where
  "test_list_namespaces tbl remote =
     (test_user = [] \<or> (fst (get_adapter tbl) \<and> (case remote of Inl _ \<Rightarrow> False | Inr _ \<Rightarrow> True)))"

definition harbor_core_filter :: filter where
  "harbor_core_filter = \<lparr>filter_kind = FilterName, filter_value = ''goharbor/harbor-core''\<rparr>"

definition test_fetch_artifacts ::
  "(string \<rightharpoonup> dockerhub_adapter factory) \<Rightarrow> (repository \<times> artifact list) list result \<Rightarrow> bool" where
  "test_fetch_artifacts tbl listing =
     (case get_adapter tbl of
        (_, None) \<Rightarrow> False
      | (ok, Some a) \<Rightarrow>
          (case dockerhub_info of
             Inl _ \<Rightarrow> False
           | Inr info \<Rightarrow>
               ok \<and> (case fetch_artifacts info (da_registry a) listing [harbor_core_filter] of
                        Inl _ \<Rightarrow> False | Inr _ \<Rightarrow> True)))"


text \<open>The (repository name, artifact) pairs a list of resources carries.\<close>

definition resource_artifacts :: "resource \<Rightarrow> (string \<times> artifact) list" where
  "resource_artifacts r =
     (case res_metadata r of
        None \<Rightarrow> []
      | Some m \<Rightarrow>
          (case rm_repository m of
             None \<Rightarrow> []
           | Some repo \<Rightarrow> map (\<lambda>a. (repo_name repo, a)) (List.map_filter id (slice_elems (rm_artifacts m)))))"

section \<open>Fixtures\<close>

definition startup_table :: "(string \<rightharpoonup> dockerhub_adapter factory) result" where
  "startup_table = startup_factories [dockerhub_registration] Map.empty"

definition core_repo :: repository where
  "core_repo = \<lparr>repo_name = ''goharbor/harbor-core'', repo_metadata = None\<rparr>"

definition core_x_repo :: repository where
  "core_x_repo = \<lparr>repo_name = ''goharbor/harbor-core-x'', repo_metadata = None\<rparr>"

definition art_v1 :: artifact where
  "art_v1 = \<lparr>art_type = ''image'', art_digest = ''sha256:01'', art_labels = None, art_tags = Some [''v2.1.0'']\<rparr>"

definition art_v2 :: artifact where
  "art_v2 = \<lparr>art_type = ''image'', art_digest = ''sha256:02'', art_labels = None, art_tags = Some [''v2.2.0'']\<rparr>"

definition hub_listing :: "(repository \<times> artifact list) list" where
  "hub_listing = [(core_repo, [art_v1, art_v2]), (core_x_repo, [art_v1])]"

section \<open>Lemmas\<close>

lemma glob_literal: "CHR ''*'' \<notin> set p \<Longrightarrow> glob p t \<longleftrightarrow> t = p"
proof (induction p arbitrary: t)
  case Nil
  then show ?case by simp
next
  case (Cons c p)
  then show ?case by (cases t) auto
qed

lemma suffix2_iff:
  "(\<exists>q. p = q @ [a, b] \<and> P q) \<longleftrightarrow> drop (length p - 2) p = [a, b] \<and> P (take (length p - 2) p)"
proof
  assume "\<exists>q. p = q @ [a, b] \<and> P q"
  then show "drop (length p - 2) p = [a, b] \<and> P (take (length p - 2) p)" by auto
next
  assume a: "drop (length p - 2) p = [a, b] \<and> P (take (length p - 2) p)"
  then have "p = take (length p - 2) p @ [a, b]" by (metis append_take_drop_id)
  with a show "\<exists>q. p = q @ [a, b] \<and> P q" by blast
qed


lemma map_filter_id_map_Some [simp]: "List.map_filter id (map Some xs) = xs"
  by (induction xs) (simp_all add: List.map_filter_simps)

lemma resource_artifacts_to_resource [simp]:
  "resource_artifacts (to_resource reg ty repo arts) = map (\<lambda>a. (repo_name repo, a)) arts"
  by (simp add: resource_artifacts_def to_resource_def slice_elems_def)

lemma fetch_artifacts_pairs:
  "concat (map (\<lambda>(repo, arts). map (\<lambda>a. (repo_name repo, a)) (filter (P repo) arts))
     (filter (\<lambda>(repo, arts). list_ex (P repo) arts) l)) =
   concat (map (\<lambda>(repo, arts). map (\<lambda>a. (repo_name repo, a)) (filter (P repo) arts)) l)"
  by (induction l) (auto simp: list_ex_iff filter_empty_conv)

lemma concat_map_resource_artifacts:
  "concat (map resource_artifacts (map (\<lambda>(repo, arts). to_resource reg ty repo (F repo arts)) xs)) =
   concat (map (\<lambda>(repo, arts). map (\<lambda>a. (repo_name repo, a)) (F repo arts)) xs)"
  by (induction xs) auto

lemma startup_factories_table:
  "startup_factories regs tbl =
     (if distinct (map fst regs) \<and> (\<forall>t \<in> fst ` set regs. tbl t = None) then Inr (tbl ++ map_of regs)
      else Inl ErrConflict)"
proof (induction regs arbitrary: tbl)
  case Nil
  then show ?case by simp
next
  case (Cons r regs)
  obtain t f where r: "r = (t, f)" by fastforce
  show ?case
  proof (cases "tbl t = None")
    case True
    have step: "startup_factories (r # regs) tbl = startup_factories regs (tbl(t \<mapsto> f))"
      using True by (simp add: r register_factory_def)
    have cond: "(distinct (map fst (r # regs)) \<and> (\<forall>k \<in> fst ` set (r # regs). tbl k = None)) \<longleftrightarrow>
                (distinct (map fst regs) \<and> (\<forall>k \<in> fst ` set regs. (tbl(t \<mapsto> f)) k = None))"
      using True by (auto simp: r)
    have eq: "tbl(t \<mapsto> f) ++ map_of regs = tbl ++ map_of (r # regs)" if "t \<notin> fst ` set regs"
    proof -
      have "map_of regs t = None" using that by (simp add: map_of_eq_None_iff)
      then show ?thesis by (auto simp: r fun_eq_iff map_add_def split: option.splits)
    qed
    show ?thesis
    proof (cases "distinct (map fst regs) \<and> (\<forall>k \<in> fst ` set regs. (tbl(t \<mapsto> f)) k = None)")
      case c: True
      then have "t \<notin> fst ` set regs" by force
      then show ?thesis using c cond step Cons.IH [of "tbl(t \<mapsto> f)"] eq by presburger
    next
      case c: False
      then show ?thesis using cond step Cons.IH [of "tbl(t \<mapsto> f)"] by presburger
    qed
  next
    case False
    then show ?thesis by (auto simp: r register_factory_def)
  qed
qed

lemma matches_harbor_core: "matches_all_filters n a [harbor_core_filter] \<longleftrightarrow> n = ''goharbor/harbor-core''"
  using glob_literal [of "''goharbor/harbor-core''" n]
  by (auto simp: matches_all_filters_def matches_filter_def harbor_core_filter_def)

lemma startup_table_dockerhub: "startup_table = Inr [reg_type_docker_hub \<mapsto> new_dockerhub_adapter]"
  using startup_factories_table [of "[dockerhub_registration]" Map.empty]
  by (simp add: startup_table_def dockerhub_registration_def)

lemma new_dockerhub_adapter_test: "new_dockerhub_adapter test_registry = Inr \<lparr>da_registry = test_registry\<rparr>"
  by (simp add: new_dockerhub_adapter_def validate_registry_def test_registry_def dockerhub_base_url_def
                test_user_def test_password_def)

section \<open>Properties\<close>

text \<open>
  The factory table built at start-up has exactly the registered factories, and a
  type registered twice makes the start-up fail. Afterwards \<open>GetFactory\<close> fails with
  not-found exactly for the types that were never registered.
\<close>

theorem startup_factories_get:
  "startup_factories regs Map.empty = (if distinct (map fst regs) then Inr (map_of regs) else Inl ErrConflict) \<and>
   (distinct (map fst regs) \<longrightarrow>
      (get_factory (map_of regs) t = Inl ErrNotFound \<longleftrightarrow> t \<notin> fst ` set regs) \<and>
      (\<forall>f. get_factory (map_of regs) t = Inr f \<longleftrightarrow> (t, f) \<in> set regs))"
  using startup_factories_table [of regs Map.empty]
  by (auto simp: get_factory_def map_of_eq_None_iff map_of_eq_Some_iff split: option.splits) force+

theorem startup_factories_get_witness:
  "startup_table = Inr [reg_type_docker_hub \<mapsto> new_dockerhub_adapter] \<and>
   get_factory [reg_type_docker_hub \<mapsto> new_dockerhub_adapter] ''harbor'' = Inl ErrNotFound \<and>
   get_factory [reg_type_docker_hub \<mapsto> new_dockerhub_adapter] reg_type_docker_hub = Inr new_dockerhub_adapter"
  using startup_factories_get [of "[dockerhub_registration]" "''harbor''"]
        startup_factories_get [of "[dockerhub_registration]" reg_type_docker_hub]
  by (simp add: startup_table_def dockerhub_registration_def reg_type_docker_hub_def)

text \<open>
  Claim C5: \<open>FetchArtifacts\<close> applies every filter before it returns. When the resource-type
  filters exclude every supported type, the answer is empty and not an error, even when the
  remote fails. Otherwise the remote's error passes through unchanged. Every returned
  resource carries artifacts, and together they are exactly the listed artifacts that satisfy
  all the filters, in listing order.
\<close>

theorem fetch_artifacts_filtered:
  "(allowed_types info fs = [] \<longrightarrow> fetch_artifacts info reg listing fs = Inr []) \<and>
   (allowed_types info fs \<noteq> [] \<and> listing = Inl e \<longrightarrow> fetch_artifacts info reg listing fs = Inl e) \<and>
   (allowed_types info fs \<noteq> [] \<and> fetch_artifacts info reg (Inr l) fs = Inr rs \<longrightarrow>
      concat (map resource_artifacts rs) =
        concat (map (\<lambda>(repo, arts). map (\<lambda>a. (repo_name repo, a))
                                       (filter (\<lambda>a. matches_all_filters (repo_name repo) a fs) arts)) l) \<and>
      (\<forall>r \<in> set rs. resource_artifacts r \<noteq> []))"
proof -
  let ?F = "\<lambda>repo arts. filter (\<lambda>a. matches_all_filters (repo_name repo) a fs) arts"
  have "concat (map resource_artifacts
                 (map (\<lambda>(repo, arts). to_resource reg ty repo (?F repo arts))
                      (filter (\<lambda>(repo, arts). list_ex (\<lambda>a. matches_all_filters (repo_name repo) a fs) arts) l))) =
        concat (map (\<lambda>(repo, arts). map (\<lambda>a. (repo_name repo, a)) (?F repo arts)) l)" for ty
    unfolding concat_map_resource_artifacts
    by (rule fetch_artifacts_pairs [of "\<lambda>repo a. matches_all_filters (repo_name repo) a fs" l])
  moreover have "\<forall>r \<in> set (map (\<lambda>(repo, arts). to_resource reg ty repo (?F repo arts))
                      (filter (\<lambda>(repo, arts). list_ex (\<lambda>a. matches_all_filters (repo_name repo) a fs) arts) l)).
                 resource_artifacts r \<noteq> []" for ty
    by (auto simp: list_ex_iff filter_empty_conv)
  ultimately show ?thesis
    by (auto simp: fetch_artifacts_def split: sum.splits)
qed

theorem fetch_artifacts_filtered_witness:
  "allowed_types \<lparr>supported_resource_types = [ResourceTypeImage], supported_path_component_type = OnlyTwo\<rparr>
     [harbor_core_filter] \<noteq> [] \<and>
   fetch_artifacts \<lparr>supported_resource_types = [ResourceTypeImage], supported_path_component_type = OnlyTwo\<rparr>
     test_registry (Inr hub_listing) [harbor_core_filter] =
     Inr [to_resource test_registry ResourceTypeImage core_repo [art_v1, art_v2]] \<and>
   concat (map resource_artifacts [to_resource test_registry ResourceTypeImage core_repo [art_v1, art_v2]]) =
     [(''goharbor/harbor-core'', art_v1), (''goharbor/harbor-core'', art_v2)]"
proof -
  have f: "fetch_artifacts \<lparr>supported_resource_types = [ResourceTypeImage], supported_path_component_type = OnlyTwo\<rparr>
     test_registry (Inr hub_listing) [harbor_core_filter] =
     Inr [to_resource test_registry ResourceTypeImage core_repo [art_v1, art_v2]]"
    by (simp add: fetch_artifacts_def allowed_types_def harbor_core_filter_def hub_listing_def core_repo_def
                  core_x_repo_def matches_all_filters_def matches_filter_def ResourceTypeImage_def)
  have a: "allowed_types \<lparr>supported_resource_types = [ResourceTypeImage], supported_path_component_type = OnlyTwo\<rparr>
     [harbor_core_filter] \<noteq> []"
    by (simp add: allowed_types_def harbor_core_filter_def)
  show ?thesis
    using fetch_artifacts_filtered [of _ "[harbor_core_filter]" test_registry _ _ hub_listing] f a
    by (simp add: core_repo_def)
qed


end
