(* ===== verification/Scanner_Mock.thy ===== *)
theory Scanner_Mock
  imports Core_Main User_Dao
begin

text \<open>
  The generated mock of the scanner registration manager,
  \<open>src/testing/pkg/scan/scanner/manager.go\<close> (mockery), over a model of testify's
  \<open>mock.Mock\<close> that it embeds. \<open>On(...).Return(...)\<close> appends an expected call with its
  argument matchers, its return values and its repeatability (0 unlimited, \<open>Times(k)\<close>
  sets \<open>k\<close>, \<open>Once\<close> is \<open>Times(1)\<close>, a used-up call has -1). \<open>Called\<close> takes the first
  expected call of the method whose matchers accept the arguments and that is not used up,
  counts it and logs the call, and returns its values. With no such call it fails the test,
  which stops it like a panic, telling apart a used-up call from an unexpected one. Each
  generated method then converts the returned \<open>interface{}\<close> values to its Go result types
  by type assertions, calling a returned function on the arguments first; a failed assertion
  or a missing value panics. Arguments are compared by value (\<open>ObjectsAreEqual\<close>); only the
  matchers \<open>mock.Anything\<close> and equality are modelled, and contexts are one value.
  \<open>WaitFor\<close>, \<open>After\<close> and \<open>Run\<close> are not modelled.
\<close>

section \<open>testify's mock\<close>

datatype marg = ACtx | AQuery "query option" | AReg scanner_registration | AUuid string

datatype marg_exp = Anything | Exact marg

text \<open>The Go values a \<open>Return\<close> can carry: \<open>VInt\<close> is an untyped integer constant, whose
  Go type is \<open>int\<close>, and \<open>VInt64\<close> an \<open>int64\<close>.\<close>

datatype mval =
    VNil | VInt int | VInt64 int | VStr string | VErr herror | VReg scanner_registration
  | VRegs "scanner_registration list" | VFun "marg list \<Rightarrow> mval"

datatype mock_panic = UnexpectedCall | CalledOverLimit | BadReturnType | BadReturnIndex

record expected_call =
  ec_method :: string
  ec_args :: "marg_exp list"
  ec_returns :: "mval list"
  ec_repeat :: int
  ec_total :: nat

record mock =
  mock_expected :: "expected_call list"
  mock_calls :: "(string \<times> marg list) list"

definition new_mock :: mock where
  "new_mock = \<lparr>mock_expected = [], mock_calls = []\<rparr>"

text \<open>\<open>m.On(method, args...).Return(rets...).Times(rep)\<close>.\<close>

definition mock_on :: "string \<Rightarrow> marg_exp list \<Rightarrow> mval list \<Rightarrow> int \<Rightarrow> mock \<Rightarrow> mock" where
  "mock_on meth args rets rep m =
     m\<lparr>mock_expected := mock_expected m @
        [\<lparr>ec_method = meth, ec_args = args, ec_returns = rets, ec_repeat = rep, ec_total = 0\<rparr>]\<rparr>"

primrec arg_matches :: "marg_exp \<Rightarrow> marg \<Rightarrow> bool" where
  "arg_matches Anything a = True"
| "arg_matches (Exact e) a = (e = a)"

definition args_match :: "marg_exp list \<Rightarrow> marg list \<Rightarrow> bool" where
  "args_match es as = list_all2 arg_matches es as"

definition call_matches :: "string \<Rightarrow> marg list \<Rightarrow> expected_call \<Rightarrow> bool" where
  "call_matches meth args c \<longleftrightarrow> ec_method c = meth \<and> args_match (ec_args c) args"

text \<open>\<open>findExpectedCall\<close>: the index of the first matching call that is not used up, and
  otherwise the last matching call seen.\<close>

fun find_expected_call :: "string \<Rightarrow> marg list \<Rightarrow> nat \<Rightarrow> expected_call list \<Rightarrow> nat option \<times> expected_call option" where
  "find_expected_call meth args i [] = (None, None)"
| "find_expected_call meth args i (c # cs) =
     (if call_matches meth args c then
        (if -1 < ec_repeat c then (Some i, Some c)
         else (case find_expected_call meth args (Suc i) cs of
                 (None, None) \<Rightarrow> (None, Some c)
               | r \<Rightarrow> r))
      else find_expected_call meth args (Suc i) cs)"

definition use_call :: "expected_call \<Rightarrow> expected_call" where
  "use_call c =
     c\<lparr>ec_repeat := (if ec_repeat c = 1 then -1 else if 1 < ec_repeat c then ec_repeat c - 1 else ec_repeat c),
       ec_total := Suc (ec_total c)\<rparr>"

definition called :: "string \<Rightarrow> marg list \<Rightarrow> mock \<Rightarrow> mock_panic + mval list \<times> mock" where
  "called meth args m =
     (case find_expected_call meth args 0 (mock_expected m) of
        (Some i, _) \<Rightarrow>
          Inr (ec_returns (mock_expected m ! i),
               m\<lparr>mock_expected := (mock_expected m)[i := use_call (mock_expected m ! i)],
                 mock_calls := mock_calls m @ [(meth, args)]\<rparr>)
      | (None, Some _) \<Rightarrow> Inl CalledOverLimit
      | (None, None) \<Rightarrow> Inl UnexpectedCall)"

text \<open>\<open>AssertExpectations\<close>: every expected call was made, and none set with \<open>Times\<close>
  still has calls left.\<close>

definition assert_expectations :: "mock \<Rightarrow> bool" where
  "assert_expectations m \<longleftrightarrow>
     list_all (\<lambda>c. (0 < ec_total c \<or> list_ex (\<lambda>(n, a). call_matches n a c) (mock_calls m)) \<and> ec_repeat c \<le> 0)
       (mock_expected m)"

definition pbind :: "mock_panic + 'a \<Rightarrow> ('a \<Rightarrow> mock_panic + 'b) \<Rightarrow> mock_panic + 'b" where
  "pbind x f = (case x of Inl p \<Rightarrow> Inl p | Inr a \<Rightarrow> f a)"

text \<open>\<open>Arguments.Get(i)\<close> and the type assertions of the generated code.\<close>

definition ret_get :: "mval list \<Rightarrow> nat \<Rightarrow> mock_panic + mval" where
  "ret_get ret i = (if i < length ret then Inr (ret ! i) else Inl BadReturnIndex)"

definition as_int64 :: "mval \<Rightarrow> mock_panic + int" where
  "as_int64 v = (case v of VInt64 n \<Rightarrow> Inr n | _ \<Rightarrow> Inl BadReturnType)"

definition as_string :: "mval \<Rightarrow> mock_panic + string" where
  "as_string v = (case v of VStr s \<Rightarrow> Inr s | _ \<Rightarrow> Inl BadReturnType)"

definition as_error :: "mval \<Rightarrow> mock_panic + herror option" where
  "as_error v = (case v of VNil \<Rightarrow> Inr None | VErr e \<Rightarrow> Inr (Some e) | _ \<Rightarrow> Inl BadReturnType)"

definition as_registration :: "mval \<Rightarrow> mock_panic + scanner_registration option" where
  "as_registration v = (case v of VNil \<Rightarrow> Inr None | VReg r \<Rightarrow> Inr (Some r) | _ \<Rightarrow> Inl BadReturnType)"

definition as_registrations :: "mval \<Rightarrow> mock_panic + scanner_registration list option" where
  "as_registrations v = (case v of VNil \<Rightarrow> Inr None | VRegs rs \<Rightarrow> Inr (Some rs) | _ \<Rightarrow> Inl BadReturnType)"

text \<open>\<open>Arguments.Error(i)\<close>: nil, or a value that must be an error.\<close>

definition ret_error :: "mval list \<Rightarrow> nat \<Rightarrow> mock_panic + herror option" where
  "ret_error ret i = pbind (ret_get ret i) as_error"

text \<open>One result of a generated method: a returned function is called on the arguments
  (\<open>if rf, ok := ret.Get(i).(func(...) T); ok\<close>), anything else is asserted to the type.\<close>

definition typed_result :: "(mval \<Rightarrow> mock_panic + 'a) \<Rightarrow> (mval \<Rightarrow> mock_panic + 'a) \<Rightarrow> marg list \<Rightarrow> mval list \<Rightarrow> nat \<Rightarrow> mock_panic + 'a" where
  "typed_result conv direct args ret i =
     pbind (ret_get ret i) (\<lambda>v. case v of VFun rf \<Rightarrow> conv (rf args) | _ \<Rightarrow> direct v)"

section \<open>The generated Manager\<close>

definition mock_count :: "mock \<Rightarrow> query option \<Rightarrow> mock_panic + (int \<times> herror option) \<times> mock" where
  "mock_count m query =
     (let args = [ACtx, AQuery query] in
      pbind (called ''Count'' args m) (\<lambda>(ret, m').
      pbind (typed_result as_int64 as_int64 args ret 0) (\<lambda>r0.
      pbind (typed_result as_error (\<lambda>_. ret_error ret 1) args ret 1) (\<lambda>r1.
      Inr ((r0, r1), m')))))"

definition mock_create :: "mock \<Rightarrow> scanner_registration \<Rightarrow> mock_panic + (string \<times> herror option) \<times> mock" where
  "mock_create m registration =
     (let args = [ACtx, AReg registration] in
      pbind (called ''Create'' args m) (\<lambda>(ret, m').
      pbind (typed_result as_string as_string args ret 0) (\<lambda>r0.
      pbind (typed_result as_error (\<lambda>_. ret_error ret 1) args ret 1) (\<lambda>r1.
      Inr ((r0, r1), m')))))"

definition mock_delete :: "mock \<Rightarrow> string \<Rightarrow> mock_panic + herror option \<times> mock" where
  "mock_delete m uuid =
     (let args = [ACtx, AUuid uuid] in
      pbind (called ''Delete'' args m) (\<lambda>(ret, m').
      pbind (typed_result as_error (\<lambda>_. ret_error ret 0) args ret 0) (\<lambda>r0.
      Inr (r0, m'))))"

text \<open>\<open>Get\<close>, \<open>GetDefault\<close> and \<open>List\<close> leave a nil value nil before the assertion.\<close>

definition mock_get :: "mock \<Rightarrow> string \<Rightarrow> mock_panic + (scanner_registration option \<times> herror option) \<times> mock" where
  "mock_get m uuid =
     (let args = [ACtx, AUuid uuid] in
      pbind (called ''Get'' args m) (\<lambda>(ret, m').
      pbind (typed_result as_registration as_registration args ret 0) (\<lambda>r0.
      pbind (typed_result as_error (\<lambda>_. ret_error ret 1) args ret 1) (\<lambda>r1.
      Inr ((r0, r1), m')))))"

definition mock_get_default :: "mock \<Rightarrow> mock_panic + (scanner_registration option \<times> herror option) \<times> mock" where
  "mock_get_default m =
     (let args = [ACtx] in
      pbind (called ''GetDefault'' args m) (\<lambda>(ret, m').
      pbind (typed_result as_registration as_registration args ret 0) (\<lambda>r0.
      pbind (typed_result as_error (\<lambda>_. ret_error ret 1) args ret 1) (\<lambda>r1.
      Inr ((r0, r1), m')))))"

definition mock_list :: "mock \<Rightarrow> query option \<Rightarrow> mock_panic + (scanner_registration list option \<times> herror option) \<times> mock" where
  "mock_list m query =
     (let args = [ACtx, AQuery query] in
      pbind (called ''List'' args m) (\<lambda>(ret, m').
      pbind (typed_result as_registrations as_registrations args ret 0) (\<lambda>r0.
      pbind (typed_result as_error (\<lambda>_. ret_error ret 1) args ret 1) (\<lambda>r1.
      Inr ((r0, r1), m')))))"

definition mock_set_as_default :: "mock \<Rightarrow> string \<Rightarrow> mock_panic + herror option \<times> mock" where
  "mock_set_as_default m uuid =
     (let args = [ACtx, AUuid uuid] in
      pbind (called ''SetAsDefault'' args m) (\<lambda>(ret, m').
      pbind (typed_result as_error (\<lambda>_. ret_error ret 0) args ret 0) (\<lambda>r0.
      Inr (r0, m'))))"

definition mock_update :: "mock \<Rightarrow> scanner_registration \<Rightarrow> mock_panic + herror option \<times> mock" where
  "mock_update m registration =
     (let args = [ACtx, AReg registration] in
      pbind (called ''Update'' args m) (\<lambda>(ret, m').
      pbind (typed_result as_error (\<lambda>_. ret_error ret 0) args ret 0) (\<lambda>r0.
      Inr (r0, m'))))"

section \<open>Lemmas\<close>

lemma pbind_simps [simp]:
  "pbind (Inl p) f = Inl p" "pbind (Inr a) f = f a"
  by (simp_all add: pbind_def)

lemma find_expected_call_single:
  "find_expected_call meth args i [c] =
     (if call_matches meth args c then (if -1 < ec_repeat c then (Some i, Some c) else (None, Some c))
      else (None, None))"
  by simp

lemma call_matches_delete:
  "call_matches ''Delete'' [ACtx, AUuid u] \<lparr>ec_method = ''Delete'', ec_args = [Anything, Exact (AUuid u)],
      ec_returns = rs, ec_repeat = n, ec_total = t\<rparr>"
  by (simp add: call_matches_def args_match_def)

lemma mock_delete_single:
  assumes "call_matches ''Delete'' [ACtx, AUuid u] c" "ec_returns c = [r]" "as_error r = Inr err"
  shows "mock_delete \<lparr>mock_expected = [c], mock_calls = cs\<rparr> u =
           (if -1 < ec_repeat c
            then Inr (err, \<lparr>mock_expected = [use_call c], mock_calls = cs @ [(''Delete'', [ACtx, AUuid u])]\<rparr>)
            else Inl CalledOverLimit)"
  using assms
  by (auto simp: mock_delete_def called_def typed_result_def ret_get_def ret_error_def as_error_def
           split: mval.splits)

section \<open>Properties\<close>

text \<open>
  The mock's \<open>Count\<close> asserts its first return value to \<open>int64\<close>: set up with an untyped
  integer constant (Go type \<open>int\<close>) or with nil it panics, and with one return value it
  panics on the missing error. With an \<open>int64\<close> and an error or nil it returns them. The
  pointer result of \<open>Get\<close> may be nil.
\<close>

theorem mock_count_return_types:
  "mock_count (mock_on ''Count'' [Anything, Anything] [VInt n, e] 0 new_mock) q = Inl BadReturnType \<and>
   mock_count (mock_on ''Count'' [Anything, Anything] [VNil, e] 0 new_mock) q = Inl BadReturnType \<and>
   mock_count (mock_on ''Count'' [Anything, Anything] [VInt64 n] 0 new_mock) q = Inl BadReturnIndex \<and>
   (as_error e = Inr err \<longrightarrow>
      map_sum id fst (mock_count (mock_on ''Count'' [Anything, Anything] [VInt64 n, e] 0 new_mock) q) = Inr (n, err)) \<and>
   map_sum id fst (mock_get (mock_on ''Get'' [Anything, Anything] [VNil, VNil] 0 new_mock) u) = Inr (None, None)"
  by (simp add: mock_count_def mock_get_def mock_on_def new_mock_def called_def call_matches_def args_match_def
                typed_result_def ret_get_def ret_error_def as_int64_def as_error_def as_registration_def
           split: mval.splits)

theorem mock_count_return_types_witness:
  "map_sum id fst (mock_count (mock_on ''Count'' [Anything, Anything] [VInt64 5, VErr ErrNotFound] 0 new_mock) None)
     = Inr (5, Some ErrNotFound)"
  using mock_count_return_types [of 5 "VErr ErrNotFound" None "Some ErrNotFound"] by (simp add: as_error_def)

end
