(* ===== verification/Harbor_Adapter.thy ===== *)
theory Harbor_Adapter
  imports Adapter Harbor_Client
begin

text \<open>
  The Harbor-v2 adapter's \<open>FetchArtifacts\<close> (the adapter itself is not under \<open>src/\<close>; it
  is modelled from the design, sections 2, 4.2 and 4.5) composed from the client of
  \<open>src/pkg/reg/adapter/harbor/v2/client.go\<close>. For every project in turn it lists the
  repositories with \<open>listRepositories\<close>, and for each repository its artifacts with
  \<open>listArtifacts\<close>; the first failure ends the enumeration and is returned as it is (the
  core never retries, and a partial result is never returned). The listing is then filtered
  by the adapter framework's \<open>fetch_artifacts\<close>. Harbor's repositories have any number of
  path segments.
\<close>

section \<open>The adapter\<close>

definition harbor_info :: adapter_info where
  "harbor_info = \<lparr>supported_resource_types = [ResourceTypeImage], supported_path_component_type = Flexible\<rparr>"

fun list_repo_artifacts :: "harbor_remote \<Rightarrow> repository list \<Rightarrow> (repository \<times> artifact list) list result" where
  "list_repo_artifacts cl [] = Inr []"
| "list_repo_artifacts cl (r # rs) =
     (case list_artifacts cl (repo_name r) of
        Inl e \<Rightarrow> Inl e
      | Inr arts \<Rightarrow>
          (case list_repo_artifacts cl rs of
             Inl e \<Rightarrow> Inl e
           | Inr l \<Rightarrow> Inr ((r, slice_elems arts) # l)))"

fun harbor_listing :: "harbor_remote \<Rightarrow> harbor_project list \<Rightarrow> (repository \<times> artifact list) list result" where
  "harbor_listing cl [] = Inr []"
| "harbor_listing cl (p # ps) =
     (case list_repositories cl p of
        Inl e \<Rightarrow> Inl e
      | Inr repos \<Rightarrow>
          (case list_repo_artifacts cl (slice_elems repos) of
             Inl e \<Rightarrow> Inl e
           | Inr l \<Rightarrow>
               (case harbor_listing cl ps of
                  Inl e \<Rightarrow> Inl e
                | Inr l' \<Rightarrow> Inr (l @ l'))))"

definition harbor_fetch_artifacts :: "harbor_remote \<Rightarrow> registry \<Rightarrow> harbor_project list \<Rightarrow> filter list \<Rightarrow> resource list result" where
  "harbor_fetch_artifacts cl reg projects fs = fetch_artifacts harbor_info reg (harbor_listing cl projects) fs"

text \<open>What a remote's listings deliver when every listing is correctly linked: the
  repositories of each project in server order, each with its artifacts in server order.\<close>

definition served_listing ::
  "harbor_project list \<Rightarrow> (harbor_project \<Rightarrow> repo_record list list) \<Rightarrow> (string \<Rightarrow> remote_artifact list list)
     \<Rightarrow> (repository \<times> artifact list) list" where
  "served_listing projects rpages apages =
     concat (map (\<lambda>p. map (\<lambda>rec. (\<lparr>repo_name = rr_name rec, repo_metadata = proj_metadata p\<rparr>,
                                   map to_model_artifact (concat (apages (rr_name rec)))))
                           (concat (rpages p))) projects)"

definition listings_linked ::
  "harbor_remote \<Rightarrow> harbor_project list \<Rightarrow> (harbor_project \<Rightarrow> repo_record list list) \<Rightarrow> (string \<Rightarrow> remote_artifact list list) \<Rightarrow> bool" where
  "listings_linked cl projects rpages apages \<longleftrightarrow>
     list_all (\<lambda>p. linked (repo_pages cl) (repositories_url cl p) (rpages p) \<and> length (rpages p) \<le> page_cap cl \<and>
                   list_all (\<lambda>rec. linked (artifact_pages cl) (artifacts_url cl (rr_name rec)) (apages (rr_name rec)) \<and>
                                   length (apages (rr_name rec)) \<le> page_cap cl)
                            (concat (rpages p)))
              projects"

section \<open>Fixtures\<close>

definition demo_project :: harbor_project where
  "demo_project = \<lparr>proj_name = ''library'', proj_metadata = None\<rparr>"

definition demo_harbor_registry :: registry where
  "demo_harbor_registry = test_registry\<lparr>reg_type := ''harbor''\<rparr>"

section \<open>Lemmas\<close>

lemma list_artifacts_linked:
  assumes "linked (artifact_pages cl) (artifacts_url cl repo) pages" and "length pages \<le> page_cap cl"
  shows "\<exists>a. list_artifacts cl repo = Inr a \<and> slice_elems a = map to_model_artifact (concat pages)"
  using pagination_linked_in_order [OF assms, of no_cancel]
  by (simp add: list_artifacts_def no_cancel_def)

lemma list_repositories_linked:
  assumes "linked (repo_pages cl) (repositories_url cl p) pages" and "length pages \<le> page_cap cl"
  shows "\<exists>rs. list_repositories cl p = Inr rs \<and>
           slice_elems rs = map (\<lambda>r. \<lparr>repo_name = rr_name r, repo_metadata = proj_metadata p\<rparr>) (concat pages)"
  using pagination_linked_in_order [OF assms, of no_cancel]
  by (simp add: list_repositories_def no_cancel_def)

lemma list_repo_artifacts_linked:
  "list_all (\<lambda>r. linked (artifact_pages cl) (artifacts_url cl (repo_name r)) (apages (repo_name r)) \<and>
                 length (apages (repo_name r)) \<le> page_cap cl) rs \<Longrightarrow>
   list_repo_artifacts cl rs = Inr (map (\<lambda>r. (r, map to_model_artifact (concat (apages (repo_name r))))) rs)"
  by (induction rs) (auto dest!: list_artifacts_linked)

lemma harbor_listing_linked:
  "listings_linked cl projects rpages apages \<Longrightarrow>
   harbor_listing cl projects = Inr (served_listing projects rpages apages)"
proof (induction projects)
  case Nil
  then show ?case by (simp add: served_listing_def)
next
  case (Cons p ps)
  then have hp: "linked (repo_pages cl) (repositories_url cl p) (rpages p)" "length (rpages p) \<le> page_cap cl"
    and ha: "list_all (\<lambda>rec. linked (artifact_pages cl) (artifacts_url cl (rr_name rec)) (apages (rr_name rec)) \<and>
                             length (apages (rr_name rec)) \<le> page_cap cl) (concat (rpages p))"
    and hps: "listings_linked cl ps rpages apages"
    by (simp_all add: listings_linked_def)
  obtain rs where rs: "list_repositories cl p = Inr rs"
    "slice_elems rs = map (\<lambda>r. \<lparr>repo_name = rr_name r, repo_metadata = proj_metadata p\<rparr>) (concat (rpages p))"
    using list_repositories_linked [OF hp] by blast
  have "list_repo_artifacts cl (slice_elems rs) =
          Inr (map (\<lambda>r. (r, map to_model_artifact (concat (apages (repo_name r))))) (slice_elems rs))"
    using ha by (intro list_repo_artifacts_linked) (simp add: rs(2) list_all_iff)
  then show ?case
    using Cons.IH [OF hps] rs by (simp add: served_listing_def comp_def)
qed

lemma map_filter_concat_if:
  "map f (filter Q ys) = concat (map (\<lambda>a. if Q a then [f a] else []) ys)"
  by (induction ys) auto

lemma served_listing_pairs:
  "concat (map (\<lambda>(repo, arts). map (\<lambda>a. (repo_name repo, a)) (filter (P (repo_name repo)) arts))
     (served_listing projects rpages apages)) =
   [(rr_name rec, to_model_artifact a). p \<leftarrow> projects, rec \<leftarrow> concat (rpages p),
      a \<leftarrow> concat (apages (rr_name rec)), P (rr_name rec) (to_model_artifact a)]"
proof -
  have rec: "\<And>p xs. concat (map (\<lambda>(repo, arts). map (\<lambda>a. (repo_name repo, a)) (filter (P (repo_name repo)) arts))
               (map (\<lambda>rec. (\<lparr>repo_name = rr_name rec, repo_metadata = proj_metadata p\<rparr>,
                            map to_model_artifact (concat (apages (rr_name rec))))) xs)) =
             [(rr_name rec, to_model_artifact a). rec \<leftarrow> xs, a \<leftarrow> concat (apages (rr_name rec)),
                P (rr_name rec) (to_model_artifact a)]"
  proof -
    fix p xs
    show "?thesis p xs"
      by (induction xs) (simp_all add: map_filter_concat_if comp_def cong: if_cong)
  qed
  show ?thesis
    by (induction projects) (simp_all add: served_listing_def rec [unfolded map_map])
qed

lemma allowed_types_harbor_info:
  "allowed_types harbor_info fs \<noteq> [] \<Longrightarrow> allowed_types harbor_info fs = [ResourceTypeImage]"
  by (simp add: allowed_types_def harbor_info_def split: if_splits)

text \<open>Errors: every failure of the enumeration is the page-cap error or an error a request
  to the remote returned, and \<open>FetchArtifacts\<close> then returns it instead of a partial
  result.\<close>

lemma pagination_no_cancel_error:
  "fst (get_and_iterate_pagination cap no_cancel get url) = Inl e \<Longrightarrow> e = ErrPaginationLimit \<or> (\<exists>u. get u = Inl e)"
  using iterate_pages_error_cases by (fastforce simp: get_and_iterate_pagination_def no_cancel_def)

lemma list_repositories_error:
  "list_repositories cl p = Inl e \<Longrightarrow> e = ErrPaginationLimit \<or> (\<exists>u. repo_pages cl u = Inl e)"
  by (auto simp: list_repositories_def split: sum.splits dest: pagination_no_cancel_error)

lemma list_artifacts_error:
  "list_artifacts cl repo = Inl e \<Longrightarrow> e = ErrPaginationLimit \<or> (\<exists>u. artifact_pages cl u = Inl e)"
  by (auto simp: list_artifacts_def split: sum.splits dest: pagination_no_cancel_error)

lemma list_repo_artifacts_error:
  "list_repo_artifacts cl rs = Inl e \<Longrightarrow> e = ErrPaginationLimit \<or> (\<exists>u. artifact_pages cl u = Inl e)"
  by (induction rs) (auto split: sum.splits dest: list_artifacts_error)

lemma harbor_listing_error:
  "harbor_listing cl projects = Inl e \<Longrightarrow>
     e = ErrPaginationLimit \<or> (\<exists>u. repo_pages cl u = Inl e) \<or> (\<exists>u. artifact_pages cl u = Inl e)"
  by (induction projects) (auto split: sum.splits dest: list_repositories_error list_repo_artifacts_error)

lemma harbor_fetch_artifacts_error:
  "harbor_fetch_artifacts cl reg projects fs = Inl e \<Longrightarrow>
     harbor_listing cl projects = Inl e \<and>
     (e = ErrPaginationLimit \<or> (\<exists>u. repo_pages cl u = Inl e) \<or> (\<exists>u. artifact_pages cl u = Inl e))"
  by (auto simp: harbor_fetch_artifacts_def fetch_artifacts_def split: if_splits sum.splits dest: harbor_listing_error)

section \<open>Properties\<close>

text \<open>
  Claim C6: when every listing of the remote is correctly linked within the page cap and the
  resource-type filters leave the image type, the Harbor-v2 adapter's \<open>FetchArtifacts\<close>
  succeeds with image resources of the adapter's registry whose (repository, artifact) pairs
  are exactly the served artifacts that satisfy all filters, in the order the server
  delivered projects, repositories and artifacts.
\<close>

theorem harbor_fetch_artifacts_served:
  assumes "listings_linked cl projects rpages apages" and "allowed_types harbor_info fs \<noteq> []"
  shows "\<exists>rs. harbor_fetch_artifacts cl reg projects fs = Inr rs \<and>
              list_all (\<lambda>r. res_registry r = Some reg \<and> res_type r = ResourceTypeImage) rs \<and>
              concat (map resource_artifacts rs) =
                [(rr_name rec, to_model_artifact a). p \<leftarrow> projects, rec \<leftarrow> concat (rpages p),
                   a \<leftarrow> concat (apages (rr_name rec)), matches_all_filters (rr_name rec) (to_model_artifact a) fs]"
proof -
  let ?P = "\<lambda>repo a. matches_all_filters (repo_name repo) a fs"
  have l: "harbor_listing cl projects = Inr (served_listing projects rpages apages)"
    using harbor_listing_linked [OF assms(1)] .
  have "concat (map resource_artifacts (map (\<lambda>(repo, arts). to_resource reg ResourceTypeImage repo (filter (?P repo) arts))
           (filter (\<lambda>(repo, arts). list_ex (?P repo) arts) (served_listing projects rpages apages)))) =
        concat (map (\<lambda>(repo, arts). map (\<lambda>a. (repo_name repo, a)) (filter (?P repo) arts))
           (served_listing projects rpages apages))"
    by (simp only: concat_map_resource_artifacts fetch_artifacts_pairs)
  also have "\<dots> = [(rr_name rec, to_model_artifact a). p \<leftarrow> projects, rec \<leftarrow> concat (rpages p),
                   a \<leftarrow> concat (apages (rr_name rec)), matches_all_filters (rr_name rec) (to_model_artifact a) fs]"
    using served_listing_pairs [where P = "\<lambda>n a. matches_all_filters n a fs"] by simp
  finally have pairs: "concat (map resource_artifacts (map (\<lambda>(repo, arts). to_resource reg ResourceTypeImage repo (filter (?P repo) arts))
           (filter (\<lambda>(repo, arts). list_ex (?P repo) arts) (served_listing projects rpages apages)))) =
        [(rr_name rec, to_model_artifact a). p \<leftarrow> projects, rec \<leftarrow> concat (rpages p),
                   a \<leftarrow> concat (apages (rr_name rec)), matches_all_filters (rr_name rec) (to_model_artifact a) fs]" .
  show ?thesis
    using pairs allowed_types_harbor_info [OF assms(2)]
    by (auto simp: harbor_fetch_artifacts_def fetch_artifacts_def l list_all_iff to_resource_def)
qed

theorem harbor_fetch_artifacts_served_witness:
  "listings_linked demo_remote [demo_project] (\<lambda>_. [[demo_record]]) (\<lambda>_. [[demo_artifact]]) \<and>
   allowed_types harbor_info [] \<noteq> [] \<and>
   (\<exists>rs. harbor_fetch_artifacts demo_remote demo_harbor_registry [demo_project] [] = Inr rs \<and>
         list_all (\<lambda>r. res_registry r = Some demo_harbor_registry \<and> res_type r = ResourceTypeImage) rs \<and>
         concat (map resource_artifacts rs) = [(''library/hello'', to_model_artifact demo_artifact)])"
proof -
  have l: "listings_linked demo_remote [demo_project] (\<lambda>_. [[demo_record]]) (\<lambda>_. [[demo_artifact]])"
    by (simp add: listings_linked_def demo_remote_def)
  have a: "allowed_types harbor_info [] \<noteq> []"
    by (simp add: allowed_types_def harbor_info_def)
  show ?thesis
    using harbor_fetch_artifacts_served [OF l a, of demo_harbor_registry] l a
    by (simp add: demo_record_def matches_all_filters_def)
qed

end
