(* ===== verification/Spec2Isabelle.thy ===== *)
theory Spec2Isabelle
  imports Harbor_Client Memory_Cache Orm_Tx Common_Dao User_Dao Robot Pgsql Config Repo_Handler Core_Main Config_Init Repo_Dao_Test Adapter Scanner_Mock Harbor_Adapter
begin

text \<open>
  A verification development for Harbor's registry adapter framework and the core code
  around it: data access, cache, configuration and authentication. The repository is
  \<open>zer0se7en/harbor\<close> and the sources are under \<open>src/src/\<close>. Every theory shallowly embeds
  Go code: structs are records, errors are values of \<open>herror\<close> in results
  \<open>herror + 'a\<close>, a database or cache is a value passed through the operations, and the
  libraries the code only calls are parameters or fields of an environment record.

  \<^bold>\<open>Parts of the program and how they interact.\<close> The replication engine (not modelled)
  finds the adapter of a remote registry through the factory registry and asks it for the
  registry's content as canonical resources. The
  Harbor-v2 adapter's client (\<open>pkg/reg/adapter/harbor/v2/client.go\<close>) lists repositories
  and artifacts of a remote Harbor through the pagination iterator of the shared HTTP
  client. It deletes tags and looks repositories up by blob digest, and it produces the
  records of the canonical model (\<open>pkg/reg/model/resource.go\<close>), exchanged as JSON. In the
  core, the DAOs (\<open>pkg/repository/dao\<close>, \<open>pkg/user/dao\<close>, \<open>common/dao/repository.go\<close>) reach
  PostgreSQL through the ORM helpers of \<open>lib/orm\<close> (the ORM travels in the context;
  transactions; \<open>ReadOrCreate\<close>; \<open>LIKE\<close> escaping; \<open>IN\<close> clauses). The database itself is
  described by \<open>common/dao/pgsql.go\<close> and the settings come from \<open>core/config\<close>. Requests
  from robot accounts are authenticated by \<open>server/middleware/security/robot.go\<close>, and the
  repository API (\<open>server/v2.0/handler/repository.go\<close>) answers through the repository
  DAO and the project and artifact controllers. The in-memory cache (\<open>lib/cache/memory\<close>)
  stores encoded values with an expiry instant. The core's \<open>main\<close> (\<open>core/main.go\<close>) wires
  it together at start-up: session store and cache from \<open>_REDIS_URL_CORE\<close>, database and
  migration, the initial admin password, the scanners, TLS, and the shutdown on a signal.

  \<^bold>\<open>Theories.\<close>
  \<^item> \<open>Prelude\<close>: \<open>herror\<close> and results; the Go string functions the code calls
    (\<open>replace_char\<close> = \<open>strings.Replace\<close>, \<open>split_on\<close> = \<open>strings.Split\<close>, \<open>join\<close>,
    \<open>has_prefix\<close>, \<open>trim_suffix\<close>, \<open>trim_space\<close>); Go slices as \<open>'a list option\<close> (nil is
    \<open>None\<close>); and the lemmas the components share (splitting a join, lookup by a unique key,
    the ends of a trimmed string).
  \<^item> \<open>Reg_Model\<close>: the records of \<open>resource.go\<close> and their JSON encoder and decoder from the
    struct tags, with what \<open>encoding/json\<close> does to Go values: invalid UTF-8 becomes
    U+FFFD (\<open>utf8_sanitize\<close>), a number read into \<open>interface{}\<close> becomes the nearest
    \<open>float64\<close> (\<open>round_f64\<close>), an \<open>int64\<close> field rejects numbers out of range, and a map
    keeps the last value of a key and is written with sorted keys. A resource round-trips
    exactly when it is well formed for the wire (\<open>resource_wire_ok\<close>,
    \<open>resource_json_roundtrip\<close>); \<open>json_roundtrip_lossy\<close> shows the three losses.
  \<^item> \<open>Pagination\<close>: \<open>GetAndIteratePagination\<close> (not under \<open>src/\<close>, from the design) as
    \<open>iterate_pages\<close>, recursion on a page budget that logs the URLs it requested.
  \<^item> \<open>Harbor_Client\<close>: the four client operations over a record of endpoint answers. It
    also holds the repository path encoding and the server's routing of a path. Lemmas: the
    listings are in order, hit the cap on endless listings, and pass errors through; a
    listed repository is deleted at the same path; the lookup returns the first name.
  \<^item> \<open>Adapter\<close>: the adapter framework of the design (not under \<open>src/\<close>). It has the
    factory registry filled at start-up, the capability descriptor, the namespace grammar,
    the filter matcher (AND over all filters, glob on names) and \<open>FetchArtifacts\<close> over a
    remote listing, which returns exactly the artifacts that pass the filters. The Docker
    Hub adapter instantiates it, and the factory registry filled at start-up returns it.
  \<^item> \<open>Harbor_Adapter\<close>: the Harbor-v2 adapter's \<open>FetchArtifacts\<close> (from the design), composed
    of the client's \<open>listRepositories\<close> and \<open>listArtifacts\<close> over the pagination iterator
    and of the framework's filtering. On a remote whose listings are linked within the cap it
    returns exactly the served artifacts that pass the filters, in server order
    (\<open>harbor_fetch_artifacts_served\<close>). A failure is returned as the page-cap error or as
    an error of a remote request, never as a partial result.
  \<^item> \<open>Memory_Cache\<close>: \<open>Contains\<close>, \<open>Delete\<close>, \<open>Fetch\<close>, \<open>Ping\<close>, \<open>Save\<close> and \<open>New\<close> over a map
    from keys to entries, with instants as \<open>64 word\<close>. Lemmas: save/fetch round trip, the
    never-expiring default, expired entries not found, and two defects (eviction under the
    doubly prefixed key, int64 wrap-around of the expiry).
  \<^item> \<open>Orm\<close>: \<open>FromContext\<close>/\<open>NewContext\<close>, \<open>Context\<close>, \<open>Clone\<close> and the debug flag of
    \<open>init\<close>; the page that \<open>QuerySetter\<close> applies (\<open>paginate\<close>, \<open>Limit\<close> and \<open>Offset\<close>
    of \<open>lib/orm/query.go\<close>, which \<open>QuerySetterForCount\<close> leaves out); \<open>Escape\<close> checked against a model of PostgreSQL
    \<open>LIKE\<close> (\<open>like\<close>), where an escaped string matches only itself and \<open>%\<close>-escape-\<open>%\<close>
    means substring; \<open>ParamPlaceholderForIn\<close>; \<open>CreateInClause\<close>, whose printed ids read
    back as the queried ids.
  \<^item> \<open>Orm_Tx\<close>: \<open>WithTransaction\<close> with faults of begin, commit and rollback (all or
    nothing), and \<open>ReadOrCreate\<close> on a unique-key table. The other sessions' writes between
    its steps are explicit interleavings, and the duplicate-key retry returns the other
    session's row.
  \<^item> \<open>Repo_Dao\<close>: every method of the repository DAO over the repository and tag tables.
    \<open>List\<close> returns the query's page and \<open>Count\<close> counts every match. Every write keeps the
    table well formed (unique names and ids). Lemmas: create/get round trip on the
    non-time columns, conflict, not-found, update of the named columns, pull count, and
    \<open>NonEmptyRepos\<close>, which returns exactly the tagged repositories, the opposite of its
    interface comment.
    The \<open>DAO\<close> interface is a record of the methods (\<open>repo_dao_ops\<close>), and \<open>New\<close> is
    \<open>new_repo_dao\<close>, the record of the operations.
  \<^item> \<open>Repo_Dao_Test\<close>: the test suite \<open>dao_test.go\<close> of the repository DAO, run through the
    \<open>DAO\<close> interface of \<open>New\<close> with testify's setup, teardown and method order. The model passes it on every
    database that meets the tests' assumptions, and the suite cannot run twice on one database
    (\<open>TestEmptyRepos\<close> leaves its repository behind).
  \<^item> \<open>Common_Dao\<close>: the legacy query builder with its exact SQL text. Placeholders and
    parameters always agree, and the name filter is a substring match. The project-name
    filter is not escaped (a defect): for every project name with an underscore, repositories
    of other projects are counted. The legacy table functions are also modelled.
  \<^item> \<open>User_Dao\<close>: the user DAO with its keyword queries and their page. Deleted users are
    never listed, \<open>List\<close> returns at most a page of what \<open>Count\<close> counts, and \<open>Create\<close>
    rejects a preset id. \<open>Create\<close> and \<open>Update\<close> keep names, emails and ids unique. The
    interface and \<open>New\<close> are \<open>user_dao_ops\<close> and \<open>new_user_dao\<close>.
  \<^item> \<open>Robot\<close>: \<open>Generate\<close> with all of its guards; a security context is returned only for an
    existing, enabled robot of the given name (\<open>generate_sound\<close>).
  \<^item> \<open>Pgsql\<close>: the descriptor, the data source of \<open>Register\<close>, \<open>NewMigrator\<close> (its database
    URL as a record) and \<open>UpgradeSchema\<close>. With
    lib/pq's reading of the data source, fields without spaces round-trip, while for every
    descriptor a password with a space injects a setting (a defect).
  \<^item> \<open>Config\<close>: every accessor of \<open>core/config\<close> over an explicit state (store, load
    error, key provider, environment), with \<open>splitAndTrim\<close>, \<open>ExtURL\<close> and endpoint lemmas.
  \<^item> \<open>Config_Init\<close>: the package variables of \<open>core/config\<close> (secret store, key provider,
    manager) with \<open>Init\<close>, \<open>InitWithSettings\<close>, \<open>GetCfgManager\<close>, \<open>Load\<close> and
    \<open>Upload\<close>, over the interface \<open>cfg_mgr_ops\<close> of the \<open>common/config\<close> manager.
    \<open>cfg_view\<close> maps them to the state the accessors read. After \<open>InitWithSettings\<close> the
    accessors read what a fresh in-memory manager holds after \<open>UpdateConfig\<close> (its error is
    dropped). \<open>Load\<close> or \<open>Upload\<close> before \<open>Init\<close> panic on the nil manager, and after it
    \<open>Upload\<close> returns the manager's error.
  \<^item> \<open>Repo_Handler\<close>: \<open>Prepare\<close> and the five handlers of the repository API over an
    environment of controllers. Listing never leaves the project, and two defects are proved:
    \<open>Prepare\<close> never stops a request, and the update answers with the delete responder.
    Composed with the repository DAO (\<open>dao_api_env\<close>), the listing counts every
    repository of the project that matches the client's other keywords and answers one
    page of them.
  \<^item> \<open>Core_Main\<close>: \<open>main.go\<close>. It covers the Redis session configuration (fields
    round-trip when they have no comma; a comma in the password injects a database), and
    \<open>updateInitPassword\<close> (applied once). It covers \<open>registerScanners\<close>, with its call
    sequence and the ignored removal error. \<open>gracefulShutdown\<close> is a state machine
    (signal, \<open>close(closing)\<close>, Go's \<open>select\<close> between \<open>done\<close> and the timer,
    \<open>os.Exit(0)\<close>) whose next-state function lists the choices of the \<open>select\<close>. A
    ranking shows that no run after the signal goes on forever. Every reachable state has a
    next state until the exit, and every exit is with code 0 (liveness). \<open>main\<close> is a
    composition of its stages, and TLS is set up exactly when it is enabled.
  \<^item> \<open>Scanner_Mock\<close>: the generated mock of the scanner registration manager
    (\<open>testing/pkg/scan/scanner/manager.go\<close>) over a model of testify's \<open>mock.Mock\<close>
    (expected calls, \<open>Times\<close>, the call log, \<open>AssertExpectations\<close>). A panic of the mock is
    a value of \<open>mock_panic\<close>. The type assertions of the generated methods reject a return
    value of the wrong Go type (\<open>int\<close> for \<open>int64\<close>).

  \<^bold>\<open>Bounds and fuel.\<close> The only loop that may not end is the pagination iterator. It is
  defined by recursion on the page cap, so it is total. The cap is the client's
  configuration (\<open>page_cap\<close>), and a listing of at most \<open>cap\<close> pages is enough for a complete
  result. Every other loop of the code is a fold over a finite list. The cache's instants
  are \<open>64 word\<close> values read with \<open>sint\<close>, so the int64 wrap-around of \<open>Save\<close> is part of
  the model. The shutdown's wait is one \<open>select\<close> over two events. Its clock counts
  milliseconds after \<open>close(closing)\<close>, and the timer of 3000 ms bounds every run after the
  signal to 3004 steps (\<open>shutdown_rank\<close>).

  \<^bold>\<open>Not modelled.\<close>
  \<^item> Network I/O, TLS and the authentication of the HTTP client (the client is a record of
    endpoint answers), and JSON decoding of the remote's responses.
  \<^item> beego's SQL generation. Queries are row predicates with a page; the SQL text of the
    legacy query builder is kept literally. The sorts of a query are not modelled: rows
    come in table order, and the properties about listings do not depend on the order.
  \<^item> The time columns that the ORM fills (\<open>auto_now_add\<close> and \<open>auto_now\<close> of
    \<open>models.RepoRecord\<close>, which is not under src/), and the database's precision and time
    zone. The repository table stores the record's times as given, and no property reads
    them.
  \<^item> Logging; \<open>init\<close> registrations. The configuration manager of \<open>common/config\<close> (its
    defaults, its validation of settings and its database I/O) is an interface.
  \<^item> The migrator's own work, and the net/url printing of its database URL (the URL is
    passed as a record).
  \<^item> In \<open>main\<close>: beego's own settings, the template extension, \<open>token.InitCreators\<close>,
    \<open>notification.Init\<close> and the health-check goroutine. These register handlers and start
    background work; the trace records only the route registration.
  \<^item> The tests other than \<open>dao_test.go\<close> and \<open>adapter_test.go\<close>. \<open>oidc_test.go\<close> tests the
    OIDC authenticator, whose code is neither in the repository nor described by the
    design, so there is nothing to run it against. testify's \<open>WaitFor\<close>, \<open>After\<close> and
    \<open>Run\<close> of the mock are not modelled either.
\<close>

end
